(* ===== verification/Prelude.thy ===== *)
theory Prelude
  imports Main "HOL-Library.Word" "HOL-Library.Monad_Syntax"
begin

text \<open>
  Shared vocabulary of the development: the machine integer types of the Rust sources,
  the few operations of the Rust standard library that the sources call on options,
  vectors and integers, and a generic notion of labelled execution with a locale for
  inductive invariants. Nothing here models a line of the repository by itself.
\<close>

section \<open>Machine integers\<close>

type_synonym u8 = "8 word"
type_synonym u16 = "16 word"
type_synonym u32 = "32 word"
type_synonym u64 = "64 word"
type_synonym u128 = "128 word"

text \<open>An account is identified by 32 bytes, in the contract and in the runtimes.\<close>

type_synonym account_id = "256 word"

named_theorems int_simps \<open>characterisations of the integer operations by their value\<close>
named_theorems rust_simps \<open>characterisations of the standard library operations\<close>

text \<open>
  \<open>checked_add\<close> and \<open>checked_mul\<close> stand for the plain \<open>+\<close> and \<open>*\<close> of the sources where the
  development shows that no wrap-around can happen: \<^const>\<open>None\<close> is the overflow.
\<close>

definition checked_add :: "'w::len word \<Rightarrow> 'w word \<Rightarrow> 'w word option" where
  "checked_add a b = (if unat a + unat b < 2 ^ LENGTH('w) then Some (a + b) else None)"

definition checked_mul :: "'w::len word \<Rightarrow> 'w word \<Rightarrow> 'w word option" where
  "checked_mul a b = (if unat a * unat b < 2 ^ LENGTH('w) then Some (a * b) else None)"

definition saturating_mul :: "'w::len word \<Rightarrow> 'w word \<Rightarrow> 'w word" where
  "saturating_mul a b = (if unat a * unat b < 2 ^ LENGTH('w) then a * b else - 1)"

lemma checked_add_eq_Some [int_simps]:
  "checked_add a b = Some (c :: 'w::len word) \<longleftrightarrow> unat c = unat a + unat b"
proof (cases "unat a + unat b < 2 ^ LENGTH('w)")
  case True
  then have "unat (a + b) = unat a + unat b" by (simp only: unat_add_lem [symmetric])
  with True show ?thesis by (auto simp: checked_add_def word_unat_eq_iff)
next
  case False
  then have "unat c \<noteq> unat a + unat b" by (metis unsigned_less)
  with False show ?thesis by (simp add: checked_add_def)
qed

lemma checked_mul_eq_Some [int_simps]:
  "checked_mul a b = Some (c :: 'w::len word) \<longleftrightarrow> unat c = unat a * unat b"
proof (cases "unat a * unat b < 2 ^ LENGTH('w)")
  case True
  then have "unat (a * b) = unat a * unat b" by (simp only: unat_mult_lem [symmetric])
  with True show ?thesis by (auto simp: checked_mul_def word_unat_eq_iff)
next
  case False
  then have "unat c \<noteq> unat a * unat b" by (metis unsigned_less)
  with False show ?thesis by (simp add: checked_mul_def)
qed

lemma unat_saturating_mul [int_simps]:
  "unat (saturating_mul a b :: 'w::len word) = min (unat a * unat b) (2 ^ LENGTH('w) - 1)"
proof (cases "unat a * unat b < 2 ^ LENGTH('w)")
  case True
  then have "unat (a * b) = unat a * unat b" by (simp add: unat_mult_lem)
  with True show ?thesis by (simp add: saturating_mul_def)
next
  case False
  then show ?thesis by (simp add: saturating_mul_def unsigned_minus_1_eq_mask mask_eq_exp_minus_1)
qed

section \<open>Options and vectors\<close>

text \<open>\<open>Option::unwrap_or\<close>.\<close>

fun unwrap_or :: "'a option \<Rightarrow> 'a \<Rightarrow> 'a" where
  "unwrap_or (Some x) _ = x"
| "unwrap_or None d = d"

lemma unwrap_or_False [rust_simps]: "unwrap_or x False \<longleftrightarrow> x = Some True"
  by (cases x) auto

text \<open>\<open>Iterator::position\<close>: the first index whose element satisfies the predicate.\<close>

fun vec_position :: "('a \<Rightarrow> bool) \<Rightarrow> 'a list \<Rightarrow> nat option" where
  "vec_position P [] = None"
| "vec_position P (x # xs) =
     (if P x then Some 0 else map_option Suc (vec_position P xs))"

text \<open>\<open>Vec::remove\<close>: \<^const>\<open>None\<close> is its panic on an index out of bounds.\<close>

definition vec_remove :: "nat \<Rightarrow> 'a list \<Rightarrow> 'a list option" where
  "vec_remove i xs = (if i < length xs then Some (take i xs @ drop (Suc i) xs) else None)"

lemma vec_position_None [rust_simps]:
  "vec_position P xs = None \<longleftrightarrow> (\<forall>x \<in> set xs. \<not> P x)"
  by (induction xs) auto

lemma vec_position_eq_None: "vec_position (\<lambda>y. y = x) xs = None \<longleftrightarrow> x \<notin> set xs"
  by (induction xs) auto

lemma vec_position_bound: "vec_position P xs = Some i \<Longrightarrow> i < length xs"
  by (induction xs arbitrary: i) (auto split: if_splits)

lemma vec_remove_position [rust_simps]:
  "vec_position (\<lambda>y. y = x) xs = Some i \<Longrightarrow> vec_remove i xs = Some (remove1 x xs)"
proof (induction xs arbitrary: i)
  case Nil
  then show ?case by simp
next
  case (Cons y ys)
  show ?case
  proof (cases "y = x")
    case True
    with Cons.prems show ?thesis by (simp add: vec_remove_def)
  next
    case False
    with Cons.prems obtain j where j: "vec_position (\<lambda>y. y = x) ys = Some j" "i = Suc j"
      by auto
    from Cons.IH [OF j(1)] False j(2) show ?thesis
      by (auto simp: vec_remove_def split: if_splits)
  qed
qed

lemma remove_first_eq [rust_simps]:
  "(case vec_position (\<lambda>y. y = x) xs of
      Some pos \<Rightarrow> do { ys \<leftarrow> vec_remove pos xs; f ys }
    | None \<Rightarrow> d) = (if x \<in> set xs then f (remove1 x xs) else d)"
proof (cases "vec_position (\<lambda>y. y = x) xs")
  case None
  then show ?thesis using vec_position_eq_None [of x xs] by simp
next
  case (Some i)
  then have "x \<in> set xs" using vec_position_eq_None [of x xs] by simp
  with Some vec_remove_position [OF Some] show ?thesis by simp
qed

lemma remove1_snoc_fresh [simp]: "x \<notin> set xs \<Longrightarrow> remove1 x (xs @ [x]) = xs"
  by (simp add: remove1_append)

section \<open>Results and panics\<close>

text \<open>
  A call of the node returns \<open>Ok\<close>, returns \<open>Err\<close>, or panics (\<open>expect\<close>, \<open>unwrap\<close>,
  \<open>unreachable!\<close>). \<open>and_then\<close> is the operator \<open>?\<close>: the rest runs only after \<open>Ok\<close>.
\<close>

datatype ('e, 'a) result = Ok 'a | Err 'e | Panic string

fun and_then :: "('e, 'a) result \<Rightarrow> ('a \<Rightarrow> ('e, 'b) result) \<Rightarrow> ('e, 'b) result" where
  "and_then (Ok x) f = f x"
| "and_then (Err e) _ = Err e"
| "and_then (Panic m) _ = Panic m"

fun expect :: "string \<Rightarrow> 'a option \<Rightarrow> ('e, 'a) result" where
  "expect _ (Some x) = Ok x"
| "expect m None = Panic m"

fun ok_or :: "'e \<Rightarrow> 'a option \<Rightarrow> ('e, 'a) result" where
  "ok_or _ (Some x) = Ok x"
| "ok_or e None = Err e"

fun unwrap :: "('e, 'a) result \<Rightarrow> ('f, 'a) result" where
  "unwrap (Ok x) = Ok x"
| "unwrap (Err _) = Panic ''called Result::unwrap() on an Err value''"
| "unwrap (Panic m) = Panic m"

fun map_err :: "('e \<Rightarrow> 'f) \<Rightarrow> ('e, 'a) result \<Rightarrow> ('f, 'a) result" where
  "map_err _ (Ok x) = Ok x"
| "map_err f (Err e) = Err (f e)"
| "map_err _ (Panic m) = Panic m"

text \<open>Evaluation of a vector of calls, left to right, up to the first that does not return.\<close>

fun collect :: "('a \<Rightarrow> ('e, 'b) result) \<Rightarrow> 'a list \<Rightarrow> ('e, 'b list) result" where
  "collect _ [] = Ok []"
| "collect f (x # xs) = and_then (f x) (\<lambda>y. and_then (collect f xs) (\<lambda>ys. Ok (y # ys)))"

lemma and_then_eq_Ok [rust_simps]:
  "and_then r f = Ok y \<longleftrightarrow> (\<exists>x. r = Ok x \<and> f x = Ok y)"
  by (cases r) auto

lemma collect_Ok [rust_simps]:
  "(\<And>x. x \<in> set xs \<Longrightarrow> f x = Ok (g x)) \<Longrightarrow> collect f xs = Ok (map g xs)"
  by (induction xs) auto

section \<open>Executions and inductive invariants\<close>

text \<open>
  A component with a state is a labelled step relation. \<open>execution\<close> chains the steps of
  a list of labels, \<open>reachable\<close> forgets the labels.
\<close>

inductive execution :: "('s \<Rightarrow> 'l \<Rightarrow> 's \<Rightarrow> bool) \<Rightarrow> 's \<Rightarrow> 'l list \<Rightarrow> 's \<Rightarrow> bool"
  for step :: "'s \<Rightarrow> 'l \<Rightarrow> 's \<Rightarrow> bool" where
  execution_Nil: "execution step s [] s"
| execution_Cons: "step s l t \<Longrightarrow> execution step t ls u \<Longrightarrow> execution step s (l # ls) u"

inductive_cases execution_NilE [elim!]: "execution step s [] t"
inductive_cases execution_ConsE: "execution step s (l # ls) t"

inductive reachable :: "('s \<Rightarrow> bool) \<Rightarrow> ('s \<Rightarrow> 'l \<Rightarrow> 's \<Rightarrow> bool) \<Rightarrow> 's \<Rightarrow> bool"
  for start :: "'s \<Rightarrow> bool" and step :: "'s \<Rightarrow> 'l \<Rightarrow> 's \<Rightarrow> bool" where
  reachable_start: "start s \<Longrightarrow> reachable start step s"
| reachable_step: "reachable start step s \<Longrightarrow> step s l t \<Longrightarrow> reachable start step t"

lemma execution_reachable:
  "execution step s ls t \<Longrightarrow> reachable start step s \<Longrightarrow> reachable start step t"
  by (induction rule: execution.induct) (auto intro: reachable_step)

lemma execution_append:
  "execution step s ls t \<Longrightarrow> execution step t ms u \<Longrightarrow> execution step s (ls @ ms) u"
  by (induction rule: execution.induct) (auto intro: execution_Cons)

text \<open>
  The contract between a component and its invariant: the start states satisfy it and
  every step keeps it. The client's fact is that every reachable state satisfies it.
\<close>

locale inductive_invariant =
  fixes start :: "'s \<Rightarrow> bool"
    and step :: "'s \<Rightarrow> 'l \<Rightarrow> 's \<Rightarrow> bool"
    and inv :: "'s \<Rightarrow> bool"
  assumes inv_start: "start s \<Longrightarrow> inv s"
    and inv_step: "inv s \<Longrightarrow> step s l t \<Longrightarrow> inv t"
begin

lemma reachable_inv: "reachable start step s \<Longrightarrow> inv s"
  by (induction rule: reachable.induct) (auto intro: inv_start inv_step)

lemma execution_inv: "execution step s ls t \<Longrightarrow> inv s \<Longrightarrow> inv t"
  by (induction rule: execution.induct) (auto intro: inv_step)

end

end
