(* ===== verification/Access_Storage.thy ===== *)
theory Access_Storage
  imports Prelude
begin

text \<open>
  The data of the ink! contract \<open>smart_contract/lib.rs\<close>: its events, its storage struct
  \<open>AccessControl\<close>, the writes the messages perform on it, and the outcome of a message.

  \<^item> A Rust \<open>String\<close> is the list of its UTF-8 bytes (type \<open>string\<close>), so \<open>length\<close> is
    \<open>String::len\<close> and \<open>CHR ''@'' \<in> set s\<close> is \<open>s.contains('@')\<close>.
  \<^item> An \<open>AccountId\<close> is its 32 bytes, read as one \<open>256 word\<close>.
  \<^item> An \<open>ink_storage::Mapping<K, V>\<close> is a map from \<open>K\<close> to \<open>V option\<close>: \<open>get\<close> is
    application, \<open>insert\<close> is \<open>m(k \<mapsto> v)\<close> and \<open>contains\<close> is \<open>m k \<noteq> None\<close>. As ink! documents,
    \<open>insert\<close> and \<open>get\<close> trap when the encoded key or value does not fit the static buffer of
    the environment, and the contracts pallet refuses a key longer than its
    \<open>MaxStorageKeyLen\<close>; the encoding and both limits are code outside the repository, so
    whether a key with its value can be written and read is the parameter \<open>cell_fits\<close> of the
    model, and so is the \<open>Debug\<close> rendering \<open>debug_account\<close> of an \<open>AccountId\<close>. The traps of
    writes are in \<open>insert_cell\<close>; those of reads are in \<open>run_message\<close> (theory
    \<open>Access_Contract\<close>), which knows the cells a message reads.
  \<^item> A message that traps is undone as a whole by the contracts pallet: its outcome is
    \<open>Trapped\<close>, with no state. A message that returns carries its value, the new storage and
    the events it emitted, in order.
\<close>


section \<open>Events\<close>

datatype event =
    Log string
  | UserAdded account_id
  | RoleAssigned account_id u8
  | PermissionGranted account_id account_id bool
  | AccessRequested account_id account_id

section \<open>Storage\<close>

record user_info =
  name :: string
  lastname :: string
  dni :: string
  email :: string

text \<open>\<open>[Option<AccountId>; 2]\<close>, the two account slots of a document number.\<close>

type_synonym account_slots = "account_id option \<times> account_id option"

record access_control =
  accounts :: "string \<rightharpoonup> account_slots"
  users :: "account_id \<rightharpoonup> user_info"
  roles :: "account_id \<rightharpoonup> u8"
  permissions :: "account_id \<times> account_id \<rightharpoonup> bool"
  grantees :: "account_id \<rightharpoonup> account_id list"
  access_requests :: "account_id \<rightharpoonup> account_id list"

definition access_control_default :: access_control where
  "access_control_default =
     \<lparr>accounts = Map.empty, users = Map.empty, roles = Map.empty,
      permissions = Map.empty, grantees = Map.empty, access_requests = Map.empty\<rparr>"

text \<open>The operations of the slot array: iteration over the filled slots, and the count.\<close>

definition no_slots :: account_slots where
  "no_slots = (None, None)"

fun filled_slots :: "account_slots \<Rightarrow> account_id list" where
  "filled_slots (a, b) = List.map_filter id [a, b]"

lemma filled_slots_simps [simp]:
  "filled_slots (None, None) = []"
  "filled_slots (Some a, None) = [a]"
  "filled_slots (None, Some b) = [b]"
  "filled_slots (Some a, Some b) = [a, b]"
  by (simp_all add: List.map_filter_def)

declare filled_slots.simps [simp del]

lemma length_filled_slots: "length (filled_slots sl) \<le> 2"
  by (cases sl; cases "fst sl"; cases "snd sl") auto

section \<open>Writes and outcomes\<close>

text \<open>One storage write: the mapping, its key and its value.\<close>

datatype cell =
    Cell_accounts string account_slots
  | Cell_users account_id user_info
  | Cell_roles account_id u8
  | Cell_permissions "account_id \<times> account_id" bool
  | Cell_grantees account_id "account_id list"
  | Cell_requests account_id "account_id list"

record ink_env =
  cell_fits :: "cell \<Rightarrow> bool"
  debug_account :: "account_id \<Rightarrow> string"

fun put :: "cell \<Rightarrow> access_control \<Rightarrow> access_control" where
  "put (Cell_accounts k v) s = s\<lparr>accounts := (accounts s)(k \<mapsto> v)\<rparr>"
| "put (Cell_users k v) s = s\<lparr>users := (users s)(k \<mapsto> v)\<rparr>"
| "put (Cell_roles k v) s = s\<lparr>roles := (roles s)(k \<mapsto> v)\<rparr>"
| "put (Cell_permissions k v) s = s\<lparr>permissions := (permissions s)(k \<mapsto> v)\<rparr>"
| "put (Cell_grantees k v) s = s\<lparr>grantees := (grantees s)(k \<mapsto> v)\<rparr>"
| "put (Cell_requests k v) s = s\<lparr>access_requests := (access_requests s)(k \<mapsto> v)\<rparr>"

definition insert_cell :: "ink_env \<Rightarrow> cell \<Rightarrow> access_control \<Rightarrow> access_control option" where
  "insert_cell env c s = (if cell_fits env c then Some (put c s) else None)"

lemma insert_cell_eq_Some [simp]:
  "insert_cell env c s = Some t \<longleftrightarrow> cell_fits env c \<and> t = put c s"
  by (auto simp: insert_cell_def)

lemma insert_cell_eq_None [simp]: "insert_cell env c s = None \<longleftrightarrow> \<not> cell_fits env c"
  by (simp add: insert_cell_def)

datatype 'r outcome = Trapped | Returned 'r access_control "event list"

text \<open>The end of a mutating message: a trap of one of its writes is the trap of the call.\<close>

fun finish :: "'r \<Rightarrow> event list \<Rightarrow> access_control option \<Rightarrow> 'r outcome" where
  "finish r evs None = Trapped"
| "finish r evs (Some s) = Returned r s evs"

lemma finish_eq_Returned [simp]:
  "finish r evs x = Returned r' s' evs' \<longleftrightarrow> x = Some s' \<and> r' = r \<and> evs' = evs"
  by (cases x) auto

lemma finish_eq_Trapped [simp]: "finish r evs x = Trapped \<longleftrightarrow> x = None"
  by (cases x) auto

text \<open>
  \<open>Display\<close> of a \<open>u8\<close>, in decimal; the recursion is over the value, which shrinks under
  division.
\<close>

fun show_decimal :: "nat \<Rightarrow> string" where
  "show_decimal n =
     (if n < 10 then [char_of (48 + n)]
      else show_decimal (n div 10) @ [char_of (48 + n mod 10)])"

declare show_decimal.simps [simp del]

definition show_u8 :: "u8 \<Rightarrow> string" where
  "show_u8 r = show_decimal (unat r)"

section \<open>A concrete environment\<close>

text \<open>
  A concrete environment, for the instances of the properties: the SCALE sizes of the cells
  against a buffer of 16384 bytes, and of their keys, after the four bytes that tell the
  mappings apart, against the 128 bytes of a storage key.
  A vector is a compact length prefix and its elements, an account 32 bytes, an optional
  account one byte more, a boolean and a \<open>u8\<close> one byte.
\<close>

fun compact_len :: "int \<Rightarrow> int" where
  "compact_len n = (if n < 64 then 1 else if n < 16384 then 2 else 4)"

definition vec_bytes :: "int \<Rightarrow> 'a list \<Rightarrow> int" where
  "vec_bytes each xs = compact_len (int (length xs)) + each * int (length xs)"

fun slot_bytes :: "account_id option \<Rightarrow> int" where
  "slot_bytes None = 1"
| "slot_bytes (Some a) = 33"

fun cell_bytes :: "cell \<Rightarrow> int" where
  "cell_bytes (Cell_accounts d (x, y)) = vec_bytes 1 d + slot_bytes x + slot_bytes y"
| "cell_bytes (Cell_users a u) =
     32 + vec_bytes 1 (name u) + vec_bytes 1 (lastname u) + vec_bytes 1 (dni u) +
     vec_bytes 1 (email u)"
| "cell_bytes (Cell_roles a r) = 33"
| "cell_bytes (Cell_permissions p b) = 65"
| "cell_bytes (Cell_grantees g l) = 32 + vec_bytes 32 l"
| "cell_bytes (Cell_requests g l) = 32 + vec_bytes 32 l"

fun key_bytes :: "cell \<Rightarrow> int" where
  "key_bytes (Cell_accounts d _) = vec_bytes 1 d"
| "key_bytes (Cell_users _ _) = 32"
| "key_bytes (Cell_roles _ _) = 32"
| "key_bytes (Cell_permissions _ _) = 64"
| "key_bytes (Cell_grantees _ _) = 32"
| "key_bytes (Cell_requests _ _) = 32"

definition static_buffer_env :: ink_env where
  "static_buffer_env =
     \<lparr>cell_fits = (\<lambda>c. cell_bytes c \<le> 16384 \<and> 4 + key_bytes c \<le> 128),
      debug_account = (\<lambda>_. [])\<rparr>"

lemma static_buffer_fits [simp]:
  "cell_fits static_buffer_env c \<longleftrightarrow> cell_bytes c \<le> 16384 \<and> 4 + key_bytes c \<le> 128"
  by (simp add: static_buffer_env_def)

text \<open>An environment with room for every cell.\<close>

definition roomy_env :: ink_env where
  "roomy_env = \<lparr>cell_fits = (\<lambda>_. True), debug_account = (\<lambda>_. [])\<rparr>"

lemma roomy_fits: "cell_fits roomy_env c"
  by (simp add: roomy_env_def)

end
