(* ===== verification/Access_Users.thy ===== *)
theory Access_Users
  imports Access_Storage
begin

text \<open>
  Registration and roles: the messages \<open>add_user\<close> and \<open>assign_role\<close> of
  \<open>smart_contract/lib.rs\<close> and the queries over the users, the roles and the accounts of a
  document number. The lemmas give the outcome of each message on every branch.
\<close>

section \<open>Messages\<close>

text \<open>The error strings, byte for byte; \<open>0xC3 0xA1\<close> is the UTF-8 encoding of a-acute.\<close>

definition a_acute :: string where
  "a_acute = [CHR 0xC3, CHR 0xA1]"

definition err_name :: string where
  "err_name = ''Nombre no v'' @ a_acute @ ''lido''"

definition err_lastname :: string where
  "err_lastname = ''Apellido no v'' @ a_acute @ ''lido''"

definition err_dni :: string where
  "err_dni = ''DNI no v'' @ a_acute @ ''lido''"

definition err_email :: string where
  "err_email = ''Email no v'' @ a_acute @ ''lido''"

definition err_two_accounts :: string where
  "err_two_accounts = ''El DNI ya tiene dos cuentas asociadas''"

definition err_same_role :: string where
  "err_same_role = ''Ambos account_id no pueden tener el mismo rol''"

text \<open>The four checks on the submitted data, in the order of the source.\<close>

definition validate_user_info :: "user_info \<Rightarrow> string + unit" where
  "validate_user_info u =
     (if name u = [] \<or> length (name u) > 12 then Inl err_name
      else if lastname u = [] \<or> length (lastname u) > 12 then Inl err_lastname
      else if dni u = [] \<or> length (dni u) \<noteq> 8 then Inl err_dni
      else if email u = [] \<or> CHR ''@'' \<notin> set (email u) then Inl err_email
      else Inr ())"

definition slots_of :: "access_control \<Rightarrow> string \<Rightarrow> account_slots" where
  "slots_of s d = unwrap_or (accounts s d) no_slots"

text \<open>The loop over the accounts already registered for the document number.\<close>

fun check_roles :: "access_control \<Rightarrow> u8 \<Rightarrow> account_id list \<Rightarrow> string + unit" where
  "check_roles s role [] = Inr ()"
| "check_roles s role (acc # accs) =
     (if unwrap_or (roles s acc) 2 = role then Inl err_same_role
      else check_roles s role accs)"

text \<open>The first free slot takes the new account; the second one does when the first is taken.\<close>

fun place_account :: "account_slots \<Rightarrow> account_id \<Rightarrow> account_slots" where
  "place_account (None, b) acc = (Some acc, b)"
| "place_account (Some a, b) acc = (Some a, Some acc)"

definition add_user ::
  "ink_env \<Rightarrow> access_control \<Rightarrow> account_id \<Rightarrow> user_info \<Rightarrow> u8 \<Rightarrow> (string + unit) outcome" where
  "add_user env self account_id user_info role =
     (case validate_user_info user_info of
        Inl e \<Rightarrow> Returned (Inl e) self []
      | Inr _ \<Rightarrow>
          (let slots = slots_of self (dni user_info);
               account_count = length (filled_slots slots)
           in if account_count \<ge> 2 then Returned (Inl err_two_accounts) self []
              else case check_roles self role (filled_slots slots) of
                Inl e \<Rightarrow> Returned (Inl e) self []
              | Inr _ \<Rightarrow>
                  finish (Inr ()) [RoleAssigned account_id role, UserAdded account_id]
                    (do { s1 \<leftarrow> insert_cell env
                                 (Cell_accounts (dni user_info) (place_account slots account_id))
                                 self;
                          s2 \<leftarrow> insert_cell env (Cell_users account_id user_info) s1;
                          insert_cell env (Cell_roles account_id role) s2 })))"

definition assign_role ::
  "ink_env \<Rightarrow> access_control \<Rightarrow> account_id \<Rightarrow> u8 \<Rightarrow> string outcome" where
  "assign_role env self account_id role =
     finish
       (''Rol '' @ show_u8 role @ '' asignado a la cuenta '' @ debug_account env account_id)
       [RoleAssigned account_id role]
       (insert_cell env (Cell_roles account_id role) self)"

definition get_accounts :: "access_control \<Rightarrow> string \<Rightarrow> account_id list" where
  "get_accounts self d = filled_slots (slots_of self d)"

definition get_user_info :: "access_control \<Rightarrow> account_id \<Rightarrow> user_info option" where
  "get_user_info self account_id = users self account_id"

definition get_role :: "access_control \<Rightarrow> account_id \<Rightarrow> u8 option" where
  "get_role self account_id = roles self account_id"

definition user_exists :: "access_control \<Rightarrow> account_id \<Rightarrow> bool" where
  "user_exists self account_id \<longleftrightarrow> users self account_id \<noteq> None"

lemmas user_query_defs = get_accounts_def get_user_info_def get_role_def user_exists_def slots_of_def

section \<open>Outcomes\<close>

definition valid_user_info :: "user_info \<Rightarrow> bool" where
  "valid_user_info u \<longleftrightarrow>
     length (name u) \<in> {1..12} \<and> length (lastname u) \<in> {1..12} \<and>
     length (dni u) = 8 \<and> CHR ''@'' \<in> set (email u)"

lemma validate_user_info_Inr:
  "validate_user_info u = Inr x \<longleftrightarrow> valid_user_info u"
  by (auto simp: validate_user_info_def valid_user_info_def Suc_le_eq)

lemma check_roles_Inr:
  "check_roles s role accs = Inr x \<longleftrightarrow> (\<forall>a \<in> set accs. unwrap_or (roles s a) 2 \<noteq> role)"
  by (induction accs) auto

lemma check_roles_Inl:
  "check_roles s role accs = Inl e \<longleftrightarrow>
     e = err_same_role \<and> (\<exists>a \<in> set accs. unwrap_or (roles s a) 2 = role)"
  by (induction accs) auto

lemma filled_place_account:
  "length (filled_slots sl) < 2 \<Longrightarrow> fst sl \<noteq> None \<or> snd sl = None \<Longrightarrow>
   filled_slots (place_account sl acc) = filled_slots sl @ [acc]"
  by (cases sl; cases "fst sl"; cases "snd sl") auto

text \<open>What a successful registration requires and does, in one equivalence.\<close>

definition add_user_ready :: "access_control \<Rightarrow> user_info \<Rightarrow> u8 \<Rightarrow> bool" where
  "add_user_ready s u role \<longleftrightarrow>
     valid_user_info u \<and> length (get_accounts s (dni u)) < 2 \<and>
     (\<forall>a \<in> set (get_accounts s (dni u)). unwrap_or (roles s a) 2 \<noteq> role)"

definition registered :: "access_control \<Rightarrow> account_id \<Rightarrow> user_info \<Rightarrow> u8 \<Rightarrow> access_control" where
  "registered s acc u role =
     s\<lparr>accounts := (accounts s)(dni u \<mapsto> place_account (slots_of s (dni u)) acc),
       users := (users s)(acc \<mapsto> u), roles := (roles s)(acc \<mapsto> role)\<rparr>"

lemma registered_frame [simp]:
  "accounts (registered s a u r) =
     (accounts s)(dni u \<mapsto> place_account (slots_of s (dni u)) a)"
  "users (registered s a u r) = (users s)(a \<mapsto> u)" "roles (registered s a u r) = (roles s)(a \<mapsto> r)"
  "permissions (registered s a u r) = permissions s" "grantees (registered s a u r) = grantees s"
  "access_requests (registered s a u r) = access_requests s"
  by (simp_all add: registered_def)

definition registration_fits :: "ink_env \<Rightarrow> access_control \<Rightarrow> account_id \<Rightarrow> user_info \<Rightarrow> u8 \<Rightarrow> bool" where
  "registration_fits env s acc u role \<longleftrightarrow>
     cell_fits env (Cell_accounts (dni u) (place_account (slots_of s (dni u)) acc)) \<and>
     cell_fits env (Cell_users acc u) \<and> cell_fits env (Cell_roles acc role)"

lemma add_user_success:
  assumes "add_user_ready s u role"
  shows "add_user env s acc u role =
     (if registration_fits env s acc u role
      then Returned (Inr ()) (registered s acc u role) [RoleAssigned acc role, UserAdded acc]
      else Trapped)"
proof -
  have v: "validate_user_info u = Inr ()"
    using assms by (simp add: add_user_ready_def validate_user_info_Inr)
  have n: "\<not> length (filled_slots (slots_of s (dni u))) \<ge> 2"
    using assms by (simp add: add_user_ready_def get_accounts_def)
  have r: "check_roles s role (filled_slots (slots_of s (dni u))) = Inr ()"
    using assms by (simp add: add_user_ready_def get_accounts_def check_roles_Inr)
  have w: "(do { s1 \<leftarrow> insert_cell env
                       (Cell_accounts (dni u) (place_account (slots_of s (dni u)) acc)) s;
                s2 \<leftarrow> insert_cell env (Cell_users acc u) s1;
                insert_cell env (Cell_roles acc role) s2 }) =
      (if registration_fits env s acc u role then Some (registered s acc u role) else None)"
    by (simp add: insert_cell_def registration_fits_def registered_def)
  show ?thesis
    by (simp add: add_user_def v n r w)
qed

lemma add_user_failure:
  assumes "\<not> add_user_ready s u role"
  obtains e where "add_user env s acc u role = Returned (Inl e) s []"
proof (cases "validate_user_info u")
  case (Inl e)
  then show ?thesis by (intro that) (simp add: add_user_def)
next
  case (Inr x)
  then have valid: "valid_user_info u" by (simp add: validate_user_info_Inr)
  show ?thesis
  proof (cases "length (filled_slots (slots_of s (dni u))) \<ge> 2")
    case True
    with Inr show ?thesis by (intro that) (simp add: add_user_def)
  next
    case False
    with assms valid obtain e where "check_roles s role (filled_slots (slots_of s (dni u))) = Inl e"
      by (auto simp: add_user_ready_def get_accounts_def check_roles_Inl)
    with Inr False show ?thesis by (intro that) (simp add: add_user_def)
  qed
qed

lemma add_user_Returned_ok:
  "add_user env s acc u role = Returned (Inr x) s' evs \<longleftrightarrow>
     add_user_ready s u role \<and> registration_fits env s acc u role \<and>
     s' = registered s acc u role \<and> evs = [RoleAssigned acc role, UserAdded acc]"
  by (cases "add_user_ready s u role")
    (auto simp: add_user_success elim: add_user_failure [of s u role env acc])

lemma add_user_Returned_error:
  "add_user env s acc u role = Returned (Inl e) s' evs \<Longrightarrow> s' = s \<and> evs = []"
  by (cases "add_user_ready s u role")
    (auto simp: add_user_success elim: add_user_failure [of s u role env acc] split: if_splits)

lemma assign_role_Returned [simp]:
  "assign_role env s acc role = Returned r s' evs \<longleftrightarrow>
     cell_fits env (Cell_roles acc role) \<and> s' = s\<lparr>roles := (roles s)(acc \<mapsto> role)\<rparr> \<and>
     evs = [RoleAssigned acc role] \<and>
     r = ''Rol '' @ show_u8 role @ '' asignado a la cuenta '' @ debug_account env acc"
  by (auto simp: assign_role_def)

section \<open>Properties\<close>

text \<open>The user of the contract's own test \<open>test_add_user\<close>, for the concrete instances.\<close>

definition alice :: user_info where
  "alice = \<lparr>name = ''Alice'', lastname = ''Doe'', dni = ''12345678'',
            email = ''alice@example.com''\<rparr>"

lemma validate_errors:
  "validate_user_info u = Inl e \<longleftrightarrow>
     (let n = length (name u) \<in> {1..12}; l = length (lastname u) \<in> {1..12};
          d = length (dni u) = 8; m = CHR ''@'' \<in> set (email u)
      in (e = err_name \<and> \<not> n) \<or> (e = err_lastname \<and> n \<and> \<not> l) \<or>
         (e = err_dni \<and> n \<and> l \<and> \<not> d) \<or> (e = err_email \<and> n \<and> l \<and> d \<and> \<not> m))"
proof -
  have n: "(name u = [] \<or> length (name u) > 12) = (length (name u) \<notin> {1..12})"
    and l: "(lastname u = [] \<or> length (lastname u) > 12) = (length (lastname u) \<notin> {1..12})"
    and d: "(dni u = [] \<or> length (dni u) \<noteq> 8) = (length (dni u) \<noteq> 8)"
    and m: "(email u = [] \<or> CHR ''@'' \<notin> set (email u)) = (CHR ''@'' \<notin> set (email u))"
    by (auto simp: Suc_le_eq)
  show ?thesis
    unfolding validate_user_info_def n l d m Let_def
    by (cases "length (name u) \<in> {1..12}"; cases "length (lastname u) \<in> {1..12}";
        cases "length (dni u) = 8"; cases "CHR ''@'' \<in> set (email u)"; simp; blast?)
qed

lemma add_user_error_cases:
  "add_user env s a u r = Returned (Inl e) s' evs \<longleftrightarrow>
     s' = s \<and> evs = [] \<and>
     (validate_user_info u = Inl e \<or>
      valid_user_info u \<and>
        (e = err_two_accounts \<and> length (get_accounts s (dni u)) \<ge> 2 \<or>
         \<not> length (get_accounts s (dni u)) \<ge> 2 \<and>
           check_roles s r (get_accounts s (dni u)) = Inl e))"
proof (cases "validate_user_info u")
  case (Inl f)
  then have "\<not> valid_user_info u" using validate_user_info_Inr [of u] by auto
  with Inl show ?thesis by (auto simp: add_user_def)
next
  case (Inr x)
  then have "valid_user_info u" by (simp add: validate_user_info_Inr)
  with Inr show ?thesis
    by (cases "check_roles s r (get_accounts s (dni u))")
      (auto simp: add_user_def get_accounts_def Let_def)
qed

text \<open>
  C14. \<open>add_user\<close> answers with an error exactly in the six cases of the source, in the order
  of the source: a later check decides only when the earlier ones passed. An error leaves
  the storage as it was and emits nothing.
\<close>

theorem add_user_errors:
  "add_user env s a u r = Returned (Inl e) s' evs \<longleftrightarrow>
     s' = s \<and> evs = [] \<and>
     (let n = length (name u) \<in> {1..12}; l = length (lastname u) \<in> {1..12};
          d = length (dni u) = 8; m = CHR ''@'' \<in> set (email u);
          full = length (get_accounts s (dni u)) \<ge> 2;
          clash = r \<in> (\<lambda>b. unwrap_or (get_role s b) 2) ` set (get_accounts s (dni u))
      in (e = err_name \<and> \<not> n) \<or> (e = err_lastname \<and> n \<and> \<not> l) \<or>
         (e = err_dni \<and> n \<and> l \<and> \<not> d) \<or> (e = err_email \<and> n \<and> l \<and> d \<and> \<not> m) \<or>
         (e = err_two_accounts \<and> n \<and> l \<and> d \<and> m \<and> full) \<or>
         (e = err_same_role \<and> n \<and> l \<and> d \<and> m \<and> \<not> full \<and> clash))"
proof -
  have v: "valid_user_info u \<longleftrightarrow>
      length (name u) \<in> {1..12} \<and> length (lastname u) \<in> {1..12} \<and> length (dni u) = 8 \<and>
      CHR ''@'' \<in> set (email u)"
    by (simp only: valid_user_info_def)
  have c: "check_roles s r (get_accounts s (dni u)) = Inl e \<longleftrightarrow> e = err_same_role \<and>
      r \<in> (\<lambda>b. unwrap_or (get_role s b) 2) ` set (get_accounts s (dni u))"
    by (auto simp: check_roles_Inl get_role_def)
  show ?thesis
    unfolding add_user_error_cases validate_errors v c Let_def by blast
qed

text \<open>
  \<open>add_user\<close> succeeds exactly when the four fields are valid, the document number has
  fewer than two accounts, none of its accounts has the requested role, and the three writes
  fit the buffer of the environment.
\<close>

theorem add_user_succeeds_iff:
  "(\<exists>s' evs. add_user env s a u r = Returned (Inr ()) s' evs) \<longleftrightarrow>
     valid_user_info u \<and> length (get_accounts s (dni u)) < 2 \<and>
     r \<notin> (\<lambda>b. unwrap_or (get_role s b) 2) ` set (get_accounts s (dni u)) \<and>
     registration_fits env s a u r"
  by (auto simp: add_user_Returned_ok add_user_ready_def get_role_def)

end
