(* ===== verification/Access_Permissions.thy ===== *)
theory Access_Permissions
  imports Access_Storage
begin

text \<open>
  Permissions and access requests: the messages \<open>request_access\<close>, \<open>grant_permission\<close> and
  \<open>revoke_permission\<close> of \<open>smart_contract/lib.rs\<close> with their queries. The contract keeps
  every permission twice, as a boolean per pair and as a list of grantees per granter; the
  locale \<open>permission_ledger\<close> is what the two representations promise together, and the
  abstract ledger \<open>spec_grant\<close>, \<open>spec_revoke\<close> is the list alone.
\<close>

section \<open>Messages\<close>

definition err_already_granted :: string where
  "err_already_granted = ''Permiso ya concedido''"

definition err_no_permission :: string where
  "err_no_permission = ''No existe permiso para revocar''"

definition request_access ::
  "ink_env \<Rightarrow> access_control \<Rightarrow> account_id \<Rightarrow> account_id \<Rightarrow> unit outcome" where
  "request_access env self requester target =
     (let requests = unwrap_or (access_requests self requester) []
      in finish () [AccessRequested requester target]
           (insert_cell env (Cell_requests requester (requests @ [target])) self))"

definition grant_permission ::
  "ink_env \<Rightarrow> access_control \<Rightarrow> account_id \<Rightarrow> account_id \<Rightarrow> (string + unit) outcome" where
  "grant_permission env self granter grantee =
     (if unwrap_or (permissions self (granter, grantee)) False
      then Returned (Inl err_already_granted) self []
      else finish (Inr ()) [PermissionGranted granter grantee True]
        (do { s1 \<leftarrow> insert_cell env (Cell_permissions (granter, grantee) True) self;
              let grantees_list = unwrap_or (grantees s1 granter) [];
              if grantee \<notin> set grantees_list
              then insert_cell env (Cell_grantees granter (grantees_list @ [grantee])) s1
              else Some s1 }))"

definition revoke_permission ::
  "ink_env \<Rightarrow> access_control \<Rightarrow> account_id \<Rightarrow> account_id \<Rightarrow> (string + unit) outcome" where
  "revoke_permission env self granter grantee =
     (if \<not> unwrap_or (permissions self (granter, grantee)) False
      then Returned (Inl err_no_permission) self []
      else finish (Inr ()) [PermissionGranted granter grantee False]
        (do { s1 \<leftarrow> insert_cell env (Cell_permissions (granter, grantee) False) self;
              let grantees_list = unwrap_or (grantees s1 granter) [];
              case vec_position (\<lambda>id. id = grantee) grantees_list of
                Some pos \<Rightarrow> do { shorter \<leftarrow> vec_remove pos grantees_list;
                                  insert_cell env (Cell_grantees granter shorter) s1 }
              | None \<Rightarrow> Some s1 }))"

definition get_access_requests :: "access_control \<Rightarrow> account_id \<Rightarrow> account_id list" where
  "get_access_requests self requester = unwrap_or (access_requests self requester) []"

definition get_granted_permissions :: "access_control \<Rightarrow> account_id \<Rightarrow> account_id list" where
  "get_granted_permissions self granter = unwrap_or (grantees self granter) []"

definition has_permission :: "access_control \<Rightarrow> account_id \<Rightarrow> account_id \<Rightarrow> bool" where
  "has_permission self granter grantee =
     unwrap_or (permissions self (granter, grantee)) False"

lemmas permission_query_defs =
  get_access_requests_def get_granted_permissions_def has_permission_def

section \<open>Outcomes\<close>

lemma request_access_Returned [simp]:
  "request_access env s r t = Returned x s' evs \<longleftrightarrow>
     cell_fits env (Cell_requests r (get_access_requests s r @ [t])) \<and>
     s' = s\<lparr>access_requests := (access_requests s)(r \<mapsto> get_access_requests s r @ [t])\<rparr> \<and>
     evs = [AccessRequested r t]"
  by (auto simp: request_access_def Let_def get_access_requests_def)

text \<open>The storage after a grant and after a revocation, on the branches that write.\<close>

definition granted :: "access_control \<Rightarrow> account_id \<Rightarrow> account_id \<Rightarrow> access_control" where
  "granted s g e =
     (let s1 = s\<lparr>permissions := (permissions s)((g, e) \<mapsto> True)\<rparr>;
          l = get_granted_permissions s g
      in if e \<in> set l then s1 else s1\<lparr>grantees := (grantees s)(g \<mapsto> l @ [e])\<rparr>)"

definition revoked :: "access_control \<Rightarrow> account_id \<Rightarrow> account_id \<Rightarrow> access_control" where
  "revoked s g e =
     (let s1 = s\<lparr>permissions := (permissions s)((g, e) \<mapsto> False)\<rparr>;
          l = get_granted_permissions s g
      in if e \<in> set l then s1\<lparr>grantees := (grantees s)(g \<mapsto> remove1 e l)\<rparr> else s1)"

definition grant_fits :: "ink_env \<Rightarrow> access_control \<Rightarrow> account_id \<Rightarrow> account_id \<Rightarrow> bool" where
  "grant_fits env s g e \<longleftrightarrow>
     cell_fits env (Cell_permissions (g, e) True) \<and>
     (e \<in> set (get_granted_permissions s g) \<or>
      cell_fits env (Cell_grantees g (get_granted_permissions s g @ [e])))"

definition revoke_fits :: "ink_env \<Rightarrow> access_control \<Rightarrow> account_id \<Rightarrow> account_id \<Rightarrow> bool" where
  "revoke_fits env s g e \<longleftrightarrow>
     cell_fits env (Cell_permissions (g, e) False) \<and>
     (e \<notin> set (get_granted_permissions s g) \<or>
      cell_fits env (Cell_grantees g (remove1 e (get_granted_permissions s g))))"

lemma grant_permission_eq:
  "grant_permission env s g e =
     (if has_permission s g e then Returned (Inl err_already_granted) s []
      else if grant_fits env s g e
      then Returned (Inr ()) (granted s g e) [PermissionGranted g e True]
      else Trapped)"
  by (simp add: grant_permission_def has_permission_def grant_fits_def granted_def
      get_granted_permissions_def insert_cell_def Let_def)

lemma revoke_permission_eq:
  "revoke_permission env s g e =
     (if \<not> has_permission s g e then Returned (Inl err_no_permission) s []
      else if revoke_fits env s g e
      then Returned (Inr ()) (revoked s g e) [PermissionGranted g e False]
      else Trapped)"
  by (simp add: revoke_permission_def has_permission_def revoke_fits_def revoked_def
      get_granted_permissions_def insert_cell_def Let_def remove_first_eq)

lemma granted_queries:
  "has_permission (granted s g e) x y \<longleftrightarrow> (x = g \<and> y = e) \<or> has_permission s x y"
  "get_granted_permissions (granted s g e) =
     (if e \<in> set (get_granted_permissions s g) then get_granted_permissions s
      else (get_granted_permissions s)(g := get_granted_permissions s g @ [e]))"
  by (auto simp: granted_def has_permission_def get_granted_permissions_def Let_def fun_eq_iff)

lemma revoked_queries:
  "has_permission (revoked s g e) x y \<longleftrightarrow> has_permission s x y \<and> \<not> (x = g \<and> y = e)"
  "get_granted_permissions (revoked s g e) =
     (get_granted_permissions s)(g := remove1 e (get_granted_permissions s g))"
  by (auto simp: revoked_def has_permission_def get_granted_permissions_def Let_def fun_eq_iff
      remove1_idem)

lemma granted_frame [simp]:
  "users (granted s g e) = users s" "roles (granted s g e) = roles s"
  "accounts (granted s g e) = accounts s" "access_requests (granted s g e) = access_requests s"
  by (simp_all add: granted_def Let_def)

lemma revoked_frame [simp]:
  "users (revoked s g e) = users s" "roles (revoked s g e) = roles s"
  "accounts (revoked s g e) = accounts s" "access_requests (revoked s g e) = access_requests s"
  by (simp_all add: revoked_def Let_def)

section \<open>The ledger: two representations of one relation\<close>

definition ledger_inv :: "access_control \<Rightarrow> bool" where
  "ledger_inv s \<longleftrightarrow>
     (\<forall>g. distinct (get_granted_permissions s g) \<and>
          set (get_granted_permissions s g) = {e. has_permission s g e})"

text \<open>What a provider of permissions promises to its clients.\<close>

locale permission_ledger =
  fixes inv :: "'s \<Rightarrow> bool"
    and has :: "'s \<Rightarrow> 'a \<Rightarrow> 'a \<Rightarrow> bool"
    and listed :: "'s \<Rightarrow> 'a \<Rightarrow> 'a list"
    and grant :: "'s \<Rightarrow> 'a \<Rightarrow> 'a \<Rightarrow> 's option"
    and revoke :: "'s \<Rightarrow> 'a \<Rightarrow> 'a \<Rightarrow> 's option"
  assumes inv_listed: "inv s \<Longrightarrow> distinct (listed s g) \<and> set (listed s g) = {e. has s g e}"
    and inv_grant: "inv s \<Longrightarrow> grant s g e = Some s' \<Longrightarrow> inv s'"
    and inv_revoke: "inv s \<Longrightarrow> revoke s g e = Some s' \<Longrightarrow> inv s'"
    and grant_lists: "inv s \<Longrightarrow> grant s g e = Some s' \<Longrightarrow>
          \<not> has s g e \<and> listed s' = (listed s)(g := listed s g @ [e])"
    and revoke_lists: "inv s \<Longrightarrow> revoke s g e = Some s' \<Longrightarrow>
          has s g e \<and> listed s' = (listed s)(g := remove1 e (listed s g))"
begin

lemma has_listed: "inv s \<Longrightarrow> has s g e \<longleftrightarrow> e \<in> set (listed s g)"
  by (simp add: inv_listed)

lemma has_eqI: "inv s \<Longrightarrow> inv t \<Longrightarrow> (\<And>g. set (listed s g) = set (listed t g)) \<Longrightarrow> has s = has t"
  by (auto simp: fun_eq_iff has_listed)

lemma listed_card: "inv s \<Longrightarrow> length (listed s g) = card {e. has s g e}"
  by (metis inv_listed distinct_card)

lemma has_grant:
  "inv s \<Longrightarrow> grant s g e = Some s' \<Longrightarrow> has s' x y \<longleftrightarrow> (x = g \<and> y = e) \<or> has s x y"
  using inv_grant [of s g e s'] grant_lists [of s g e s'] by (auto simp: has_listed)

lemma has_revoke:
  "inv s \<Longrightarrow> revoke s g e = Some s' \<Longrightarrow> has s' x y \<longleftrightarrow> has s x y \<and> \<not> (x = g \<and> y = e)"
  using inv_revoke [of s g e s'] revoke_lists [of s g e s'] conjunct1 [OF inv_listed [of s g]]
  by (auto simp: has_listed)

lemma grant_then_revoke:
  assumes "inv s" "grant s g e = Some t" "revoke t g e = Some u"
  shows "listed u = listed s" "has u = has s"
proof -
  have t: "inv t" "\<not> has s g e" "listed t = (listed s)(g := listed s g @ [e])"
    using assms inv_grant grant_lists by blast+
  have u: "inv u" "listed u = (listed t)(g := remove1 e (listed t g))"
    using t(1) assms(3) inv_revoke revoke_lists by blast+
  from t(2) have "e \<notin> set (listed s g)" using assms(1) by (simp add: has_listed)
  with t(3) u(2) show l: "listed u = listed s" by (simp add: fun_eq_iff)
  show "has u = has s" by (rule has_eqI [OF u(1) assms(1)]) (simp add: l)
qed

lemma revoke_then_grant:
  assumes "inv s" "revoke s g e = Some t" "grant t g e = Some u"
  shows "listed u g = remove1 e (listed s g) @ [e]" "has u = has s"
proof -
  have t: "inv t" "has s g e" "listed t = (listed s)(g := remove1 e (listed s g))"
    using assms inv_revoke revoke_lists by blast+
  have u: "inv u" "listed u = (listed t)(g := listed t g @ [e])"
    using t(1) assms(3) inv_grant grant_lists by blast+
  from t(3) u(2) show "listed u g = remove1 e (listed s g) @ [e]" by simp
  show "has u = has s"
    using has_grant [OF t(1) assms(3)] has_revoke [OF assms(1,2)] t(2) by (auto simp: fun_eq_iff)
qed

end

text \<open>The storage after a successful message; \<^const>\<open>None\<close> for an error or a trap.\<close>

fun ok_state :: "('e + 'a) outcome \<Rightarrow> access_control option" where
  "ok_state (Returned (Inr _) s _) = Some s"
| "ok_state (Returned (Inl _) s _) = None"
| "ok_state Trapped = None"

definition grant_state :: "ink_env \<Rightarrow> access_control \<Rightarrow> account_id \<Rightarrow> account_id \<Rightarrow> access_control option" where
  "grant_state env s g e = ok_state (grant_permission env s g e)"

definition revoke_state :: "ink_env \<Rightarrow> access_control \<Rightarrow> account_id \<Rightarrow> account_id \<Rightarrow> access_control option" where
  "revoke_state env s g e = ok_state (revoke_permission env s g e)"

lemma grant_state_eq_Some [simp]:
  "grant_state env s g e = Some t \<longleftrightarrow>
     \<not> has_permission s g e \<and> grant_fits env s g e \<and> t = granted s g e"
  by (auto simp: grant_state_def grant_permission_eq)

lemma revoke_state_eq_Some [simp]:
  "revoke_state env s g e = Some t \<longleftrightarrow>
     has_permission s g e \<and> revoke_fits env s g e \<and> t = revoked s g e"
  by (auto simp: revoke_state_def revoke_permission_eq)

lemma ledger_inv_member: "ledger_inv s \<Longrightarrow> e \<in> set (get_granted_permissions s g) \<longleftrightarrow> has_permission s g e"
  by (simp add: ledger_inv_def)

lemma ledger_inv_granted:
  assumes "ledger_inv s" "\<not> has_permission s g e"
  shows "ledger_inv (granted s g e)"
  using assms ledger_inv_member [OF assms(1)]
  by (auto simp: ledger_inv_def granted_queries)

lemma ledger_inv_revoked:
  assumes "ledger_inv s"
  shows "ledger_inv (revoked s g e)"
  using assms by (auto simp: ledger_inv_def revoked_queries)

interpretation ledger: permission_ledger
  ledger_inv has_permission get_granted_permissions "grant_state env" "revoke_state env" for env
  by unfold_locales
    (auto simp: ledger_inv_def [of s for s] ledger_inv_member granted_queries revoked_queries
      intro: ledger_inv_granted ledger_inv_revoked)

section \<open>The abstract ledger\<close>

definition spec_grant :: "('a \<Rightarrow> 'a list) \<Rightarrow> 'a \<Rightarrow> 'a \<Rightarrow> ('a \<Rightarrow> 'a list) option" where
  "spec_grant L g e = (if e \<in> set (L g) then None else Some (L(g := L g @ [e])))"

definition spec_revoke :: "('a \<Rightarrow> 'a list) \<Rightarrow> 'a \<Rightarrow> 'a \<Rightarrow> ('a \<Rightarrow> 'a list) option" where
  "spec_revoke L g e = (if e \<in> set (L g) then Some (L(g := remove1 e (L g))) else None)"

section \<open>Properties\<close>

text \<open>A storage with one permission, for the concrete instances.\<close>

lemma ledger_inv_default: "ledger_inv access_control_default"
  by (simp add: ledger_inv_def access_control_default_def has_permission_def
      get_granted_permissions_def)

lemma first_grant:
  "grant_permission static_buffer_env access_control_default 1 2 =
     Returned (Inr ()) (granted access_control_default 1 2) [PermissionGranted 1 2 True]"
proof -
  have "\<not> has_permission access_control_default 1 2"
    "grant_fits static_buffer_env access_control_default 1 2" by code_simp+
  then show ?thesis by (simp add: grant_permission_eq)
qed

lemma ledger_inv_one: "ledger_inv (granted access_control_default a b)"
  by (rule ledger_inv_granted [OF ledger_inv_default])
    (simp add: access_control_default_def has_permission_def)

text \<open>
  The contract refines the abstract ledger: wherever the two representations agree and
  the writes fit, \<open>grant_permission\<close> and \<open>revoke_permission\<close> succeed exactly when the
  abstract operation does, and commute with the abstraction to lists of grantees.
\<close>

theorem permissions_refine_ledger:
  assumes "ledger_inv s" "grant_fits env s g e" "revoke_fits env s g e"
  shows "map_option get_granted_permissions (grant_state env s g e) =
           spec_grant (get_granted_permissions s) g e \<and>
         map_option get_granted_permissions (revoke_state env s g e) =
           spec_revoke (get_granted_permissions s) g e"
  using assms
  by (auto simp: grant_state_def grant_permission_eq spec_grant_def granted_queries
      revoke_state_def revoke_permission_eq spec_revoke_def revoked_queries ledger_inv_member)

theorem permissions_refine_ledger_witness:
  "let s = granted access_control_default 1 2
   in map_option get_granted_permissions (grant_state static_buffer_env s 1 3) =
        spec_grant (get_granted_permissions s) 1 3 \<and>
      get_granted_permissions (granted s 1 3) 1 = [2, 3]"
proof -
  let ?s = "granted access_control_default 1 2"
  have "grant_fits static_buffer_env ?s 1 3" "revoke_fits static_buffer_env ?s 1 3"
    "get_granted_permissions (granted ?s 1 3) 1 = [2, 3]"
    by code_simp+
  with permissions_refine_ledger [OF ledger_inv_one, of static_buffer_env 1 2 1 3] show ?thesis
    by (simp add: Let_def)
qed

text \<open>
  C17. Round trip: revoking the permission that was just granted restores every answer of
  \<open>has_permission\<close> and every list of \<open>get_granted_permissions\<close>, order included.
\<close>

theorem grant_then_revoke_restores:
  assumes "ledger_inv s"
    and "grant_permission env s g e = Returned (Inr x) t evs1"
    and "revoke_permission env t g e = Returned (Inr y) u evs2"
  shows "get_granted_permissions u = get_granted_permissions s \<and> has_permission u = has_permission s"
proof -
  have "grant_state env s g e = Some t" "revoke_state env t g e = Some u"
    using assms(2,3) by (simp_all only: grant_state_def revoke_state_def ok_state.simps)
  from ledger.grant_then_revoke [OF assms(1) this] show ?thesis by blast
qed

theorem grant_then_revoke_restores_witness:
  "let s = access_control_default; t = granted s 1 2; u = revoked t 1 2
   in grant_permission static_buffer_env s 1 2 =
        Returned (Inr ()) t [PermissionGranted 1 2 True] \<and>
      get_granted_permissions u = get_granted_permissions s \<and> has_permission u = has_permission s"
proof -
  let ?s = access_control_default
  have g: "grant_permission static_buffer_env ?s 1 2 =
      Returned (Inr ()) (granted ?s 1 2) [PermissionGranted 1 2 True]"
    by (rule first_grant)
  have "has_permission (granted ?s 1 2) 1 2" "revoke_fits static_buffer_env (granted ?s 1 2) 1 2"
    by code_simp+
  then have r: "revoke_permission static_buffer_env (granted ?s 1 2) 1 2 =
      Returned (Inr ()) (revoked (granted ?s 1 2) 1 2) [PermissionGranted 1 2 False]"
    by (simp add: revoke_permission_eq)
  from grant_then_revoke_restores [OF ledger_inv_default g r] g show ?thesis by (simp add: Let_def)
qed

text \<open>
  Revoking and granting again keeps the relation and moves the grantee to the end of the
  granter's list.
\<close>

theorem revoke_then_grant_moves_last:
  assumes "ledger_inv s"
    and "revoke_permission env s g e = Returned (Inr x) t evs1"
    and "grant_permission env t g e = Returned (Inr y) u evs2"
  shows "has_permission u = has_permission s \<and>
    get_granted_permissions u g = remove1 e (get_granted_permissions s g) @ [e]"
proof -
  have "revoke_state env s g e = Some t" "grant_state env t g e = Some u"
    using assms(2,3) by (simp_all only: grant_state_def revoke_state_def ok_state.simps)
  from ledger.revoke_then_grant [OF assms(1) this] show ?thesis by blast
qed

theorem revoke_then_grant_moves_last_witness:
  "let s = granted (granted access_control_default 1 2) 1 3; u = granted (revoked s 1 2) 1 2
   in has_permission u = has_permission s \<and> get_granted_permissions u 1 = [3, 2]"
proof -
  let ?s = "granted (granted access_control_default 1 2) 1 3"
  have i: "ledger_inv ?s" by (rule ledger_inv_granted [OF ledger_inv_one]) code_simp
  have "has_permission ?s 1 2" "revoke_fits static_buffer_env ?s 1 2"
    "grant_fits static_buffer_env (revoked ?s 1 2) 1 2" "\<not> has_permission (revoked ?s 1 2) 1 2"
    by code_simp+
  then have r: "revoke_permission static_buffer_env ?s 1 2 =
      Returned (Inr ()) (revoked ?s 1 2) [PermissionGranted 1 2 False]"
    and g: "grant_permission static_buffer_env (revoked ?s 1 2) 1 2 =
      Returned (Inr ()) (granted (revoked ?s 1 2) 1 2) [PermissionGranted 1 2 True]"
    by (simp_all add: revoke_permission_eq grant_permission_eq)
  have "remove1 2 (get_granted_permissions ?s 1) @ [2] = [3, 2]" by code_simp
  with revoke_then_grant_moves_last [OF i r g] show ?thesis by (simp add: Let_def)
qed

text \<open>
  \<open>revoke_permission\<close> traps for one reason only, a write that does not fit the buffer:
  the index it hands to \<open>Vec::remove\<close> is always in bounds, whatever the storage holds.
\<close>

theorem revoke_traps_only_on_buffer:
  "revoke_permission env s g e = Trapped \<longleftrightarrow>
     has_permission s g e \<and>
     (\<not> cell_fits env (Cell_permissions (g, e) False) \<or>
      e \<in> set (get_granted_permissions s g) \<and>
        \<not> cell_fits env (Cell_grantees g (remove1 e (get_granted_permissions s g))))"
  by (auto simp: revoke_permission_eq revoke_fits_def)

theorem revoke_traps_only_on_buffer_witness:
  "revoke_permission static_buffer_env (granted access_control_default 1 2) 1 2 \<noteq> Trapped"
proof -
  have "cell_fits static_buffer_env (Cell_permissions (1, 2) False)"
    "cell_fits static_buffer_env
       (Cell_grantees 1 (remove1 2 (get_granted_permissions (granted access_control_default 1 2) 1)))"
    by code_simp+
  then show ?thesis by (simp add: revoke_traps_only_on_buffer)
qed

text \<open>
  A permission message changes one pair only: after it, every other pair of accounts
  answers \<open>has_permission\<close> as before, and the registry and the requests are untouched.
\<close>

theorem permission_messages_frame:
  assumes "grant_permission env s g e = Returned x t evs \<or>
           revoke_permission env s g e = Returned x t evs"
    and "(g', e') \<noteq> (g, e)"
  shows "has_permission t g' e' = has_permission s g' e' \<and> accounts t = accounts s \<and>
    users t = users s \<and> roles t = roles s \<and> access_requests t = access_requests s"
  using assms
  by (auto simp: grant_permission_eq revoke_permission_eq granted_queries revoked_queries
      split: if_splits)

theorem permission_messages_frame_witness:
  "let s = access_control_default; t = granted s 1 2
   in has_permission t 2 1 = has_permission s 2 1 \<and> users t = users s"
proof -
  let ?s = access_control_default
  have "grant_permission static_buffer_env ?s 1 2 =
      Returned (Inr ()) (granted ?s 1 2) [PermissionGranted 1 2 True]"
    by (rule first_grant)
  then have "grant_permission static_buffer_env ?s 1 2 =
        Returned (Inr ()) (granted ?s 1 2) [PermissionGranted 1 2 True] \<or>
      revoke_permission static_buffer_env ?s 1 2 =
        Returned (Inr ()) (granted ?s 1 2) [PermissionGranted 1 2 True]" by blast
  from permission_messages_frame [OF this, of 2 1] show ?thesis by (simp add: Let_def)
qed

section \<open>The unit test\<close>

text \<open>
  \<open>test_has_permission\<close> of the source: \<open>unwrap\<close> panics on an error, and a panic fails the test.
  The other two tests call \<open>add_user\<close> without a role, which the compiler refuses.
\<close>

definition test_granter :: account_id where
  "test_granter =
     0x0101010101010101010101010101010101010101010101010101010101010101"

definition test_grantee :: account_id where
  "test_grantee =
     0x0202020202020202020202020202020202020202020202020202020202020202"

definition test_has_permission :: "ink_env \<Rightarrow> bool" where
  "test_has_permission env =
     (case grant_permission env access_control_default test_granter test_grantee of
        Returned (Inr _) access _ \<Rightarrow> has_permission access test_granter test_grantee
      | _ \<Rightarrow> False)"

lemma test_has_permission_passes:
  assumes "\<And>c. cell_fits env c"
  shows "test_has_permission env"
proof -
  have "grant_fits env s a b" for s a b by (simp add: grant_fits_def assms)
  moreover have "\<not> has_permission access_control_default test_granter test_grantee"
    by (simp add: has_permission_def access_control_default_def)
  ultimately show ?thesis
    by (simp add: test_has_permission_def grant_permission_eq granted_queries)
qed

end
