(* ===== verification/Access_Contract.thy ===== *)
theory Access_Contract
  imports Access_Users Access_Permissions
begin

text \<open>
  The contract as a whole: the dispatch of its twelve messages, the world of one deployed
  contract (its storage and the log of the events it emitted), the step relation and the
  reachable worlds. The invariants of the two components are lifted to every reachable
  world by interpreting \<open>inductive_invariant\<close>, and the locale \<open>event_sourced\<close> states what
  it means that a part of the storage can be rebuilt from the event log.
\<close>

section \<open>Messages and dispatch\<close>

datatype message =
    Add_user account_id user_info u8
  | Assign_role account_id u8
  | Request_access account_id account_id
  | Grant_permission account_id account_id
  | Revoke_permission account_id account_id
  | Get_accounts string
  | Get_user_info account_id
  | Get_access_requests account_id
  | Get_granted_permissions account_id
  | Has_permission account_id account_id
  | Get_role account_id
  | User_exists account_id

datatype reply =
    Reply_result "string + unit"
  | Reply_string string
  | Reply_unit
  | Reply_accounts "account_id list"
  | Reply_user "user_info option"
  | Reply_bool bool
  | Reply_role "u8 option"

text \<open>What a message does once all it reads has been read.\<close>

fun dispatch :: "ink_env \<Rightarrow> message \<Rightarrow> access_control \<Rightarrow> reply outcome" where
  "dispatch env (Add_user a u r) s = map_outcome Reply_result (add_user env s a u r)"
| "dispatch env (Assign_role a r) s = map_outcome Reply_string (assign_role env s a r)"
| "dispatch env (Request_access a b) s =
     map_outcome (\<lambda>_. Reply_unit) (request_access env s a b)"
| "dispatch env (Grant_permission a b) s =
     map_outcome Reply_result (grant_permission env s a b)"
| "dispatch env (Revoke_permission a b) s =
     map_outcome Reply_result (revoke_permission env s a b)"
| "dispatch env (Get_accounts d) s = Returned (Reply_accounts (get_accounts s d)) s []"
| "dispatch env (Get_user_info a) s = Returned (Reply_user (get_user_info s a)) s []"
| "dispatch env (Get_access_requests a) s =
     Returned (Reply_accounts (get_access_requests s a)) s []"
| "dispatch env (Get_granted_permissions a) s =
     Returned (Reply_accounts (get_granted_permissions s a)) s []"
| "dispatch env (Has_permission a b) s = Returned (Reply_bool (has_permission s a b)) s []"
| "dispatch env (Get_role a) s = Returned (Reply_role (get_role s a)) s []"
| "dispatch env (User_exists a) s = Returned (Reply_bool (user_exists s a)) s []"

text \<open>
  The cells a message reads, in the order of the source: an entry that is absent reads as no
  value, and its key always fits where its type fixes the length. The document number of a
  query is chosen freely, so its key is tried in any case, with the empty slots where there
  is no entry. \<open>contains\<close> decodes no value.
\<close>

fun stored_cell :: "('v \<Rightarrow> cell) \<Rightarrow> 'v option \<Rightarrow> cell list" where
  "stored_cell f None = []"
| "stored_cell f (Some v) = [f v]"

fun roles_read :: "access_control \<Rightarrow> u8 \<Rightarrow> account_id list \<Rightarrow> cell list" where
  "roles_read s role [] = []"
| "roles_read s role (acc # accs) =
     stored_cell (Cell_roles acc) (roles s acc) @
     (if unwrap_or (roles s acc) 2 = role then [] else roles_read s role accs)"

fun reads :: "access_control \<Rightarrow> message \<Rightarrow> cell list" where
  "reads s (Add_user a u r) =
     (case validate_user_info u of
        Inl e \<Rightarrow> []
      | Inr _ \<Rightarrow> Cell_accounts (dni u) (slots_of s (dni u)) #
          (if length (get_accounts s (dni u)) \<ge> 2 then []
           else roles_read s r (get_accounts s (dni u))))"
| "reads s (Assign_role a r) = []"
| "reads s (Request_access a b) = stored_cell (Cell_requests a) (access_requests s a)"
| "reads s (Grant_permission a b) =
     stored_cell (Cell_permissions (a, b)) (permissions s (a, b)) @
     (if has_permission s a b then [] else stored_cell (Cell_grantees a) (grantees s a))"
| "reads s (Revoke_permission a b) =
     stored_cell (Cell_permissions (a, b)) (permissions s (a, b)) @
     (if has_permission s a b then stored_cell (Cell_grantees a) (grantees s a) else [])"
| "reads s (Get_accounts d) = [Cell_accounts d (slots_of s d)]"
| "reads s (Get_user_info a) = stored_cell (Cell_users a) (users s a)"
| "reads s (Get_access_requests a) = stored_cell (Cell_requests a) (access_requests s a)"
| "reads s (Get_granted_permissions a) = stored_cell (Cell_grantees a) (grantees s a)"
| "reads s (Has_permission a b) =
     stored_cell (Cell_permissions (a, b)) (permissions s (a, b))"
| "reads s (Get_role a) = stored_cell (Cell_roles a) (roles s a)"
| "reads s (User_exists a) = []"

text \<open>
  A read that traps is the trap of the message, wherever it stands among the writes, as the
  pallet undoes them.
\<close>

definition run_message :: "ink_env \<Rightarrow> message \<Rightarrow> access_control \<Rightarrow> reply outcome" where
  "run_message env m s =
     (if list_all (cell_fits env) (reads s m) then dispatch env m s else Trapped)"

lemma run_message_Returned:
  "run_message env m s = Returned r t evs \<longleftrightarrow>
     list_all (cell_fits env) (reads s m) \<and> dispatch env m s = Returned r t evs"
  by (simp add: run_message_def)

section \<open>Worlds and steps\<close>

record world =
  contract :: access_control
  event_log :: "event list"

definition deployed :: "world \<Rightarrow> bool" where
  "deployed w \<longleftrightarrow> w = \<lparr>contract = access_control_default, event_log = []\<rparr>"

inductive contract_step :: "ink_env \<Rightarrow> world \<Rightarrow> message \<Rightarrow> world \<Rightarrow> bool" for env :: ink_env where
  step_returned: "run_message env m (contract w) = Returned r s evs \<Longrightarrow>
    contract_step env w m \<lparr>contract = s, event_log = event_log w @ evs\<rparr>"
| step_trapped: "run_message env m (contract w) = Trapped \<Longrightarrow> contract_step env w m w"

inductive_simps contract_step_simps: "contract_step env w m w'"

text \<open>
  Steps are deterministic: \<open>deliver\<close> computes the world after a message, and \<open>history\<close> the
  world after a list of messages to a freshly deployed contract.
\<close>

fun deliver :: "ink_env \<Rightarrow> world \<Rightarrow> message \<Rightarrow> world" where
  "deliver env w m =
     (case run_message env m (contract w) of
        Trapped \<Rightarrow> w
      | Returned r s evs \<Rightarrow> \<lparr>contract = s, event_log = event_log w @ evs\<rparr>)"

declare deliver.simps [simp del]

definition fresh_world :: world where
  "fresh_world = \<lparr>contract = access_control_default, event_log = []\<rparr>"

definition history :: "ink_env \<Rightarrow> message list \<Rightarrow> world" where
  "history env ms = foldl (deliver env) fresh_world ms"

lemma contract_step_deliver: "contract_step env w m w' \<longleftrightarrow> w' = deliver env w m"
  by (auto simp: contract_step_simps deliver.simps split: outcome.splits)

declare run_message_Returned [simp]

lemma execution_deliver: "execution (contract_step env) w [m] (deliver env w m)"
  by (auto simp: contract_step_deliver intro: execution.intros)

lemma reachable_foldl:
  "reachable deployed (contract_step env) w \<Longrightarrow>
   reachable deployed (contract_step env) (foldl (deliver env) w ms)"
proof (induction ms arbitrary: w)
  case (Cons m ms)
  from Cons.prems have "reachable deployed (contract_step env) (deliver env w m)"
    by (rule reachable_step) (simp add: contract_step_deliver)
  from Cons.IH [OF this] show ?case by simp
qed simp

lemma reachable_history: "reachable deployed (contract_step env) (history env ms)"
  unfolding history_def
  by (rule reachable_foldl, rule reachable_start) (simp add: deployed_def fresh_world_def)

text \<open>
  The effect of a step on the storage, message by message: either nothing changed and
  nothing was logged, or one of the five writing messages succeeded.
\<close>

inductive storage_change ::
  "ink_env \<Rightarrow> access_control \<Rightarrow> access_control \<Rightarrow> event list \<Rightarrow> bool" for env :: ink_env where
  unchanged: "storage_change env s s []"
| registering: "add_user_ready s u r \<Longrightarrow> registration_fits env s a u r \<Longrightarrow>
    storage_change env s (registered s a u r) [RoleAssigned a r, UserAdded a]"
| assigning: "cell_fits env (Cell_roles a r) \<Longrightarrow>
    storage_change env s (s\<lparr>roles := (roles s)(a \<mapsto> r)\<rparr>) [RoleAssigned a r]"
| requesting: "cell_fits env (Cell_requests a (get_access_requests s a @ [b])) \<Longrightarrow>
    storage_change env s
      (s\<lparr>access_requests := (access_requests s)(a \<mapsto> get_access_requests s a @ [b])\<rparr>)
      [AccessRequested a b]"
| granting: "\<not> has_permission s a b \<Longrightarrow> grant_fits env s a b \<Longrightarrow>
    storage_change env s (granted s a b) [PermissionGranted a b True]"
| revoking: "has_permission s a b \<Longrightarrow> revoke_fits env s a b \<Longrightarrow>
    storage_change env s (revoked s a b) [PermissionGranted a b False]"

lemma map_outcome_eq_Returned:
  "map_outcome f x = Returned r s evs \<longleftrightarrow> (\<exists>r'. x = Returned r' s evs \<and> r = f r')"
  by (cases x) auto

lemma add_user_change:
  assumes "add_user env s a u r = Returned x s' evs"
  shows "storage_change env s s' evs"
proof (cases x)
  case (Inl e)
  with assms add_user_Returned_error [of env s a u r e s' evs] show ?thesis
    by (auto intro: unchanged)
next
  case (Inr y)
  with assms show ?thesis by (auto simp: add_user_Returned_ok intro: registering)
qed

lemma run_message_change:
  "run_message env m s = Returned r s' evs \<Longrightarrow> storage_change env s s' evs"
  by (cases m)
    (auto simp: map_outcome_eq_Returned grant_permission_eq revoke_permission_eq
      intro: storage_change.intros add_user_change split: if_splits)

lemma contract_step_change:
  assumes "contract_step env w m w'"
  obtains evs where "storage_change env (contract w) (contract w') evs"
    and "event_log w' = event_log w @ evs"
  using assms
proof cases
  case (step_returned r s evs)
  with run_message_change [OF step_returned(2)] show ?thesis by (intro that) auto
next
  case step_trapped
  then show ?thesis by (intro that [of "[]"]) (auto intro: unchanged)
qed


section \<open>Invariants of the storage\<close>

text \<open>
  The registry invariant ties the three mappings of a registration together: the first slot
  of a document number fills before the second, every account in a slot has a user record
  and a role, and every user record is valid and its account stands in a slot of its own
  document number.
\<close>

definition registry_inv :: "access_control \<Rightarrow> bool" where
  "registry_inv s \<longleftrightarrow>
     (\<forall>d sl. accounts s d = Some sl \<longrightarrow>
        fst sl \<noteq> None \<and> (\<forall>a \<in> set (filled_slots sl). users s a \<noteq> None \<and> roles s a \<noteq> None)) \<and>
     (\<forall>a u. users s a = Some u \<longrightarrow> valid_user_info u \<and> a \<in> set (get_accounts s (dni u)))"

lemma registry_slotD:
  "registry_inv s \<Longrightarrow> accounts s d = Some sl \<Longrightarrow>
   fst sl \<noteq> None \<and> (\<forall>a \<in> set (filled_slots sl). users s a \<noteq> None \<and> roles s a \<noteq> None)"
  unfolding registry_inv_def by blast

lemma registry_userD:
  "registry_inv s \<Longrightarrow> users s a = Some u \<Longrightarrow>
   valid_user_info u \<and> a \<in> set (get_accounts s (dni u))"
  unfolding registry_inv_def by blast

lemma set_place_account:
  "length (filled_slots sl) < 2 \<Longrightarrow> fst sl \<noteq> None \<or> snd sl = None \<Longrightarrow>
   set (filled_slots (place_account sl a)) = insert a (set (filled_slots sl))"
  by (simp add: filled_place_account)

lemma fst_place_account: "fst (place_account sl a) \<noteq> None"
  by (cases sl; cases "fst sl") auto

lemma registry_slots:
  "registry_inv s \<Longrightarrow> fst (slots_of s d) \<noteq> None \<or> snd (slots_of s d) = None"
  by (cases "accounts s d") (auto simp: registry_inv_def slots_of_def no_slots_def)

lemma registry_listed:
  "registry_inv s \<Longrightarrow> a \<in> set (get_accounts s d) \<Longrightarrow> users s a \<noteq> None \<and> roles s a \<noteq> None"
  by (cases "accounts s d")
    (auto simp: registry_inv_def get_accounts_def slots_of_def no_slots_def)

lemma get_accounts_registered:
  assumes "registry_inv s" "add_user_ready s u r"
  shows "get_accounts (registered s a u r) d =
    (if d = dni u then get_accounts s d @ [a] else get_accounts s d)"
  using assms registry_slots [OF assms(1), of "dni u"]
  by (auto simp: get_accounts_def slots_of_def registered_def add_user_ready_def
      filled_place_account)

lemma registry_inv_registered:
  assumes "registry_inv s" "add_user_ready s u r"
  shows "registry_inv (registered s a u r)"
proof -
  let ?t = "registered s a u r"
  have slots: "fst sl \<noteq> None \<and> (\<forall>b \<in> set (filled_slots sl). users ?t b \<noteq> None \<and> roles ?t b \<noteq> None)"
    if "accounts ?t d = Some sl" for d sl
  proof (cases "d = dni u")
    case True
    with that have sl: "sl = place_account (slots_of s d) a"
      by (simp add: registered_def)
    have "set (filled_slots sl) = insert a (set (get_accounts s d))"
      using assms(2) registry_slots [OF assms(1)] True
      by (simp add: sl set_place_account get_accounts_def add_user_ready_def)
    with registry_listed [OF assms(1), of _ d] show ?thesis
      by (auto simp: sl fst_place_account registered_def)
  next
    case False
    with that have "accounts s d = Some sl" by (simp add: registered_def)
    from registry_slotD [OF assms(1) this] show ?thesis by (simp add: registered_def)
  qed
  have "valid_user_info v \<and> b \<in> set (get_accounts ?t (dni v))" if "users ?t b = Some v" for b v
    using that assms registry_userD [OF assms(1), of b v]
    by (auto simp: get_accounts_registered [OF assms] add_user_ready_def split: if_splits)
  with slots show ?thesis unfolding registry_inv_def by blast
qed

lemma registry_inv_cong:
  "accounts t = accounts s \<Longrightarrow> users t = users s \<Longrightarrow>
   (\<And>a. roles s a \<noteq> None \<Longrightarrow> roles t a \<noteq> None) \<Longrightarrow> registry_inv s \<Longrightarrow> registry_inv t"
  by (simp add: registry_inv_def get_accounts_def slots_of_def)

lemma ledger_inv_cong:
  "permissions t = permissions s \<Longrightarrow> grantees t = grantees s \<Longrightarrow> ledger_inv t = ledger_inv s"
  by (simp add: ledger_inv_def has_permission_def get_granted_permissions_def)

lemma ledger_inv_other_writes [simp]:
  "ledger_inv (registered s a u r) = ledger_inv s"
  "ledger_inv (s\<lparr>roles := R\<rparr>) = ledger_inv s"
  "ledger_inv (s\<lparr>access_requests := Q\<rparr>) = ledger_inv s"
  by (rule ledger_inv_cong; simp)+

lemma storage_change_registry:
  "storage_change env s t evs \<Longrightarrow> registry_inv s \<Longrightarrow> registry_inv t"
proof (induction rule: storage_change.induct)
  case (registering s u r a)
  then show ?case by (intro registry_inv_registered)
qed (auto elim!: registry_inv_cong [rotated 3])

lemma storage_change_ledger:
  "storage_change env s t evs \<Longrightarrow> ledger_inv s \<Longrightarrow> ledger_inv t"
  by (induction rule: storage_change.induct)
    (auto intro: ledger_inv_granted ledger_inv_revoked)

lemma registry_inv_default: "registry_inv access_control_default"
  by (simp add: registry_inv_def access_control_default_def)

lemmas invariants_default = registry_inv_default ledger_inv_default

interpretation registry: inductive_invariant
  deployed "contract_step env" "\<lambda>w. registry_inv (contract w)" for env
  by unfold_locales
    (auto simp: deployed_def invariants_default elim: contract_step_change
      intro: storage_change_registry)

interpretation both_forms: inductive_invariant
  deployed "contract_step env" "\<lambda>w. ledger_inv (contract w)" for env
  by unfold_locales
    (auto simp: deployed_def invariants_default elim: contract_step_change
      intro: storage_change_ledger)

section \<open>Properties\<close>

text \<open>
  C13. Messages are all or nothing: one that answers with an error leaves the storage as it
  was and emits nothing, whatever the message.
\<close>

theorem errors_leave_no_trace:
  assumes "run_message env m s = Returned (Reply_result (Inl e)) s' evs"
  shows "s' = s \<and> evs = []"
  using assms
  by (cases m)
    (auto simp: map_outcome_eq_Returned grant_permission_eq revoke_permission_eq
      dest: add_user_Returned_error split: if_splits)

theorem errors_leave_no_trace_witness:
  "run_message static_buffer_env (Revoke_permission 1 2) access_control_default =
     Returned (Reply_result (Inl err_no_permission)) access_control_default []"
proof -
  have "\<not> has_permission access_control_default 1 2" by code_simp
  then obtain s' evs where "run_message static_buffer_env (Revoke_permission 1 2)
      access_control_default = Returned (Reply_result (Inl err_no_permission)) s' evs"
    by (simp add: revoke_permission_eq access_control_default_def)
  with errors_leave_no_trace [OF this] show ?thesis by simp
qed

text \<open>
  C11. In every reachable world the three mappings of a registration agree: an account listed
  under a document number has a user record and a role, and a user record is valid and its
  account is listed under the document number it states.
\<close>

theorem registry_consistent:
  assumes "reachable deployed (contract_step env) w"
  shows "(a \<in> set (get_accounts (contract w) d) \<longrightarrow>
            user_exists (contract w) a \<and> get_role (contract w) a \<noteq> None) \<and>
         (get_user_info (contract w) a = Some u \<longrightarrow>
            valid_user_info u \<and> a \<in> set (get_accounts (contract w) (dni u)))"
  using registry_listed [OF registry.reachable_inv [OF assms]]
    registry_userD [OF registry.reachable_inv [OF assms]]
  by (auto simp: user_exists_def get_role_def get_user_info_def)

theorem registry_consistent_witness:
  "let w = history static_buffer_env [Add_user 1 alice 0]
   in user_exists (contract w) 1 \<and> get_role (contract w) 1 \<noteq> None \<and>
      1 \<in> set (get_accounts (contract w) (dni alice))"
proof -
  let ?w = "history static_buffer_env [Add_user 1 alice 0]"
  have "get_user_info (contract ?w) 1 = Some alice" by code_simp
  with registry_consistent [OF reachable_history, of 1 static_buffer_env "[Add_user 1 alice 0]"
      "dni alice" alice]
  show ?thesis by (simp add: Let_def)
qed

text \<open>
  The sentinel role 2 of \<open>add_user\<close> is never consulted in a reachable world: the role
  check passes exactly when no account of the document number has the requested role.
\<close>

theorem role_check_exact:
  assumes "reachable deployed (contract_step env) w"
  shows "check_roles (contract w) r (get_accounts (contract w) d) = Inr () \<longleftrightarrow>
    Some r \<notin> get_role (contract w) ` set (get_accounts (contract w) d)"
proof -
  have "unwrap_or (roles (contract w) a) 2 = r \<longleftrightarrow> roles (contract w) a = Some r"
    if "a \<in> set (get_accounts (contract w) d)" for a
    using registry_listed [OF registry.reachable_inv [OF assms] that] by auto
  then show ?thesis by (auto simp: check_roles_Inr get_role_def image_iff)
qed

theorem role_check_exact_witness:
  "let w = history static_buffer_env [Add_user 1 alice 0]
   in check_roles (contract w) 2 (get_accounts (contract w) (dni alice)) = Inr ()"
proof -
  let ?w = "history static_buffer_env [Add_user 1 alice 0]"
  have "get_accounts (contract ?w) (dni alice) = [1]" "get_role (contract ?w) 1 = Some 0"
    by code_simp+
  then have "Some 2 \<notin> get_role (contract ?w) ` set (get_accounts (contract ?w) (dni alice))"
    by simp
  with role_check_exact [OF reachable_history, of static_buffer_env "[Add_user 1 alice 0]" 2
      "dni alice"]
  show ?thesis by (simp add: Let_def)
qed

text \<open>
  C15. What a successful registration does, in the answers of the queries: the account gets
  the record and the role, is appended to the accounts of its document number and of no
  other, and permissions and requests are untouched.
\<close>

theorem add_user_effect:
  assumes "reachable deployed (contract_step env) w"
    and "add_user env (contract w) a u r = Returned (Inr x) s' evs"
  shows "get_user_info s' = (get_user_info (contract w))(a := Some u) \<and>
    get_role s' = (get_role (contract w))(a := Some r) \<and>
    get_accounts s' = (get_accounts (contract w))
      (dni u := get_accounts (contract w) (dni u) @ [a]) \<and>
    has_permission s' = has_permission (contract w) \<and>
    get_granted_permissions s' = get_granted_permissions (contract w) \<and>
    get_access_requests s' = get_access_requests (contract w) \<and>
    evs = [RoleAssigned a r, UserAdded a]"
proof -
  from assms(2) have s': "s' = registered (contract w) a u r"
    and ready: "add_user_ready (contract w) u r" and e: "evs = [RoleAssigned a r, UserAdded a]"
    by (auto simp: add_user_Returned_ok)
  show ?thesis
    using get_accounts_registered [OF registry.reachable_inv [OF assms(1)] ready]
    by (auto simp: s' e fun_eq_iff get_user_info_def get_role_def has_permission_def
        get_granted_permissions_def get_access_requests_def)
qed

theorem add_user_effect_witness:
  "let w = history static_buffer_env [Add_user 1 alice 0]
   in get_accounts (registered (contract w) 2 alice 1) ''12345678'' = [1, 2]"
proof -
  let ?w = "history static_buffer_env [Add_user 1 alice 0]"
  have "add_user_ready (contract ?w) alice 1"
    "registration_fits static_buffer_env (contract ?w) 2 alice 1"
    by code_simp+
  then have "add_user static_buffer_env (contract ?w) 2 alice 1 =
      Returned (Inr ()) (registered (contract ?w) 2 alice 1) [RoleAssigned 2 1, UserAdded 2]"
    by (simp add: add_user_success)
  from add_user_effect [OF reachable_history this]
  have "get_accounts (registered (contract ?w) 2 alice 1) (dni alice) =
      get_accounts (contract ?w) (dni alice) @ [2]" by simp
  moreover have "get_accounts (contract ?w) (dni alice) = [1]" "dni alice = ''12345678''"
    by code_simp+
  ultimately show ?thesis by (simp add: Let_def)
qed

text \<open>
  In every reachable world the two forms of a permission agree: \<open>has_permission\<close> answers
  true exactly for the accounts in the list of \<open>get_granted_permissions\<close>, which has no
  duplicates, so its length is the number of accounts that hold the permission.
\<close>

theorem permission_forms_agree:
  assumes "reachable deployed (contract_step env) w"
  shows "(has_permission (contract w) g e \<longleftrightarrow> e \<in> set (get_granted_permissions (contract w) g)) \<and>
    distinct (get_granted_permissions (contract w) g) \<and>
    length (get_granted_permissions (contract w) g) = card {e. has_permission (contract w) g e}"
proof -
  note inv = both_forms.reachable_inv [OF assms]
  from ledger.has_listed [OF inv] ledger.listed_card [OF inv] ledger.inv_listed [OF inv]
  show ?thesis by simp
qed

theorem permission_forms_agree_witness:
  "let w = history static_buffer_env
       [Grant_permission 1 2, Grant_permission 1 3, Grant_permission 1 2, Revoke_permission 1 2]
   in \<not> has_permission (contract w) 1 2 \<and> card {e. has_permission (contract w) 1 e} = 1"
proof -
  let ?ms = "[Grant_permission 1 2, Grant_permission 1 3, Grant_permission 1 2, Revoke_permission 1 2]"
  have "get_granted_permissions (contract (history static_buffer_env ?ms)) 1 = [3]" by code_simp
  with permission_forms_agree [OF reachable_history, of static_buffer_env ?ms 1 2]
  show ?thesis by (simp add: Let_def)
qed

end
