(* ===== verification/Access_Events.thy ===== *)
theory Access_Events
  imports Access_Contract
begin

text \<open>
  The event log as a record of the storage. A part of the storage (a \<open>view\<close>) is event
  sourced when replaying the log from the view's initial value gives the view: an observer
  of the chain who sees only the events knows the permissions, the lists of grantees, the
  roles, the registered accounts and the access requests.
\<close>

section \<open>Event-sourced views\<close>

locale event_sourced =
  fixes start :: "'s \<Rightarrow> bool"
    and step :: "'s \<Rightarrow> 'l \<Rightarrow> 's \<Rightarrow> bool"
    and log :: "'s \<Rightarrow> 'e list"
    and view :: "'s \<Rightarrow> 'v"
    and init :: 'v
    and apply_event :: "'v \<Rightarrow> 'e \<Rightarrow> 'v"
  assumes start_view: "start s \<Longrightarrow> log s = [] \<and> view s = init"
    and step_view: "reachable start step s \<Longrightarrow> step s l t \<Longrightarrow>
      \<exists>evs. log t = log s @ evs \<and> view t = foldl apply_event (view s) evs"

sublocale event_sourced \<subseteq> replayed: inductive_invariant
  start step "\<lambda>s. reachable start step s \<and> view s = foldl apply_event init (log s)"
proof unfold_locales
  fix s l t
  assume s: "reachable start step s \<and> view s = foldl apply_event init (log s)" and "step s l t"
  with step_view [of s l t] show "reachable start step t \<and> view t = foldl apply_event init (log t)"
    by (auto intro: reachable_step)
qed (use start_view in \<open>auto intro: reachable_start\<close>)

context event_sourced
begin

lemma view_replay: "reachable start step s \<Longrightarrow> view s = foldl apply_event init (log s)"
  by (blast dest: replayed.reachable_inv)

lemma view_determined: "reachable start step s \<Longrightarrow> reachable start step t \<Longrightarrow>
    log s = log t \<Longrightarrow> view s = view t"
  by (simp add: view_replay)

end

section \<open>What each event says\<close>

fun replay_permission ::
  "(account_id \<times> account_id \<rightharpoonup> bool) \<Rightarrow> event \<Rightarrow> (account_id \<times> account_id \<rightharpoonup> bool)" where
  "replay_permission m (PermissionGranted g e b) = m((g, e) \<mapsto> b)"
| "replay_permission m _ = m"

fun replay_ledger ::
  "(account_id \<Rightarrow> account_id list) \<Rightarrow> event \<Rightarrow> (account_id \<Rightarrow> account_id list)" where
  "replay_ledger L (PermissionGranted g e b) =
     L(g := if b then L g @ [e] else remove1 e (L g))"
| "replay_ledger L _ = L"

fun replay_roles :: "(account_id \<rightharpoonup> u8) \<Rightarrow> event \<Rightarrow> (account_id \<rightharpoonup> u8)" where
  "replay_roles m (RoleAssigned a r) = m(a \<mapsto> r)"
| "replay_roles m _ = m"

fun replay_users :: "account_id set \<Rightarrow> event \<Rightarrow> account_id set" where
  "replay_users A (UserAdded a) = insert a A"
| "replay_users A _ = A"

fun replay_requests ::
  "(account_id \<Rightarrow> account_id list) \<Rightarrow> event \<Rightarrow> (account_id \<Rightarrow> account_id list)" where
  "replay_requests L (AccessRequested a b) = L(a := L a @ [b])"
| "replay_requests L _ = L"

lemma ledger_reachable:
  "reachable deployed (contract_step env) w \<Longrightarrow> ledger_inv (contract w)"
  by (rule both_forms.reachable_inv)

lemma change_permissions:
  "storage_change env s t evs \<Longrightarrow> permissions t = foldl replay_permission (permissions s) evs"
  by (induction rule: storage_change.induct) (auto simp: granted_def revoked_def Let_def)

lemma change_ledger:
  "storage_change env s t evs \<Longrightarrow> ledger_inv s \<Longrightarrow>
   get_granted_permissions t = foldl replay_ledger (get_granted_permissions s) evs"
proof (induction rule: storage_change.induct)
  case (granting s a b)
  then have "b \<notin> set (get_granted_permissions s a)" by (simp add: ledger_inv_member)
  then show ?case by (simp add: granted_queries)
qed (auto simp: revoked_queries get_granted_permissions_def fun_eq_iff)

lemma change_roles:
  "storage_change env s t evs \<Longrightarrow> roles t = foldl replay_roles (roles s) evs"
  by (induction rule: storage_change.induct) auto

lemma change_users:
  "storage_change env s t evs \<Longrightarrow> dom (users t) = foldl replay_users (dom (users s)) evs"
  by (induction rule: storage_change.induct) auto

lemma change_requests:
  "storage_change env s t evs \<Longrightarrow>
   get_access_requests t = foldl replay_requests (get_access_requests s) evs"
  by (induction rule: storage_change.induct) (auto simp: get_access_requests_def fun_eq_iff)

lemmas view_changes =
  change_permissions change_ledger change_roles change_users change_requests

lemma deployed_views:
  assumes "deployed w"
  shows "event_log w = []" "permissions (contract w) = Map.empty"
    "get_granted_permissions (contract w) = (\<lambda>_. [])" "roles (contract w) = Map.empty"
    "dom (users (contract w)) = {}" "get_access_requests (contract w) = (\<lambda>_. [])"
  using assms by (auto simp: deployed_def access_control_default_def
      get_granted_permissions_def get_access_requests_def)

section \<open>The five views of the contract\<close>

interpretation permission_events: event_sourced
  deployed "contract_step env" event_log "\<lambda>w. permissions (contract w)" Map.empty
  replay_permission for env
  by unfold_locales (auto simp: deployed_views elim!: contract_step_change dest: change_permissions)

interpretation ledger_events: event_sourced
  deployed "contract_step env" event_log "\<lambda>w. get_granted_permissions (contract w)" "\<lambda>_. []"
  replay_ledger for env
  by unfold_locales
    (auto simp: deployed_views elim!: contract_step_change dest!: ledger_reachable
      dest: change_ledger)

interpretation role_events: event_sourced
  deployed "contract_step env" event_log "\<lambda>w. roles (contract w)" Map.empty replay_roles for env
  by unfold_locales (auto simp: deployed_views elim!: contract_step_change dest: change_roles)

interpretation user_events: event_sourced
  deployed "contract_step env" event_log "\<lambda>w. dom (users (contract w))" "{}" replay_users for env
  by unfold_locales (auto simp: deployed_views elim!: contract_step_change dest: change_users)

interpretation request_events: event_sourced
  deployed "contract_step env" event_log "\<lambda>w. get_access_requests (contract w)" "\<lambda>_. []"
  replay_requests for env
  by unfold_locales (auto simp: deployed_views elim!: contract_step_change dest: change_requests)

section \<open>Properties\<close>

text \<open>
  C12. The event log determines the permissions: in every reachable world the permission map
  and the lists of grantees are what replaying the \<open>PermissionGranted\<close> events gives.
\<close>

theorem permissions_replay_log:
  assumes "reachable deployed (contract_step env) w"
  shows "permissions (contract w) = foldl replay_permission Map.empty (event_log w) \<and>
    get_granted_permissions (contract w) = foldl replay_ledger (\<lambda>_. []) (event_log w)"
  using permission_events.view_replay [OF assms] ledger_events.view_replay [OF assms] by simp

theorem permissions_replay_log_witness:
  "let w = history static_buffer_env
       [Grant_permission 1 2, Grant_permission 1 3, Revoke_permission 1 2]
   in get_granted_permissions (contract w) 1 = foldl replay_ledger (\<lambda>_. []) (event_log w) 1 \<and>
      get_granted_permissions (contract w) 1 = [3]"
proof -
  let ?ms = "[Grant_permission 1 2, Grant_permission 1 3, Revoke_permission 1 2]"
  have "get_granted_permissions (contract (history static_buffer_env ?ms)) 1 = [3]" by code_simp
  with permissions_replay_log [OF reachable_history, of static_buffer_env ?ms]
  show ?thesis by (simp add: Let_def)
qed

text \<open>
  C16. The event log also determines the roles, the set of registered accounts and every list
  of access requests of a reachable world.
\<close>

theorem registry_replays_log:
  assumes "reachable deployed (contract_step env) w"
  shows "get_role (contract w) = foldl replay_roles Map.empty (event_log w) \<and>
    {a. user_exists (contract w) a} = foldl replay_users {} (event_log w) \<and>
    get_access_requests (contract w) = foldl replay_requests (\<lambda>_. []) (event_log w)"
  using role_events.view_replay [OF assms] user_events.view_replay [OF assms]
    request_events.view_replay [OF assms]
  by (simp add: get_role_def fun_eq_iff user_exists_def dom_def)

theorem registry_replays_log_witness:
  "let w = history static_buffer_env [Add_user 1 alice 0, Assign_role 1 5, Request_access 1 2]
   in get_role (contract w) 1 = Some 5 \<and> user_exists (contract w) 1 \<and>
      get_access_requests (contract w) 1 = [2]"
proof -
  let ?ms = "[Add_user 1 alice 0, Assign_role 1 5, Request_access 1 2]"
  have l: "event_log (history static_buffer_env ?ms) =
      [RoleAssigned 1 0, UserAdded 1, RoleAssigned 1 5, AccessRequested 1 2]" by code_simp
  have u: "1 \<in> {a. user_exists (contract (history static_buffer_env ?ms)) a}" and
    r: "get_role (contract (history static_buffer_env ?ms)) 1 = Some 5" and
    q: "get_access_requests (contract (history static_buffer_env ?ms)) 1 = [2]"
    using registry_replays_log [OF reachable_history, of static_buffer_env ?ms]
    unfolding l by simp_all
  from u have "user_exists (contract (history static_buffer_env ?ms)) 1" by blast
  with r q show ?thesis by (simp only: Let_def)
qed

end
