(* ===== verification/Access_Roles.thy ===== *)
theory Access_Roles
  imports Access_Contract
begin

text \<open>
  Role separation: the contract refuses a second account of a document number with the role
  of the first one. The check is made at registration only, so the property holds in the
  worlds reached when accounts register once and roles are not reassigned
  (\<open>disciplined_step\<close>), and fails without that discipline.
\<close>

section \<open>The discipline\<close>

fun disciplined :: "access_control \<Rightarrow> message \<Rightarrow> bool" where
  "disciplined s (Add_user a u r) = (\<not> user_exists s a)"
| "disciplined s (Assign_role a r) = False"
| "disciplined s _ = True"

definition disciplined_step :: "ink_env \<Rightarrow> world \<Rightarrow> message \<Rightarrow> world \<Rightarrow> bool" where
  "disciplined_step env w m w' \<longleftrightarrow> disciplined (contract w) m \<and> contract_step env w m w'"

text \<open>
  Every account stands under its own document number only, and the two accounts of a
  document number have different roles.
\<close>

definition separated :: "access_control \<Rightarrow> bool" where
  "separated s \<longleftrightarrow>
     registry_inv s \<and>
     (\<forall>a d. a \<in> set (get_accounts s d) \<longrightarrow> (\<exists>u. users s a = Some u \<and> dni u = d)) \<and>
     (\<forall>d a b. get_accounts s d = [a, b] \<longrightarrow> a \<noteq> b \<and> roles s a \<noteq> roles s b)"

lemma separated_registry: "separated s \<Longrightarrow> registry_inv s"
  by (simp add: separated_def)

lemma separated_home:
  "separated s \<Longrightarrow> a \<in> set (get_accounts s d) \<Longrightarrow> \<exists>u. users s a = Some u \<and> dni u = d"
  by (simp add: separated_def)

lemma separated_pair:
  "separated s \<Longrightarrow> get_accounts s d = [a, b] \<Longrightarrow> a \<noteq> b \<and> roles s a \<noteq> roles s b"
  by (simp add: separated_def)

lemma separated_cong:
  "accounts t = accounts s \<Longrightarrow> users t = users s \<Longrightarrow> roles t = roles s \<Longrightarrow>
   separated t = separated s"
  by (simp add: separated_def registry_inv_def get_accounts_def slots_of_def)

lemma separated_default: "separated access_control_default"
  by (simp add: separated_def invariants_default)
    (simp add: access_control_default_def get_accounts_def slots_of_def no_slots_def)

lemma separated_registered:
  assumes sep: "separated s" and ready: "add_user_ready s u r" and new: "\<not> user_exists s a"
  shows "separated (registered s a u r)"
proof -
  let ?t = "registered s a u r"
  note reg = separated_registry [OF sep]
  have fresh: "a \<notin> set (get_accounts s d)" for d
    using registry_listed [OF reg, of a d] new by (auto simp: user_exists_def)
  have home: "\<exists>v. users ?t b = Some v \<and> dni v = d" if "b \<in> set (get_accounts ?t d)" for b d
    using that separated_home [OF sep, of b d] fresh [of d]
    by (auto simp: get_accounts_registered [OF reg ready] split: if_splits)
  have pair: "b \<noteq> c \<and> roles ?t b \<noteq> roles ?t c" if bc: "get_accounts ?t d = [b, c]" for b c d
  proof (cases "d = dni u")
    case False
    with bc have "get_accounts s d = [b, c]"
      by (simp add: get_accounts_registered [OF reg ready])
    with separated_pair [OF sep this] fresh [of d] show ?thesis by auto
  next
    case True
    with bc have l: "get_accounts s d = [b]" and c: "c = a"
      by (auto simp: get_accounts_registered [OF reg ready] append_eq_Cons_conv)
    have "b \<noteq> a" using fresh [of d] l by auto
    moreover have "roles s b \<noteq> Some r"
    proof -
      have "unwrap_or (roles s b) 2 \<noteq> r" using ready l True by (simp add: add_user_ready_def)
      then show ?thesis by auto
    qed
    ultimately show ?thesis by (auto simp: c)
  qed
  from registry_inv_registered [OF reg ready] home pair show ?thesis
    unfolding separated_def by blast
qed

lemma add_user_separated:
  assumes "separated s" "\<not> user_exists s a" "add_user env s a u r = Returned x s' evs"
  shows "separated s'"
proof (cases x)
  case (Inl e)
  with assms add_user_Returned_error [of env s a u r e s' evs] show ?thesis by auto
next
  case (Inr y)
  with assms show ?thesis by (auto simp: add_user_Returned_ok intro: separated_registered)
qed

lemma separated_other_writes [simp]:
  "separated (granted s g e) = separated s"
  "separated (revoked s g e) = separated s"
  "separated (s\<lparr>access_requests := Q\<rparr>) = separated s"
  by (rule separated_cong; simp)+

lemma run_message_separated:
  "separated s \<Longrightarrow> disciplined s m \<Longrightarrow> run_message env m s = Returned r s' evs \<Longrightarrow> separated s'"
  by (cases m)
    (auto simp: map_outcome_eq_Returned grant_permission_eq revoke_permission_eq
      intro: add_user_separated split: if_splits)

interpretation separation: inductive_invariant
  deployed "disciplined_step env" "\<lambda>w. separated (contract w)" for env
  by unfold_locales
    (auto simp: deployed_def separated_default disciplined_step_def contract_step_simps
      intro: run_message_separated)

section \<open>Two registrations fill a document\<close>

text \<open>The entries of a person fit the environment: document number, record and role.\<close>

definition room_for :: "ink_env \<Rightarrow> user_info \<Rightarrow> bool" where
  "room_for env u \<longleftrightarrow>
     (\<forall>sl. cell_fits env (Cell_accounts (dni u) sl)) \<and> (\<forall>a. cell_fits env (Cell_users a u)) \<and>
     (\<forall>a r. cell_fits env (Cell_roles a r))"

lemma room_for_registration: "room_for env u \<Longrightarrow> registration_fits env s a u r"
  unfolding room_for_def registration_fits_def by blast

lemma room_for_static_buffer:
  assumes "valid_user_info u" "length (email u) \<le> 16000"
  shows "room_for static_buffer_env u"
proof -
  have "slot_bytes x \<le> 33" for x by (cases x) simp_all
  from add_mono [OF this this] have "slot_bytes x + slot_bytes y \<le> 33 + 33" for x y .
  from order_trans [OF this] have "slot_bytes x + slot_bytes y \<le> 16375" for x y by simp
  with assms show ?thesis
    by (auto simp: room_for_def valid_user_info_def vec_bytes_def add.assoc)
qed

lemma two_registrations:
  assumes "registry_inv s" "room_for env u"
    and "valid_user_info u" "get_accounts s (dni u) = []" "r \<noteq> r'"
  shows "add_user env s a u r =
      Returned (Inr ()) (registered s a u r) [RoleAssigned a r, UserAdded a]"
    and "add_user env (registered s a u r) b u r' =
      Returned (Inr ()) (registered (registered s a u r) b u r') [RoleAssigned b r', UserAdded b]"
    and "get_accounts (registered (registered s a u r) b u r') (dni u) = [a, b]"
proof -
  let ?s1 = "registered s a u r"
  have fits: "registration_fits env t c u q" for t c q
    by (rule room_for_registration [OF assms(2)])
  have r1: "add_user_ready s u r" using assms(3,4) by (simp add: add_user_ready_def)
  have l1: "get_accounts ?s1 (dni u) = [a]"
    by (simp add: get_accounts_registered [OF assms(1) r1] assms(4))
  have r2: "add_user_ready ?s1 u r'" using assms(3,5) l1 by (simp add: add_user_ready_def)
  show "get_accounts (registered ?s1 b u r') (dni u) = [a, b]"
    by (simp add: get_accounts_registered [OF registry_inv_registered [OF assms(1) r1] r2] l1)
  show "add_user env s a u r = Returned (Inr ()) ?s1 [RoleAssigned a r, UserAdded a]"
    "add_user env ?s1 b u r' =
      Returned (Inr ()) (registered ?s1 b u r') [RoleAssigned b r', UserAdded b]"
    using r1 r2 by (simp_all add: add_user_success fits)
qed

section \<open>Properties\<close>

text \<open>
  C18. Role separation: when accounts register once and roles are not reassigned, the two
  accounts of a document number are different accounts with different roles.
\<close>

theorem roles_separated:
  assumes "reachable deployed (disciplined_step env) w"
    and "get_accounts (contract w) d = [a, b]"
  shows "a \<noteq> b \<and> get_role (contract w) a \<noteq> get_role (contract w) b"
  using separated_pair [OF separation.reachable_inv [OF assms(1)] assms(2)]
  by (simp add: get_role_def)

lemma disciplined_deliver:
  "reachable deployed (disciplined_step env) w \<Longrightarrow> disciplined (contract w) m \<Longrightarrow>
   reachable deployed (disciplined_step env) (deliver env w m)"
  by (auto simp: disciplined_step_def contract_step_deliver intro: reachable_step)

theorem roles_separated_witness:
  "let w = history static_buffer_env [Add_user 1 alice 0, Add_user 2 alice 1]
   in get_accounts (contract w) (dni alice) = [1, 2] \<and>
      get_role (contract w) 1 \<noteq> get_role (contract w) 2"
proof -
  let ?env = static_buffer_env
  let ?w0 = "history ?env []"
  let ?w1 = "deliver ?env ?w0 (Add_user 1 alice 0)"
  let ?w2 = "deliver ?env ?w1 (Add_user 2 alice 1)"
  have "deployed ?w0" by (simp add: history_def deployed_def fresh_world_def)
  then have "reachable deployed (disciplined_step ?env) ?w0" by (rule reachable_start)
  moreover have "disciplined (contract ?w0) (Add_user 1 alice 0)"
    "disciplined (contract ?w1) (Add_user 2 alice 1)" by code_simp+
  ultimately have r: "reachable deployed (disciplined_step ?env) ?w2"
    by (intro disciplined_deliver)
  have a: "get_accounts (contract ?w2) (dni alice) = [1, 2]" by code_simp
  from roles_separated [OF r a] a show ?thesis by (simp add: Let_def history_def)
qed

text \<open>
  C19. Nothing in the contract enforces the discipline: in any reachable world, valid data with
  a document number that has no account and with entries that fit the environment can be
  registered for two different accounts with two different roles, and an \<open>assign_role\<close> then
  gives both the same role; all three messages are answered without an error.
\<close>

theorem assign_role_breaks_separation:
  assumes "reachable deployed (contract_step env) w" and "room_for env u"
    and "valid_user_info u" "get_accounts (contract w) (dni u) = []" "a \<noteq> b" "r \<noteq> r'"
  shows "\<exists>s1 s2 s3 e1 e2 e3 t.
    add_user env (contract w) a u r = Returned (Inr ()) s1 e1 \<and>
    add_user env s1 b u r' = Returned (Inr ()) s2 e2 \<and>
    assign_role env s2 b r = Returned t s3 e3 \<and>
    get_accounts s3 (dni u) = [a, b] \<and> get_role s3 a = get_role s3 b"
proof -
  let ?s2 = "registered (registered (contract w) a u r) b u r'"
  note two = two_registrations [OF registry.reachable_inv [OF assms(1)] assms(2,3,4,6)]
  have "get_accounts (?s2\<lparr>roles := (roles ?s2)(b \<mapsto> r)\<rparr>) (dni u) = [a, b]"
    using two(3) by (simp add: get_accounts_def slots_of_def)
  with assms(2,5) show ?thesis by (auto simp: two(1,2) get_role_def room_for_def)
qed

theorem assign_role_breaks_separation_witness:
  "\<exists>s a b. get_accounts s (dni alice) = [a, b] \<and> a \<noteq> b \<and> get_role s a = get_role s b"
proof -
  have v: "valid_user_info alice" and e: "length (email alice) \<le> 16000" by code_simp+
  note f = room_for_static_buffer [OF v e]
  have n: "get_accounts (contract (history static_buffer_env [])) (dni alice) = []" by code_simp
  have ab: "(1 :: account_id) \<noteq> 2" and rr: "(0 :: u8) \<noteq> 1" by simp_all
  from assign_role_breaks_separation [OF reachable_history f v n ab rr] ab show ?thesis by blast
qed

text \<open>
  Registering the same account twice under one document number with two roles is not
  refused: the account takes both slots, so the document number has one account with one
  role while its two slots are full.
\<close>

theorem same_account_takes_both_slots:
  assumes "reachable deployed (contract_step env) w" and "room_for env u"
    and "valid_user_info u" "get_accounts (contract w) (dni u) = []" "r \<noteq> r'"
  shows "\<exists>s1 s2 e1 e2.
    add_user env (contract w) a u r = Returned (Inr ()) s1 e1 \<and>
    add_user env s1 a u r' = Returned (Inr ()) s2 e2 \<and>
    get_accounts s2 (dni u) = [a, a] \<and> get_role s2 a = Some r'"
  by (auto simp: two_registrations [OF registry.reachable_inv [OF assms(1)] assms(2-5)] get_role_def)

theorem same_account_takes_both_slots_witness:
  "\<exists>s a. get_accounts s (dni alice) = [a, a] \<and> get_role s a = Some 1"
proof -
  have v: "valid_user_info alice" and e: "length (email alice) \<le> 16000" by code_simp+
  note f = room_for_static_buffer [OF v e]
  have n: "get_accounts (contract (history static_buffer_env [])) (dni alice) = []" by code_simp
  have rr: "(0 :: u8) \<noteq> 1" by simp
  from same_account_takes_both_slots [OF reachable_history f v n rr] show ?thesis by blast
qed

end
