(* ===== verification/Access_Limits.thy ===== *)
theory Access_Limits
  imports Access_Events
begin

text \<open>
  What the bounded buffer of the contract environment does to a storage whose lists grow:
  every stored value fits the buffer, a full list of requests blocks its requester for ever,
  and a permission that was granted can always be revoked. The facts about the environment
  the lemmas need are gathered in \<open>monotone_env\<close>: a shorter list fits where a longer one
  does, and the two booleans take the same room.
\<close>

definition monotone_env :: "ink_env \<Rightarrow> bool" where
  "monotone_env env \<longleftrightarrow>
     (\<forall>g xs ys. length xs \<le> length ys \<longrightarrow>
        (cell_fits env (Cell_grantees g ys) \<longrightarrow> cell_fits env (Cell_grantees g xs)) \<and>
        (cell_fits env (Cell_requests g ys) \<longrightarrow> cell_fits env (Cell_requests g xs))) \<and>
     (\<forall>p b c. cell_fits env (Cell_permissions p b) = cell_fits env (Cell_permissions p c))"

lemma monotone_static_buffer: "monotone_env static_buffer_env"
  by (auto simp: monotone_env_def static_buffer_env_def vec_bytes_def)

section \<open>Stored lists fit\<close>

definition lists_fit :: "ink_env \<Rightarrow> access_control \<Rightarrow> bool" where
  "lists_fit env s \<longleftrightarrow>
     (\<forall>g l. grantees s g = Some l \<longrightarrow> cell_fits env (Cell_grantees g l)) \<and>
     (\<forall>g l. access_requests s g = Some l \<longrightarrow> cell_fits env (Cell_requests g l)) \<and>
     (\<forall>p b. permissions s p = Some b \<longrightarrow> cell_fits env (Cell_permissions p b))"

lemma lists_fit_cong:
  "grantees t = grantees s \<Longrightarrow> access_requests t = access_requests s \<Longrightarrow>
   permissions t = permissions s \<Longrightarrow> lists_fit env t = lists_fit env s"
  by (simp add: lists_fit_def)

lemma lists_fit_granted:
  "lists_fit env s \<Longrightarrow> grant_fits env s g e \<Longrightarrow> lists_fit env (granted s g e)"
  by (auto simp: lists_fit_def granted_def grant_fits_def Let_def)

lemma lists_fit_revoked:
  "lists_fit env s \<Longrightarrow> revoke_fits env s g e \<Longrightarrow> lists_fit env (revoked s g e)"
  by (auto simp: lists_fit_def revoked_def revoke_fits_def Let_def)

lemma storage_change_fits:
  "storage_change env s t evs \<Longrightarrow> lists_fit env s \<Longrightarrow> lists_fit env t"
proof (induction rule: storage_change.induct)
  case (registering s u r a)
  then show ?case by (simp add: lists_fit_cong [of "registered s a u r" s])
next
  case (assigning a r s)
  then show ?case by (simp add: lists_fit_def)
next
  case (requesting a s b)
  then show ?case by (auto simp: lists_fit_def)
qed (simp_all add: lists_fit_granted lists_fit_revoked)

interpretation buffered: inductive_invariant
  deployed "contract_step env" "\<lambda>w. lists_fit env (contract w)" for env
proof unfold_locales
  show "lists_fit env (contract w)" if "deployed w" for w
    using that by (simp add: deployed_def lists_fit_def access_control_default_def)
qed (auto elim: contract_step_change intro: storage_change_fits)

section \<open>Growth\<close>

lemma requests_grow:
  "storage_change env s t evs \<Longrightarrow>
   length (get_access_requests s r) \<le> length (get_access_requests t r)"
  by (induction rule: storage_change.induct) (auto simp: get_access_requests_def)

lemma execution_requests_grow:
  "execution (contract_step env) w ms w' \<Longrightarrow>
   length (get_access_requests (contract w) r) \<le> length (get_access_requests (contract w') r)"
proof (induction rule: execution.induct)
  case (execution_Cons w m w1 ms w2)
  from execution_Cons.hyps(1) obtain evs where "storage_change env (contract w) (contract w1) evs"
    by (rule contract_step_change)
  from requests_grow [OF this, of r] execution_Cons.IH show ?case by simp
qed simp

fun requested_by :: "account_id \<Rightarrow> event \<Rightarrow> bool" where
  "requested_by a (AccessRequested r t) \<longleftrightarrow> r = a"
| "requested_by a _ \<longleftrightarrow> False"

lemma length_replay_requests:
  "length (foldl replay_requests L evs a) = length (L a) + length (filter (requested_by a) evs)"
proof (induction evs arbitrary: L)
  case (Cons e evs)
  then show ?case by (cases e) auto
qed simp

lemma users_grow:
  "storage_change env s t evs \<Longrightarrow> dom (users s) \<subseteq> dom (users t)"
  by (induction rule: storage_change.induct) auto

lemma accounts_grow:
  "storage_change env s t evs \<Longrightarrow> registry_inv s \<Longrightarrow>
   \<exists>more. get_accounts t d = get_accounts s d @ more"
proof (induction rule: storage_change.induct)
  case (registering s u r a)
  then show ?case by (simp add: get_accounts_registered)
qed (auto simp: get_accounts_def slots_of_def)

lemma request_access_Trapped:
  "request_access env s r t = Trapped \<longleftrightarrow>
     \<not> cell_fits env (Cell_requests r (get_access_requests s r @ [t]))"
  by (simp add: request_access_def get_access_requests_def Let_def)

lemma monotone_revoke_fits:
  assumes "monotone_env env" "lists_fit env s" "has_permission s g e"
  shows "revoke_fits env s g e"
proof -
  have "permissions s (g, e) = Some True"
    using assms(3) by (simp add: has_permission_def unwrap_or_False)
  then have "cell_fits env (Cell_permissions (g, e) True)"
    using assms(2) by (simp add: lists_fit_def)
  then have p: "cell_fits env (Cell_permissions (g, e) False)"
    using assms(1) unfolding monotone_env_def by blast
  have "cell_fits env (Cell_grantees g (remove1 e l))"
    if "e \<in> set l" "l = get_granted_permissions s g" for l
  proof -
    from that have "grantees s g = Some l"
      by (cases "grantees s g") (auto simp: get_granted_permissions_def)
    then have "cell_fits env (Cell_grantees g l)" using assms(2) by (simp add: lists_fit_def)
    moreover have "length (remove1 e l) \<le> length l" by (simp add: length_remove1)
    ultimately show ?thesis using assms(1) unfolding monotone_env_def by blast
  qed
  with p show ?thesis by (auto simp: revoke_fits_def)
qed

section \<open>Properties\<close>

text \<open>
  C23. A permission that was granted can be revoked: in a reachable world of an environment
  where shorter lists fit whenever longer ones do, \<open>revoke_permission\<close> of a permission that
  is held never traps and never fails, and the permission is gone afterwards.
\<close>

theorem granted_permission_is_revocable:
  assumes "monotone_env env" "reachable deployed (contract_step env) w"
    and "has_permission (contract w) g e"
  shows "\<exists>s'. revoke_permission env (contract w) g e =
      Returned (Inr ()) s' [PermissionGranted g e False] \<and> \<not> has_permission s' g e"
  using monotone_revoke_fits [OF assms(1) buffered.reachable_inv [OF assms(2)] assms(3)] assms(3)
  by (simp add: revoke_permission_eq revoked_queries)

theorem granted_permission_is_revocable_witness:
  "let w = history static_buffer_env [Grant_permission 1 2]
   in \<exists>s'. revoke_permission static_buffer_env (contract w) 1 2 =
        Returned (Inr ()) s' [PermissionGranted 1 2 False]"
proof -
  have "has_permission (contract (history static_buffer_env [Grant_permission 1 2])) 1 2"
    by code_simp
  from granted_permission_is_revocable [OF monotone_static_buffer reachable_history this]
  show ?thesis by (auto simp: Let_def)
qed

text \<open>
  C24. Requests are never removed, so a requester whose list has filled the buffer is blocked
  for good: once \<open>request_access\<close> traps for a requester, it traps after every further
  sequence of messages, whatever the target.
\<close>

theorem full_requests_block_for_ever:
  assumes "monotone_env env"
    and "request_access env (contract w) r t = Trapped"
    and "execution (contract_step env) w ms w'"
  shows "request_access env (contract w') r t' = Trapped"
proof -
  have "length (get_access_requests (contract w) r @ [t]) \<le>
      length (get_access_requests (contract w') r @ [t'])"
    using execution_requests_grow [OF assms(3)] by simp
  with assms(1,2) show ?thesis
    unfolding request_access_Trapped monotone_env_def by blast
qed

text \<open>An environment with room for one entry per list, to fill a list in one message.\<close>

definition tiny_env :: ink_env where
  "tiny_env = \<lparr>cell_fits = (\<lambda>c. cell_bytes c \<le> 65), debug_account = (\<lambda>_. [])\<rparr>"

theorem full_requests_block_for_ever_witness:
  "let w = history tiny_env [Request_access 1 2]
   in request_access tiny_env (contract (deliver tiny_env w (Request_access 3 4))) 1 5 = Trapped"
proof -
  let ?w = "history tiny_env [Request_access 1 2]"
  have m: "monotone_env tiny_env" by (auto simp: monotone_env_def tiny_env_def vec_bytes_def)
  have "\<not> cell_fits tiny_env (Cell_requests 1 (get_access_requests (contract ?w) 1 @ [3]))"
    by code_simp
  then have t: "request_access tiny_env (contract ?w) 1 3 = Trapped"
    by (simp only: request_access_Trapped not_False_eq_True)
  have e: "execution (contract_step tiny_env) ?w [Request_access 3 4]
      (deliver tiny_env ?w (Request_access 3 4))"
    by (rule execution_deliver)
  from full_requests_block_for_ever [OF m t e, of 5] show ?thesis by (simp add: Let_def)
qed

text \<open>
  C25. A buffer of \<open>cap\<close> bytes bounds the permissions a granter can hold open and the requests
  a requester can ever make: in an environment where a stored list of \<open>n\<close> accounts needs
  \<open>32 * n\<close> bytes, in every reachable world the list of grantees names each account that holds a
  permission of the granter once and no other, so that these are at most \<open>cap div 32\<close>; and the
  list of requests has one entry for each \<open>AccessRequested\<close> event of the requester in the log,
  so that there have been at most \<open>cap div 32\<close> of them.
\<close>

theorem lists_bounded_by_buffer:
  assumes "reachable deployed (contract_step env) w"
    and "\<And>g l. cell_fits env (Cell_grantees g l) \<Longrightarrow> 32 * length l \<le> cap"
    and "\<And>g l. cell_fits env (Cell_requests g l) \<Longrightarrow> 32 * length l \<le> cap"
  shows "distinct (get_granted_permissions (contract w) a) \<and>
    set (get_granted_permissions (contract w) a) = {e. has_permission (contract w) a e} \<and>
    length (get_granted_permissions (contract w) a) = card {e. has_permission (contract w) a e} \<and>
    card {e. has_permission (contract w) a e} \<le> cap div 32 \<and>
    length (get_access_requests (contract w) a) =
      length (filter (requested_by a) (event_log w)) \<and>
    length (filter (requested_by a) (event_log w)) \<le> cap div 32"
proof -
  have fit: "lists_fit env (contract w)" by (rule buffered.reachable_inv [OF assms(1)])
  note inv = both_forms.reachable_inv [OF assms(1)]
  have "32 * length (get_granted_permissions (contract w) a) \<le> cap"
  proof (cases "grantees (contract w) a")
    case (Some l)
    with fit assms(2) [of a l] show ?thesis by (simp add: lists_fit_def get_granted_permissions_def)
  qed (simp add: get_granted_permissions_def)
  moreover have "32 * length (get_access_requests (contract w) a) \<le> cap"
  proof (cases "access_requests (contract w) a")
    case (Some l)
    with fit assms(3) [of a l] show ?thesis by (simp add: lists_fit_def get_access_requests_def)
  qed (simp add: get_access_requests_def)
  moreover have "length (get_access_requests (contract w) a) =
      length (filter (requested_by a) (event_log w))"
    by (simp add: request_events.view_replay [OF assms(1)] length_replay_requests)
  moreover have "n \<le> cap div 32" if "32 * n \<le> cap" for n :: nat
    using that by (simp add: less_eq_div_iff_mult_less_eq mult.commute)
  ultimately show ?thesis
    using ledger.listed_card [OF inv, of a] ledger.inv_listed [OF inv, of a] by metis
qed

theorem lists_bounded_by_buffer_witness:
  "let w = history static_buffer_env
       [Grant_permission 1 2, Grant_permission 1 3, Request_access 1 2, Request_access 1 2]
   in card {e. has_permission (contract w) 1 e} \<le> 16384 div 32 \<and>
      length (get_access_requests (contract w) 1) = 2"
proof -
  let ?ms = "[Grant_permission 1 2, Grant_permission 1 3, Request_access 1 2, Request_access 1 2]"
  have "32 * length l \<le> 16384" if "cell_fits static_buffer_env (Cell_grantees g l)" for g l
    using that by (simp add: vec_bytes_def split: if_splits)
  moreover have "32 * length l \<le> 16384" if "cell_fits static_buffer_env (Cell_requests g l)" for g l
    using that by (simp add: vec_bytes_def split: if_splits)
  moreover have "length (filter (requested_by 1) (event_log (history static_buffer_env ?ms))) = 2"
    by code_simp
  ultimately show ?thesis
    using lists_bounded_by_buffer [OF reachable_history [of static_buffer_env ?ms], of 16384 1]
    unfolding Let_def by metis
qed

text \<open>
  Registrations are permanent: no sequence of messages removes a user, and a document
  number that has two accounts keeps exactly these two, in this order.
\<close>

theorem registrations_are_permanent:
  assumes "reachable deployed (contract_step env) w" and "execution (contract_step env) w ms w'"
  shows "(user_exists (contract w) a \<longrightarrow> user_exists (contract w') a) \<and>
    (length (get_accounts (contract w) d) = 2 \<longrightarrow>
       get_accounts (contract w') d = get_accounts (contract w) d)"
proof -
  have "dom (users (contract w)) \<subseteq> dom (users (contract w')) \<and>
      (\<exists>more. get_accounts (contract w') d = get_accounts (contract w) d @ more)"
    using assms(2,1)
  proof (induction rule: execution.induct)
    case (execution_Cons w m w1 ms w2)
    from execution_Cons.hyps(1) obtain evs where c: "storage_change env (contract w) (contract w1) evs"
      by (rule contract_step_change)
    have "reachable deployed (contract_step env) w1"
      using execution_Cons.prems execution_Cons.hyps(1) by (rule reachable_step)
    with execution_Cons.IH users_grow [OF c]
      accounts_grow [OF c registry.reachable_inv [OF execution_Cons.prems], of d]
    show ?case by fastforce
  qed simp
  moreover have "length (get_accounts (contract w') d) \<le> 2"
    by (simp add: get_accounts_def length_filled_slots)
  ultimately show ?thesis by (auto simp: user_exists_def)
qed

theorem registrations_are_permanent_witness:
  "let w = history static_buffer_env [Add_user 1 alice 0];
       w' = deliver static_buffer_env w (Add_user 1 alice 1)
   in user_exists (contract w') 1"
proof -
  let ?w = "history static_buffer_env [Add_user 1 alice 0]"
  have e: "execution (contract_step static_buffer_env) ?w [Add_user 1 alice 1]
      (deliver static_buffer_env ?w (Add_user 1 alice 1))"
    by (rule execution_deliver)
  have "user_exists (contract ?w) 1" by code_simp
  with registrations_are_permanent [OF reachable_history e] show ?thesis by (simp add: Let_def)
qed

end
