(* ===== verification/Access_Replies.thy ===== *)
theory Access_Replies
  imports Access_Contract
begin

text \<open>
  The reply of \<open>assign_role\<close>, which is a text for a person or a client program
  (\<open>smart_contract/lib.rs\<close>): a reader of the text recovers the role that was stored.
\<close>

section \<open>Reading a decimal\<close>

definition digit_value :: "char \<Rightarrow> nat option" where
  "digit_value c =
     (let v = of_char c :: nat in if 48 \<le> v \<and> v \<le> 57 then Some (v - 48) else None)"

fun read_decimal :: "nat \<Rightarrow> string \<Rightarrow> nat" where
  "read_decimal acc [] = acc"
| "read_decimal acc (c # cs) =
     (case digit_value c of Some d \<Rightarrow> read_decimal (10 * acc + d) cs | None \<Rightarrow> acc)"

lemma digit_value_digit: "d < 10 \<Longrightarrow> digit_value (char_of (48 + d)) = Some d"
  by (simp add: digit_value_def Let_def)

lemma read_show:
  "read_decimal acc (show_decimal n @ rest) =
     read_decimal (acc * 10 ^ length (show_decimal n) + n) rest"
proof (induction n arbitrary: acc rest rule: show_decimal.induct)
  case (1 n)
  show ?case
  proof (cases "n < 10")
    case True
    then show ?thesis by (subst (1 2) show_decimal.simps) (simp add: digit_value_digit mult.commute)
  next
    case False
    have "10 * (acc * 10 ^ length (show_decimal (n div 10)) + n div 10) + n mod 10 =
        acc * 10 ^ Suc (length (show_decimal (n div 10))) + n"
      by (simp add: algebra_simps)
    with False "1.IH" [OF False] show ?thesis
      by (subst (1 2) show_decimal.simps) (simp add: digit_value_digit algebra_simps)
  qed
qed

lemma length_show_decimal: "n < 1000 \<Longrightarrow> length (show_decimal n) \<le> 3"
  by (subst show_decimal.simps, subst show_decimal.simps, subst show_decimal.simps) auto

section \<open>The reply\<close>

definition reply_role :: "string \<Rightarrow> nat" where
  "reply_role msg = read_decimal 0 (drop (length ''Rol '') msg)"

text \<open>
  C22. Round trip of the reply of \<open>assign_role\<close>: the number read from the text it returns is the
  role that \<open>get_role\<close> reports for the account afterwards, for every one of the 256 roles and
  whatever the environment prints for the account, so replies about different roles differ.
\<close>
theorem reply_tells_role:
  assumes "assign_role env s account role = Returned msg t evs"
  shows "reply_role msg = unat role \<and>
    map_option unat (get_role t account) = Some (reply_role msg)"
proof -
  have shape: "msg = ''Rol '' @ show_u8 role @ '' asignado a la cuenta '' @ debug_account env account"
    and "get_role t account = Some role"
    using assms by (auto simp: assign_role_def insert_cell_def get_role_def split: if_splits)
  have "reply_role msg =
      read_decimal 0 (show_decimal (unat role) @
        CHR '' '' # ''asignado a la cuenta '' @ debug_account env account)"
    by (simp add: reply_role_def shape show_u8_def)
  also have "\<dots> = unat role"
    by (simp add: read_show digit_value_def)
  finally show ?thesis using \<open>get_role t account = Some role\<close> by simp
qed

theorem reply_tells_role_witness:
  "\<exists>msg t evs. assign_role static_buffer_env access_control_default 7 255 = Returned msg t evs \<and>
     reply_role msg = 255"
proof -
  obtain msg t evs where r:
    "assign_role static_buffer_env access_control_default 7 255 = Returned msg t evs"
    by (simp add: assign_role_def insert_cell_def)
  from r reply_tells_role [OF r] show ?thesis by auto
qed

end
