(* ===== verification/Access_Writes.thy ===== *)
theory Access_Writes
  imports Access_Contract
begin

text \<open>
  The storage writes of each message of \<open>smart_contract/lib.rs\<close>, in the order it makes them,
  and what follows from them: a message returns exactly if what it reads and writes fits, and
  then the writes are all it changed; in a reachable world every stored cell fits. The contract has no other way to stop: the guards answer, the loops run over
  vectors it has read, and the index it removes at is the one it has found.
\<close>

section \<open>Writes\<close>

fun writes :: "access_control \<Rightarrow> message \<Rightarrow> cell list" where
  "writes s (Add_user a u r) =
     (if add_user_ready s u r
      then [Cell_accounts (dni u) (place_account (slots_of s (dni u)) a), Cell_users a u,
            Cell_roles a r]
      else [])"
| "writes s (Assign_role a r) = [Cell_roles a r]"
| "writes s (Request_access a b) = [Cell_requests a (get_access_requests s a @ [b])]"
| "writes s (Grant_permission a b) =
     (if has_permission s a b then []
      else Cell_permissions (a, b) True #
        (if b \<in> set (get_granted_permissions s a) then []
         else [Cell_grantees a (get_granted_permissions s a @ [b])]))"
| "writes s (Revoke_permission a b) =
     (if \<not> has_permission s a b then []
      else Cell_permissions (a, b) False #
        (if b \<notin> set (get_granted_permissions s a) then []
         else [Cell_grantees a (remove1 b (get_granted_permissions s a))]))"
| "writes s _ = []"

definition apply_writes :: "cell list \<Rightarrow> access_control \<Rightarrow> access_control" where
  "apply_writes cs s = fold put cs s"

lemma apply_writes_simps [simp]:
  "apply_writes [] s = s" "apply_writes (c # cs) s = apply_writes cs (put c s)"
  by (simp_all add: apply_writes_def)

lemma registered_writes:
  "registered s a u r =
     apply_writes [Cell_accounts (dni u) (place_account (slots_of s (dni u)) a), Cell_users a u,
       Cell_roles a r] s"
  by (simp add: registered_def)

lemma granted_writes:
  "\<not> has_permission s a b \<Longrightarrow> granted s a b = apply_writes (writes s (Grant_permission a b)) s"
  by (simp add: granted_def Let_def)

lemma revoked_writes:
  "has_permission s a b \<Longrightarrow> revoked s a b = apply_writes (writes s (Revoke_permission a b)) s"
  by (simp add: revoked_def Let_def)

lemma dispatch_writes:
  "\<exists>r evs. dispatch env m s =
     (if list_all (cell_fits env) (writes s m)
      then Returned r (apply_writes (writes s m) s) evs else Trapped)"
proof (cases m)
  case (Add_user a u q)
  show ?thesis
  proof (cases "add_user_ready s u q")
    case True
    with Add_user show ?thesis
      by (simp add: add_user_success registration_fits_def registered_writes)
  next
    case False
    then obtain e where "add_user env s a u q = Returned (Inl e) s []" by (rule add_user_failure)
    with Add_user False show ?thesis by simp
  qed
next
  case (Grant_permission a b)
  then show ?thesis
    by (cases "has_permission s a b")
      (auto simp: grant_permission_eq grant_fits_def granted_writes simp del: apply_writes_simps(2))
next
  case (Revoke_permission a b)
  then show ?thesis
    by (cases "has_permission s a b")
      (auto simp: revoke_permission_eq revoke_fits_def revoked_writes simp del: apply_writes_simps(2))
qed (simp_all add: assign_role_def request_access_def get_access_requests_def insert_cell_def
      Let_def)

lemma run_message_writes:
  "\<exists>r evs. run_message env m s =
     (if list_all (cell_fits env) (reads s m @ writes s m)
      then Returned r (apply_writes (writes s m) s) evs else Trapped)"
  using dispatch_writes [of env m s] by (auto simp: run_message_def)

section \<open>What is stored can be read\<close>

fun stored :: "access_control \<Rightarrow> cell \<Rightarrow> bool" where
  "stored s (Cell_accounts k v) \<longleftrightarrow> accounts s k = Some v"
| "stored s (Cell_users k v) \<longleftrightarrow> users s k = Some v"
| "stored s (Cell_roles k v) \<longleftrightarrow> roles s k = Some v"
| "stored s (Cell_permissions k v) \<longleftrightarrow> permissions s k = Some v"
| "stored s (Cell_grantees k v) \<longleftrightarrow> grantees s k = Some v"
| "stored s (Cell_requests k v) \<longleftrightarrow> access_requests s k = Some v"

definition storage_fits :: "ink_env \<Rightarrow> access_control \<Rightarrow> bool" where
  "storage_fits env s \<longleftrightarrow> (\<forall>c. stored s c \<longrightarrow> cell_fits env c)"

lemma stored_put: "stored (put c s) c' \<Longrightarrow> c' = c \<or> stored s c'"
  by (induction c s rule: put.induct; induction c'; simp split: if_split_asm)

lemma storage_fits_apply:
  "storage_fits env s \<Longrightarrow> list_all (cell_fits env) cs \<Longrightarrow> storage_fits env (apply_writes cs s)"
proof (induction cs arbitrary: s)
  case (Cons c cs)
  then have "storage_fits env (put c s)"
    using stored_put [of c s] unfolding storage_fits_def list_all_iff by auto
  with Cons show ?case by simp
qed simp

lemma run_message_fits:
  assumes "storage_fits env s" "run_message env m s = Returned r t evs"
  shows "storage_fits env t"
proof -
  have "t = apply_writes (writes s m) s" "list_all (cell_fits env) (writes s m)"
    using run_message_writes [of env m s] assms(2)
    by (auto simp del: run_message_Returned split: if_splits)
  with storage_fits_apply [OF assms(1)] show ?thesis by simp
qed

interpretation fitting: inductive_invariant
  deployed "contract_step env" "\<lambda>w. storage_fits env (contract w)" for env
proof unfold_locales
  show "storage_fits env (contract w)" if "deployed w" for w
  proof -
    have "\<not> stored (contract w) c" for c
      using that by (cases c) (simp_all add: deployed_def access_control_default_def)
    then show ?thesis by (simp add: storage_fits_def)
  qed
next
  fix w m w'
  assume fits: "storage_fits env (contract w)" and step: "contract_step env w m w'"
  from step show "storage_fits env (contract w')"
  proof cases
    case (step_returned r s evs)
    from run_message_fits [OF fits step_returned(2)] step_returned(1) show ?thesis by simp
  qed (use fits in simp)
qed

lemma stored_cell_stored:
  "c \<in> set (stored_cell (Cell_users a) (users s a)) \<Longrightarrow> stored s c"
  "c \<in> set (stored_cell (Cell_roles a) (roles s a)) \<Longrightarrow> stored s c"
  "c \<in> set (stored_cell (Cell_permissions p) (permissions s p)) \<Longrightarrow> stored s c"
  "c \<in> set (stored_cell (Cell_grantees a) (grantees s a)) \<Longrightarrow> stored s c"
  "c \<in> set (stored_cell (Cell_requests a) (access_requests s a)) \<Longrightarrow> stored s c"
  by (cases "users s a", simp_all) (cases "roles s a", simp_all, cases "permissions s p", simp_all,
    cases "grantees s a", simp_all, cases "access_requests s a", simp_all)

lemma roles_read_stored: "c \<in> set (roles_read s q l) \<Longrightarrow> stored s c"
  by (induction l) (auto dest: stored_cell_stored split: if_splits)

lemma slots_stored:
  "stored s (Cell_accounts d (slots_of s d)) \<or> accounts s d = None \<and> slots_of s d = no_slots"
  by (cases "accounts s d") (simp_all add: slots_of_def)

text \<open>The only cell a message reads without its being stored is that of a free document number.\<close>

fun asks_about :: "message \<Rightarrow> string \<Rightarrow> bool" where
  "asks_about (Add_user a u r) d \<longleftrightarrow> valid_user_info u \<and> dni u = d"
| "asks_about (Get_accounts d') d \<longleftrightarrow> d' = d"
| "asks_about _ d \<longleftrightarrow> False"

lemma reads_stored:
  assumes "c \<in> set (reads s m)"
  shows "stored s c \<or> (\<exists>d. asks_about m d \<and> accounts s d = None \<and> c = Cell_accounts d no_slots)"
proof (cases m)
  case (Add_user a u q)
  show ?thesis
  proof (cases "validate_user_info u")
    case (Inr x)
    with assms Add_user have "c = Cell_accounts (dni u) (slots_of s (dni u)) \<or>
        c \<in> set (roles_read s q (get_accounts s (dni u)))" by (auto split: if_splits)
    moreover have "valid_user_info u" using Inr by (simp add: validate_user_info_Inr)
    ultimately show ?thesis
      using slots_stored [of s "dni u"] by (auto simp: Add_user dest: roles_read_stored)
  qed (use assms Add_user in simp)
next
  case (Get_accounts d)
  with assms slots_stored [of s d] show ?thesis by auto
qed (use assms in \<open>auto dest: stored_cell_stored split: if_splits\<close>)

lemma reads_fit:
  "storage_fits env s \<Longrightarrow> (\<And>d. \<not> asks_about m d) \<Longrightarrow> list_all (cell_fits env) (reads s m)"
  using reads_stored [of _ s m] by (auto simp: storage_fits_def list_all_iff)

section \<open>Properties\<close>

text \<open>
  C5. Every message comes to an end: on any storage, reachable or not, it returns an answer
  exactly if each cell it reads and each of the at most three it writes fits the limits of the
  environment, and traps otherwise; and an answer leaves exactly these writes behind. In a
  reachable world a read can trap in one case only: the question about a document number with
  no account, if that key does not fit, asked by \<open>get_accounts\<close> or, with its eight
  bytes, by a registration with valid data.
\<close>

theorem messages_come_to_an_end:
  "((\<exists>r t evs. run_message env m s = Returned r t evs) \<longleftrightarrow>
      (\<forall>c \<in> set (reads s m) \<union> set (writes s m). cell_fits env c)) \<and>
   (run_message env m s = Returned r t evs \<longrightarrow> t = apply_writes (writes s m) s) \<and>
   length (writes s m) \<le> 3 \<and>
   (reachable deployed (contract_step env) w \<and> contract w = s \<and> c \<in> set (reads s m) \<and>
      \<not> cell_fits env c \<longrightarrow>
    (\<exists>d. c = Cell_accounts d no_slots \<and> get_accounts s d = [] \<and>
       (m = Get_accounts d \<or> (\<exists>a u q. m = Add_user a u q \<and> dni u = d \<and> length d = 8))))"
proof -
  from run_message_writes [of env m s] obtain r' evs' where run: "run_message env m s =
      (if list_all (cell_fits env) (reads s m @ writes s m)
       then Returned r' (apply_writes (writes s m) s) evs' else Trapped)" by blast
  have "length (writes s m) \<le> 3" by (cases m) simp_all
  moreover have "\<exists>d. c = Cell_accounts d no_slots \<and> get_accounts s d = [] \<and>
      (m = Get_accounts d \<or> (\<exists>a u q. m = Add_user a u q \<and> dni u = d \<and> length d = 8))"
    if "reachable deployed (contract_step env) w" "contract w = s" "c \<in> set (reads s m)"
      "\<not> cell_fits env c"
  proof -
    have "\<not> stored s c"
      using fitting.reachable_inv [OF that(1)] that(2,4) by (auto simp: storage_fits_def)
    with reads_stored [OF that(3)] obtain d where "asks_about m d" "accounts s d = None"
      "c = Cell_accounts d no_slots" by blast
    moreover from this(2) have "get_accounts s d = []"
      by (simp add: get_accounts_def slots_of_def no_slots_def)
    ultimately show ?thesis by (cases m) (auto simp: valid_user_info_def)
  qed
  ultimately show ?thesis
    using run by (simp add: list_all_iff ball_Un del: run_message_Returned)
qed

theorem messages_come_to_an_end_witness:
  "(\<exists>r t evs. run_message static_buffer_env (Grant_permission 1 2) access_control_default =
     Returned r t evs \<and> permissions t (1, 2) = Some True) \<and>
   \<not> (\<exists>r t evs. run_message static_buffer_env (Get_accounts (replicate 123 CHR ''9''))
        access_control_default = Returned r t evs)"
proof
  let ?s = access_control_default
  have w: "writes ?s (Grant_permission 1 2) = [Cell_permissions (1, 2) True, Cell_grantees 1 [2]]"
    and q: "reads ?s (Grant_permission 1 2) = []" by code_simp+
  have "\<forall>c \<in> set (reads ?s (Grant_permission 1 2)) \<union> set (writes ?s (Grant_permission 1 2)).
      cell_fits static_buffer_env c"
    unfolding w q by (simp add: vec_bytes_def)
  with messages_come_to_an_end [of static_buffer_env "Grant_permission 1 2" ?s]
  obtain r t evs where r: "run_message static_buffer_env (Grant_permission 1 2) ?s =
      Returned r t evs" by blast
  with messages_come_to_an_end have "t = apply_writes (writes ?s (Grant_permission 1 2)) ?s"
    by blast
  then have "permissions t (1, 2) = Some True" unfolding w by simp
  with r show "\<exists>r t evs. run_message static_buffer_env (Grant_permission 1 2) ?s =
      Returned r t evs \<and> permissions t (1, 2) = Some True" by blast
next
  let ?m = "Get_accounts (replicate 123 CHR ''9'')" and ?s = access_control_default
  have "\<not> (\<forall>c \<in> set (reads ?s ?m) \<union> set (writes ?s ?m). cell_fits static_buffer_env c)"
    by (simp add: vec_bytes_def)
  with messages_come_to_an_end [of static_buffer_env ?m ?s]
  show "\<not> (\<exists>r t evs. run_message static_buffer_env ?m ?s = Returned r t evs)" by blast
qed

end
