(* ===== verification/Access_Spec.thy ===== *)
theory Access_Spec
  imports Access_Contract
begin

text \<open>
  What the contract promises, without its storage layout: a directory of people, roles,
  holders of a document number, readers and requests. The slot arrays, the sentinel role and
  the two forms of a permission of \<open>smart_contract/lib.rs\<close> do not occur here. The locale
  \<open>simulation\<close> states when a stateful component implements such a specification and carries
  the per-message commutation to whole conversations; the contract is its interpretation.
\<close>

section \<open>Simulation of a specification\<close>

text \<open>
  A component answers a message or fails (\<^const>\<open>None\<close>); a failed message leaves the state
  as it was and is not answered. \<open>serve\<close> logs the answered messages with their answers,
  \<open>dictate\<close> is a conversation with a specification, which always answers.
\<close>

fun serve :: "('s \<Rightarrow> 'm \<Rightarrow> ('r \<times> 's) option) \<Rightarrow> 's \<Rightarrow> 'm list \<Rightarrow> ('m \<times> 'r) list \<times> 's" where
  "serve run s [] = ([], s)"
| "serve run s (m # ms) =
     (case run s m of
        None \<Rightarrow> serve run s ms
      | Some (r, t) \<Rightarrow> (case serve run t ms of (log, u) \<Rightarrow> ((m, r) # log, u)))"

fun dictate :: "('a \<Rightarrow> 'm \<Rightarrow> 'r) \<Rightarrow> ('a \<Rightarrow> 'm \<Rightarrow> 'a) \<Rightarrow> 'a \<Rightarrow> 'm list \<Rightarrow> 'r list \<times> 'a" where
  "dictate answer next a [] = ([], a)"
| "dictate answer next a (m # ms) =
     (case dictate answer next (next a m) ms of (rs, b) \<Rightarrow> (answer a m # rs, b))"

locale simulation =
  fixes inv :: "'s \<Rightarrow> bool"
    and run :: "'s \<Rightarrow> 'm \<Rightarrow> ('r \<times> 's) option"
    and abstract :: "'s \<Rightarrow> 'a"
    and answer :: "'a \<Rightarrow> 'm \<Rightarrow> 'r"
    and next_state :: "'a \<Rightarrow> 'm \<Rightarrow> 'a"
  assumes run_inv: "inv s \<Longrightarrow> run s m = Some (r, t) \<Longrightarrow> inv t"
    and run_answer: "inv s \<Longrightarrow> run s m = Some (r, t) \<Longrightarrow> r = answer (abstract s) m"
    and run_next: "inv s \<Longrightarrow> run s m = Some (r, t) \<Longrightarrow> abstract t = next_state (abstract s) m"
begin

lemma serve_dictated:
  "inv s \<Longrightarrow> serve run s ms = (log, t) \<Longrightarrow>
   inv t \<and> dictate answer next_state (abstract s) (map fst log) = (map snd log, abstract t)"
proof (induction ms arbitrary: s log)
  case (Cons m ms)
  show ?case
  proof (cases "run s m")
    case None
    with Cons show ?thesis by simp
  next
    case (Some p)
    obtain r s' where p: "p = (r, s')" by (cases p)
    obtain log' u where l: "serve run s' ms = (log', u)" by (cases "serve run s' ms")
    from Some p have step: "run s m = Some (r, s')" by simp
    from Cons.prems(2) step l have log: "log = (m, r) # log'" and u: "t = u" by simp_all
    from Cons.IH [OF run_inv [OF Cons.prems(1) step] l [folded u]]
    show ?thesis
      using run_answer [OF Cons.prems(1) step] run_next [OF Cons.prems(1) step]
      by (simp add: log)
  qed
qed simp

end

lemma serve_all_answered:
  "(\<And>s m. run s m \<noteq> None) \<Longrightarrow> map fst (fst (serve run s ms)) = ms"
proof (induction ms arbitrary: s)
  case (Cons m ms)
  from Cons.prems [of s m] obtain r t where "run s m = Some (r, t)" by (cases "run s m") auto
  with Cons.IH [OF Cons.prems, of t] show ?case by (simp add: case_prod_unfold)
qed simp

section \<open>The directory\<close>

record directory =
  people :: "account_id \<rightharpoonup> user_info"
  role_of :: "account_id \<rightharpoonup> u8"
  holders :: "string \<Rightarrow> account_id list"
  readers :: "account_id \<Rightarrow> account_id list"
  asked :: "account_id \<Rightarrow> account_id list"

definition empty_directory :: directory where
  "empty_directory =
     \<lparr>people = Map.empty, role_of = Map.empty, holders = (\<lambda>_. []), readers = (\<lambda>_. []),
      asked = (\<lambda>_. [])\<rparr>"

text \<open>Why a registration is refused, if it is: the first rule that it breaks.\<close>

definition refusal :: "directory \<Rightarrow> user_info \<Rightarrow> u8 \<Rightarrow> string option" where
  "refusal g u r =
     (if length (name u) \<notin> {1..12} then Some err_name
      else if length (lastname u) \<notin> {1..12} then Some err_lastname
      else if length (dni u) \<noteq> 8 then Some err_dni
      else if CHR ''@'' \<notin> set (email u) then Some err_email
      else if length (holders g (dni u)) = 2 then Some err_two_accounts
      else if Some r \<in> role_of g ` set (holders g (dni u)) then Some err_same_role
      else None)"

fun directory_next :: "directory \<Rightarrow> message \<Rightarrow> directory" where
  "directory_next g (Add_user a u r) =
     (if refusal g u r = None
      then g\<lparr>people := (people g)(a \<mapsto> u), role_of := (role_of g)(a \<mapsto> r),
             holders := (holders g)(dni u := holders g (dni u) @ [a])\<rparr>
      else g)"
| "directory_next g (Assign_role a r) = g\<lparr>role_of := (role_of g)(a \<mapsto> r)\<rparr>"
| "directory_next g (Request_access a b) = g\<lparr>asked := (asked g)(a := asked g a @ [b])\<rparr>"
| "directory_next g (Grant_permission a b) =
     (if b \<in> set (readers g a) then g else g\<lparr>readers := (readers g)(a := readers g a @ [b])\<rparr>)"
| "directory_next g (Revoke_permission a b) =
     g\<lparr>readers := (readers g)(a := remove1 b (readers g a))\<rparr>"
| "directory_next g _ = g"

text \<open>The answer to a message and the events it emits; \<open>dbg\<close> renders an account.\<close>

fun directory_answer :: "(account_id \<Rightarrow> string) \<Rightarrow> directory \<Rightarrow> message \<Rightarrow> reply \<times> event list" where
  "directory_answer dbg g (Add_user a u r) =
     (case refusal g u r of
        Some e \<Rightarrow> (Reply_result (Inl e), [])
      | None \<Rightarrow> (Reply_result (Inr ()), [RoleAssigned a r, UserAdded a]))"
| "directory_answer dbg g (Assign_role a r) =
     (Reply_string (''Rol '' @ show_u8 r @ '' asignado a la cuenta '' @ dbg a),
      [RoleAssigned a r])"
| "directory_answer dbg g (Request_access a b) = (Reply_unit, [AccessRequested a b])"
| "directory_answer dbg g (Grant_permission a b) =
     (if b \<in> set (readers g a) then (Reply_result (Inl err_already_granted), [])
      else (Reply_result (Inr ()), [PermissionGranted a b True]))"
| "directory_answer dbg g (Revoke_permission a b) =
     (if b \<in> set (readers g a) then (Reply_result (Inr ()), [PermissionGranted a b False])
      else (Reply_result (Inl err_no_permission), []))"
| "directory_answer dbg g (Get_accounts d) = (Reply_accounts (holders g d), [])"
| "directory_answer dbg g (Get_user_info a) = (Reply_user (people g a), [])"
| "directory_answer dbg g (Get_access_requests a) = (Reply_accounts (asked g a), [])"
| "directory_answer dbg g (Get_granted_permissions a) = (Reply_accounts (readers g a), [])"
| "directory_answer dbg g (Has_permission a b) = (Reply_bool (b \<in> set (readers g a)), [])"
| "directory_answer dbg g (Get_role a) = (Reply_role (role_of g a), [])"
| "directory_answer dbg g (User_exists a) = (Reply_bool (people g a \<noteq> None), [])"

section \<open>The contract implements the directory\<close>

definition directory_of :: "access_control \<Rightarrow> directory" where
  "directory_of s =
     \<lparr>people = get_user_info s, role_of = get_role s, holders = get_accounts s,
      readers = get_granted_permissions s, asked = get_access_requests s\<rparr>"

lemma directory_of_sel [simp]:
  "people (directory_of s) = get_user_info s" "role_of (directory_of s) = get_role s"
  "holders (directory_of s) = get_accounts s"
  "readers (directory_of s) = get_granted_permissions s"
  "asked (directory_of s) = get_access_requests s"
  by (simp_all add: directory_of_def)

lemma directory_of_default: "directory_of access_control_default = empty_directory"
  by (simp add: directory_of_def empty_directory_def access_control_default_def fun_eq_iff
      user_query_defs permission_query_defs no_slots_def)

definition run_contract ::
  "ink_env \<Rightarrow> access_control \<Rightarrow> message \<Rightarrow> ((reply \<times> event list) \<times> access_control) option" where
  "run_contract env s m =
     (case run_message env m s of
        Trapped \<Rightarrow> None
      | Returned r t evs \<Rightarrow> Some ((r, evs), t))"

lemma run_contract_eq_Some:
  "run_contract env s m = Some (x, t) \<longleftrightarrow> run_message env m s = Returned (fst x) t (snd x)"
  by (auto simp: run_contract_def simp del: run_message_Returned split: outcome.split)

definition contract_inv :: "access_control \<Rightarrow> bool" where
  "contract_inv s \<longleftrightarrow> registry_inv s \<and> ledger_inv s"

lemma contract_inv_default: "contract_inv access_control_default"
  by (simp add: contract_inv_def invariants_default)

lemma contract_inv_reachable: "reachable deployed (contract_step env) w \<Longrightarrow> contract_inv (contract w)"
  by (simp add: contract_inv_def registry.reachable_inv both_forms.reachable_inv)

text \<open>In the invariant the sentinel of the role check is never met.\<close>

lemma clash_directory:
  "registry_inv s \<Longrightarrow>
   (\<exists>a \<in> set (get_accounts s d). unwrap_or (roles s a) 2 = r) \<longleftrightarrow>
   Some r \<in> get_role s ` set (get_accounts s d)"
  using registry_listed [of s _ d] by (force simp: get_role_def image_iff)

lemma get_accounts_two: "length (get_accounts s d) \<ge> 2 \<longleftrightarrow> length (get_accounts s d) = 2"
  using length_filled_slots [of "slots_of s d"] by (auto simp: get_accounts_def)

lemma refusal_ready:
  "registry_inv s \<Longrightarrow> refusal (directory_of s) u r = None \<longleftrightarrow> add_user_ready s u r"
  using clash_directory [of s "dni u" r] get_accounts_two [of s "dni u"]
  by (auto simp: refusal_def add_user_ready_def valid_user_info_def)

lemma refusal_error:
  assumes "registry_inv s"
  shows "add_user env s a u r = Returned (Inl e) t evs \<longleftrightarrow>
    t = s \<and> evs = [] \<and> refusal (directory_of s) u r = Some e"
  unfolding add_user_error_cases validate_errors check_roles_Inl clash_directory [OF assms]
    get_accounts_two valid_user_info_def Let_def refusal_def directory_of_sel
  by auto

lemma add_user_directory:
  assumes "registry_inv s" "add_user env s a u r = Returned x t evs"
  shows "(Reply_result x, evs) = directory_answer dbg (directory_of s) (Add_user a u r) \<and>
    directory_of t = directory_next (directory_of s) (Add_user a u r)"
proof (cases x)
  case (Inl e)
  with assms refusal_error [OF assms(1), of env a u r e t evs] show ?thesis by simp
next
  case (Inr y)
  with assms(2) have ready: "add_user_ready s u r" and t: "t = registered s a u r"
    and evs: "evs = [RoleAssigned a r, UserAdded a]"
    by (auto simp: add_user_Returned_ok)
  have "get_user_info t = (get_user_info s)(a \<mapsto> u)" "get_role t = (get_role s)(a \<mapsto> r)"
    "get_granted_permissions t = get_granted_permissions s"
    "get_access_requests t = get_access_requests s"
    "get_accounts t = (get_accounts s)(dni u := get_accounts s (dni u) @ [a])"
    using get_accounts_registered [OF assms(1) ready]
    by (auto simp: t fun_eq_iff get_user_info_def get_role_def get_granted_permissions_def
        get_access_requests_def)
  with ready show ?thesis
    using refusal_ready [OF assms(1), of u r] by (simp add: Inr evs directory_of_def)
qed

lemma directory_other_writes:
  "directory_of (s\<lparr>roles := (roles s)(a \<mapsto> r)\<rparr>) =
     (directory_of s)\<lparr>role_of := (get_role s)(a \<mapsto> r)\<rparr>"
  "directory_of (s\<lparr>access_requests := (access_requests s)(a \<mapsto> l)\<rparr>) =
     (directory_of s)\<lparr>asked := (get_access_requests s)(a := l)\<rparr>"
  "directory_of (granted s a b) =
     (directory_of s)\<lparr>readers := get_granted_permissions (granted s a b)\<rparr>"
  "directory_of (revoked s a b) =
     (directory_of s)\<lparr>readers := get_granted_permissions (revoked s a b)\<rparr>"
  by (auto simp: directory_of_def fun_eq_iff user_query_defs get_access_requests_def
      get_granted_permissions_def [of "s\<lparr>roles := R\<rparr>" for R]
      get_granted_permissions_def [of "s\<lparr>access_requests := R\<rparr>" for R]
      get_granted_permissions_def [of s])

lemma run_message_directory:
  assumes "contract_inv s" "run_message env m s = Returned r t evs"
  shows "(r, evs) = directory_answer (debug_account env) (directory_of s) m \<and>
    directory_of t = directory_next (directory_of s) m"
proof (cases m)
  case (Add_user a u q)
  with assms show ?thesis
    using add_user_directory [of s env a u q]
    by (auto simp: contract_inv_def map_outcome_eq_Returned)
next
  case (Grant_permission a b)
  with assms show ?thesis
    by (auto simp: contract_inv_def map_outcome_eq_Returned grant_permission_eq
        ledger_inv_member directory_other_writes granted_queries split: if_splits)
next
  case (Revoke_permission a b)
  with assms show ?thesis
    by (auto simp: contract_inv_def map_outcome_eq_Returned revoke_permission_eq
        ledger_inv_member directory_other_writes revoked_queries remove1_idem split: if_splits)
qed (use assms in \<open>auto simp: contract_inv_def map_outcome_eq_Returned directory_other_writes
      ledger_inv_member user_exists_def get_user_info_def\<close>)

lemma run_message_inv:
  "contract_inv s \<Longrightarrow> run_message env m s = Returned r t evs \<Longrightarrow> contract_inv t"
  unfolding contract_inv_def
  by (blast intro: storage_change_registry storage_change_ledger run_message_change)

interpretation contract_sim: simulation
  contract_inv "run_contract env" directory_of "directory_answer (debug_account env)"
  directory_next for env
proof
  fix s m r t
  assume inv: "contract_inv s" and run: "run_contract env s m = Some (r, t)"
  note returned = run [unfolded run_contract_eq_Some]
  show "contract_inv t" by (rule run_message_inv [OF inv returned])
  from run_message_directory [OF inv returned]
  show "r = directory_answer (debug_account env) (directory_of s) m"
    and "directory_of t = directory_next (directory_of s) m" by simp_all
qed

lemma dispatch_answers:
  assumes "\<And>c. cell_fits env c"
  shows "dispatch env m s \<noteq> Trapped"
proof (cases m)
  case (Add_user a u r)
  have "add_user env s a u r \<noteq> Trapped"
    by (cases "add_user_ready s u r")
      (auto simp: add_user_success registration_fits_def assms elim: add_user_failure [of s u r env a])
  with Add_user show ?thesis by (cases "add_user env s a u r") simp_all
qed (simp_all add: assign_role_def request_access_def grant_permission_eq revoke_permission_eq
      grant_fits_def revoke_fits_def insert_cell_def assms Let_def)

lemma run_message_answers:
  assumes "\<And>c. cell_fits env c"
  shows "run_message env m s \<noteq> Trapped"
  using dispatch_answers [OF assms] by (simp add: run_message_def assms list_all_iff)

section \<open>Properties\<close>

text \<open>
  C1. The contract implements the directory, message by message: in every reachable world a
  message that returns gives the answer and the events the directory dictates, error strings
  included, and leaves the storage of the next directory.
\<close>

theorem contract_implements_directory:
  assumes "reachable deployed (contract_step env) w"
    and "run_message env m (contract w) = Returned r s evs"
  shows "(r, evs) = directory_answer (debug_account env) (directory_of (contract w)) m \<and>
    directory_of s = directory_next (directory_of (contract w)) m"
  by (rule run_message_directory [OF contract_inv_reachable [OF assms(1)] assms(2)])

theorem contract_implements_directory_witness:
  "let w = history static_buffer_env [Add_user 1 alice 0]
   in directory_answer (debug_account static_buffer_env) (directory_of (contract w))
        (Add_user 2 alice 0) = (Reply_result (Inl err_same_role), [])"
proof -
  let ?w = "history static_buffer_env [Add_user 1 alice 0]"
  have l: "get_accounts (contract ?w) (dni alice) = [1]" and r: "roles (contract ?w) 1 = Some 0"
    and v: "valid_user_info alice" by code_simp+
  have "check_roles (contract ?w) 0 (get_accounts (contract ?w) (dni alice)) = Inl err_same_role"
    by (simp add: check_roles_Inl l r)
  with l v have "add_user static_buffer_env (contract ?w) 2 alice 0 =
      Returned (Inl err_same_role) (contract ?w) []"
    by (simp add: add_user_error_cases)
  moreover have "list_all (cell_fits static_buffer_env) (reads (contract ?w) (Add_user 2 alice 0))"
    by code_simp
  ultimately have "run_message static_buffer_env (Add_user 2 alice 0) (contract ?w) =
      Returned (Reply_result (Inl err_same_role)) (contract ?w) []" by simp
  from contract_implements_directory [OF reachable_history this] show ?thesis
    by (simp add: Let_def)
qed

text \<open>
  C2. Whole conversations with a fresh contract follow the directory: the answers to the
  messages that did not trap, and the storage at the end, are those of the directory given
  just these messages; and where every write fits the buffer, every message is answered.
\<close>

theorem conversations_follow_directory:
  assumes "serve (run_contract env) access_control_default ms = (log, s)"
  shows "dictate (directory_answer (debug_account env)) directory_next empty_directory
      (map fst log) = (map snd log, directory_of s) \<and>
    ((\<forall>c. cell_fits env c) \<longrightarrow> map fst log = ms)"
proof (intro conjI impI)
  from contract_sim.serve_dictated [OF contract_inv_default assms]
  show "dictate (directory_answer (debug_account env)) directory_next empty_directory
      (map fst log) = (map snd log, directory_of s)"
    by (simp add: directory_of_default)
next
  assume "\<forall>c. cell_fits env c"
  then have "run_contract env t m \<noteq> None" for t m
    using run_message_answers [of env m t] by (simp add: run_contract_def split: outcome.split)
  then have "map fst (fst (serve (run_contract env) access_control_default ms)) = ms"
    by (rule serve_all_answered)
  with assms show "map fst log = ms" by simp
qed

theorem conversations_follow_directory_witness:
  "map snd (fst (serve (run_contract roomy_env) access_control_default
      [Grant_permission 1 2, Grant_permission 1 2, Has_permission 1 2, Revoke_permission 1 2,
       Get_granted_permissions 1])) =
   [(Reply_result (Inr ()), [PermissionGranted 1 2 True]),
    (Reply_result (Inl err_already_granted), []),
    (Reply_bool True, []),
    (Reply_result (Inr ()), [PermissionGranted 1 2 False]),
    (Reply_accounts [], [])]"
proof -
  let ?ms = "[Grant_permission 1 2, Grant_permission 1 2, Has_permission 1 2,
    Revoke_permission 1 2, Get_granted_permissions 1]"
  obtain log s where run: "serve (run_contract roomy_env) access_control_default ?ms = (log, s)"
    by (cases "serve (run_contract roomy_env) access_control_default ?ms")
  have f: "\<forall>c. cell_fits roomy_env c" by (simp add: roomy_fits)
  note follow = conversations_follow_directory [OF run]
  from follow f have ms: "map fst log = ?ms" by (simp only: simp_thms)
  from follow have "map snd log =
      fst (dictate (directory_answer (debug_account roomy_env)) directory_next empty_directory ?ms)"
    unfolding ms by (simp only: fst_conv)
  then show ?thesis by (simp add: run empty_directory_def del: serve.simps)
qed

end
