(* ===== verification/Runtime_Transactions.thy ===== *)
theory Runtime_Transactions
  imports Prelude
begin

text \<open>
  The checks a signed transaction goes through before it is dispatched: the tuple
  \<open>SignedExtra\<close> of both runtimes (\<open>runtime/src/lib.rs\<close>, \<open>parachain-runtime/src/lib.rs\<close>), and
  the tuple of migrations of their \<open>Executive\<close>. The checks are code of the SDK, which runs
  those of a tuple from left to right and stops at the first that fails: \<open>run_checks\<close>, over an
  argument \<open>check\<close> for what each of them says.
\<close>

section \<open>The tuples\<close>

definition solo_SignedExtra :: "string list" where
  "solo_SignedExtra =
     [''frame_system::CheckNonZeroSender'', ''frame_system::CheckSpecVersion'',
      ''frame_system::CheckTxVersion'', ''frame_system::CheckGenesis'',
      ''frame_system::CheckEra'', ''frame_system::CheckNonce'', ''frame_system::CheckWeight'',
      ''pallet_transaction_payment::ChargeTransactionPayment'']"

definition SignedExtra :: "string list" where
  "SignedExtra =
     [''frame_system::CheckNonZeroSender'', ''frame_system::CheckSpecVersion'',
      ''frame_system::CheckTxVersion'', ''frame_system::CheckGenesis'',
      ''frame_system::CheckEra'', ''frame_system::CheckNonce'', ''frame_system::CheckWeight'',
      ''pallet_transaction_payment::ChargeTransactionPayment'']"

definition solo_migrations :: "string list" where
  "solo_migrations = [''pallet_contracts::Migration'']"

definition migrations :: "string list" where
  "migrations = []"

section \<open>Running the checks\<close>

fun run_checks ::
  "(string \<Rightarrow> 'x \<Rightarrow> ('e, unit) result) \<Rightarrow> string list \<Rightarrow> 'x \<Rightarrow> string list \<times> ('e, unit) result" where
  "run_checks check [] x = ([], Ok ())"
| "run_checks check (e # es) x =
     (case check e x of
        Ok _ \<Rightarrow> (let (ran, r) = run_checks check es x in (e # ran, r))
      | failed \<Rightarrow> ([e], failed))"

lemma run_checks_Ok:
  "snd (run_checks check es x) = Ok () \<longleftrightarrow> (\<forall>e \<in> set es. check e x = Ok ())"
  by (induction es) (auto split: result.splits prod.splits)

text \<open>A check that ran comes after checks that all succeeded.\<close>

lemma run_checks_before:
  "c \<in> set (fst (run_checks check (es @ [c]) x)) \<Longrightarrow> c \<notin> set es \<Longrightarrow> \<forall>e \<in> set es. check e x = Ok ()"
  by (induction es) (auto split: result.splits prod.splits)

section \<open>Properties\<close>

text \<open>
  Both runtimes admit the same signed transactions and neither charges for one it refuses:
  the checks are the same in the same order, a transaction is dispatched exactly if all of them
  succeed, and the fee is withdrawn only after every other check has succeeded.
\<close>
theorem fee_charged_last:
  assumes "extra \<in> {solo_SignedExtra, SignedExtra}"
  shows "run_checks check extra x = run_checks check SignedExtra x \<and>
    (snd (run_checks check extra x) = Ok () \<longleftrightarrow> (\<forall>e \<in> set extra. check e x = Ok ())) \<and>
    (''pallet_transaction_payment::ChargeTransactionPayment''
        \<in> set (fst (run_checks check extra x)) \<longrightarrow>
     (\<forall>e \<in> set extra - {''pallet_transaction_payment::ChargeTransactionPayment''}.
        check e x = Ok ()))"
proof -
  have same: "extra = SignedExtra" using assms by (auto simp: solo_SignedExtra_def SignedExtra_def)
  have split: "SignedExtra = butlast SignedExtra @ [last SignedExtra]"
    "last SignedExtra = ''pallet_transaction_payment::ChargeTransactionPayment''"
    "last SignedExtra \<notin> set (butlast SignedExtra)"
    by (simp_all add: SignedExtra_def)
  have rest: "set SignedExtra - {last SignedExtra} = set (butlast SignedExtra)"
    using split(3) by (subst split(1)) auto
  have "\<forall>e \<in> set SignedExtra - {last SignedExtra}. check e x = Ok ()"
    if "last SignedExtra \<in> set (fst (run_checks check SignedExtra x))"
    unfolding rest using that split(3) by (subst (asm) split(1)) (rule run_checks_before)
  then show ?thesis using same run_checks_Ok split(2) by metis
qed

theorem fee_charged_last_witness:
  "let check = (\<lambda>e x. if e = ''frame_system::CheckNonce'' then Err () else Ok ())
   in ''pallet_transaction_payment::ChargeTransactionPayment''
        \<notin> set (fst (run_checks check SignedExtra ()))"
proof -
  let ?check = "\<lambda>e x. if e = ''frame_system::CheckNonce'' then Err () else Ok ()"
  have "''frame_system::CheckNonce'' \<in>
      set SignedExtra - {''pallet_transaction_payment::ChargeTransactionPayment''}"
    by (simp add: SignedExtra_def)
  with fee_charged_last [of SignedExtra ?check "()"] show ?thesis by (auto simp: Let_def)
qed

end
