(* ===== verification/Access_Clients.thy ===== *)
theory Access_Clients
  imports Access_Limits Access_Writes Access_Spec Runtime_Transactions "HOL-Library.Sublist"
begin

text \<open>
  Clients of the contract on a chain: signed transactions that call it pass the checks of the
  runtime (\<open>SignedExtra\<close> of \<open>runtime/src/lib.rs\<close> and \<open>parachain-runtime/src/lib.rs\<close>), and those
  that are admitted deliver their message (\<open>smart_contract/lib.rs\<close>). The runtime hands the
  signer to the contract as the caller; no message of the contract asks for it.
\<close>

section \<open>Transactions that call the contract\<close>

record 'x contract_call =
  signer :: account_id
  call :: message
  extra :: 'x

type_synonym 'x tx_check = "string \<Rightarrow> 'x contract_call \<Rightarrow> (string, unit) result"

definition admitted :: "'x tx_check \<Rightarrow> 'x contract_call \<Rightarrow> bool" where
  "admitted check tx \<longleftrightarrow> snd (run_checks check SignedExtra tx) = Ok ()"

text \<open>\<open>block_of\<close> applies the transactions of a block in order.\<close>

fun block_of :: "'x tx_check \<Rightarrow> ink_env \<Rightarrow> world \<Rightarrow> 'x contract_call list \<Rightarrow> world" where
  "block_of check env w [] = w"
| "block_of check env w (tx # txs) =
     block_of check env (if admitted check tx then deliver env w (call tx) else w) txs"

lemma block_foldl:
  "block_of check env w txs = foldl (deliver env) w (map call (filter (admitted check) txs))"
  by (induction txs arbitrary: w) simp_all

lemma block_reachable:
  "reachable deployed (contract_step env) w \<Longrightarrow>
   reachable deployed (contract_step env) (block_of check env w txs)"
  by (simp add: block_foldl reachable_foldl)

lemma block_execution:
  "execution (contract_step env) w (map call (filter (admitted check) txs)) (block_of check env w txs)"
proof (induction txs arbitrary: w)
  case (Cons tx txs)
  show ?case
    using Cons.IH [of "deliver env w (call tx)"] Cons.IH [of w]
    by (auto simp: contract_step_deliver intro: execution_Cons)
qed (simp add: execution_Nil)

text \<open>What one message and what a list of messages does to the directory.\<close>

lemma deliver_directory:
  assumes "reachable deployed (contract_step env) w"
  shows "directory_of (contract (deliver env w m)) = directory_of (contract w) \<or>
    directory_of (contract (deliver env w m)) = directory_next (directory_of (contract w)) m"
proof (cases "run_message env m (contract w)")
  case Trapped
  then show ?thesis by (simp add: deliver.simps)
next
  case (Returned r s evs)
  from run_message_directory [OF contract_inv_reachable [OF assms] Returned] Returned
  show ?thesis by (simp add: deliver.simps del: run_message_Returned)
qed

lemma foldl_directory:
  "reachable deployed (contract_step env) w \<Longrightarrow>
   \<exists>ms'. subseq ms' ms \<and> directory_of (contract (foldl (deliver env) w ms)) =
     foldl directory_next (directory_of (contract w)) ms'"
proof (induction ms arbitrary: w)
  case (Cons m ms)
  have "reachable deployed (contract_step env) (deliver env w m)"
    using Cons.prems by (rule reachable_step) (simp add: contract_step_deliver)
  from Cons.IH [OF this] obtain ms' where ms': "subseq ms' ms"
    "directory_of (contract (foldl (deliver env) w (m # ms))) =
       foldl directory_next (directory_of (contract (deliver env w m))) ms'" by auto
  from deliver_directory [OF Cons.prems, of m] show ?case
  proof
    assume "directory_of (contract (deliver env w m)) = directory_of (contract w)"
    with ms' show ?thesis by (intro exI [of _ ms']) (simp add: list_emb_Cons)
  next
    assume "directory_of (contract (deliver env w m)) = directory_next (directory_of (contract w)) m"
    with ms' show ?thesis by (intro exI [of _ "m # ms'"]) simp
  qed
next
  case Nil
  show ?case by (intro exI [of _ "[]"]) simp
qed

lemma execution_users_grow:
  "execution (contract_step env) w ms w' \<Longrightarrow> dom (users (contract w)) \<subseteq> dom (users (contract w'))"
proof (induction rule: execution.induct)
  case (execution_Cons w m u ms w')
  from execution_Cons.hyps(1) obtain evs where "storage_change env (contract w) (contract u) evs"
    by (rule contract_step_change)
  from users_grow [OF this] execution_Cons.IH show ?case by blast
qed simp

section \<open>Properties\<close>



text \<open>
  A chain of blocks keeps what the contract promises: after any transactions, refused ones
  included, the storage is that of the directory given the admitted messages that did not trap,
  registrations made before are still there, and the two forms of every permission agree.
\<close>
theorem blocks_keep_contract:
  assumes "reachable deployed (contract_step env) w"
    and "w' = block_of check env w txs"
  shows "(\<exists>ms. subseq ms (map call (filter (admitted check) txs)) \<and>
       directory_of (contract w') = foldl directory_next (directory_of (contract w)) ms) \<and>
    (\<forall>a. user_exists (contract w) a \<longrightarrow> user_exists (contract w') a) \<and>
    (\<forall>g e. has_permission (contract w') g e \<longleftrightarrow> e \<in> set (get_granted_permissions (contract w') g))"
proof -
  have "dom (users (contract w)) \<subseteq> dom (users (contract w'))"
    unfolding assms(2) by (rule execution_users_grow [OF block_execution])
  then have users: "\<forall>a. user_exists (contract w) a \<longrightarrow> user_exists (contract w') a"
    by (auto simp: user_exists_def)
  have "ledger_inv (contract w')"
    unfolding assms(2) by (rule both_forms.reachable_inv [OF block_reachable [OF assms(1)]])
  with foldl_directory [OF assms(1)] users show ?thesis
    by (auto simp: assms(2) block_foldl ledger_inv_member)
qed

theorem blocks_keep_contract_witness:
  "let w = history static_buffer_env [Add_user 1 alice 0];
       w' = block_of (\<lambda>e tx. if signer tx = 9 then Err ''nonce'' else Ok ()) static_buffer_env w
              [\<lparr>signer = 9, call = Assign_role 1 5, extra = ()\<rparr>,
               \<lparr>signer = 3, call = Grant_permission 1 2, extra = ()\<rparr>]
   in user_exists (contract w') 1"
proof -
  let ?w = "history static_buffer_env [Add_user 1 alice 0]"
  have "user_exists (contract ?w) 1" by code_simp
  with blocks_keep_contract [OF reachable_history refl] show ?thesis by (simp only: Let_def) blast
qed

end
