(* ===== verification/Access_Noninterference.thy ===== *)
theory Access_Noninterference
  imports Access_Spec
begin

text \<open>
  The messages of the contract fall into parts that do not interfere: the registry (users,
  roles, accounts of a document), the ledger of each granter, and the requests of each
  requester. The locale \<open>separation_of_parts\<close> is the usual argument by purging: a message
  leaves the views of other parts as they were, and what it answers and does to its own view
  depends on that view only. The contract of \<open>smart_contract/lib.rs\<close> is its interpretation.
\<close>

section \<open>Purging\<close>

locale separation_of_parts =
  fixes run :: "'s \<Rightarrow> 'm \<Rightarrow> ('r \<times> 's) option"
    and part :: "'m \<Rightarrow> 'd"
    and view :: "'d \<Rightarrow> 's \<Rightarrow> 's \<Rightarrow> bool"
  assumes view_sym: "view d s t \<Longrightarrow> view d t s"
    and view_trans: "view d s t \<Longrightarrow> view d t u \<Longrightarrow> view d s u"
    and respects: "run s m = Some (r, t) \<Longrightarrow> part m \<noteq> d \<Longrightarrow> view d s t"
    and answers_alike: "view (part m) s t \<Longrightarrow> run s m = Some (r, s') \<Longrightarrow>
          \<exists>t'. run t m = Some (r, t') \<and> view (part m) s' t'"
begin

lemma fails_alike: "view (part m) s t \<Longrightarrow> run s m = None \<longleftrightarrow> run t m = None"
  using answers_alike [of m s t] answers_alike [of m t s] view_sym [of "part m" s t]
  by (cases "run s m"; cases "run t m") fastforce+

lemma purge:
  "view d s t \<Longrightarrow> serve run s ms = (log, s') \<Longrightarrow>
   \<exists>t'. serve run t (filter (\<lambda>m. part m = d) ms) = (filter (\<lambda>(m, r). part m = d) log, t') \<and>
        view d s' t'"
proof (induction ms arbitrary: s t log)
  case Nil
  then show ?case by auto
next
  case (Cons m ms)
  show ?case
  proof (cases "run s m")
    case None
    with Cons.prems(2) have rest: "serve run s ms = (log, s')" by simp
    have "part m = d \<Longrightarrow> run t m = None" using fails_alike [of m s t] Cons.prems(1) None by simp
    with Cons.IH [OF Cons.prems(1) rest] show ?thesis by auto
  next
    case (Some p)
    obtain r u where run: "run s m = Some (r, u)" using Some by (cases p) auto
    obtain log' where rest: "serve run u ms = (log', s')" and log: "log = (m, r) # log'"
      using Cons.prems(2) run by (auto split: prod.splits)
    show ?thesis
    proof (cases "part m = d")
      case True
      with answers_alike [of m s t r u] Cons.prems(1) run
      obtain v where v: "run t m = Some (r, v)" "view d u v" by auto
      from Cons.IH [OF v(2) rest] v(1) True show ?thesis by (auto simp: log)
    next
      case False
      have "view d u t"
        using view_trans [OF view_sym [OF respects [OF run False]] Cons.prems(1)] .
      from Cons.IH [OF this rest] False show ?thesis by (auto simp: log)
    qed
  qed
qed

text \<open>Two orders of messages that agree on each part look the same to each part.\<close>

lemma reorder:
  assumes "\<And>s. view d s s" "filter (\<lambda>m. part m = d) ms = filter (\<lambda>m. part m = d) ns"
    and "serve run s ms = (log1, t1)" "serve run s ns = (log2, t2)"
  shows "filter (\<lambda>(m, r). part m = d) log1 = filter (\<lambda>(m, r). part m = d) log2" "view d t1 t2"
proof -
  obtain u1 where u1: "serve run s (filter (\<lambda>m. part m = d) ms) =
      (filter (\<lambda>(m, r). part m = d) log1, u1)" "view d t1 u1"
    using purge [OF assms(1,3)] by blast
  obtain u2 where u2: "serve run s (filter (\<lambda>m. part m = d) ns) =
      (filter (\<lambda>(m, r). part m = d) log2, u2)" "view d t2 u2"
    using purge [OF assms(1,4)] by blast
  from u1(1) u2(1) assms(2) have "u1 = u2" by simp
  with view_trans [OF u1(2)] view_sym [OF u2(2)] show "view d t1 t2" by simp
  from u1(1) u2(1) assms(2)
  show "filter (\<lambda>(m, r). part m = d) log1 = filter (\<lambda>(m, r). part m = d) log2" by simp
qed

end

section \<open>The parts of the contract\<close>

datatype part = Registry | Ledger account_id | Requests account_id

fun part_of :: "message \<Rightarrow> part" where
  "part_of (Add_user a u r) = Registry"
| "part_of (Assign_role a r) = Registry"
| "part_of (Request_access a b) = Requests a"
| "part_of (Grant_permission a b) = Ledger a"
| "part_of (Revoke_permission a b) = Ledger a"
| "part_of (Get_accounts d) = Registry"
| "part_of (Get_user_info a) = Registry"
| "part_of (Get_access_requests a) = Requests a"
| "part_of (Get_granted_permissions a) = Ledger a"
| "part_of (Has_permission a b) = Ledger a"
| "part_of (Get_role a) = Registry"
| "part_of (User_exists a) = Registry"

fun same_part :: "part \<Rightarrow> access_control \<Rightarrow> access_control \<Rightarrow> bool" where
  "same_part Registry s t \<longleftrightarrow>
     accounts s = accounts t \<and> users s = users t \<and> roles s = roles t"
| "same_part (Ledger g) s t \<longleftrightarrow>
     grantees s g = grantees t g \<and> (\<forall>e. permissions s (g, e) = permissions t (g, e))"
| "same_part (Requests a) s t \<longleftrightarrow> access_requests s a = access_requests t a"

lemma same_parts_eq: "(\<And>d. same_part d s t) \<Longrightarrow> s = t"
proof -
  assume same: "\<And>d. same_part d s t"
  have "grantees s = grantees t" "access_requests s = access_requests t"
    using same [of "Ledger g" for g] same [of "Requests g" for g] by (auto simp: fun_eq_iff)
  moreover have "permissions s = permissions t"
    using same [of "Ledger g" for g] by (auto simp: fun_eq_iff)
  ultimately show "s = t" using same [of Registry] by (intro access_control.equality) simp_all
qed

lemma same_part_refl: "same_part d s s"
  by (cases d) simp_all

text \<open>What each message reads of its part.\<close>

lemma same_registry_add_user:
  assumes "same_part Registry s t" "add_user env s a u r = Returned x s' evs"
  shows "\<exists>t'. add_user env t a u r = Returned x t' evs \<and> same_part Registry s' t'"
proof -
  have g: "get_accounts s = get_accounts t" "slots_of s = slots_of t" "roles s = roles t"
    using assms(1) by (auto simp: fun_eq_iff get_accounts_def slots_of_def)
  have c: "check_roles s q l = check_roles t q l" for q l
    by (induction l) (simp_all add: g)
  show ?thesis
  proof (cases x)
    case (Inl e)
    then have "s' = s" "evs = []" using add_user_Returned_error [of env s a u r e s' evs] assms(2) by auto
    moreover have "add_user env t a u r = Returned (Inl e) t []"
      using assms(2) by (simp add: Inl add_user_error_cases g(1) c [symmetric])
    ultimately show ?thesis using assms(1) by (simp add: Inl)
  next
    case (Inr y)
    with assms g show ?thesis
      by (auto simp: add_user_Returned_ok add_user_ready_def registration_fits_def)
  qed
qed

lemma same_ledger:
  assumes "same_part (Ledger g) s t"
  shows "has_permission s g e = has_permission t g e"
    "get_granted_permissions s g = get_granted_permissions t g"
    "grant_fits env s g e = grant_fits env t g e" "revoke_fits env s g e = revoke_fits env t g e"
    "same_part (Ledger g) (granted s g e) (granted t g e)"
    "same_part (Ledger g) (revoked s g e) (revoked t g e)"
  using assms
  by (auto simp: has_permission_def get_granted_permissions_def grant_fits_def revoke_fits_def
      granted_def revoked_def Let_def)

lemma same_reads: "same_part (part_of m) s t \<Longrightarrow> reads s m = reads t m"
proof (cases m)
  case (Add_user a u q)
  assume "same_part (part_of m) s t"
  with Add_user have "get_accounts s = get_accounts t" "slots_of s = slots_of t" "roles s = roles t"
    by (auto simp: fun_eq_iff get_accounts_def slots_of_def)
  moreover from this(3) have "roles_read s q l = roles_read t q l" for l
    by (induction l) simp_all
  ultimately show ?thesis by (simp add: Add_user split: sum.split)
qed (auto simp: slots_of_def has_permission_def)

lemma dispatch_same_part:
  assumes "same_part (part_of m) s t" "dispatch env m s = Returned r s' evs"
  shows "\<exists>t'. dispatch env m t = Returned r t' evs \<and> same_part (part_of m) s' t'"
proof (cases m)
  case (Add_user a u q)
  with assms same_registry_add_user [of s t env a u q] show ?thesis
    by (fastforce simp: map_outcome_eq_Returned)
next
  case (Grant_permission a b)
  with assms same_ledger [of a s t] show ?thesis
    by (auto simp: map_outcome_eq_Returned grant_permission_eq split: if_splits)
next
  case (Revoke_permission a b)
  with assms same_ledger [of a s t] show ?thesis
    by (auto simp: map_outcome_eq_Returned revoke_permission_eq split: if_splits)
qed (use assms in \<open>auto simp: map_outcome_eq_Returned user_query_defs permission_query_defs\<close>)

lemma run_message_same_part:
  "same_part (part_of m) s t \<Longrightarrow> run_message env m s = Returned r s' evs \<Longrightarrow>
   \<exists>t'. run_message env m t = Returned r t' evs \<and> same_part (part_of m) s' t'"
  using dispatch_same_part [of m s t env r s' evs] same_reads [of m s t] by simp

lemma run_message_other_part:
  assumes "run_message env m s = Returned r t evs" "part_of m \<noteq> d"
  shows "same_part d s t"
proof (cases m)
  case (Add_user a u q)
  with assms show ?thesis
    by (cases d; cases "add_user_ready s u q")
      (auto simp: map_outcome_eq_Returned add_user_success split: if_splits
        elim: add_user_failure [of s u q env a])
next
  case (Grant_permission a b)
  with assms show ?thesis
    by (cases d) (auto simp: map_outcome_eq_Returned grant_permission_eq granted_def Let_def
        split: if_splits)
next
  case (Revoke_permission a b)
  with assms show ?thesis
    by (cases d) (auto simp: map_outcome_eq_Returned revoke_permission_eq revoked_def Let_def
        split: if_splits)
qed (use assms in \<open>cases d; auto simp: map_outcome_eq_Returned\<close>)+

interpretation contract_parts: separation_of_parts "run_contract env" part_of same_part for env
proof
  show "same_part d t s" if "same_part d s t" for d s t
    using that by (cases d) simp_all
  show "same_part d s u" if "same_part d s t" "same_part d t u" for d s t u
    using that by (cases d) simp_all
  show "same_part d s t" if "run_contract env s m = Some (r, t)" "part_of m \<noteq> d" for s m r t d
    using run_message_other_part that unfolding run_contract_eq_Some by blast
  show "\<exists>t'. run_contract env t m = Some (r, t') \<and> same_part (part_of m) s' t'"
    if "same_part (part_of m) s t" "run_contract env s m = Some (r, s')" for m s t r s'
    using run_message_same_part that unfolding run_contract_eq_Some by blast
qed

section \<open>Properties\<close>

text \<open>
  C3. The parts of the contract do not interfere: in any conversation, the answers and the events
  a part gives are those of the conversation from which all messages of other parts were
  removed, traps included, and so is its share of the storage. So what a granter grants and
  revokes can neither be seen nor disturbed through registrations, requests or other granters.
\<close>

theorem parts_do_not_interfere:
  assumes "serve (run_contract env) s ms = (log, t)"
  shows "\<exists>t'. serve (run_contract env) s (filter (\<lambda>m. part_of m = d) ms) =
      (filter (\<lambda>(m, r). part_of m = d) log, t') \<and> same_part d t t'"
  by (rule contract_parts.purge [OF same_part_refl assms])

theorem parts_do_not_interfere_witness:
  "\<exists>t t'. serve (run_contract roomy_env) access_control_default
        [Assign_role 3 1, Grant_permission 1 2, Request_access 1 2, Has_permission 1 2] =
      ([(Assign_role 3 1, (Reply_string ''Rol 1 asignado a la cuenta '', [RoleAssigned 3 1])),
        (Grant_permission 1 2, (Reply_result (Inr ()), [PermissionGranted 1 2 True])),
        (Request_access 1 2, (Reply_unit, [AccessRequested 1 2])),
        (Has_permission 1 2, (Reply_bool True, []))], t) \<and>
     serve (run_contract roomy_env) access_control_default
        [Grant_permission 1 2, Has_permission 1 2] =
      ([(Grant_permission 1 2, (Reply_result (Inr ()), [PermissionGranted 1 2 True])),
        (Has_permission 1 2, (Reply_bool True, []))], t')"
proof -
  let ?ms = "[Assign_role 3 1, Grant_permission 1 2, Request_access 1 2, Has_permission 1 2]"
  have "fst (serve (run_contract roomy_env) access_control_default ?ms) =
      [(Assign_role 3 1, (Reply_string ''Rol 1 asignado a la cuenta '', [RoleAssigned 3 1])),
        (Grant_permission 1 2, (Reply_result (Inr ()), [PermissionGranted 1 2 True])),
        (Request_access 1 2, (Reply_unit, [AccessRequested 1 2])),
        (Has_permission 1 2, (Reply_bool True, []))]"
    by code_simp
  then obtain t where t: "serve (run_contract roomy_env) access_control_default ?ms =
      ([(Assign_role 3 1, (Reply_string ''Rol 1 asignado a la cuenta '', [RoleAssigned 3 1])),
        (Grant_permission 1 2, (Reply_result (Inr ()), [PermissionGranted 1 2 True])),
        (Request_access 1 2, (Reply_unit, [AccessRequested 1 2])),
        (Has_permission 1 2, (Reply_bool True, []))], t)"
    by (metis prod.collapse)
  from parts_do_not_interfere [OF t, of "Ledger 1"]
  obtain t' where "serve (run_contract roomy_env) access_control_default
        [Grant_permission 1 2, Has_permission 1 2] =
      ([(Grant_permission 1 2, (Reply_result (Inr ()), [PermissionGranted 1 2 True])),
        (Has_permission 1 2, (Reply_bool True, []))], t')"
    by (auto simp del: serve.simps)
  with t show ?thesis by (intro exI conjI)
qed

text \<open>
  C6. The order of messages to different parts is immaterial: two interleavings of the same
  conversations, one conversation for each part, end in the same storage, and each part gives
  the same answers in both.
\<close>

theorem interleavings_agree:
  assumes "\<And>d. filter (\<lambda>m. part_of m = d) ms = filter (\<lambda>m. part_of m = d) ns"
    and "serve (run_contract env) s ms = (log1, t1)" "serve (run_contract env) s ns = (log2, t2)"
  shows "t1 = t2 \<and>
    filter (\<lambda>(m, r). part_of m = d) log1 = filter (\<lambda>(m, r). part_of m = d) log2"
proof
  show "t1 = t2"
    by (rule same_parts_eq, rule contract_parts.reorder(2) [OF same_part_refl assms])
  show "filter (\<lambda>(m, r). part_of m = d) log1 = filter (\<lambda>(m, r). part_of m = d) log2"
    by (rule contract_parts.reorder(1) [OF same_part_refl assms])
qed

theorem interleavings_agree_witness:
  "snd (serve (run_contract roomy_env) access_control_default [Grant_permission 1 2, Request_access 5 6]) =
   snd (serve (run_contract roomy_env) access_control_default [Request_access 5 6, Grant_permission 1 2])"
proof -
  let ?ms = "[Grant_permission 1 2, Request_access 5 6]"
  let ?ns = "[Request_access 5 6, Grant_permission 1 2]"
  obtain l1 t1 l2 t2 where "serve (run_contract roomy_env) access_control_default ?ms = (l1, t1)"
    "serve (run_contract roomy_env) access_control_default ?ns = (l2, t2)"
    by (metis prod.collapse)
  moreover have "filter (\<lambda>m. part_of m = d) ?ms = filter (\<lambda>m. part_of m = d) ?ns" for d
    by auto
  ultimately show ?thesis
    using interleavings_agree [of ?ms ?ns roomy_env access_control_default l1 t1 l2 t2]
    by (simp del: serve.simps)
qed

end
