(* ===== verification/Access_Documents.thy ===== *)
theory Access_Documents
  imports Access_Limits Access_Roles Access_Writes
begin

text \<open>
  What the registry of \<open>smart_contract/lib.rs\<close> does not protect: a document number belongs to
  whoever registers it first, for good, and an account that registers again under another
  document number stays listed under the first one, with a record that no longer says so.
\<close>

section \<open>Full documents\<close>

lemma full_document_refuses:
  assumes "length (get_accounts s (dni v)) = 2" "valid_user_info v"
  shows "add_user env s c v q = Returned (Inl err_two_accounts) s []"
  using assms by (simp add: add_user_error_cases)

lemma full_document_stays:
  assumes "execution (contract_step env) w ms w'" "registry_inv (contract w)"
    and "length (get_accounts (contract w) d) = 2"
  shows "get_accounts (contract w') d = get_accounts (contract w) d"
  using assms
proof (induction rule: execution.induct)
  case (execution_Cons w m w1 ms w2)
  from execution_Cons.hyps(1) obtain evs where c: "storage_change env (contract w) (contract w1) evs"
    by (rule contract_step_change)
  from accounts_grow [OF c execution_Cons.prems(1), of d] obtain more
    where more: "get_accounts (contract w1) d = get_accounts (contract w) d @ more" by blast
  have "length (get_accounts (contract w1) d) \<le> 2" by (simp add: get_accounts_def length_filled_slots)
  with more execution_Cons.prems(2) have "get_accounts (contract w1) d = get_accounts (contract w) d"
    by simp
  with execution_Cons.IH storage_change_registry [OF c execution_Cons.prems(1)]
    execution_Cons.prems(2) show ?case by simp
qed simp

lemma registration_reads:
  assumes "reachable deployed (contract_step env) w" "room_for env u"
  shows "list_all (cell_fits env) (reads (contract w) (Add_user a u r))"
proof -
  have "cell_fits env c" if "c \<in> set (reads (contract w) (Add_user a u r))" for c
    using reads_stored [OF that] fitting.reachable_inv [OF assms(1)] assms(2)
    unfolding storage_fits_def room_for_def asks_about.simps by blast
  then show ?thesis unfolding list_all_iff by (rule ballI)
qed

section \<open>Properties\<close>

text \<open>
  C20. Anybody can take a document number away from its holder: in any reachable world, valid
  data with a document number that has no account and with entries that fit the environment
  can be registered with two different roles for any two accounts, even twice for the same one;
  and from then on, whatever messages follow, every registration of valid data for that number
  is refused, the holder's included, and the two accounts remain its only ones.
\<close>

theorem document_can_be_squatted:
  assumes "reachable deployed (contract_step env) w" "room_for env u"
    and "valid_user_info u" "get_accounts (contract w) (dni u) = []" "r \<noteq> r'"
    and "execution (contract_step env) (deliver env (deliver env w (Add_user a u r)) (Add_user b u r')) ms w'"
    and "valid_user_info v" "dni v = dni u"
  shows "get_accounts (contract w') (dni u) = [a, b] \<and>
    add_user env (contract w') c v q = Returned (Inl err_two_accounts) (contract w') []"
proof -
  let ?w2 = "deliver env (deliver env w (Add_user a u r)) (Add_user b u r')"
  note reg = registry.reachable_inv [OF assms(1)]
  note one = two_registrations(1) [OF reg assms(2-5), of a]
  note two = two_registrations(2,3) [OF reg assms(2-5), of a b]
  let ?w1 = "deliver env w (Add_user a u r)"
  have w1: "contract ?w1 = registered (contract w) a u r"
    using registration_reads [OF assms(1,2), of a r] one
    by (simp add: deliver.simps run_message_def del: reads.simps)
  have r1: "reachable deployed (contract_step env) ?w1"
    using reachable_foldl [OF assms(1), of "[Add_user a u r]"] by simp
  have l: "get_accounts (contract ?w2) (dni u) = [a, b]"
    using registration_reads [OF r1 assms(2), of b r'] two
    by (simp add: deliver.simps [of env ?w1] run_message_def w1 del: reads.simps)
  have "reachable deployed (contract_step env) ?w2"
    using reachable_foldl [OF assms(1), of "[Add_user a u r, Add_user b u r']"] by simp
  from full_document_stays [OF assms(6) registry.reachable_inv [OF this], of "dni u"] l
  have "get_accounts (contract w') (dni u) = [a, b]" by simp
  with full_document_refuses [of "contract w'" v env c q] assms(7,8) show ?thesis by simp
qed

theorem document_can_be_squatted_witness:
  "let w = history static_buffer_env [Add_user 9 alice 0, Add_user 9 alice 1, Assign_role 9 7]
   in add_user static_buffer_env (contract w) 1 (alice\<lparr>email := ''me@home''\<rparr>) 2 =
        Returned (Inl err_two_accounts) (contract w) []"
proof -
  let ?w = "history static_buffer_env []"
  have v: "valid_user_info alice" "valid_user_info (alice\<lparr>email := ''me@home''\<rparr>)" and
    e: "length (email alice) \<le> 16000" by code_simp+
  note f = room_for_static_buffer [OF v(1) e]
  have n: "get_accounts (contract ?w) (dni alice) = []" by code_simp
  have rr: "(0 :: u8) \<noteq> 1" by simp
  from document_can_be_squatted [OF reachable_history f v(1) n rr execution_deliver v(2), of 9 9
      "Assign_role 9 7" 1 2]
  show ?thesis by (simp add: Let_def history_def)
qed

text \<open>
  C21. A second registration leaves the first one behind: in any reachable world, an account that
  is registered for one document number can register again, with any role, if the new data are
  valid, state another number that has no account, and have entries that fit the environment;
  it is then listed under both numbers, while its only record names the second.
\<close>

theorem stale_listing:
  assumes "reachable deployed (contract_step env) w" "room_for env v"
    and "get_user_info (contract w) a = Some u"
    and "valid_user_info v" "dni v \<noteq> dni u" "get_accounts (contract w) (dni v) = []"
  shows "\<exists>s evs. add_user env (contract w) a v r = Returned (Inr ()) s evs \<and>
    a \<in> set (get_accounts s (dni u)) \<and> a \<in> set (get_accounts s (dni v)) \<and>
    get_user_info s a = Some v"
proof -
  note reg = registry.reachable_inv [OF assms(1)]
  have ready: "add_user_ready (contract w) v r" using assms(4,6) by (simp add: add_user_ready_def)
  have "a \<in> set (get_accounts (contract w) (dni u))"
    using registry_userD [OF reg, of a u] assms(3) by (simp add: get_user_info_def)
  moreover have "registration_fits env (contract w) a v r"
    by (rule room_for_registration [OF assms(2)])
  ultimately show ?thesis
    using ready assms(5) get_accounts_registered [OF reg ready]
    by (simp add: add_user_success get_user_info_def)
qed

theorem stale_listing_witness:
  "\<exists>s. 1 \<in> set (get_accounts s ''12345678'') \<and>
     map_option dni (get_user_info s 1) = Some ''87654321''"
proof -
  let ?w = "history static_buffer_env [Add_user 1 alice 0]"
  let ?v = "alice\<lparr>dni := ''87654321''\<rparr>"
  have "valid_user_info ?v" "length (email ?v) \<le> 16000" by code_simp+
  then have f: "room_for static_buffer_env ?v" by (rule room_for_static_buffer)
  have "get_user_info (contract ?w) 1 = Some alice" "valid_user_info ?v" "dni ?v \<noteq> dni alice"
    "get_accounts (contract ?w) (dni ?v) = []" by code_simp+
  from stale_listing [OF reachable_history f this, of 0]
  obtain s where "1 \<in> set (get_accounts s (dni alice))" "get_user_info s 1 = Some ?v" by blast
  then show ?thesis by (auto simp: alice_def)
qed

end
