(* ===== verification/Access_Authority.thy ===== *)
theory Access_Authority
  imports Access_Clients
begin

text \<open>
  Whose word a permission is. The contract of \<open>smart_contract/lib.rs\<close> does not look at its
  caller, so a permission is the last word anybody said about it; if the clients discipline
  themselves, signing only what they say in their own name, it is the granter's. A word is a
  message that grants or revokes one permission.
\<close>

section \<open>The last word\<close>

fun word_about :: "account_id \<Rightarrow> account_id \<Rightarrow> message \<Rightarrow> bool" where
  "word_about g e (Grant_permission a b) = (a = g \<and> b = e)"
| "word_about g e (Revoke_permission a b) = (a = g \<and> b = e)"
| "word_about g e _ = False"

lemma word_cases:
  "word_about g e m \<Longrightarrow> m = Grant_permission g e \<or> m = Revoke_permission g e"
  by (cases m) auto

text \<open>\<open>last_word\<close> is the state of a permission after some words, from its state before them.\<close>

fun last_word :: "account_id \<Rightarrow> account_id \<Rightarrow> bool \<Rightarrow> message list \<Rightarrow> bool" where
  "last_word g e p [] = p"
| "last_word g e p (m # ms) =
     last_word g e (if m = Grant_permission g e then True
                    else if m = Revoke_permission g e then False else p) ms"

lemma returned_word:
  assumes "dispatch env m s = Returned r t evs"
  shows "has_permission t g e = last_word g e (has_permission s g e) [m]"
proof (cases "word_about g e m")
  case True
  from word_cases [OF True] assms show ?thesis
    by (auto simp: map_outcome_eq_Returned grant_permission_eq revoke_permission_eq granted_queries
        revoked_queries split: if_splits)
next
  case False
  from assms have "has_permission t g e = has_permission s g e"
  proof (cases m)
    case (Add_user a u q)
    with assms show ?thesis
      by (cases "add_user_ready s u q")
        (auto simp: map_outcome_eq_Returned add_user_success has_permission_def split: if_splits
          elim: add_user_failure [of s u q env a])
  next
    case (Grant_permission a b)
    with assms False show ?thesis
      by (auto simp: map_outcome_eq_Returned grant_permission_eq granted_queries split: if_splits)
  next
    case (Revoke_permission a b)
    with assms False show ?thesis
      by (auto simp: map_outcome_eq_Returned revoke_permission_eq revoked_queries split: if_splits)
  qed (auto simp: map_outcome_eq_Returned has_permission_def)
  with False show ?thesis by auto
qed

text \<open>
  The transactions of a block that were answered: admitted by the checks, and their message
  returned. The others, refused or trapped, left nothing behind.
\<close>

fun answered ::
  "'x tx_check \<Rightarrow> ink_env \<Rightarrow> world \<Rightarrow> 'x contract_call list \<Rightarrow> 'x contract_call list" where
  "answered check env w [] = []"
| "answered check env w (tx # txs) =
     (if admitted check tx
      then (case run_message env (call tx) (contract w) of
              Trapped \<Rightarrow> answered check env w txs
            | Returned r s evs \<Rightarrow> tx # answered check env (deliver env w (call tx)) txs)
      else answered check env w txs)"

lemma answered_admitted: "subseq (answered check env w txs) (filter (admitted check) txs)"
  by (induction check env w txs rule: answered.induct) (auto split: outcome.split)

lemma block_word:
  "has_permission (contract (block_of check env w txs)) g e =
     last_word g e (has_permission (contract w) g e) (map call (answered check env w txs))"
proof (induction txs arbitrary: w)
  case (Cons tx txs)
  show ?case
  proof (cases "run_message env (call tx) (contract w)")
    case Trapped
    then have "deliver env w (call tx) = w" by (simp add: deliver.simps)
    with Cons.IH [of w] Trapped show ?thesis by simp
  next
    case (Returned r s evs)
    then have d: "contract (deliver env w (call tx)) = s"
      by (simp add: deliver.simps del: run_message_Returned)
    from Returned have "has_permission s g e =
        last_word g e (has_permission (contract w) g e) [call tx]"
      by (intro returned_word) auto
    with Cons.IH [of w] Cons.IH [of "deliver env w (call tx)"] Returned d show ?thesis
      by (simp del: run_message_Returned)
  qed
qed simp

lemma last_word_snoc:
  "last_word g e p (ms @ [m]) = last_word g e (last_word g e p ms) [m]"
  by (induction ms arbitrary: p) auto

text \<open>The permission is held exactly if a grant was said and no revocation after it.\<close>

lemma last_word_False:
  "last_word g e False ms \<longleftrightarrow>
     (\<exists>xs ys. ms = xs @ Grant_permission g e # ys \<and> Revoke_permission g e \<notin> set ys)"
proof (induction ms rule: rev_induct)
  case (snoc m ms)
  note IH = snoc.IH
  show ?case
  proof
    assume "last_word g e False (ms @ [m])"
    then consider "m = Grant_permission g e"
      | "m \<noteq> Revoke_permission g e" "last_word g e False ms"
      by (auto simp: last_word_snoc split: if_splits)
    then show "\<exists>xs ys. ms @ [m] = xs @ Grant_permission g e # ys \<and>
        Revoke_permission g e \<notin> set ys"
    proof cases
      case 1
      then show ?thesis by (intro exI [of _ ms] exI [of _ "[]"]) simp
    next
      case 2
      from 2(2) snoc.IH obtain xs ys where "ms = xs @ Grant_permission g e # ys"
        "Revoke_permission g e \<notin> set ys" by blast
      with 2(1) show ?thesis by (intro exI [of _ xs] exI [of _ "ys @ [m]"]) simp
    qed
  next
    assume "\<exists>xs ys. ms @ [m] = xs @ Grant_permission g e # ys \<and> Revoke_permission g e \<notin> set ys"
    then obtain xs ys where split: "ms @ [m] = xs @ Grant_permission g e # ys"
      "Revoke_permission g e \<notin> set ys" by blast
    show "last_word g e False (ms @ [m])"
    proof (cases ys rule: rev_cases)
      case Nil
      with split(1) show ?thesis by (simp add: last_word_snoc)
    next
      case (snoc zs z)
      with split have "ms = xs @ Grant_permission g e # zs" "z = m" "m \<noteq> Revoke_permission g e"
        "Revoke_permission g e \<notin> set zs" by auto
      with IH have "last_word g e False ms" by blast
      with \<open>m \<noteq> Revoke_permission g e\<close> show ?thesis by (simp only: last_word_snoc) simp
    qed
  qed
qed simp

section \<open>Speaking for oneself\<close>

fun own_word :: "'x contract_call \<Rightarrow> bool" where
  "own_word tx =
     (case call tx of
        Grant_permission g e \<Rightarrow> signer tx = g
      | Revoke_permission g e \<Rightarrow> signer tx = g
      | _ \<Rightarrow> True)"

lemma map_split:
  "(\<exists>xs ys. map f zs = xs @ b # ys \<and> c \<notin> set ys) \<longleftrightarrow>
   (\<exists>us x vs. zs = us @ x # vs \<and> f x = b \<and> (\<forall>v \<in> set vs. f v \<noteq> c))"
proof
  assume "\<exists>xs ys. map f zs = xs @ b # ys \<and> c \<notin> set ys"
  then obtain us x vs where "zs = us @ x # vs" "f x = b" "c \<notin> set (map f vs)"
    by (auto simp: map_eq_append_conv map_eq_Cons_conv)
  then show "\<exists>us x vs. zs = us @ x # vs \<and> f x = b \<and> (\<forall>v \<in> set vs. f v \<noteq> c)"
    by (intro exI [of _ us] exI [of _ x] exI [of _ vs]) auto
next
  assume "\<exists>us x vs. zs = us @ x # vs \<and> f x = b \<and> (\<forall>v \<in> set vs. f v \<noteq> c)"
  then obtain us x vs where "zs = us @ x # vs" "f x = b" "\<forall>v \<in> set vs. f v \<noteq> c" by blast
  then show "\<exists>xs ys. map f zs = xs @ b # ys \<and> c \<notin> set ys"
    by (intro exI [of _ "map f us"] exI [of _ "map f vs"]) auto
qed

section \<open>Properties\<close>

text \<open>
  C4. A permission is the last word on it: after blocks of transactions from a fresh contract,
  in any environment, an account may read another's data exactly if, among the transactions
  that were admitted and whose message did not trap, one grants it and none after it revokes
  it. If in all of these everybody grants and revokes in their own name only, a discipline the
  contract does not enforce, that grant was signed by the granter and the granter alone could
  have revoked it.
\<close>

theorem permission_is_last_word:
  "(has_permission (contract (block_of check env fresh_world txs)) g e \<longleftrightarrow>
      (\<exists>us tx vs. answered check env fresh_world txs = us @ tx # vs \<and>
         call tx = Grant_permission g e \<and> (\<forall>v \<in> set vs. call v \<noteq> Revoke_permission g e))) \<and>
   subseq (answered check env fresh_world txs) (filter (admitted check) txs) \<and>
   ((\<forall>tx \<in> set (answered check env fresh_world txs). own_word tx) \<longrightarrow>
    (has_permission (contract (block_of check env fresh_world txs)) g e \<longleftrightarrow>
      (\<exists>us tx vs. answered check env fresh_world txs = us @ tx # vs \<and>
         signer tx = g \<and> call tx = Grant_permission g e \<and>
         (\<forall>v \<in> set vs. signer v = g \<longrightarrow> call v \<noteq> Revoke_permission g e))))"
proof -
  let ?A = "answered check env fresh_world txs"
  have "\<not> has_permission (contract fresh_world) g e"
    by (simp add: fresh_world_def access_control_default_def has_permission_def)
  then have last: "has_permission (contract (block_of check env fresh_world txs)) g e \<longleftrightarrow>
      (\<exists>us tx vs. ?A = us @ tx # vs \<and> call tx = Grant_permission g e \<and>
         (\<forall>v \<in> set vs. call v \<noteq> Revoke_permission g e))"
    by (simp add: block_word last_word_False map_split)
  have own: "signer tx = g" if "\<forall>tx \<in> set ?A. own_word tx" "tx \<in> set ?A"
    "call tx \<in> {Grant_permission g e, Revoke_permission g e}" for tx
    using that by auto
  have "(\<exists>us tx vs. ?A = us @ tx # vs \<and> call tx = Grant_permission g e \<and>
         (\<forall>v \<in> set vs. call v \<noteq> Revoke_permission g e)) \<longleftrightarrow>
      (\<exists>us tx vs. ?A = us @ tx # vs \<and> signer tx = g \<and> call tx = Grant_permission g e \<and>
         (\<forall>v \<in> set vs. signer v = g \<longrightarrow> call v \<noteq> Revoke_permission g e))"
    if "\<forall>tx \<in> set ?A. own_word tx"
  proof (intro ex_cong1)
    fix us tx vs
    have "tx \<in> set ?A" "set vs \<subseteq> set ?A" if "?A = us @ tx # vs" using that by auto
    with own [OF that] show "(?A = us @ tx # vs \<and> call tx = Grant_permission g e \<and>
         (\<forall>v \<in> set vs. call v \<noteq> Revoke_permission g e)) \<longleftrightarrow>
      (?A = us @ tx # vs \<and> signer tx = g \<and> call tx = Grant_permission g e \<and>
         (\<forall>v \<in> set vs. signer v = g \<longrightarrow> call v \<noteq> Revoke_permission g e))"
      by blast
  qed
  with answered_admitted [of check env fresh_world txs] show ?thesis unfolding last by blast
qed

theorem permission_is_last_word_witness:
  "let txs = [\<lparr>signer = 1, call = Grant_permission 1 2, extra = ()\<rparr>,
              \<lparr>signer = 2, call = Revoke_permission 2 1, extra = ()\<rparr>]
   in has_permission (contract (block_of (\<lambda>_ _. Ok ()) static_buffer_env fresh_world txs)) 1 2"
proof -
  let ?check = "\<lambda>_ _. Ok () :: (string, unit) result"
  let ?tx = "\<lparr>signer = 1, call = Grant_permission 1 2, extra = ()\<rparr>"
  let ?v = "\<lparr>signer = 2, call = Revoke_permission 2 1, extra = ()\<rparr>"
  have "answered ?check static_buffer_env fresh_world [?tx, ?v] = [?tx, ?v]" by code_simp
  then have "\<exists>us tx vs. answered ?check static_buffer_env fresh_world [?tx, ?v] = us @ tx # vs \<and>
      call tx = Grant_permission 1 2 \<and> (\<forall>v \<in> set vs. call v \<noteq> Revoke_permission 1 2)"
    by (intro exI [of _ "[]"] exI [of _ ?tx] exI [of _ "[?v]"]) simp
  with permission_is_last_word [of ?check static_buffer_env "[?tx, ?v]" 1 2] show ?thesis
    by (simp only: Let_def)
qed

end
