(* ===== verification/Runtime_Deposits.thy ===== *)
theory Runtime_Deposits
  imports Prelude
begin

text \<open>
  The balance arithmetic of the runtimes: the storage deposits of the contracts pallet
  (\<open>runtime/src/contracts_config.rs\<close>), the deposits of the assets pallet
  (\<open>runtime/src/assets_config.rs\<close>) and the units of \<open>runtime/src/lib.rs\<close>. A \<open>Balance\<close> is a
  \<open>u128\<close>; every \<open>*\<close> and \<open>+\<close> of the sources is checked, so \<^const>\<open>None\<close> would be an overflow.
\<close>

section \<open>Contracts: the storage deposit\<close>

definition UNIT :: u128 where
  "UNIT = 1000000000000"

definition MILLIUNIT :: u128 where
  "MILLIUNIT = 1000000000"

definition EXISTENTIAL_DEPOSIT :: u128 where
  "EXISTENTIAL_DEPOSIT = MILLIUNIT"

definition deposit :: "u32 \<Rightarrow> u32 \<Rightarrow> u128 option" where
  "deposit items bytes =
     do { per_items \<leftarrow> checked_mul (ucast items) UNIT;
          five \<leftarrow> checked_mul 5 MILLIUNIT;
          per_bytes \<leftarrow> checked_mul (ucast bytes) (five div 100);
          total \<leftarrow> checked_add per_items per_bytes;
          Some (total div 10) }"

definition DepositPerItem :: "u128 option" where
  "DepositPerItem = deposit 1 0"

definition DepositPerByte :: "u128 option" where
  "DepositPerByte = deposit 0 1"

definition DefaultDepositLimit :: "u128 option" where
  "DefaultDepositLimit = deposit 1024 (1024 * 1024)"

definition MaxDelegateDependencies :: u32 where
  "MaxDelegateDependencies = 32"

text \<open>The one field of the schedule the runtime sets; the others are the pallet's defaults.\<close>

record schedule_limits =
  runtime_memory :: u32

definition schedule :: "schedule_limits \<Rightarrow> schedule_limits" where
  "schedule defaults = defaults\<lparr>runtime_memory := 1024 * 1024 * 1024\<rparr>"

section \<open>Assets\<close>

definition MILLICENTS :: u128 where
  "MILLICENTS = 1000000000"

definition CENTS :: "u128 option" where
  "CENTS = checked_mul 1000 MILLICENTS"

definition DOLLARS :: "u128 option" where
  "DOLLARS = do { c \<leftarrow> CENTS; checked_mul 100 c }"

definition AssetDeposit :: "u128 option" where
  "AssetDeposit = do { d \<leftarrow> DOLLARS; checked_mul 100 d }"

definition ApprovalDeposit :: "u128 option" where
  "ApprovalDeposit = do { d \<leftarrow> DOLLARS; checked_mul 1 d }"

definition StringLimit :: u32 where
  "StringLimit = 50"

definition MetadataDepositBase :: "u128 option" where
  "MetadataDepositBase = do { d \<leftarrow> DOLLARS; checked_mul 10 d }"

definition MetadataDepositPerByte :: "u128 option" where
  "MetadataDepositPerByte = do { d \<leftarrow> DOLLARS; checked_mul 1 d }"

section \<open>Values\<close>

lemma checked_mul_value:
  "unat a * unat b < 2 ^ LENGTH('w) \<Longrightarrow>
   \<exists>c. checked_mul a (b :: 'w::len word) = Some c \<and> unat c = unat a * unat b"
  by (metis checked_mul_def checked_mul_eq_Some)

lemma checked_add_value:
  "unat a + unat b < 2 ^ LENGTH('w) \<Longrightarrow>
   \<exists>c. checked_add a (b :: 'w::len word) = Some c \<and> unat c = unat a + unat b"
  by (metis checked_add_def checked_add_eq_Some)

lemma unat_ucast_u32: "unat (ucast (x :: u32) :: u128) = unat x"
  by (simp add: unsigned_ucast_eq take_bit_nat_eq_self less_le_trans [OF unsigned_less])

lemma unat_u32_less: "unat (x :: u32) < 4294967296"
  using unsigned_less [of x, where ?'a = nat] by simp

lemma unit_values [simp]: "unat UNIT = 10 ^ 12" "unat MILLIUNIT = 10 ^ 9"
  by (simp_all add: UNIT_def MILLIUNIT_def)

lemma deposit_value:
  "\<exists>d. deposit items bytes = Some d \<and>
       unat d = (unat items * 10 ^ 12 + unat bytes * (5 * 10 ^ 7)) div 10"
proof -
  note bi = unat_u32_less [of items] and bb = unat_u32_less [of bytes]
  obtain pi where pi: "checked_mul (ucast items) UNIT = Some pi" "unat pi = unat items * 10 ^ 12"
    using checked_mul_value [of "ucast items" UNIT] bi by (auto simp: unat_ucast_u32)
  have five: "checked_mul 5 MILLIUNIT = Some (5 * MILLIUNIT)"
    by (simp add: checked_mul_def)
  have fv: "unat (5 * MILLIUNIT div 100) = 5 * 10 ^ 7"
    by (simp add: MILLIUNIT_def)
  obtain pb where pb: "checked_mul (ucast bytes) (5 * MILLIUNIT div 100) = Some pb"
    "unat pb = unat bytes * (5 * 10 ^ 7)"
    using checked_mul_value [of "ucast bytes" "5 * MILLIUNIT div 100"] bb fv
    by (auto simp: unat_ucast_u32)
  obtain t where t: "checked_add pi pb = Some t" "unat t = unat pi + unat pb"
    using checked_add_value [of pi pb] pi(2) pb(2) bi bb by auto
  have "unat (t div 10) = unat t div 10"
    by (simp add: unat_div)
  then show ?thesis
    by (simp add: deposit_def pi(1) five pb(1) t(1) t(2) pi(2) pb(2))
qed

lemma deposit_exact:
  "\<exists>d. deposit items bytes = Some d \<and> unat d = unat items * 10 ^ 11 + unat bytes * (5 * 10 ^ 6)"
proof -
  have "unat items * 10 ^ 12 + unat bytes * (5 * 10 ^ 7) =
      10 * (unat items * 10 ^ 11 + unat bytes * (5 * 10 ^ 6))" by simp
  then have "(unat items * 10 ^ 12 + unat bytes * (5 * 10 ^ 7)) div 10 =
      unat items * 10 ^ 11 + unat bytes * (5 * 10 ^ 6)"
    by (simp only: nonzero_mult_div_cancel_left zero_neq_numeral [symmetric] not_False_eq_True)
  with deposit_value [of items bytes] show ?thesis by (simp only:)
qed

lemma deposit_mono:
  assumes "deposit i b = Some d" "deposit i' b' = Some d'" "i \<le> i'" "b \<le> b'"
  shows "d \<le> d'"
proof -
  have "unat d = unat i * 10 ^ 11 + unat b * (5 * 10 ^ 6)"
    "unat d' = unat i' * 10 ^ 11 + unat b' * (5 * 10 ^ 6)"
    using assms(1,2) deposit_exact [of i b] deposit_exact [of i' b'] by auto
  with assms(3,4) show ?thesis by (simp add: word_le_nat_alt add_mono)
qed

section \<open>Properties\<close>

text \<open>
  \<open>deposit\<close> never overflows a \<open>u128\<close> and never rounds: for every pair of \<open>u32\<close> arguments
  it is the number of items times \<open>DepositPerItem\<close> plus the number of bytes times
  \<open>DepositPerByte\<close>, although the code divides a sum by ten.
\<close>

theorem deposit_linear:
  "\<exists>d pi pb. deposit items bytes = Some d \<and> DepositPerItem = Some pi \<and> DepositPerByte = Some pb \<and>
     unat d = unat items * unat pi + unat bytes * unat pb \<and>
     unat pi = 10 ^ 11 \<and> unat pb = 5 * 10 ^ 6"
  using deposit_exact [of items bytes] deposit_exact [of 1 0] deposit_exact [of 0 1]
  by (auto simp: DepositPerItem_def DepositPerByte_def)

text \<open>
  The default deposit limit covers every charge of at most 1024 items and 1 MiB, and so
  the upload of any code the pallet accepts (at most 256 KiB) with up to 1024 items.
\<close>

theorem default_limit_covers:
  assumes "items \<le> 1024" "bytes \<le> 1024 * 1024"
  shows "\<exists>d limit. deposit items bytes = Some d \<and> DefaultDepositLimit = Some limit \<and> d \<le> limit"
  using deposit_exact [of items bytes] deposit_exact [of 1024 "1024 * 1024"]
    deposit_mono [OF _ _ assms]
  by (auto simp: DefaultDepositLimit_def)

theorem default_limit_covers_witness:
  "\<exists>d limit. deposit 3 (256 * 1024) = Some d \<and> DefaultDepositLimit = Some limit \<and> d \<le> limit"
  by (rule default_limit_covers) simp_all

text \<open>
  The deposits of the assets pallet, computed without overflow, in the smallest unit of
  the balance: a dollar is 100 \<open>UNIT\<close>s, and creating an asset locks 10000 \<open>UNIT\<close>s.
\<close>

theorem asset_deposits:
  "\<exists>dollar asset approval base per_byte.
     DOLLARS = Some dollar \<and> AssetDeposit = Some asset \<and> ApprovalDeposit = Some approval \<and>
     MetadataDepositBase = Some base \<and> MetadataDepositPerByte = Some per_byte \<and>
     unat dollar = 100 * unat UNIT \<and> unat asset = 100 * unat dollar \<and>
     approval = dollar \<and> unat base = 10 * unat dollar \<and> per_byte = dollar"
  by (simp add: DOLLARS_def CENTS_def MILLICENTS_def AssetDeposit_def ApprovalDeposit_def
      MetadataDepositBase_def MetadataDepositPerByte_def checked_mul_def)

end
