(* ===== verification/Runtime_Weights.thy ===== *)
theory Runtime_Weights
  imports Runtime_Deposits
begin

text \<open>
  Weights: the constants of \<open>parachain-runtime/src/weights/\<close>, the block limits both runtimes
  build (\<open>runtime/src/lib.rs\<close>, \<open>parachain-runtime/src/lib.rs\<close>) and the weight-to-fee
  polynomial of the parachain runtime.

  The weight type of the SDK is a pair of two \<open>u64\<close>. Its arithmetic, \<open>Perbill\<close>, the
  \<open>BlockWeights\<close> builder and the constants of \<open>frame_support\<close> are code outside the
  repository: they are the records \<open>sdk\<close> and \<open>limits_builder\<close>, arguments of the definitions,
  and \<open>documented_sdk\<close> and \<open>documented_builder\<close> state what their documentation says of them.
\<close>

section \<open>What the SDK provides\<close>

record weight =
  ref_time :: u64
  proof_size :: u64

definition from_parts :: "u64 \<Rightarrow> u64 \<Rightarrow> weight" where
  "from_parts r p = \<lparr>ref_time = r, proof_size = p\<rparr>"

lemma from_parts_fields [simp]:
  "ref_time (from_parts r p) = r" "proof_size (from_parts r p) = p"
  by (simp_all add: from_parts_def)

record 'p sdk =
  PER_SECOND :: u64
  PER_MILLIS :: u64
  PER_MICROS :: u64
  PER_NANOS :: u64
  MAX_POV_SIZE :: u32
  from_percent :: "u32 \<Rightarrow> 'p"
  from_rational :: "u128 \<Rightarrow> u128 \<Rightarrow> 'p"
  parts :: "'p \<Rightarrow> nat" \<comment> \<open>parts per billion, \<open>deconstruct\<close>\<close>
  perbill_times :: "'p \<Rightarrow> weight \<Rightarrow> weight"
  weight_minus :: "weight \<Rightarrow> weight \<Rightarrow> weight"
  weight_div :: "weight \<Rightarrow> u64 \<Rightarrow> weight" \<comment> \<open>\<open>saturating_div\<close>\<close>

text \<open>
  A fraction of a number is exact where it is an integer and otherwise one of the two
  nearest integers; a fraction \<open>n / d\<close> is exact where it has at most nine decimals.
\<close>

definition billionths :: "nat \<Rightarrow> nat \<Rightarrow> nat \<Rightarrow> bool" where
  "billionths p x y \<longleftrightarrow>
     (if 10 ^ 9 dvd p * x then y = p * x div 10 ^ 9
      else y = p * x div 10 ^ 9 \<or> y = p * x div 10 ^ 9 + 1)"

definition documented_sdk :: "'p sdk \<Rightarrow> bool" where
  "documented_sdk S \<longleftrightarrow>
     PER_SECOND S = 1000000000000 \<and> PER_MILLIS S = 1000000000 \<and>
     PER_MICROS S = 1000000 \<and> PER_NANOS S = 1000 \<and>
     (\<forall>p. p \<le> 100 \<longrightarrow> parts S (from_percent S p) = unat p * 10 ^ 7) \<and>
     (\<forall>n d. n \<le> d \<longrightarrow> d \<noteq> 0 \<longrightarrow> unat d dvd unat n * 10 ^ 9 \<longrightarrow>
        parts S (from_rational S n d) = unat n * 10 ^ 9 div unat d) \<and>
     (\<forall>b w. parts S b \<le> 10 ^ 9 \<longrightarrow>
        billionths (parts S b) (unat (ref_time w)) (unat (ref_time (perbill_times S b w))) \<and>
        billionths (parts S b) (unat (proof_size w)) (unat (proof_size (perbill_times S b w)))) \<and>
     (\<forall>v w. ref_time w \<le> ref_time v \<longrightarrow> proof_size w \<le> proof_size v \<longrightarrow>
        weight_minus S v w = from_parts (ref_time v - ref_time w) (proof_size v - proof_size w)) \<and>
     (\<forall>w d. d \<noteq> 0 \<longrightarrow> weight_div S w d = from_parts (ref_time w div d) (proof_size w div d))"

datatype dispatch_class = Normal | Operational | Mandatory

definition all_classes :: "dispatch_class list" where
  "all_classes = [Normal, Operational, Mandatory]"

instantiation dispatch_class :: enum
begin

definition enum_dispatch_class :: "dispatch_class list" where
  "enum_dispatch_class = [Normal, Operational, Mandatory]"

definition enum_all_dispatch_class :: "(dispatch_class \<Rightarrow> bool) \<Rightarrow> bool" where
  "enum_all_dispatch_class P \<longleftrightarrow> P Normal \<and> P Operational \<and> P Mandatory"

definition enum_ex_dispatch_class :: "(dispatch_class \<Rightarrow> bool) \<Rightarrow> bool" where
  "enum_ex_dispatch_class P \<longleftrightarrow> P Normal \<or> P Operational \<or> P Mandatory"

instance
proof
  show "UNIV = set (enum_class.enum :: dispatch_class list)"
    by (auto simp: enum_dispatch_class_def intro: dispatch_class.exhaust)
  show "distinct (enum_class.enum :: dispatch_class list)"
    by (simp add: enum_dispatch_class_def)
  show "enum_class.enum_all P \<longleftrightarrow> Ball UNIV P" for P :: "dispatch_class \<Rightarrow> bool"
    by (auto simp: enum_all_dispatch_class_def) (metis dispatch_class.exhaust)
  show "enum_class.enum_ex P \<longleftrightarrow> Bex UNIV P" for P :: "dispatch_class \<Rightarrow> bool"
    by (auto simp: enum_ex_dispatch_class_def) (metis dispatch_class.exhaust)
qed

end

lemma all_classes_enum: "all_classes = enum_class.enum"
  by (simp add: all_classes_def enum_dispatch_class_def)

lemma set_all_classes [simp]: "set all_classes = UNIV"
  by (simp add: all_classes_enum enum_UNIV)

record class_weights =
  base_extrinsic :: weight
  max_total :: "weight option"
  reserved :: "weight option"

record ('b, 'p, 'l) limits_builder =
  builder :: 'b
  base_block :: "weight \<Rightarrow> 'b \<Rightarrow> 'b"
  for_class :: "dispatch_class list \<Rightarrow> (class_weights \<Rightarrow> class_weights) \<Rightarrow> 'b \<Rightarrow> 'b"
  avg_block_initialization :: "'p \<Rightarrow> 'b \<Rightarrow> 'b"
  build_or_panic :: "'b \<Rightarrow> 'l"
  class_settings :: "'b \<Rightarrow> dispatch_class \<Rightarrow> class_weights"
  per_class :: "'l \<Rightarrow> dispatch_class \<Rightarrow> class_weights"
  max_block :: "'l \<Rightarrow> weight"

text \<open>
  The limit of the whole block, \<open>max_block\<close>, is the largest total a class was given, in each
  dimension; the mandatory class has none to begin with.
\<close>

definition largest_total :: "(dispatch_class \<Rightarrow> class_weights) \<Rightarrow> weight" where
  "largest_total settings =
     fold (\<lambda>c m. case max_total (settings c) of None \<Rightarrow> m
         | Some t \<Rightarrow> from_parts (max (ref_time t) (ref_time m)) (max (proof_size t) (proof_size m)))
       all_classes (from_parts 0 0)"

definition documented_builder :: "('b, 'p, 'l) limits_builder \<Rightarrow> bool" where
  "documented_builder B \<longleftrightarrow>
     (\<forall>w b. class_settings B (base_block B w b) = class_settings B b) \<and>
     (\<forall>cs f b c. class_settings B (for_class B cs f b) c =
        (if c \<in> set cs then f (class_settings B b c) else class_settings B b c)) \<and>
     (\<forall>r b. class_settings B (avg_block_initialization B r b) = class_settings B b) \<and>
     (\<forall>b. per_class B (build_or_panic B b) = class_settings B b) \<and>
     max_total (class_settings B (builder B) Mandatory) = None \<and>
     (\<forall>b. max_block B (build_or_panic B b) = largest_total (class_settings B b))"

section \<open>The constants of the weight files\<close>

definition BlockExecutionWeight :: "'p sdk \<Rightarrow> weight" where
  "BlockExecutionWeight S = from_parts (saturating_mul (PER_NANOS S) 5000000) 0"

definition ExtrinsicBaseWeight :: "'p sdk \<Rightarrow> weight" where
  "ExtrinsicBaseWeight S = from_parts (saturating_mul (PER_NANOS S) 125000) 0"

record db_weight =
  db_read :: u64
  db_write :: u64

definition RocksDbWeight :: "'p sdk \<Rightarrow> db_weight option" where
  "RocksDbWeight S =
     do { r \<leftarrow> checked_mul 25000 (PER_NANOS S);
          w \<leftarrow> checked_mul 100000 (PER_NANOS S);
          Some \<lparr>db_read = r, db_write = w\<rparr> }"

definition ParityDbWeight :: "'p sdk \<Rightarrow> db_weight option" where
  "ParityDbWeight S =
     do { r \<leftarrow> checked_mul 8000 (PER_NANOS S);
          w \<leftarrow> checked_mul 50000 (PER_NANOS S);
          Some \<lparr>db_read = r, db_write = w\<rparr> }"

text \<open>The assertions of the unit tests \<open>sane\<close>, with one read or write for \<open>reads(1)\<close>.\<close>

definition block_weight_sane :: "'p sdk \<Rightarrow> weight \<Rightarrow> bool" where
  "block_weight_sane S w \<longleftrightarrow>
     ref_time w \<ge> 100 * PER_MICROS S \<and> ref_time w \<le> 50 * PER_MILLIS S"

definition extrinsic_weight_sane :: "'p sdk \<Rightarrow> weight \<Rightarrow> bool" where
  "extrinsic_weight_sane S w \<longleftrightarrow>
     ref_time w \<ge> 10 * PER_MICROS S \<and> ref_time w \<le> PER_MILLIS S"

definition db_weight_sane :: "'p sdk \<Rightarrow> db_weight \<Rightarrow> bool" where
  "db_weight_sane S w \<longleftrightarrow>
     db_read w \<ge> PER_MICROS S \<and> db_write w \<ge> PER_MICROS S \<and>
     db_read w \<le> PER_MILLIS S \<and> db_write w \<le> PER_MILLIS S"

definition parity_weight_sane :: "'p sdk \<Rightarrow> db_weight \<Rightarrow> bool" where
  "parity_weight_sane S w \<longleftrightarrow>
     db_read w \<ge> PER_MICROS S \<and> db_write w \<ge> PER_MICROS S \<and>
     db_read w \<le> PER_MILLIS S \<and> db_write w \<le> PER_MILLIS S"

section \<open>Block limits\<close>

definition NORMAL_DISPATCH_RATIO :: "'p sdk \<Rightarrow> 'p" where
  "NORMAL_DISPATCH_RATIO S = from_percent S 75"

definition solo_AVERAGE_ON_INITIALIZE_RATIO :: "'p sdk \<Rightarrow> 'p" where
  "solo_AVERAGE_ON_INITIALIZE_RATIO S = from_percent S 10"

text \<open>The parachain runtime has constants of its own, with the values of the development runtime.\<close>

definition parachain_NORMAL_DISPATCH_RATIO :: "'p sdk \<Rightarrow> 'p" where
  "parachain_NORMAL_DISPATCH_RATIO S = from_percent S 75"

definition AVERAGE_ON_INITIALIZE_RATIO :: "'p sdk \<Rightarrow> 'p" where
  "AVERAGE_ON_INITIALIZE_RATIO S = from_percent S 5"

definition parachain_UNIT :: u128 where
  "parachain_UNIT = 1000000000000"

definition parachain_MILLIUNIT :: u128 where
  "parachain_MILLIUNIT = 1000000000"

definition parachain_EXISTENTIAL_DEPOSIT :: u128 where
  "parachain_EXISTENTIAL_DEPOSIT = parachain_MILLIUNIT"

lemma parachain_constants [simp]:
  "parachain_NORMAL_DISPATCH_RATIO S = NORMAL_DISPATCH_RATIO S"
  "parachain_UNIT = UNIT" "parachain_MILLIUNIT = MILLIUNIT"
  "parachain_EXISTENTIAL_DEPOSIT = EXISTENTIAL_DEPOSIT"
  by (simp_all add: parachain_NORMAL_DISPATCH_RATIO_def NORMAL_DISPATCH_RATIO_def
      parachain_UNIT_def UNIT_def parachain_MILLIUNIT_def MILLIUNIT_def
      parachain_EXISTENTIAL_DEPOSIT_def EXISTENTIAL_DEPOSIT_def)

text \<open>
  The length limits: five megabytes, of which the normal class gets its share;
  \<open>max_with_normal_ratio\<close> is that of the SDK.
\<close>

definition solo_RuntimeBlockLength :: "'p sdk \<Rightarrow> (u32 \<Rightarrow> 'p \<Rightarrow> 'l) \<Rightarrow> 'l" where
  "solo_RuntimeBlockLength S max_with_normal_ratio =
     max_with_normal_ratio (5 * 1024 * 1024) (NORMAL_DISPATCH_RATIO S)"

definition RuntimeBlockLength :: "'p sdk \<Rightarrow> (u32 \<Rightarrow> 'p \<Rightarrow> 'l) \<Rightarrow> 'l" where
  "RuntimeBlockLength S max_with_normal_ratio =
     max_with_normal_ratio (5 * 1024 * 1024) (parachain_NORMAL_DISPATCH_RATIO S)"

text \<open>The development runtime: two seconds of computation, no bound on the proof.\<close>

definition solo_MAXIMUM_BLOCK_WEIGHT :: "'p sdk \<Rightarrow> weight" where
  "solo_MAXIMUM_BLOCK_WEIGHT S = from_parts (saturating_mul (PER_SECOND S) 2) (- 1)"

definition solo_block_weights ::
  "'p sdk \<Rightarrow> ('b, 'p, 'l) limits_builder \<Rightarrow> weight \<Rightarrow> weight \<Rightarrow> 'l" where
  "solo_block_weights S B block_execution_weight extrinsic_base_weight =
     (let maximum = solo_MAXIMUM_BLOCK_WEIGHT S;
          normal = perbill_times S (NORMAL_DISPATCH_RATIO S) maximum;
          b0 = builder B;
          b1 = base_block B block_execution_weight b0;
          b2 = for_class B all_classes (\<lambda>w. w\<lparr>base_extrinsic := extrinsic_base_weight\<rparr>) b1;
          b3 = for_class B [Normal] (\<lambda>w. w\<lparr>max_total := Some normal\<rparr>) b2;
          b4 = for_class B [Operational]
                 (\<lambda>w. w\<lparr>max_total := Some maximum,
                        reserved := Some (weight_minus S maximum normal)\<rparr>) b3;
          b5 = avg_block_initialization B (solo_AVERAGE_ON_INITIALIZE_RATIO S) b4
      in build_or_panic B b5)"

text \<open>The parachain runtime: half a second of computation and the proof a relay block takes.\<close>

definition MAXIMUM_BLOCK_WEIGHT :: "'p sdk \<Rightarrow> weight" where
  "MAXIMUM_BLOCK_WEIGHT S = from_parts (PER_SECOND S div 2) (ucast (MAX_POV_SIZE S))"

definition parachain_block_weights :: "'p sdk \<Rightarrow> ('b, 'p, 'l) limits_builder \<Rightarrow> 'l" where
  "parachain_block_weights S B =
     (let maximum = MAXIMUM_BLOCK_WEIGHT S;
          normal = perbill_times S (parachain_NORMAL_DISPATCH_RATIO S) maximum;
          b0 = builder B;
          b1 = base_block B (BlockExecutionWeight S) b0;
          b2 = for_class B all_classes (\<lambda>w. w\<lparr>base_extrinsic := ExtrinsicBaseWeight S\<rparr>) b1;
          b3 = for_class B [Normal] (\<lambda>w. w\<lparr>max_total := Some normal\<rparr>) b2;
          b4 = for_class B [Operational]
                 (\<lambda>w. w\<lparr>max_total := Some maximum,
                        reserved := Some (weight_minus S maximum normal)\<rparr>) b3;
          b5 = avg_block_initialization B (AVERAGE_ON_INITIALIZE_RATIO S) b4
      in build_or_panic B b5)"

definition ReservedXcmpWeight :: "'p sdk \<Rightarrow> weight" where
  "ReservedXcmpWeight S = weight_div S (MAXIMUM_BLOCK_WEIGHT S) 4"

definition ReservedDmpWeight :: "'p sdk \<Rightarrow> weight" where
  "ReservedDmpWeight S = weight_div S (MAXIMUM_BLOCK_WEIGHT S) 4"

definition MessageQueueServiceWeight :: "'p sdk \<Rightarrow> ('b, 'p, 'l) limits_builder \<Rightarrow> weight" where
  "MessageQueueServiceWeight S B =
     perbill_times S (from_percent S 35) (max_block B (parachain_block_weights S B))"

text \<open>The share of the code deposit that is locked up with a code hash: none.\<close>

definition CodeHashLockupDepositPercent :: "'p sdk \<Rightarrow> 'p" where
  "CodeHashLockupDepositPercent S = from_percent S 0"

section \<open>Fees of the parachain runtime\<close>

record 'p fee_coefficient =
  degree :: u8
  negative :: bool
  coeff_frac :: 'p
  coeff_integer :: u128

definition polynomial :: "'p sdk \<Rightarrow> 'p fee_coefficient list option" where
  "polynomial S =
     (let p = parachain_MILLIUNIT div 10
      in do { q \<leftarrow> checked_mul 100 (ucast (ref_time (ExtrinsicBaseWeight S)));
              Some [\<lparr>degree = 1, negative = False,
                     coeff_frac = from_rational S (p mod q) q, coeff_integer = p div q\<rparr>] })"

definition MICROUNIT :: u128 where
  "MICROUNIT = 1000000"

definition TransactionByteFee :: u128 where
  "TransactionByteFee = 10 * MICROUNIT"

section \<open>Values under the documented behaviour of the SDK\<close>

lemma documented_consts:
  assumes "documented_sdk S"
  shows "PER_SECOND S = 1000000000000" "PER_MILLIS S = 1000000000"
    "PER_MICROS S = 1000000" "PER_NANOS S = 1000"
  using assms by (simp_all add: documented_sdk_def)

lemma documented_percent:
  "documented_sdk S \<Longrightarrow> p \<le> 100 \<Longrightarrow> parts S (from_percent S p) = unat p * 10 ^ 7"
  by (simp add: documented_sdk_def)

lemma documented_rational:
  "documented_sdk S \<Longrightarrow> n \<le> d \<Longrightarrow> d \<noteq> 0 \<Longrightarrow> unat d dvd unat n * 10 ^ 9 \<Longrightarrow>
   parts S (from_rational S n d) = unat n * 10 ^ 9 div unat d"
  by (simp add: documented_sdk_def)

lemma documented_times:
  assumes "documented_sdk S" "parts S b \<le> 10 ^ 9"
  shows "billionths (parts S b) (unat (ref_time w)) (unat (ref_time (perbill_times S b w)))"
    and "billionths (parts S b) (unat (proof_size w)) (unat (proof_size (perbill_times S b w)))"
  using assms unfolding documented_sdk_def by blast+

lemma documented_minus:
  "documented_sdk S \<Longrightarrow> ref_time w \<le> ref_time v \<Longrightarrow> proof_size w \<le> proof_size v \<Longrightarrow>
   weight_minus S v w = from_parts (ref_time v - ref_time w) (proof_size v - proof_size w)"
  by (simp add: documented_sdk_def)

lemma documented_div:
  "documented_sdk S \<Longrightarrow> d \<noteq> 0 \<Longrightarrow>
   weight_div S w d = from_parts (ref_time w div d) (proof_size w div d)"
  by (simp add: documented_sdk_def)

lemma billionths_le:
  assumes "billionths p x y" "p \<le> 10 ^ 9"
  shows "y \<le> x"
proof (cases "10 ^ 9 dvd p * x")
  case True
  have "p * x div 10 ^ 9 \<le> 10 ^ 9 * x div 10 ^ 9"
    using assms(2) by (intro div_le_mono mult_le_mono1)
  with True assms(1) show ?thesis by (simp add: billionths_def)
next
  case False
  have "p * x \<le> 10 ^ 9 * x" using assms(2) by (rule mult_le_mono1)
  moreover have "p * x \<noteq> 10 ^ 9 * x" using False by (metis dvd_triv_left)
  ultimately have "p * x < 10 ^ 9 * x" by (rule le_neq_implies_less)
  then have "p * x div 10 ^ 9 < x" by (intro less_mult_imp_div_less) (simp add: mult.commute)
  with False assms(1) show ?thesis by (auto simp: billionths_def)
qed

text \<open>The share of the normal class never exceeds the block, in either dimension.\<close>

lemma normal_share:
  assumes "documented_sdk S" and n_def: "n = perbill_times S (NORMAL_DISPATCH_RATIO S) m"
  shows "ref_time n \<le> ref_time m" "proof_size n \<le> proof_size m"
    and "4 dvd unat (ref_time m) \<Longrightarrow> unat (ref_time n) = 3 * (unat (ref_time m) div 4)"
proof -
  have p: "parts S (NORMAL_DISPATCH_RATIO S) = 750000000"
    using documented_percent [OF assms(1), of 75] by (simp add: NORMAL_DISPATCH_RATIO_def)
  note t = documented_times [OF assms(1), of "NORMAL_DISPATCH_RATIO S" m, unfolded n_def [symmetric]]
  show "ref_time n \<le> ref_time m" "proof_size n \<le> proof_size m"
    using t [THEN billionths_le] p by (simp_all add: word_le_nat_alt)
  show "unat (ref_time n) = 3 * (unat (ref_time m) div 4)" if "4 dvd unat (ref_time m)"
    using that t(1) p by (auto simp: billionths_def elim!: dvdE)
qed

lemma reserve_adds_up:
  assumes "documented_sdk S" "ref_time n \<le> ref_time m" "proof_size n \<le> proof_size m"
  shows "unat (ref_time n) + unat (ref_time (weight_minus S m n)) = unat (ref_time m)"
    and "unat (proof_size n) + unat (proof_size (weight_minus S m n)) = unat (proof_size m)"
  using assms by (simp_all add: documented_minus unat_sub word_le_nat_alt)

section \<open>A reference instance\<close>

text \<open>Exact arithmetic rounded down, for the instances of the properties.\<close>

definition reference_sdk :: "nat sdk" where
  "reference_sdk =
     \<lparr>PER_SECOND = 1000000000000, PER_MILLIS = 1000000000, PER_MICROS = 1000000,
      PER_NANOS = 1000, MAX_POV_SIZE = 5 * 1024 * 1024,
      from_percent = (\<lambda>p. unat p * 10 ^ 7),
      from_rational = (\<lambda>n d. unat n * 10 ^ 9 div unat d),
      parts = (\<lambda>p. p),
      perbill_times = (\<lambda>p w. from_parts (word_of_nat (p * unat (ref_time w) div 10 ^ 9))
                                (word_of_nat (p * unat (proof_size w) div 10 ^ 9))),
      weight_minus = (\<lambda>v w. from_parts (ref_time v - ref_time w) (proof_size v - proof_size w)),
      weight_div = (\<lambda>w d. from_parts (ref_time w div d) (proof_size w div d))\<rparr>"

lemma billionths_below:
  assumes "p \<le> (1000000000 :: nat)"
  shows "p * x div 1000000000 \<le> x"
  using div_le_mono [OF mult_le_mono1 [OF assms, of x], of 1000000000] by simp

lemma scaled_word:
  assumes "p \<le> 1000000000"
  shows "unat (word_of_nat (p * unat x div 1000000000) :: 'w::len word) =
    p * unat (x :: 'w word) div 1000000000"
  using le_less_trans [OF billionths_below [OF assms] unsigned_less [of x]]
  by (simp add: unat_of_nat)

lemma billionths_div: "billionths p x (p * x div 1000000000)"
  by (simp add: billionths_def)

lemma documented_reference: "documented_sdk reference_sdk"
  unfolding documented_sdk_def
  by (simp add: reference_sdk_def scaled_word billionths_div)

definition reference_builder ::
  "(dispatch_class \<Rightarrow> class_weights, 'p, dispatch_class \<Rightarrow> class_weights) limits_builder" where
  "reference_builder =
     \<lparr>builder = (\<lambda>_. \<lparr>base_extrinsic = from_parts 0 0, max_total = None, reserved = None\<rparr>),
      base_block = (\<lambda>_ b. b),
      for_class = (\<lambda>cs f b c. if c \<in> set cs then f (b c) else b c),
      avg_block_initialization = (\<lambda>_ b. b),
      build_or_panic = (\<lambda>b. b),
      class_settings = (\<lambda>b. b),
      per_class = (\<lambda>b. b),
      max_block = largest_total\<rparr>"

lemma documented_reference_builder: "documented_builder reference_builder"
  by (simp add: documented_builder_def reference_builder_def)

section \<open>Properties\<close>

lemma unat_base_ref_time:
  "documented_sdk S \<Longrightarrow> ref_time (ExtrinsicBaseWeight S) = 125000000"
  by (simp add: ExtrinsicBaseWeight_def documented_consts saturating_mul_def)

lemma ref_time_maximum:
  "documented_sdk S \<Longrightarrow> ref_time (MAXIMUM_BLOCK_WEIGHT S) = 500000000000"
  "documented_sdk S \<Longrightarrow> ref_time (solo_MAXIMUM_BLOCK_WEIGHT S) = 2000000000000"
  by (simp_all add: MAXIMUM_BLOCK_WEIGHT_def solo_MAXIMUM_BLOCK_WEIGHT_def documented_consts
      saturating_mul_def)

text \<open>
  The limits leave no gap and no overlap: the normal share and the operational reserve are
  the whole block, the normal share is three quarters of its computation time, and every
  class charges the base weight of an extrinsic.
\<close>

definition budget_split :: "(dispatch_class \<Rightarrow> class_weights) \<Rightarrow> weight \<Rightarrow> weight \<Rightarrow> bool" where
  "budget_split L m base \<longleftrightarrow>
     (\<exists>n r. max_total (L Normal) = Some n \<and> max_total (L Operational) = Some m \<and>
        reserved (L Operational) = Some r \<and>
        unat (ref_time n) + unat (ref_time r) = unat (ref_time m) \<and>
        unat (proof_size n) + unat (proof_size r) = unat (proof_size m) \<and>
        4 * unat (ref_time n) = 3 * unat (ref_time m)) \<and>
     base_extrinsic (L Normal) = base \<and> base_extrinsic (L Operational) = base \<and>
     base_extrinsic (L Mandatory) = base"

lemma budget_splitI:
  assumes "documented_sdk S" "4 dvd unat (ref_time m)"
    and "max_total (L Normal) = Some (perbill_times S (NORMAL_DISPATCH_RATIO S) m)"
    and "max_total (L Operational) = Some m"
    and "reserved (L Operational) =
      Some (weight_minus S m (perbill_times S (NORMAL_DISPATCH_RATIO S) m))"
    and "base_extrinsic (L Normal) = base" "base_extrinsic (L Operational) = base"
    and "base_extrinsic (L Mandatory) = base"
  shows "budget_split L m base"
proof -
  note share = normal_share [OF assms(1) refl, of m]
  note adds = reserve_adds_up [OF assms(1) share(1,2)]
  from share(3) [OF assms(2)] assms(2)
  have "4 * unat (ref_time (perbill_times S (NORMAL_DISPATCH_RATIO S) m)) = 3 * unat (ref_time m)"
    by (auto elim: dvdE)
  with adds assms(3-8) show ?thesis by (simp add: budget_split_def)
qed

text \<open>
  Both runtimes split the block the same way: under the documented behaviour of the SDK,
  the limits that come out of the two builder chains give the normal class exactly three
  quarters of the computation time of the block, reserve the rest for the operational class,
  and the two parts add up to the block in time and in proof size.
\<close>

theorem block_budgets_add_up:
  assumes "documented_sdk S" "documented_builder B"
  shows "budget_split (per_class B (parachain_block_weights S B)) (MAXIMUM_BLOCK_WEIGHT S)
           (ExtrinsicBaseWeight S) \<and>
         budget_split (per_class B (solo_block_weights S B bw ew)) (solo_MAXIMUM_BLOCK_WEIGHT S) ew"
proof
  show "budget_split (per_class B (parachain_block_weights S B)) (MAXIMUM_BLOCK_WEIGHT S)
      (ExtrinsicBaseWeight S)"
    by (rule budget_splitI [OF assms(1)])
      (use assms(2) in \<open>simp_all add: parachain_block_weights_def Let_def documented_builder_def
        ref_time_maximum [OF assms(1)] all_classes_def\<close>)
  show "budget_split (per_class B (solo_block_weights S B bw ew)) (solo_MAXIMUM_BLOCK_WEIGHT S) ew"
    by (rule budget_splitI [OF assms(1)])
      (use assms(2) in \<open>simp_all add: solo_block_weights_def Let_def documented_builder_def
        ref_time_maximum [OF assms(1)] all_classes_def\<close>)
qed

theorem block_budgets_add_up_witness:
  "budget_split (parachain_block_weights reference_sdk reference_builder)
     (MAXIMUM_BLOCK_WEIGHT reference_sdk) (ExtrinsicBaseWeight reference_sdk)"
  using block_budgets_add_up [OF documented_reference documented_reference_builder]
  by (simp add: reference_builder_def)

text \<open>
  The fee polynomial of the parachain runtime has one linear coefficient of 8 parts per
  thousand, so the base weight of an extrinsic costs a thousandth of a \<open>MILLIUNIT\<close>: a
  hundredth of the tenth of a \<open>MILLIUNIT\<close> that the comment in the source announces.
\<close>

theorem base_weight_fee:
  assumes "documented_sdk S"
  shows "\<exists>c. polynomial S = Some [c] \<and> degree c = 1 \<and> \<not> negative c \<and>
    unat (coeff_integer c) = 0 \<and> parts S (coeff_frac c) = 8 * 10 ^ 6 \<and>
    (unat (coeff_integer c) * 10 ^ 9 + parts S (coeff_frac c)) *
      unat (ref_time (ExtrinsicBaseWeight S)) * 1000 = 10 ^ 9 * unat MILLIUNIT"
proof -
  have q: "checked_mul 100 (ucast (125000000 :: u64)) = Some (12500000000 :: u128)"
    by (simp add: checked_mul_def)
  have "parts S (from_rational S 100000000 12500000000) = 8000000"
    using documented_rational [OF assms, of 100000000 12500000000] by simp
  with q show ?thesis
    by (simp add: polynomial_def unat_base_ref_time [OF assms] MILLIUNIT_def)
qed

theorem base_weight_fee_witness:
  "\<exists>c. polynomial reference_sdk = Some [c] \<and> coeff_frac c = 8 * 10 ^ 6"
  using base_weight_fee [OF documented_reference] by (auto simp: reference_sdk_def)

text \<open>
  The generated weight constants pass the assertions of their unit tests, and none of
  the products overflows a \<open>u64\<close>.
\<close>

theorem weight_constants_sane:
  assumes "documented_sdk S"
  shows "block_weight_sane S (BlockExecutionWeight S) \<and>
    extrinsic_weight_sane S (ExtrinsicBaseWeight S) \<and>
    (\<exists>r p. RocksDbWeight S = Some r \<and> ParityDbWeight S = Some p \<and>
       db_weight_sane S r \<and> parity_weight_sane S p)"
  by (simp add: block_weight_sane_def extrinsic_weight_sane_def db_weight_sane_def parity_weight_sane_def
      BlockExecutionWeight_def ExtrinsicBaseWeight_def RocksDbWeight_def ParityDbWeight_def
      documented_consts [OF assms] saturating_mul_def checked_mul_def)

theorem weight_constants_sane_witness:
  "block_weight_sane reference_sdk (BlockExecutionWeight reference_sdk)"
  using weight_constants_sane [OF documented_reference] by blast

text \<open>The limit of a block of the parachain is the maximum its operational class was given.\<close>

lemma parachain_max_block:
  assumes "documented_sdk S" "documented_builder B"
  shows "max_block B (parachain_block_weights S B) = MAXIMUM_BLOCK_WEIGHT S"
proof -
  let ?m = "MAXIMUM_BLOCK_WEIGHT S"
  let ?n = "perbill_times S (NORMAL_DISPATCH_RATIO S) ?m"
  obtain settings where "max_block B (parachain_block_weights S B) = largest_total settings"
    "max_total (settings Normal) = Some ?n" "max_total (settings Operational) = Some ?m"
    "max_total (settings Mandatory) = None"
    using assms(2) by (simp add: parachain_block_weights_def Let_def documented_builder_def
        all_classes_def)
  moreover have "ref_time ?n \<le> ref_time ?m" "proof_size ?n \<le> proof_size ?m"
    using normal_share [OF assms(1) refl] by simp_all
  moreover have "from_parts (ref_time ?m) (proof_size ?m) = ?m" by (simp add: from_parts_def)
  ultimately show ?thesis by (simp add: largest_total_def all_classes_def max_def)
qed

lemma service_weight:
  assumes "documented_sdk S" "documented_builder B"
  shows "unat (ref_time (MessageQueueServiceWeight S B)) = 175000000000"
    and "MAX_POV_SIZE S = 5 * 1024 * 1024 \<Longrightarrow>
      unat (proof_size (MessageQueueServiceWeight S B)) = 1835008"
proof -
  have p: "parts S (from_percent S 35) = 350000000"
    using documented_percent [OF assms(1), of 35] by simp
  note t = documented_times [OF assms(1), of "from_percent S 35" "MAXIMUM_BLOCK_WEIGHT S"]
  show "unat (ref_time (MessageQueueServiceWeight S B)) = 175000000000"
    using t(1) p by (simp add: MessageQueueServiceWeight_def parachain_max_block [OF assms]
        billionths_def ref_time_maximum [OF assms(1)])
  assume "MAX_POV_SIZE S = 5 * 1024 * 1024"
  then have "proof_size (MAXIMUM_BLOCK_WEIGHT S) = 5242880" by (simp add: MAXIMUM_BLOCK_WEIGHT_def)
  with t(2) p show "unat (proof_size (MessageQueueServiceWeight S B)) = 1835008"
    by (simp add: MessageQueueServiceWeight_def parachain_max_block [OF assms] billionths_def)
qed

text \<open>
  What the parachain runtime sets aside for messages fits in a block: the two queue
  reservations and the service share of the message queue are together 85 percent of the
  computation time of the block.
\<close>

theorem message_reservations_fit:
  assumes "documented_sdk S" "documented_builder B"
  shows "unat (ref_time (ReservedXcmpWeight S)) + unat (ref_time (ReservedDmpWeight S)) +
      unat (ref_time (MessageQueueServiceWeight S B)) =
    85 * (unat (ref_time (MAXIMUM_BLOCK_WEIGHT S)) div 100)"
  by (simp add: ReservedXcmpWeight_def ReservedDmpWeight_def documented_div [OF assms(1)]
      ref_time_maximum [OF assms(1)] service_weight(1) [OF assms])

theorem message_reservations_fit_witness:
  "unat (ref_time (ReservedXcmpWeight reference_sdk)) +
     unat (ref_time (ReservedDmpWeight reference_sdk)) \<le>
   85 * (unat (ref_time (MAXIMUM_BLOCK_WEIGHT reference_sdk)) div 100)"
  using message_reservations_fit [OF documented_reference documented_reference_builder] by simp

end
