(* ===== verification/Runtime_Pallets.thy ===== *)
theory Runtime_Pallets
  imports Runtime_Weights
begin

text \<open>
  How the two runtimes are put together: their versions, the pallets of the two
  \<open>construct_runtime!\<close> invocations with the indices the macro gives them, the filter on the
  calls a contract may dispatch, and the configuration values of the pallets
  (\<open>runtime/src/lib.rs\<close>, \<open>runtime/src/contracts_config.rs\<close>, \<open>parachain-runtime/src/lib.rs\<close>).
  The types a pallet is configured with that are code of the SDK are left out of the records.
\<close>

section \<open>Versions\<close>

record 'a runtime_version =
  spec_name :: string
  impl_name :: string
  authoring_version :: u32
  spec_version :: u32
  impl_version :: u32
  apis :: 'a
  transaction_version :: u32
  state_version :: u8

definition solo_VERSION :: "'a \<Rightarrow> 'a runtime_version" where
  "solo_VERSION runtime_api_versions =
     \<lparr>spec_name = ''substrate-contracts-node'', impl_name = ''substrate-contracts-node'',
      authoring_version = 1, spec_version = 100, impl_version = 1,
      apis = runtime_api_versions, transaction_version = 1, state_version = 1\<rparr>"

definition VERSION :: "'a \<Rightarrow> 'a runtime_version" where
  "VERSION runtime_api_versions =
     \<lparr>spec_name = ''contracts-parachain'', impl_name = ''contracts-parachain'',
      authoring_version = 1, spec_version = 1, impl_version = 0,
      apis = runtime_api_versions, transaction_version = 1, state_version = 1\<rparr>"

section \<open>Pallets and their indices\<close>

text \<open>The entries \<open>Name: module\<close> in the order of the macro.\<close>

definition solo_pallets :: "(string \<times> string) list" where
  "solo_pallets =
     [(''System'', ''frame_system''),
      (''RandomnessCollectiveFlip'', ''pallet_insecure_randomness_collective_flip''),
      (''Utility'', ''pallet_utility''),
      (''Timestamp'', ''pallet_timestamp''),
      (''Balances'', ''pallet_balances''),
      (''Authorship'', ''pallet_authorship''),
      (''TransactionPayment'', ''pallet_transaction_payment''),
      (''Sudo'', ''pallet_sudo''),
      (''Contracts'', ''pallet_contracts''),
      (''Assets'', ''pallet_assets'')]"

definition parachain_pallets :: "(string \<times> string) list" where
  "parachain_pallets =
     [(''System'', ''frame_system''),
      (''RandomnessCollectiveFlip'', ''pallet_insecure_randomness_collective_flip''),
      (''Utility'', ''pallet_utility''),
      (''Timestamp'', ''pallet_timestamp''),
      (''Balances'', ''pallet_balances''),
      (''Authorship'', ''pallet_authorship''),
      (''TransactionPayment'', ''pallet_transaction_payment''),
      (''Sudo'', ''pallet_sudo''),
      (''Contracts'', ''pallet_contracts''),
      (''Assets'', ''pallet_assets''),
      (''ParachainSystem'', ''cumulus_pallet_parachain_system''),
      (''ParachainInfo'', ''parachain_info''),
      (''CollatorSelection'', ''pallet_collator_selection''),
      (''Session'', ''pallet_session''),
      (''Aura'', ''pallet_aura''),
      (''AuraExt'', ''cumulus_pallet_aura_ext''),
      (''XcmpQueue'', ''cumulus_pallet_xcmp_queue''),
      (''PolkadotXcm'', ''pallet_xcm''),
      (''CumulusXcm'', ''cumulus_pallet_xcm''),
      (''MessageQueue'', ''pallet_message_queue'')]"

text \<open>No entry has an explicit index, so a pallet's index is its position.\<close>

definition pallet_index :: "(string \<times> string) list \<Rightarrow> string \<Rightarrow> nat option" where
  "pallet_index ps n = vec_position (\<lambda>p. fst p = n) ps"

text \<open>
  What a runtime promises to whoever encodes its calls: distinct names and one byte per
  index. The facts are used for both runtimes.
\<close>

locale pallet_table =
  fixes pallets :: "(string \<times> string) list"
  assumes names_distinct: "distinct (map fst pallets)"
    and fits_byte: "length pallets \<le> 256"
begin

lemma index_at: "i < length pallets \<Longrightarrow> pallet_index pallets (fst (pallets ! i)) = Some i"
proof -
  have "i < length ps \<Longrightarrow> distinct (map fst ps) \<Longrightarrow>
      vec_position (\<lambda>p. fst p = fst (ps ! i)) ps = Some i" for ps :: "(string \<times> string) list"
  proof (induction ps arbitrary: i)
    case (Cons p ps)
    show ?case
    proof (cases i)
      case (Suc j)
      with Cons.prems have "j < length ps" and "fst (ps ! j) \<in> fst ` set ps" by auto
      with Cons Suc show ?thesis by auto
    qed simp
  qed simp
  with names_distinct show "i < length pallets \<Longrightarrow> ?thesis" by (simp add: pallet_index_def)
qed

lemma index_bound: "pallet_index pallets n = Some i \<Longrightarrow> i < 256"
  using fits_byte vec_position_bound [of "\<lambda>p. fst p = n" pallets i]
  by (simp add: pallet_index_def)

lemma index_name: "pallet_index pallets n = Some i \<Longrightarrow> fst (pallets ! i) = n"
proof -
  have "vec_position (\<lambda>p. fst p = n) ps = Some i \<Longrightarrow> fst (ps ! i) = n"
    for ps :: "(string \<times> string) list"
    by (induction ps arbitrary: i) (auto split: if_splits)
  then show "pallet_index pallets n = Some i \<Longrightarrow> ?thesis" by (simp add: pallet_index_def)
qed

lemma index_inj: "pallet_index pallets n = Some i \<Longrightarrow> pallet_index pallets m = Some i \<Longrightarrow> n = m"
  by (metis index_name)

end

interpretation solo_table: pallet_table solo_pallets
  by unfold_locales (code_simp, simp add: solo_pallets_def)

interpretation parachain_table: pallet_table parachain_pallets
  by unfold_locales (code_simp, simp add: parachain_pallets_def)

lemma vec_position_prefix:
  "vec_position P xs = Some i \<Longrightarrow> vec_position P (xs @ ys) = Some i"
  by (induction xs arbitrary: i) (auto split: if_splits)

lemma parachain_extends_solo: "parachain_pallets = solo_pallets @ drop 10 parachain_pallets"
  by (simp add: parachain_pallets_def solo_pallets_def)

section \<open>Calls a contract may dispatch\<close>

text \<open>
  The call types of the pallets are code of the SDK and stay abstract, except for the one
  call of the balances pallet the filter names.
\<close>

datatype ('d, 'c) balances_call =
    transfer_allow_death 'd u128
  | other_balances_call 'c

datatype ('d, 'c) runtime_call =
    Call_System 'c
  | Call_Utility 'c
  | Call_Timestamp 'c
  | Call_Balances "('d, 'c) balances_call"
  | Call_Sudo 'c
  | Call_Contracts 'c
  | Call_Assets 'c

fun allow_balances_call :: "('d, 'c) runtime_call \<Rightarrow> bool" where
  "allow_balances_call (Call_Balances (transfer_allow_death _ _)) = True"
| "allow_balances_call _ = False"

section \<open>Configuration of the contracts and assets pallets\<close>

record ('d, 'c) contracts_config =
  CallFilter :: "('d, 'c) runtime_call \<Rightarrow> bool"
  cc_DepositPerItem :: "u128 option"
  cc_DepositPerByte :: "u128 option"
  cc_DefaultDepositLimit :: "u128 option"
  CallStack :: nat
  MaxCodeLen :: u32
  MaxStorageKeyLen :: u32
  MaxDebugBufferLen :: u32
  UnsafeUnstableInterface :: bool
  cc_MaxDelegateDependencies :: u32

definition contracts_Config :: "('d, 'c) contracts_config" where
  "contracts_Config =
     \<lparr>CallFilter = allow_balances_call, cc_DepositPerItem = DepositPerItem,
      cc_DepositPerByte = DepositPerByte, cc_DefaultDepositLimit = DefaultDepositLimit,
      CallStack = 23, MaxCodeLen = 256 * 1024, MaxStorageKeyLen = 128,
      MaxDebugBufferLen = 2 * 1024 * 1024, UnsafeUnstableInterface = True,
      cc_MaxDelegateDependencies = MaxDelegateDependencies\<rparr>"

record assets_config =
  ac_AssetDeposit :: "u128 option"
  ac_AssetAccountDeposit :: "u128 option"
  ac_MetadataDepositBase :: "u128 option"
  ac_MetadataDepositPerByte :: "u128 option"
  ac_ApprovalDeposit :: "u128 option"
  ac_StringLimit :: u32
  ac_RemoveItemsLimit :: u32

definition assets_Config :: assets_config where
  "assets_Config =
     \<lparr>ac_AssetDeposit = AssetDeposit, ac_AssetAccountDeposit = DOLLARS,
      ac_MetadataDepositBase = MetadataDepositBase,
      ac_MetadataDepositPerByte = MetadataDepositPerByte, ac_ApprovalDeposit = ApprovalDeposit,
      ac_StringLimit = StringLimit, ac_RemoveItemsLimit = 1000\<rparr>"

section \<open>Configuration of the development runtime\<close>

record solo_system_config =
  BlockHashCount :: u32
  SS58Prefix :: u8
  MaxConsumers :: u32

definition solo_BlockHashCount :: u32 where
  "solo_BlockHashCount = 2400"

definition solo_SS58Prefix :: u8 where
  "solo_SS58Prefix = 42"

definition solo_system_Config :: solo_system_config where
  "solo_system_Config =
     \<lparr>BlockHashCount = solo_BlockHashCount, SS58Prefix = solo_SS58Prefix, MaxConsumers = 16\<rparr>"

definition solo_MinimumPeriod :: u64 where
  "solo_MinimumPeriod = 5"

record solo_balances_config =
  MaxLocks :: u32
  MaxReserves :: u32
  ExistentialDeposit :: u128

definition solo_balances_Config :: solo_balances_config where
  "solo_balances_Config =
     \<lparr>MaxLocks = 50, MaxReserves = 50, ExistentialDeposit = EXISTENTIAL_DEPOSIT\<rparr>"

text \<open>Fees are the identity on weights and on lengths; \<open>identity_fee\<close> is that of the SDK.\<close>

record 'f solo_payment_config =
  OperationalFeeMultiplier :: u8
  solo_WeightToFee :: 'f
  solo_LengthToFee :: 'f

definition solo_payment_Config :: "'f \<Rightarrow> 'f solo_payment_config" where
  "solo_payment_Config identity_fee =
     \<lparr>OperationalFeeMultiplier = 5, solo_WeightToFee = identity_fee,
      solo_LengthToFee = identity_fee\<rparr>"

section \<open>Properties\<close>

text \<open>
  A call encoded for the development runtime is dispatched to the same pallet by the
  parachain runtime: every pallet of the former is in the latter at the same index, the index
  fits the byte it is encoded in, and no other pallet of the parachain shares it.
\<close>
theorem pallets_compatible:
  assumes "pallet_index solo_pallets n = Some i"
  shows "pallet_index parachain_pallets n = Some i \<and> i < 256 \<and>
         parachain_pallets ! i = solo_pallets ! i \<and>
         (\<forall>m. m \<noteq> n \<longrightarrow> pallet_index parachain_pallets m \<noteq> Some i)"
proof -
  have here: "pallet_index parachain_pallets n = Some i"
    using assms vec_position_prefix [of "\<lambda>p. fst p = n" solo_pallets i]
    by (subst parachain_extends_solo) (simp add: pallet_index_def)
  moreover have "i < length solo_pallets"
    using assms vec_position_bound [of "\<lambda>p. fst p = n" solo_pallets i]
    by (simp add: pallet_index_def)
  then have "parachain_pallets ! i = solo_pallets ! i"
    by (subst parachain_extends_solo) (simp add: nth_append)
  ultimately show ?thesis
    using parachain_table.index_bound parachain_table.index_inj by blast
qed

theorem pallets_compatible_witness:
  "pallet_index solo_pallets ''Contracts'' = Some 8 \<and>
   pallet_index parachain_pallets ''Contracts'' = Some 8 \<and> (8::nat) < 256"
proof -
  have "pallet_index solo_pallets ''Contracts'' = Some 8" by code_simp
  with pallets_compatible [OF this] show ?thesis by blast
qed

text \<open>
  A contract can dispatch exactly one kind of call of the runtime, a plain transfer of the
  balances pallet: the configured filter rejects every call of the other pallets, sudo
  included, and every other call of the balances pallet.
\<close>
theorem contracts_dispatch_transfers_only:
  "CallFilter contracts_Config c = (\<exists>dest value. c = Call_Balances (transfer_allow_death dest value))"
  by (cases c rule: allow_balances_call.cases) (simp_all add: contracts_Config_def)

end
