(* ===== verification/Access_Costs.thy ===== *)
theory Access_Costs
  imports Access_Writes Runtime_Pallets
begin

text \<open>
  The contract of \<open>smart_contract/lib.rs\<close> on the contracts pallet the runtimes configure
  (\<open>runtime/src/contracts_config.rs\<close>): the keys of its cells against the length of a storage
  key, and the deposits for what a message writes against the default limit. The sizes are
  those of \<open>Access_Storage\<close>; how the pallet charges for a cell is an argument.
\<close>

section \<open>Keys\<close>

lemma key_within_cell: "0 \<le> key_bytes c \<and> key_bytes c < cell_bytes c"
proof (cases c)
  case (Cell_accounts d v)
  then show ?thesis by (cases v; cases "fst v"; cases "snd v") (auto simp: vec_bytes_def)
qed (auto simp: vec_bytes_def)

lemma keys_of_roles: "c \<in> set (roles_read s q l) \<Longrightarrow> key_bytes c = 32"
proof (induction l)
  case (Cons a l)
  then show ?case by (cases "roles s a") (auto split: if_splits)
qed simp

lemma key_of_stored_cell:
  "c \<in> set (stored_cell f x) \<Longrightarrow> \<exists>v. c = f v"
  by (cases x) auto

lemma read_keys:
  assumes "c \<in> set (reads s m)" "\<And>d. m \<noteq> Get_accounts d"
  shows "key_bytes c \<le> 64"
proof (cases m)
  case (Add_user a u r)
  show ?thesis
  proof (cases "validate_user_info u")
    case (Inr x)
    then have "length (dni u) = 8"
      using validate_user_info_Inr [of u x] by (simp add: valid_user_info_def)
    moreover have "c = Cell_accounts (dni u) (slots_of s (dni u)) \<or>
        c \<in> set (roles_read s r (get_accounts s (dni u)))"
      using assms(1) Inr by (auto simp: Add_user split: if_splits)
    ultimately show ?thesis by (auto simp: vec_bytes_def dest: keys_of_roles)
  qed (use assms Add_user in simp)
qed (use assms in \<open>auto dest!: key_of_stored_cell split: if_splits\<close>)

lemma written_keys:
  assumes "c \<in> set (writes s m)"
  shows "key_bytes c \<le> 64"
proof (cases m)
  case (Add_user a u r)
  with assms have "add_user_ready s u r" by (auto split: if_splits)
  then have "length (dni u) = 8" by (simp add: add_user_ready_def valid_user_info_def)
  with Add_user assms show ?thesis by (auto simp: vec_bytes_def split: if_splits)
qed (use assms in \<open>auto split: if_splits\<close>)

section \<open>Deposits\<close>

lemma deposit_prices:
  "cc_DepositPerItem contracts_Config = Some i \<Longrightarrow> unat i = 10 ^ 11"
  "cc_DepositPerByte contracts_Config = Some b \<Longrightarrow> unat b = 5 * 10 ^ 6"
  "cc_DefaultDepositLimit contracts_Config = Some l \<Longrightarrow>
     unat l = 1024 * 10 ^ 11 + 1024 * 1024 * (5 * 10 ^ 6)"
  using deposit_exact [of 1 0] deposit_exact [of 0 1] deposit_exact [of 1024 "1024 * 1024"]
  by (auto simp: contracts_Config_def DepositPerItem_def DepositPerByte_def
      DefaultDepositLimit_def)

lemma sum_list_bound:
  "\<forall>x \<in> set xs. f x \<le> b \<Longrightarrow> sum_list (map f xs) \<le> length xs * (b :: nat)"
  by (induction xs) auto

lemma writes_bounded: "length (writes s m) \<le> 3"
  by (cases m) simp_all

section \<open>Properties\<close>

text \<open>
  C10. How far a message stays from the limits of the chain: where a cell fits only within
  16384 bytes and the pallet charges each written cell at most the configured deposit of one
  item and of its encoded bytes, the deposits for the writes of a message that returns are at
  most a hundredth of the default limit; and the keys of the cells it reads and writes, after
  the four bytes that tell the mappings apart, are within the configured length of a storage
  key, with one exception: \<open>get_accounts\<close> does not check its document number, and its key is
  within that length exactly up to 122 bytes.
\<close>
theorem messages_within_chain_limits:
  assumes "\<And>c. cell_fits env c \<Longrightarrow> cell_bytes c \<le> 16384"
    and "run_message env m s = Returned r t evs"
    and "cc_DepositPerItem contracts_Config = Some item"
    and "cc_DepositPerByte contracts_Config = Some byte"
    and "cc_DefaultDepositLimit contracts_Config = Some limit"
    and "\<And>c. charged c \<le> unat item + unat byte * nat (cell_bytes c)"
  shows "100 * sum_list (map charged (writes s m)) \<le> unat limit \<and>
    t = apply_writes (writes s m) s \<and>
    ((\<forall>d. m \<noteq> Get_accounts d) \<longrightarrow>
     (\<forall>c \<in> set (reads s m) \<union> set (writes s m).
        4 + key_bytes c \<le> int (unat (MaxStorageKeyLen contracts_Config)))) \<and>
    (\<forall>d. m = Get_accounts d \<longrightarrow>
       reads s m = [Cell_accounts d (slots_of s d)] \<and>
       (4 + key_bytes (Cell_accounts d (slots_of s d)) \<le>
          int (unat (MaxStorageKeyLen contracts_Config)) \<longleftrightarrow> length d \<le> 122))"
proof -
  from run_message_writes [of env m s] assms(2)
  have fits: "\<forall>c \<in> set (writes s m). cell_fits env c" and t: "t = apply_writes (writes s m) s"
    by (auto simp: list_all_iff simp del: run_message_Returned split: if_splits)
  note prices = deposit_prices(1) [OF assms(3)] deposit_prices(2) [OF assms(4)]
    deposit_prices(3) [OF assms(5)]
  have "charged c \<le> 181920000000" if "c \<in> set (writes s m)" for c
  proof -
    have "nat (cell_bytes c) \<le> 16384" using fits that assms(1) by (simp add: nat_le_iff)
    then show ?thesis using assms(6) [of c] prices by simp
  qed
  then have "sum_list (map charged (writes s m)) \<le> length (writes s m) * 181920000000"
    by (intro sum_list_bound) simp
  also have "\<dots> \<le> 3 * 181920000000" using writes_bounded by (rule mult_le_mono1)
  finally have "100 * sum_list (map charged (writes s m)) \<le> unat limit" using prices(3) by simp
  moreover have "4 + key_bytes c \<le> 128"
    if "\<forall>d. m \<noteq> Get_accounts d" "c \<in> set (reads s m) \<union> set (writes s m)" for c
  proof -
    from that have "key_bytes c \<le> 64" using read_keys [of c s m] written_keys [of c s m] by blast
    then show ?thesis by simp
  qed
  ultimately show ?thesis using t by (auto simp: contracts_Config_def vec_bytes_def)
qed

theorem messages_within_chain_limits_witness:
  "\<exists>limit. DefaultDepositLimit = Some limit \<and>
     100 * sum_list (map (\<lambda>c. 10 ^ 11 + 5 * 10 ^ 6 * nat (cell_bytes c))
       (writes access_control_default (Grant_permission 1 2))) \<le> unat limit"
proof -
  let ?m = "Grant_permission 1 2" and ?s = access_control_default
  obtain item byte limit where amounts: "DepositPerItem = Some item" "DepositPerByte = Some byte"
    "DefaultDepositLimit = Some limit"
    using deposit_exact [of 1 0] deposit_exact [of 0 1] deposit_exact [of 1024 "1024 * 1024"]
    by (auto simp: DepositPerItem_def DepositPerByte_def DefaultDepositLimit_def)
  then have config: "cc_DepositPerItem contracts_Config = Some item"
    "cc_DepositPerByte contracts_Config = Some byte"
    "cc_DefaultDepositLimit contracts_Config = Some limit"
    by (simp_all add: contracts_Config_def)
  note prices = deposit_prices(1) [OF config(1)] deposit_prices(2) [OF config(2)]
  have run: "run_message static_buffer_env ?m ?s =
      Returned (Reply_result (Inr ())) (granted ?s 1 2) [PermissionGranted 1 2 True]"
    by (simp add: first_grant) (simp add: access_control_default_def)
  from messages_within_chain_limits [OF _ run config, of
      "\<lambda>c. 10 ^ 11 + 5 * 10 ^ 6 * nat (cell_bytes c)"]
  show ?thesis using amounts(3) prices by (auto simp del: writes.simps)
qed

end
