(* ===== verification/Parachain_Config.thy ===== *)
theory Parachain_Config
  imports Runtime_Pallets
begin

text \<open>
  The time constants of the parachain runtime and the numbers its pallets are configured with
  (\<open>parachain-runtime/src/lib.rs\<close>). What the pallets do with them is code of the SDK; the two
  rules the sources rely on, the slot duration derived from the minimum period of the timestamp
  pallet and the periodic end of a session, are arguments with their documented behaviour as
  hypotheses.
\<close>

section \<open>Time\<close>

definition MILLISECS_PER_BLOCK :: u64 where
  "MILLISECS_PER_BLOCK = 12000"

definition SLOT_DURATION :: u64 where
  "SLOT_DURATION = MILLISECS_PER_BLOCK"

text \<open>
  A cast to the block number type keeps the low 32 bits; an overflowing product of constants
  is rejected by the compiler and is \<^const>\<open>None\<close>.
\<close>

definition MINUTES :: u32 where
  "MINUTES = 60000 div ucast MILLISECS_PER_BLOCK"

definition HOURS :: "u32 option" where
  "HOURS = checked_mul MINUTES 60"

definition DAYS :: "u32 option" where
  "DAYS = do { h \<leftarrow> HOURS; checked_mul h 24 }"

definition Period :: "u32 option" where
  "Period = do { h \<leftarrow> HOURS; checked_mul 6 h }"

definition Offset :: u32 where
  "Offset = 0"

definition SessionLength :: "u32 option" where
  "SessionLength = do { h \<leftarrow> HOURS; checked_mul 6 h }"

definition UNINCLUDED_SEGMENT_CAPACITY :: u32 where
  "UNINCLUDED_SEGMENT_CAPACITY = 1"

definition BLOCK_PROCESSING_VELOCITY :: u32 where
  "BLOCK_PROCESSING_VELOCITY = 1"

definition RELAY_CHAIN_SLOT_DURATION_MILLIS :: u32 where
  "RELAY_CHAIN_SLOT_DURATION_MILLIS = 6000"

section \<open>Pallet configuration\<close>

record system_config =
  pc_SS58Prefix :: u16
  pc_MaxConsumers :: u32

definition parachain_SS58Prefix :: u16 where
  "parachain_SS58Prefix = 42"

definition system_Config :: system_config where
  "system_Config = \<lparr>pc_SS58Prefix = parachain_SS58Prefix, pc_MaxConsumers = 16\<rparr>"

definition timestamp_MinimumPeriod :: u64 where
  "timestamp_MinimumPeriod = SLOT_DURATION div 2"

record balances_config =
  pc_MaxLocks :: u32
  pc_ExistentialDeposit :: u128
  pc_MaxReserves :: u32
  pc_MaxFreezes :: u32

definition balances_Config :: balances_config where
  "balances_Config =
     \<lparr>pc_MaxLocks = 50, pc_ExistentialDeposit = parachain_EXISTENTIAL_DEPOSIT, pc_MaxReserves = 50,
      pc_MaxFreezes = 50\<rparr>"

record 'f payment_config =
  WeightToFee :: "'f option"
  LengthToFee :: u128 \<comment> \<open>the multiplier of the length\<close>
  pc_OperationalFeeMultiplier :: u8

definition payment_Config :: "'p sdk \<Rightarrow> 'p fee_coefficient list payment_config" where
  "payment_Config S =
     \<lparr>WeightToFee = polynomial S, LengthToFee = TransactionByteFee,
      pc_OperationalFeeMultiplier = 5\<rparr>"

record consensus_hook =
  hook_slot_millis :: u32
  hook_velocity :: u32
  hook_capacity :: u32

definition ConsensusHook :: consensus_hook where
  "ConsensusHook =
     \<lparr>hook_slot_millis = RELAY_CHAIN_SLOT_DURATION_MILLIS,
      hook_velocity = BLOCK_PROCESSING_VELOCITY,
      hook_capacity = UNINCLUDED_SEGMENT_CAPACITY\<rparr>"

record message_queue_config =
  HeapSize :: u32
  MaxStale :: u32
  ServiceWeight :: weight
  IdleMaxServiceWeight :: "weight option"

text \<open>The unit type, as the source of an optional weight, gives none.\<close>

definition message_queue_Config ::
  "'p sdk \<Rightarrow> ('b, 'p, 'l) limits_builder \<Rightarrow> message_queue_config" where
  "message_queue_Config S B =
     \<lparr>HeapSize = 64 * 1024, MaxStale = 8,
      ServiceWeight = MessageQueueServiceWeight S B,
      IdleMaxServiceWeight = None\<rparr>"

definition xcmp_MaxInboundSuspended :: u32 where
  "xcmp_MaxInboundSuspended = 1000"

record session_config =
  session_period :: "u32 option"
  session_offset :: u32

definition session_Config :: session_config where
  "session_Config = \<lparr>session_period = Period, session_offset = Offset\<rparr>"

record aura_config =
  MaxAuthorities :: u32
  AllowMultipleBlocksPerSlot :: bool
  SlotDuration :: u64

text \<open>\<open>times_two\<close> is the slot duration the aura pallet derives from the timestamp pallet.\<close>

definition aura_Config :: "(u64 \<Rightarrow> u64) \<Rightarrow> aura_config" where
  "aura_Config times_two =
     \<lparr>MaxAuthorities = 100000, AllowMultipleBlocksPerSlot = False,
      SlotDuration = times_two timestamp_MinimumPeriod\<rparr>"

record collator_config =
  PotId :: string
  MaxCandidates :: u32
  MinEligibleCollators :: u32
  MaxInvulnerables :: u32
  KickThreshold :: "u32 option"

definition collator_Config :: collator_config where
  "collator_Config =
     \<lparr>PotId = ''PotStake'', MaxCandidates = 100, MinEligibleCollators = 4,
      MaxInvulnerables = 20, KickThreshold = Period\<rparr>"

definition slot_duration :: "(u64 \<Rightarrow> u64) \<Rightarrow> u64" where
  "slot_duration times_two = SlotDuration (aura_Config times_two)"

section \<open>Properties\<close>

lemma time_values [simp]:
  "MILLISECS_PER_BLOCK = 12000" "SLOT_DURATION = 12000" "MINUTES = 5"
  "HOURS = Some 300" "DAYS = Some 7200" "Period = Some 1800" "SessionLength = Some 1800"
  by (simp_all add: MILLISECS_PER_BLOCK_def SLOT_DURATION_def MINUTES_def HOURS_def DAYS_def
      Period_def SessionLength_def checked_mul_def)

text \<open>
  The clocks of the parachain agree: where the aura pallet doubles the minimum period, the
  slot duration the runtime reports to the node is the target block time, it spans exactly two
  slots of the relay chain, the division of the minimum period loses no millisecond, and a day
  counted in blocks lasts 24 hours.
\<close>
theorem slots_agree:
  assumes doubles: "\<And>p. unat p * 2 < 2 ^ 64 \<Longrightarrow> times_two p = p * 2"
  shows "slot_duration times_two = MILLISECS_PER_BLOCK \<and>
    slot_duration times_two = 2 * ucast (hook_slot_millis ConsensusHook) \<and>
    timestamp_MinimumPeriod * 2 = SLOT_DURATION \<and>
    (\<exists>d. DAYS = Some d \<and> unat d * unat MILLISECS_PER_BLOCK = 24 * 60 * 60 * 1000)"
  using doubles [of 6000]
  by (simp add: slot_duration_def aura_Config_def timestamp_MinimumPeriod_def ConsensusHook_def
      RELAY_CHAIN_SLOT_DURATION_MILLIS_def)

theorem slots_agree_witness: "slot_duration (saturating_mul 2) = 12000"
  using slots_agree [of "saturating_mul 2"] by (simp add: saturating_mul_def mult.commute)

text \<open>
  A session lasts exactly six hours of blocks: with the documented rule of periodic
  sessions, the session ends at block \<open>n\<close> just when \<open>n\<close> is a multiple of 1800 blocks of twelve
  seconds. The kick threshold is a whole number of sessions, which the comment beside it
  demands, and equals the length of a session.
\<close>
theorem sessions_last_six_hours:
  assumes periodic: "\<And>p s n. p \<noteq> 0 \<Longrightarrow> ends p s n = (s \<le> n \<and> (n - s) mod p = 0)"
    and "session_period session_Config = Some p"
  shows "ends p (session_offset session_Config) n = (unat n mod 1800 = 0) \<and>
    unat p * unat MILLISECS_PER_BLOCK = 6 * 60 * 60 * 1000 \<and>
    (\<exists>k. KickThreshold collator_Config = Some k \<and> p udvd k \<and> SessionLength = Some k)"
proof -
  have p: "p = 1800" using assms(2) by (simp add: session_Config_def)
  have "(n mod 1800 = 0) = (unat n mod 1800 = 0)"
    by (simp add: word_unat_eq_iff unat_mod)
  with p show ?thesis
    by (simp add: periodic session_Config_def Offset_def collator_Config_def udvd_iff_dvd)
qed

theorem sessions_last_six_hours_witness:
  "(\<lambda>p s n. s \<le> n \<and> (n - s) mod p = 0) (1800 :: u32) (session_offset session_Config) 3600"
proof -
  have "session_period session_Config = Some 1800" by (simp add: session_Config_def)
  from sessions_last_six_hours [of "\<lambda>p s n. s \<le> n \<and> (n - s) mod p = 0", OF refl this, of 3600]
  show ?thesis by simp
qed

text \<open>
  The bounds of the collator set are consistent: the invulnerables and the candidates
  together never exceed the authorities the aura pallet can hold, and the smallest number of
  eligible collators can be reached by either group alone.
\<close>
theorem collator_bounds:
  "unat (MaxInvulnerables collator_Config) + unat (MaxCandidates collator_Config)
     \<le> unat (MaxAuthorities (aura_Config times_two)) \<and>
   0 < unat (MinEligibleCollators collator_Config) \<and>
   MinEligibleCollators collator_Config \<le> MaxInvulnerables collator_Config \<and>
   MinEligibleCollators collator_Config \<le> MaxCandidates collator_Config"
  by (simp add: collator_Config_def aura_Config_def)

end
