(* ===== verification/Runtime_Fees.thy ===== *)
theory Runtime_Fees
  imports Parachain_Config
begin

text \<open>
  What a transaction costs on the parachain, from the fee polynomial, the price of a byte and
  the limits of a block (\<open>parachain-runtime/src/lib.rs\<close>). The evaluation of a polynomial, the
  multiplication of a length and the limits of the lengths are code of the SDK: the record
  \<open>fee_sdk\<close>, with \<open>documented_fees\<close> for their documentation.
\<close>

section \<open>What the SDK provides\<close>

record 'p fee_sdk =
  evaluate :: "'p fee_coefficient list \<Rightarrow> weight \<Rightarrow> u128"
  constant_multiplier :: "u128 \<Rightarrow> u32 \<Rightarrow> u128"
  max_with_normal_ratio :: "u32 \<Rightarrow> 'p \<Rightarrow> dispatch_class \<Rightarrow> u32"

text \<open>
  A linear coefficient multiplies the computation time, its integral part exactly and its
  fraction up to rounding; sums and products saturate, so that they are exact as long as they fit.
\<close>

definition documented_fees :: "'p sdk \<Rightarrow> 'p fee_sdk \<Rightarrow> bool" where
  "documented_fees S F \<longleftrightarrow>
     (\<forall>c w. degree c = 1 \<longrightarrow> \<not> negative c \<longrightarrow> parts S (coeff_frac c) \<le> 10 ^ 9 \<longrightarrow>
        (unat (coeff_integer c) + 1) * unat (ref_time w) < 2 ^ 128 \<longrightarrow>
        billionths (parts S (coeff_frac c)) (unat (ref_time w))
          (unat (evaluate F [c] w) - unat (coeff_integer c) * unat (ref_time w)) \<and>
        unat (coeff_integer c) * unat (ref_time w) \<le> unat (evaluate F [c] w)) \<and>
     (\<forall>m n. constant_multiplier F m n = saturating_mul m (ucast n)) \<and>
     (\<forall>m r. parts S r \<le> 10 ^ 9 \<longrightarrow>
        billionths (parts S r) (unat m) (unat (max_with_normal_ratio F m r Normal)) \<and>
        max_with_normal_ratio F m r Operational = m \<and>
        max_with_normal_ratio F m r Mandatory = m)"

lemma documented_length:
  "documented_fees S F \<Longrightarrow> parts S r \<le> 10 ^ 9 \<Longrightarrow>
   billionths (parts S r) (unat m) (unat (max_with_normal_ratio F m r Normal))"
  by (simp add: documented_fees_def)

section \<open>The parts of a fee\<close>

definition weight_fee :: "'p sdk \<Rightarrow> 'p fee_sdk \<Rightarrow> weight \<Rightarrow> u128 option" where
  "weight_fee S F w = map_option (\<lambda>cs. evaluate F cs w) (WeightToFee (payment_Config S))"

definition length_fee :: "'p sdk \<Rightarrow> 'p fee_sdk \<Rightarrow> u32 \<Rightarrow> u128" where
  "length_fee S F n = constant_multiplier F (LengthToFee (payment_Config S)) n"

lemma weight_fee_value:
  assumes S: "documented_sdk S" and F: "documented_fees S F"
  obtains f where "weight_fee S F w = Some f"
    "unat f = unat (ref_time w) div 125 \<or>
     unat f = unat (ref_time w) div 125 + 1 \<and> \<not> 125 dvd unat (ref_time w)"
proof -
  obtain c where c: "polynomial S = Some [c]" "degree c = 1" "\<not> negative c"
    "unat (coeff_integer c) = 0" "parts S (coeff_frac c) = 8000000"
    using base_weight_fee [OF S] by auto
  let ?t = "unat (ref_time w)" and ?f = "evaluate F [c] w"
  have "?t < 2 ^ 64" using unsigned_less [of "ref_time w"] by simp
  then have "billionths 8000000 ?t (unat ?f)"
    using F c(2-5) unfolding documented_fees_def by (auto dest!: spec [of _ c] spec [of _ w])
  moreover have "(8000000 :: nat) * ?t div 10 ^ 9 = ?t div 125"
    using div_mult_mult1 [of 8000000 ?t 125] by simp
  moreover have "(10 :: nat) ^ 9 dvd 8000000 * ?t \<longleftrightarrow> 125 dvd ?t"
    using dvd_times_left_cancel_iff [of 8000000 125 ?t] by simp
  ultimately have "unat ?f = ?t div 125 \<or> unat ?f = ?t div 125 + 1 \<and> \<not> 125 dvd ?t"
    by (auto simp: billionths_def split: if_splits)
  then show thesis using that c(1) by (simp add: weight_fee_def payment_Config_def)
qed

lemma length_fee_value:
  assumes "documented_fees S F"
  shows "unat (length_fee S F n) = 10 ^ 7 * unat n"
proof -
  have "unat n < 2 ^ 32" using unsigned_less [of n] by simp
  then have "unat (ucast n :: u128) = unat n"
    by (simp add: unsigned_ucast_eq take_bit_nat_eq_self_iff)
  with \<open>unat n < 2 ^ 32\<close> show ?thesis
    using assms by (simp add: documented_fees_def length_fee_def payment_Config_def
        TransactionByteFee_def MICROUNIT_def unat_saturating_mul)
qed

section \<open>The largest transaction\<close>

lemma largest_length:
  assumes "documented_sdk S" "documented_fees S F"
  shows "unat (RuntimeBlockLength S (max_with_normal_ratio F) Normal) = 3932160"
proof -
  have p: "parts S (NORMAL_DISPATCH_RATIO S) = 750000000"
    using documented_percent [OF assms(1), of 75] by (simp add: NORMAL_DISPATCH_RATIO_def)
  then have "billionths 750000000 5242880
      (unat (max_with_normal_ratio F 5242880 (NORMAL_DISPATCH_RATIO S) Normal))"
    using documented_length [OF assms(2), of "NORMAL_DISPATCH_RATIO S" 5242880] by simp
  then show ?thesis by (simp add: billionths_def RuntimeBlockLength_def)
qed

text \<open>
  C34. A transaction pays for its bytes, not for its computation: the weight fee is the computation
  time divided by 125, rounded to a neighbour, and the length fee is exactly \<open>10 ^ 7\<close> a byte;
  neither overflows, before the fee multiplier. The base weight of a transaction costs a tenth of one byte, the
  computation of a whole block four times the existential deposit, and the largest
  transaction of the normal class, three quarters of a block in time and in length, less than
  40 units, nearly all of it for its bytes.
\<close>
theorem fees_of_a_transaction:
  assumes "documented_sdk S" "documented_fees S F"
    and "4 * unat (ref_time w) \<le> 3 * unat (ref_time (MAXIMUM_BLOCK_WEIGHT S))"
    and "n \<le> RuntimeBlockLength S (max_with_normal_ratio F) Normal"
  shows "\<exists>b f m. weight_fee S F (ExtrinsicBaseWeight S) = Some b \<and> weight_fee S F w = Some f \<and>
    weight_fee S F (MAXIMUM_BLOCK_WEIGHT S) = Some m \<and>
    unat f \<in> {unat (ref_time w) div 125, unat (ref_time w) div 125 + 1} \<and>
    unat (length_fee S F n) = 10 ^ 7 * unat n \<and>
    10 * unat b = unat (length_fee S F 1) \<and>
    unat m = 4 * unat parachain_EXISTENTIAL_DEPOSIT \<and>
    unat b + unat f + unat (length_fee S F n) < 40 * unat parachain_UNIT"
proof -
  note fee = weight_fee_value [OF assms(1,2)] and length = length_fee_value [OF assms(2)]
  obtain b where b: "weight_fee S F (ExtrinsicBaseWeight S) = Some b" "unat b = 10 ^ 6"
    using fee [of "ExtrinsicBaseWeight S"] unat_base_ref_time [OF assms(1)] by auto
  obtain m where m: "weight_fee S F (MAXIMUM_BLOCK_WEIGHT S) = Some m" "unat m = 4 * 10 ^ 9"
    using fee [of "MAXIMUM_BLOCK_WEIGHT S"] by (auto simp: ref_time_maximum [OF assms(1)])
  obtain f where f: "weight_fee S F w = Some f"
    "unat f \<in> {unat (ref_time w) div 125, unat (ref_time w) div 125 + 1}"
    using fee [of w] by blast
  have "unat (ref_time w) \<le> 375000000000"
    using assms(3) by (simp add: ref_time_maximum [OF assms(1)])
  with f(2) have "unat f \<le> 3000000001" by auto
  moreover have "unat n \<le> 3932160"
    using assms(4) largest_length [OF assms(1,2)] by (simp add: word_le_nat_alt)
  ultimately have "unat b + unat f + unat (length_fee S F n) < 40 * unat parachain_UNIT"
    using b(2) by (simp add: length UNIT_def)
  with b m f length show ?thesis by (auto simp: EXISTENTIAL_DEPOSIT_def MILLIUNIT_def)
qed

text \<open>A reference instance: the exact product, rounded down.\<close>

definition reference_fees :: "nat fee_sdk" where
  "reference_fees =
     \<lparr>evaluate = (\<lambda>cs w. sum_list (map (\<lambda>c. word_of_nat
        (unat (coeff_integer c) * unat (ref_time w) + coeff_frac c * unat (ref_time w) div 10 ^ 9)) cs)),
      constant_multiplier = (\<lambda>m n. saturating_mul m (ucast n)),
      max_with_normal_ratio = (\<lambda>m r c. if c = Normal then word_of_nat (r * unat m div 10 ^ 9) else m)\<rparr>"

lemma documented_reference_fees: "documented_fees reference_sdk reference_fees"
proof -
  have exact: "unat (word_of_nat (a * t + p * t div 1000000000) :: u128) =
      a * t + p * t div 1000000000"
    if "p \<le> 1000000000" "t + a * t < 2 ^ 128" for a t p :: nat
  proof -
    have "a * t + p * t div 1000000000 < 2 ^ LENGTH(128)"
      using billionths_below [OF that(1), of t] that(2) by simp
    then show ?thesis by (simp only: unat_of_nat mod_less)
  qed
  show ?thesis
    unfolding documented_fees_def
    by (simp add: reference_fees_def reference_sdk_def exact scaled_word billionths_div
        del: of_nat_add of_nat_mult)
qed

theorem fees_of_a_transaction_witness:
  "\<exists>b f. weight_fee reference_sdk reference_fees (ExtrinsicBaseWeight reference_sdk) = Some b \<and>
     weight_fee reference_sdk reference_fees (from_parts 1000 0) = Some f \<and>
     unat b + unat f + unat (length_fee reference_sdk reference_fees 200) < 40 * unat parachain_UNIT"
proof -
  note ref = documented_reference documented_reference_fees
  have "4 * unat (ref_time (from_parts 1000 0)) \<le> 3 * unat (ref_time (MAXIMUM_BLOCK_WEIGHT reference_sdk))"
    by (simp add: ref_time_maximum [OF ref(1)])
  moreover have "200 \<le> RuntimeBlockLength reference_sdk (max_with_normal_ratio reference_fees) Normal"
    using largest_length [OF ref] by (simp add: word_le_nat_alt)
  ultimately show ?thesis using fees_of_a_transaction [OF ref] by blast
qed

end
