(* ===== verification/Access_Payments.thy ===== *)
theory Access_Payments
  imports Access_Clients Runtime_Fees
begin

text \<open>
  The clients of the contract pay the chain: a signed transaction is admitted only if its signer
  can pay the fee (\<open>Runtime_Fees\<close>), which the last check of \<open>SignedExtra\<close> withdraws through
  \<open>OnChargeTransaction\<close> of \<open>pallet_transaction_payment::Config\<close>
  (\<open>parachain-runtime/src/lib.rs\<close>, and with the same value \<open>runtime/src/lib.rs\<close>). The currency
  and the executive are code of the SDK: the records \<open>currency_sdk\<close> and \<open>executive_sdk\<close>,
  documented by \<open>documented_currency\<close> and \<open>documented_executive\<close>. The storage deposits of
  \<open>runtime/src/contracts_config.rs\<close> are part of the latter: a call moves some amount between
  its signer and the account of the contract.
\<close>

section \<open>What the SDK provides\<close>

type_synonym holdings = "account_id \<Rightarrow> nat"

text \<open>
  \<open>CurrencyAdapter<C, OU>\<close> withdraws the fee from the signer, if it can, and gives it to the
  handler \<open>OU\<close>; the handler \<open>()\<close> drops it.
\<close>

record currency_sdk =
  CurrencyAdapter ::
    "(nat \<Rightarrow> holdings \<Rightarrow> holdings) \<Rightarrow> holdings \<Rightarrow> account_id \<Rightarrow> nat \<Rightarrow> holdings option"

definition documented_currency :: "currency_sdk \<Rightarrow> bool" where
  "documented_currency W \<longleftrightarrow>
     (\<forall>handler b a f b'. CurrencyAdapter W handler b a f = Some b' \<longrightarrow>
        f \<le> b a \<and> b' = handler f (b(a := b a - f)))"

definition drop_imbalance :: "nat \<Rightarrow> holdings \<Rightarrow> holdings" where
  "drop_imbalance fee b = b"

definition OnChargeTransaction ::
  "currency_sdk \<Rightarrow> holdings \<Rightarrow> account_id \<Rightarrow> nat \<Rightarrow> holdings option" where
  "OnChargeTransaction W = CurrencyAdapter W drop_imbalance"

section \<open>The fee of a transaction\<close>

text \<open>
  A transaction carries its length, the tip its signer offers, and the weight it is charged for
  in the end; the SDK returns what an estimate withdrew beyond that. Its fee is the fee of the
  base weight, the length fee, the adjusted weight fee and the tip; \<open>adjust\<close> is the
  multiplier of the current block.
\<close>

record price =
  charged_weight :: weight
  encoded_len :: u32
  tip :: nat

type_synonym priced_call = "price contract_call"

definition fee_of :: "'p sdk \<Rightarrow> 'p fee_sdk \<Rightarrow> (nat \<Rightarrow> nat) \<Rightarrow> priced_call \<Rightarrow> nat option" where
  "fee_of S F adjust tx =
     do { base \<leftarrow> weight_fee S F (ExtrinsicBaseWeight S);
          w \<leftarrow> weight_fee S F (charged_weight (extra tx));
          Some (unat base + unat (length_fee S F (encoded_len (extra tx))) +
            adjust (unat w) + tip (extra tx)) }"

definition pay ::
  "'p sdk \<Rightarrow> 'p fee_sdk \<Rightarrow> (nat \<Rightarrow> nat) \<Rightarrow> currency_sdk \<Rightarrow> holdings \<Rightarrow> priced_call \<Rightarrow> holdings option" where
  "pay S F adjust W b tx =
     do { fee \<leftarrow> fee_of S F adjust tx; OnChargeTransaction W b (signer tx) fee }"

lemma fee_of_value:
  assumes "documented_sdk S" "documented_fees S F"
  obtains fee where "fee_of S F adjust tx = Some fee" "10 ^ 6 \<le> fee"
proof -
  obtain b where "weight_fee S F (ExtrinsicBaseWeight S) = Some b" "unat b = 10 ^ 6"
    using weight_fee_value [OF assms, of "ExtrinsicBaseWeight S"] unat_base_ref_time [OF assms(1)]
    by auto
  moreover obtain f where "weight_fee S F (charged_weight (extra tx)) = Some f"
    using weight_fee_value [OF assms] by blast
  ultimately show thesis using that by (simp add: fee_of_def)
qed

section \<open>Blocks that are paid for\<close>

abbreviation charge :: string where
  "charge \<equiv> ''pallet_transaction_payment::ChargeTransactionPayment''"

text \<open>
  A transaction is admitted if each check of \<open>SignedExtra\<close> lets it pass; the check \<open>charge\<close>
  does so by withdrawing the fee.
\<close>

definition checked :: "price tx_check \<Rightarrow> priced_call \<Rightarrow> bool" where
  "checked check tx \<longleftrightarrow> (\<forall>e \<in> set SignedExtra - {charge}. check e tx = Ok ())"

definition admits ::
  "price tx_check \<Rightarrow> (holdings \<Rightarrow> priced_call \<Rightarrow> holdings option) \<Rightarrow> holdings \<Rightarrow> priced_call \<Rightarrow>
   holdings \<Rightarrow> bool" where
  "admits check withdraw b tx b1 \<longleftrightarrow>
     checked check tx \<and> (if charge \<in> set SignedExtra then withdraw b tx = Some b1 else b1 = b)"

text \<open>\<open>moved b a pot d b'\<close>: the amount \<open>d\<close>, negative if it is a refund, went from \<open>a\<close> to \<open>pot\<close>.\<close>

definition moved :: "holdings \<Rightarrow> account_id \<Rightarrow> account_id \<Rightarrow> int \<Rightarrow> holdings \<Rightarrow> bool" where
  "moved b a pot d b' \<longleftrightarrow>
     (\<forall>x. int (b' x) = int (b x) - (if x = a then d else 0) + (if x = pot then d else 0))"

text \<open>
  What the documentation of \<open>frame_executive\<close> and \<open>pallet_contracts\<close> says of a transaction that
  calls the contract: it is refused and changes nothing, or it is admitted; an admitted one
  fails, and then nothing but the fee is left of it, or its message is delivered, and then
  the storage deposit it owes, or gets back, is moved between the signer and the account of
  the contract, here \<open>pot\<close>.
\<close>

record executive_sdk =
  apply_extrinsic :: "world \<times> holdings \<Rightarrow> priced_call \<Rightarrow> world \<times> holdings"

definition documented_executive ::
  "price tx_check \<Rightarrow> (holdings \<Rightarrow> priced_call \<Rightarrow> holdings option) \<Rightarrow> ink_env \<Rightarrow> account_id \<Rightarrow>
   executive_sdk \<Rightarrow> bool" where
  "documented_executive check withdraw env pot E \<longleftrightarrow>
     (\<forall>w b tx w' b'. apply_extrinsic E (w, b) tx = (w', b') \<longrightarrow>
        w' = w \<and> b' = b \<or>
        (\<exists>b1. admits check withdraw b tx b1 \<and>
           (w' = w \<and> b' = b1 \<or>
            w' = deliver env w (call tx) \<and> (\<exists>d. moved b1 (signer tx) pot d b'))))"

definition apply_block ::
  "executive_sdk \<Rightarrow> world \<times> holdings \<Rightarrow> priced_call list \<Rightarrow> world \<times> holdings" where
  "apply_block E = foldl (apply_extrinsic E)"

text \<open>What the accounts paid for a list of transactions.\<close>

definition paid_by :: "account_id \<Rightarrow> priced_call list \<Rightarrow> priced_call list" where
  "paid_by a ts = filter (\<lambda>tx. signer tx = a) ts"

definition fees :: "(priced_call \<Rightarrow> nat option) \<Rightarrow> priced_call list \<Rightarrow> nat" where
  "fees fee ts = sum_list (map (\<lambda>tx. the (fee tx)) ts)"

lemma fees_simps [simp]:
  "fees fee [] = 0" "fees fee (tx # ts) = the (fee tx) + fees fee ts"
  "paid_by a [] = []"
  "paid_by a (tx # ts) = (if signer tx = a then tx # paid_by a ts else paid_by a ts)"
  by (simp_all add: fees_def paid_by_def)

lemma pay_Some:
  assumes "documented_currency W" "pay S F adjust W b tx = Some b'"
  obtains fee where "fee_of S F adjust tx = Some fee" "fee \<le> b (signer tx)"
    "b' = b(signer tx := b (signer tx) - fee)"
proof -
  obtain fee where fee: "fee_of S F adjust tx = Some fee"
    "CurrencyAdapter W drop_imbalance b (signer tx) fee = Some b'"
    using assms(2) by (auto simp: pay_def OnChargeTransaction_def bind_eq_Some_conv)
  from assms(1) fee(2) have "fee \<le> b (signer tx) \<and>
      b' = drop_imbalance fee (b(signer tx := b (signer tx) - fee))"
    unfolding documented_currency_def by blast
  with fee(1) that show thesis by (simp add: drop_imbalance_def)
qed

text \<open>The deposits of a list of calls, with their signers: of one account, and of all.\<close>

definition held_from :: "account_id \<Rightarrow> (account_id \<times> int) list \<Rightarrow> int" where
  "held_from a ds = sum_list (map snd (filter (\<lambda>(x, d). x = a) ds))"

definition held :: "(account_id \<times> int) list \<Rightarrow> int" where
  "held ds = sum_list (map snd ds)"

lemma held_simps [simp]:
  "held_from a [] = 0" "held [] = 0" "held ((x, d) # ds) = d + held ds"
  "held_from a ((x, d) # ds) = (if x = a then d else 0) + held_from a ds"
  by (simp_all add: held_from_def held_def)

lemma admits_pay:
  assumes "documented_currency W" "admits check (pay S F adjust W) b tx b1"
  shows "checked check tx" "\<exists>fee. fee_of S F adjust tx = Some fee \<and>
    (\<forall>x. b1 x + (if x = signer tx then fee else 0) = b x)"
proof -
  have "charge \<in> set SignedExtra" by (simp add: SignedExtra_def)
  with assms(2) have "pay S F adjust W b tx = Some b1" by (simp add: admits_def)
  from pay_Some [OF assms(1) this] obtain fee where "fee_of S F adjust tx = Some fee"
    "fee \<le> b (signer tx)" "b1 = b(signer tx := b (signer tx) - fee)" .
  then show "\<exists>fee. fee_of S F adjust tx = Some fee \<and>
      (\<forall>x. b1 x + (if x = signer tx then fee else 0) = b x)" by auto
  show "checked check tx" using assms(2) by (simp add: admits_def)
qed

text \<open>
  \<open>accounted\<close>: the holdings after the transactions \<open>ts\<close> were charged and the deposits \<open>ds\<close>
  were moved.
\<close>

definition accounted ::
  "(priced_call \<Rightarrow> nat option) \<Rightarrow> account_id \<Rightarrow> holdings \<Rightarrow> priced_call list \<Rightarrow>
   (account_id \<times> int) list \<Rightarrow> holdings \<Rightarrow> bool" where
  "accounted price pot b ts ds b' \<longleftrightarrow>
     (\<forall>x. int (b' x) + int (fees price (paid_by x ts)) + held_from x ds =
        int (b x) + (if x = pot then held ds else 0))"

lemma accounted_charge:
  assumes "price tx = Some fee" "\<forall>x. b1 x + (if x = signer tx then fee else 0) = b x"
    and "accounted price pot b1 ts ds b'"
  shows "accounted price pot b (tx # ts) ds b'"
  unfolding accounted_def
proof
  fix x
  have "int (b1 x) + (if x = signer tx then int fee else 0) = int (b x)"
    using spec [OF assms(2), of x] by (auto split: if_splits)
  with assms(1,3) show "int (b' x) + int (fees price (paid_by x (tx # ts))) + held_from x ds =
      int (b x) + (if x = pot then held ds else 0)"
    unfolding accounted_def by (auto dest: spec [of _ x] split: if_splits)
qed

lemma accounted_deposit:
  assumes "moved b a pot d b1" "accounted price pot b1 ts ds b'"
  shows "accounted price pot b ts ((a, d) # ds) b'"
  unfolding accounted_def
proof
  fix x
  from assms show "int (b' x) + int (fees price (paid_by x ts)) + held_from x ((a, d) # ds) =
      int (b x) + (if x = pot then held ((a, d) # ds) else 0)"
    unfolding accounted_def moved_def by (auto dest: spec [of _ x] split: if_splits)
qed

lemma applied_block:
  assumes "documented_currency W" "documented_executive check (pay S F adjust W) env pot E"
  shows "apply_block E (w, b) txs = (w', b') \<Longrightarrow>
    \<exists>ts us ds. subseq ts txs \<and> subseq us ts \<and> w' = foldl (deliver env) w (map call us) \<and>
      list_all (checked check) ts \<and> map fst ds = map signer us \<and>
      accounted (fee_of S F adjust) pot b ts ds b'"
proof (induction txs arbitrary: w b)
  case Nil
  then show ?case
    by (intro exI [of _ "[]"]) (simp add: apply_block_def accounted_def)
next
  case (Cons tx txs)
  obtain w1 b1 where step: "apply_extrinsic E (w, b) tx = (w1, b1)" by (rule prod.exhaust)
  with Cons.prems have "apply_block E (w1, b1) txs = (w', b')" by (simp add: apply_block_def)
  from Cons.IH [OF this] obtain ts us ds where rest: "subseq ts txs" "subseq us ts"
    "w' = foldl (deliver env) w1 (map call us)" "list_all (checked check) ts"
    "map fst ds = map signer us" "accounted (fee_of S F adjust) pot b1 ts ds b'" by blast
  from assms(2) step
  have "(w1 = w \<and> b1 = b) \<or> (\<exists>b2. admits check (pay S F adjust W) b tx b2 \<and>
      (w1 = w \<and> b1 = b2 \<or>
       w1 = deliver env w (call tx) \<and> (\<exists>d. moved b2 (signer tx) pot d b1)))"
    unfolding documented_executive_def by blast
  then have cases: thesis
    if "w1 = w \<Longrightarrow> b1 = b \<Longrightarrow> thesis"
      and "w1 = w \<Longrightarrow> admits check (pay S F adjust W) b tx b1 \<Longrightarrow> thesis"
      and "\<And>b2 d. admits check (pay S F adjust W) b tx b2 \<Longrightarrow> w1 = deliver env w (call tx) \<Longrightarrow>
        moved b2 (signer tx) pot d b1 \<Longrightarrow> thesis" for thesis
    using that by blast
  show ?case
  proof (rule cases)
    assume refused: "w1 = w" "b1 = b"
    with rest show ?thesis by (intro exI [of _ ts] exI [of _ us] exI [of _ ds]) (simp add: list_emb_Cons)
  next
    assume failed: "w1 = w" "admits check (pay S F adjust W) b tx b1"
    note a = admits_pay [OF assms(1) failed(2)]
    from a(2) rest(6) have "accounted (fee_of S F adjust) pot b (tx # ts) ds b'"
      by (blast intro: accounted_charge)
    with rest failed(1) a(1) show ?thesis
      by (intro exI [of _ "tx # ts"] exI [of _ us] exI [of _ ds]) (simp add: list_emb_Cons)
  next
    fix b2 d
    assume ran: "admits check (pay S F adjust W) b tx b2" "w1 = deliver env w (call tx)"
      "moved b2 (signer tx) pot d b1"
    note a = admits_pay [OF assms(1) ran(1)]
    from a(2) accounted_deposit [OF ran(3) rest(6)]
    have "accounted (fee_of S F adjust) pot b (tx # ts) ((signer tx, d) # ds) b'"
      by (blast intro: accounted_charge)
    with rest ran(2) a(1) show ?thesis
      by (intro exI [of _ "tx # ts"] exI [of _ "tx # us"] exI [of _ "(signer tx, d) # ds"]) simp
  qed
qed

lemma fees_at_least:
  assumes "\<And>tx. \<exists>fee. price tx = Some fee \<and> least \<le> fee"
  shows "length ts * least \<le> fees price ts"
proof (induction ts)
  case (Cons tx ts)
  obtain fee where "price tx = Some fee" "least \<le> fee" using assms by blast
  with Cons.IH show ?case by simp
qed simp

text \<open>
  C8. Every message the contract sees was paid for by its signer. On an executive and a currency
  that do what their documentation says, the transactions of a block that were charged
  passed every other check, and the contract is left as the block of some of these, in their
  order, leaves it; what is refused costs nothing. Each account is poorer by exactly the
  fees of the charged transactions it signed, failed calls included, and by the storage
  deposits its calls moved; the deposits of all signers are with the account of the contract;
  and each charged transaction costs at least the fee of a base weight, a thousandth of a
  \<open>MILLIUNIT\<close>.
\<close>
theorem messages_are_paid:
  assumes "documented_sdk S" "documented_fees S F" "documented_currency W"
    and "documented_executive check (pay S F adjust W) env pot E"
    and "apply_block E (w, b) txs = (w', b')"
  shows "\<exists>ts us ds. subseq ts txs \<and> subseq us ts \<and> w' = block_of (\<lambda>_ _. Ok ()) env w us \<and>
    (\<forall>tx \<in> set ts. \<forall>e \<in> set SignedExtra - {charge}. check e tx = Ok ()) \<and>
    map fst ds = map signer us \<and>
    (\<forall>a. int (b' a) + int (fees (fee_of S F adjust) (paid_by a ts)) + held_from a ds =
        int (b a) + (if a = pot then held ds else 0) \<and>
      1000 * fees (fee_of S F adjust) (paid_by a ts) \<ge>
        length (paid_by a ts) * unat parachain_MILLIUNIT)"
proof -
  obtain ts us ds where ts: "subseq ts txs" "subseq us ts"
    "w' = foldl (deliver env) w (map call us)" "list_all (checked check) ts"
    "map fst ds = map signer us" "accounted (fee_of S F adjust) pot b ts ds b'"
    using applied_block [OF assms(3-5)] by blast
  have "admitted (\<lambda>_ _. Ok () :: (string, unit) result) tx" for tx :: priced_call
    by (simp add: admitted_def run_checks_Ok)
  then have "w' = block_of (\<lambda>_ _. Ok ()) env w us"
    using ts(3) by (simp add: block_foldl)
  moreover have "length vs * 10 ^ 6 \<le> fees (fee_of S F adjust) vs" for vs
    by (rule fees_at_least) (metis fee_of_value [OF assms(1,2)])
  then have "length vs * unat parachain_MILLIUNIT \<le> 1000 * fees (fee_of S F adjust) vs" for vs
    using mult_le_mono2 [of "length vs * 10 ^ 6" "fees (fee_of S F adjust) vs" 1000]
    by (simp add: MILLIUNIT_def)
  ultimately show ?thesis
    using ts(1,2,4-6) unfolding list_all_iff checked_def accounted_def by blast
qed

definition reference_currency :: currency_sdk where
  "reference_currency =
     \<lparr>CurrencyAdapter = (\<lambda>handler b a f. if f \<le> b a then Some (handler f (b(a := b a - f))) else None)\<rparr>"

lemma documented_reference_currency: "documented_currency reference_currency"
  by (simp add: documented_currency_def reference_currency_def)

text \<open>An executive that admits who can pay and moves a deposit of hundred units for every call.\<close>

definition reference_executive ::
  "(holdings \<Rightarrow> priced_call \<Rightarrow> holdings option) \<Rightarrow> ink_env \<Rightarrow> account_id \<Rightarrow> executive_sdk" where
  "reference_executive withdraw env pot =
     \<lparr>apply_extrinsic = (\<lambda>(w, b) tx.
        case withdraw b tx of
          None \<Rightarrow> (w, b)
        | Some b1 \<Rightarrow>
            if b1 (signer tx) < 100 then (w, b1)
            else (deliver env w (call tx),
                  let b2 = b1(signer tx := b1 (signer tx) - 100) in b2(pot := b2 pot + 100)))\<rparr>"

lemma documented_reference_executive:
  "documented_executive (\<lambda>_ _. Ok ()) withdraw env pot (reference_executive withdraw env pot)"
proof -
  have "charge \<in> set SignedExtra" by (simp add: SignedExtra_def)
  then have "admits (\<lambda>_ _. Ok ()) withdraw b tx b1" if "withdraw b tx = Some b1" for b tx b1
    using that by (simp add: admits_def checked_def)
  moreover have "moved b1 a pot 100 (let b2 = b1(a := b1 a - 100) in b2(pot := b2 pot + 100))"
    if "\<not> b1 a < 100" for b1 a
    using that by (auto simp: moved_def Let_def)
  ultimately show ?thesis
    unfolding documented_executive_def reference_executive_def
    by (fastforce split: option.splits if_splits)
qed

definition sample_block :: "priced_call list" where
  "sample_block =
     (let p = \<lparr>charged_weight = from_parts 1000 0, encoded_len = 150, tip = 0\<rparr>
      in [\<lparr>signer = 9, call = Grant_permission 1 2, extra = p\<rparr>,
          \<lparr>signer = 8, call = Revoke_permission 1 2, extra = p\<rparr>])"

text \<open>The second signer owns nothing; account 7 is the contract's.\<close>

abbreviation sample_pay :: "holdings \<Rightarrow> priced_call \<Rightarrow> holdings option" where
  "sample_pay \<equiv> pay reference_sdk reference_fees (\<lambda>x. x) reference_currency"

abbreviation sample_holdings :: holdings where
  "sample_holdings \<equiv> (\<lambda>a. if a = 9 then 10 ^ 10 else 0)"

abbreviation sample_result :: "world \<times> holdings" where
  "sample_result \<equiv> apply_block (reference_executive sample_pay static_buffer_env 7)
     (fresh_world, sample_holdings) sample_block"

theorem messages_are_paid_witness:
  "\<exists>us. fst sample_result = block_of (\<lambda>_ _. Ok ()) static_buffer_env fresh_world us \<and>
     subseq us sample_block"
proof -
  obtain w b where run: "sample_result = (w, b)" by (rule prod.exhaust)
  from messages_are_paid [OF documented_reference documented_reference_fees
      documented_reference_currency documented_reference_executive run]
  show ?thesis unfolding run fst_conv by (blast intro: subseq_order.order_trans)
qed

section \<open>What the log costs\<close>

lemma storage_change_events: "storage_change env s t evs \<Longrightarrow> length evs \<le> 2"
  by (induction rule: storage_change.induct) simp_all

lemma deliver_log: "length (event_log (deliver env w m)) \<le> length (event_log w) + 2"
proof -
  have "contract_step env w m (deliver env w m)" by (simp add: contract_step_deliver)
  then obtain evs where "storage_change env (contract w) (contract (deliver env w m)) evs"
    "event_log (deliver env w m) = event_log w @ evs" by (rule contract_step_change)
  with storage_change_events show ?thesis by fastforce
qed

lemma foldl_log:
  "length (event_log (foldl (deliver env) w ms)) \<le> length (event_log w) + 2 * length ms"
proof (induction ms arbitrary: w)
  case (Cons m ms)
  from Cons.IH [of "deliver env w m"] deliver_log [of env w m] show ?case by simp
qed simp

text \<open>The fees of a list are those of its signers, account by account.\<close>

lemma fees_by_signer:
  assumes "finite A" "signer ` set ts \<subseteq> A"
  shows "fees price ts = (\<Sum>a\<in>A. fees price (paid_by a ts))"
  using assms(2)
proof (induction ts)
  case (Cons tx ts)
  have "(\<Sum>a\<in>A. fees price (paid_by a (tx # ts))) =
      (\<Sum>a\<in>A. (if signer tx = a then the (price tx) else 0) + fees price (paid_by a ts))"
    by (rule sum.cong) simp_all
  also have "\<dots> = the (price tx) + (\<Sum>a\<in>A. fees price (paid_by a ts))"
    using assms(1) Cons.prems by (simp add: sum.distrib)
  finally show ?case using Cons by simp
qed simp

lemma deposits_by_signer:
  assumes "finite A" "pot \<in> A" "signer ` set us \<subseteq> A" "map fst ds = map signer us"
  shows "(\<Sum>a\<in>A. held_from a ds) = held ds"
proof -
  have "fst ` set ds \<subseteq> A" using assms(3,4) by (metis list.set_map)
  then show ?thesis
  proof (induction ds)
    case (Cons p ds)
    obtain x d where p: "p = (x, d)" by (rule prod.exhaust)
    have "(\<Sum>a\<in>A. held_from a (p # ds)) = (\<Sum>a\<in>A. (if x = a then d else 0) + held_from a ds)"
      by (simp add: p)
    also have "\<dots> = d + (\<Sum>a\<in>A. held_from a ds)"
      using assms(1) Cons.prems by (simp add: sum.distrib p)
    finally show ?case using Cons by (simp add: p)
  qed simp
qed

text \<open>
  C9. Fees are burnt, and the log of the contract grows no faster than the issuance shrinks.
  Nobody receives a fee, not the author of the block either: what a group of accounts with all
  signers and the account of the contract, which takes the storage deposits, owns before a
  block, it owns after it together with the fees of the transactions that were charged;
  and each pair of events that the block adds to the log costs the issuance at least the
  thousandth of a \<open>MILLIUNIT\<close> that the base weight costs.
\<close>
theorem log_costs_issuance:
  assumes "documented_sdk S" "documented_fees S F" "documented_currency W"
    and "documented_executive check (pay S F adjust W) env pot E"
    and "apply_block E (w, b) txs = (w', b')"
    and "finite A" "pot \<in> A" "signer ` set txs \<subseteq> A"
  shows "(\<exists>ts. subseq ts txs \<and> sum b' A + fees (fee_of S F adjust) ts = sum b A) \<and>
    (length (event_log w') - length (event_log w)) * unat parachain_MILLIUNIT \<le>
      2000 * (sum b A - sum b' A)"
proof -
  let ?price = "fee_of S F adjust"
  obtain ts us ds where ts: "subseq ts txs" "subseq us ts"
    "w' = foldl (deliver env) w (map call us)" "map fst ds = map signer us"
    "accounted ?price pot b ts ds b'"
    using applied_block [OF assms(3-5)] by blast
  have "set ts \<subseteq> set txs" "set us \<subseteq> set ts" using ts(1,2) by (auto elim: list_emb_set)
  then have signers: "signer ` set ts \<subseteq> A" "signer ` set us \<subseteq> A" using assms(8) by blast+
  have "(\<Sum>a\<in>A. int (b' a) + int (fees ?price (paid_by a ts)) + held_from a ds) =
      (\<Sum>a\<in>A. int (b a) + (if a = pot then held ds else 0))"
    using ts(5) by (simp add: accounted_def)
  then have "int (sum b' A) + int (fees ?price ts) + held ds = int (sum b A) + held ds"
    using assms(6,7) deposits_by_signer [OF assms(6,7) signers(2) ts(4)]
      fees_by_signer [OF assms(6) signers(1), of ?price]
    by (simp add: sum.distrib)
  then have sums: "sum b' A + fees ?price ts = sum b A" by linarith
  have "length us \<le> length ts" using ts(2) by (rule list_emb_length)
  then have "length (event_log w') - length (event_log w) \<le> 2 * length ts"
    using foldl_log [of env w "map call us"] by (simp add: ts(3))
  moreover have "length ts * 10 ^ 6 \<le> fees ?price ts"
    by (rule fees_at_least) (metis fee_of_value [OF assms(1,2)])
  ultimately have "(length (event_log w') - length (event_log w)) * 10 ^ 9 \<le>
      2000 * fees ?price ts"
    using mult_le_mono1 [of "length (event_log w') - length (event_log w)" "2 * length ts" "10 ^ 9"]
    by simp
  then show ?thesis using ts(1) sums by (auto simp: MILLIUNIT_def)
qed

theorem log_costs_issuance_witness:
  "length (event_log (fst sample_result)) * 10 ^ 9 \<le>
     2000 * (10 ^ 10 - sum (snd sample_result) {7, 8, 9})"
proof -
  obtain w b where run: "sample_result = (w, b)" by (rule prod.exhaust)
  have p: "(7 :: account_id) \<in> {7, 8, 9}" and s: "signer ` set sample_block \<subseteq> {7, 8, 9}"
    by (simp_all add: sample_block_def Let_def)
  have f: "finite {7, 8, 9 :: account_id}" by simp
  have "sum sample_holdings {7, 8, 9} = 10 ^ 10" by simp
  with log_costs_issuance [OF documented_reference documented_reference_fees
      documented_reference_currency documented_reference_executive run f p s]
  show ?thesis unfolding run by (simp add: fresh_world_def MILLIUNIT_def)
qed

end
