(* ===== verification/Xcm_Config.thy ===== *)
theory Xcm_Config
  imports Parachain_Config
begin

text \<open>
  The configuration of cross-consensus messages (\<open>parachain-runtime/src/xcm_config.rs\<close>): which
  locations have an account, which messages pass the barrier and at what price, what is
  reserved, teleported and signed. The combinators of \<open>xcm_builder\<close> the file composes are code
  of the SDK; they are the fields of \<open>xcm_builder\<close>, an argument of the definitions, and
  \<open>documented_xcm\<close> states what their documentation says. The filters written in the file
  itself are definitions.
\<close>

section \<open>Locations\<close>

datatype ('n, 'i, 'p, 'j) junction =
    Parachain u32
  | AccountId32 "'n option" account_id
  | Plurality 'i 'p
  | other_junction 'j

record ('n, 'i, 'p, 'j) location =
  parents :: u8
  interior :: "('n, 'i, 'p, 'j) junction list"

definition TokenLocation :: "('n, 'i, 'p, 'j) location" where
  "TokenLocation = \<lparr>parents = 0, interior = []\<rparr>"

definition RelayLocation :: "('n, 'i, 'p, 'j) location" where
  "RelayLocation = \<lparr>parents = 1, interior = []\<rparr>"

definition RelayNetwork :: "'n option" where
  "RelayNetwork = None"

definition UniversalLocation :: "u32 \<Rightarrow> ('n, 'i, 'p, 'j) junction list" where
  "UniversalLocation parachain_id = [Parachain parachain_id]"

text \<open>\<open>Contains for ParentOrParentsPlurality\<close>.\<close>

fun ParentOrParentsPlurality_at :: "u8 \<Rightarrow> ('n, 'i, 'p, 'j) junction list \<Rightarrow> bool" where
  "ParentOrParentsPlurality_at n [] = (n = 1)"
| "ParentOrParentsPlurality_at n [Plurality _ _] = (n = 1)"
| "ParentOrParentsPlurality_at _ _ = False"

definition ParentOrParentsPlurality :: "('n, 'i, 'p, 'j) location \<Rightarrow> bool" where
  "ParentOrParentsPlurality l = ParentOrParentsPlurality_at (parents l) (interior l)"

lemma ParentOrParentsPlurality_iff:
  "ParentOrParentsPlurality (l :: ('n, 'i, 'p, 'j) location) \<longleftrightarrow>
     parents l = 1 \<and> (interior l = [] \<or> (\<exists>i p. interior l = [Plurality i p]))"
proof -
  have "ParentOrParentsPlurality_at n js \<longleftrightarrow> n = 1 \<and> (js = [] \<or> (\<exists>i p. js = [Plurality i p]))"
    for n and js :: "('n, 'i, 'p, 'j) junction list"
    by (induction n js rule: ParentOrParentsPlurality_at.induct) auto
  then show ?thesis by (simp add: ParentOrParentsPlurality_def)
qed

definition Everything :: "'a \<Rightarrow> bool" where "Everything _ = True"
definition Nothing :: "'a \<Rightarrow> bool" where "Nothing _ = False"

section \<open>Combinators of the SDK\<close>

text \<open>
  \<open>'x\<close> is what a barrier judges: the origin, the instructions, their weight and the
  properties of the message. The first fields read it, the others build barriers, converters
  and account conversions.
\<close>

record ('n, 'i, 'p, 'j, 'x) xcm_builder =
  origin_of :: "'x \<Rightarrow> ('n, 'i, 'p, 'j) location"
  has_credit :: "'x \<Rightarrow> bool"
  buys_execution :: "'x \<Rightarrow> bool"
  asks_unpaid :: "'x \<Rightarrow> bool"
  reserve_to_relay :: "'x \<Rightarrow> bool"
  drop_topic :: "'x \<Rightarrow> 'x"
  compute_origin :: "('n, 'i, 'p, 'j) junction list \<Rightarrow> u32 \<Rightarrow> 'x \<Rightarrow> 'x option"
  TakeWeightCredit :: "'x \<Rightarrow> bool"
  AllowTopLevelPaidExecutionFrom :: "(('n, 'i, 'p, 'j) location \<Rightarrow> bool) \<Rightarrow> 'x \<Rightarrow> bool"
  AllowExplicitUnpaidExecutionFrom :: "(('n, 'i, 'p, 'j) location \<Rightarrow> bool) \<Rightarrow> 'x \<Rightarrow> bool"
  first_of :: "('x \<Rightarrow> bool) \<Rightarrow> ('x \<Rightarrow> bool) \<Rightarrow> 'x \<Rightarrow> bool"
  WithComputedOrigin ::
    "('x \<Rightarrow> bool) \<Rightarrow> ('n, 'i, 'p, 'j) junction list \<Rightarrow> u32 \<Rightarrow> 'x \<Rightarrow> bool"
  DenyReserveTransferToRelayChain :: "'x \<Rightarrow> bool"
  DenyThenTry :: "('x \<Rightarrow> bool) \<Rightarrow> ('x \<Rightarrow> bool) \<Rightarrow> 'x \<Rightarrow> bool"
  TrailingSetTopicAsId :: "('x \<Rightarrow> bool) \<Rightarrow> 'x \<Rightarrow> bool"
  AccountId32Aliases :: "'n option \<Rightarrow> ('n, 'i, 'p, 'j) location \<Rightarrow> account_id option"
  ParentIsPreset :: "('n, 'i, 'p, 'j) location \<Rightarrow> account_id option"
  either_account ::
    "(('n, 'i, 'p, 'j) location \<Rightarrow> account_id option) \<Rightarrow>
     (('n, 'i, 'p, 'j) location \<Rightarrow> account_id option) \<Rightarrow> ('n, 'i, 'p, 'j) location \<Rightarrow> account_id option"
  SignedToAccountId32 :: "'n option \<Rightarrow> account_id \<Rightarrow> ('n, 'i, 'p, 'j) location option"

text \<open>
  What the barriers of the SDK let through. A barrier in the model is true where the SDK's
  returns \<open>Ok\<close>, and the denying one is true where it lets the message go on.
\<close>

definition documented_barriers :: "('n, 'i, 'p, 'j, 'x) xcm_builder \<Rightarrow> bool" where
  "documented_barriers X \<longleftrightarrow>
     TakeWeightCredit X = has_credit X \<and>
     (\<forall>T x. AllowTopLevelPaidExecutionFrom X T x = (T (origin_of X x) \<and> buys_execution X x)) \<and>
     (\<forall>T x. AllowExplicitUnpaidExecutionFrom X T x = (T (origin_of X x) \<and> asks_unpaid X x)) \<and>
     (\<forall>A B x. first_of X A B x = (A x \<or> B x)) \<and>
     (\<forall>A u n x. WithComputedOrigin X A u n x =
        (case compute_origin X u n x of None \<Rightarrow> False | Some y \<Rightarrow> A y)) \<and>
     (\<forall>x. DenyReserveTransferToRelayChain X x = (\<not> reserve_to_relay X x)) \<and>
     (\<forall>D A x. DenyThenTry X D A x = (D x \<and> A x)) \<and>
     (\<forall>A x. TrailingSetTopicAsId X A x = A (drop_topic X x))"

text \<open>The two account converters and the conversion of a signed origin.\<close>

definition documented_converters :: "('n, 'i, 'p, 'j, 'x) xcm_builder \<Rightarrow> bool" where
  "documented_converters X \<longleftrightarrow>
     (\<forall>n l a. AccountId32Aliases X n l = Some a \<longrightarrow>
        parents l = 0 \<and> (\<exists>i. interior l = [AccountId32 i a])) \<and>
     (\<forall>l a. ParentIsPreset X l = Some a \<longrightarrow> parents l = 1 \<and> interior l = []) \<and>
     (\<forall>f g l. either_account X f g l = (case f l of Some a \<Rightarrow> Some a | None \<Rightarrow> g l)) \<and>
     (\<forall>n a. \<exists>l. SignedToAccountId32 X n a = Some l)"

section \<open>The configuration\<close>

definition LocationToAccountId ::
  "('n, 'i, 'p, 'j, 'x) xcm_builder \<Rightarrow> ('n, 'i, 'p, 'j) location \<Rightarrow> account_id option" where
  "LocationToAccountId X = either_account X (AccountId32Aliases X RelayNetwork) (ParentIsPreset X)"

definition Barrier :: "('n, 'i, 'p, 'j, 'x) xcm_builder \<Rightarrow> u32 \<Rightarrow> 'x \<Rightarrow> bool" where
  "Barrier X parachain_id =
     TrailingSetTopicAsId X
       (DenyThenTry X (DenyReserveTransferToRelayChain X)
          (first_of X (TakeWeightCredit X)
             (WithComputedOrigin X
                (first_of X (AllowTopLevelPaidExecutionFrom X Everything)
                   (AllowExplicitUnpaidExecutionFrom X ParentOrParentsPlurality))
                (UniversalLocation parachain_id) 8)))"

definition UnitWeightCost :: weight where
  "UnitWeightCost = from_parts 1000000000 (64 * 1024)"

definition MaxInstructions :: u32 where
  "MaxInstructions = 100"

definition MaxAssetsIntoHolding :: u32 where
  "MaxAssetsIntoHolding = 64"

record ('n, 'i, 'p, 'j, 'x, 'a) xcm_config =
  IsTeleporter :: "'a \<Rightarrow> ('n, 'i, 'p, 'j) location \<Rightarrow> bool"
  xc_UniversalLocation :: "('n, 'i, 'p, 'j) junction list"
  xc_Barrier :: "'x \<Rightarrow> bool"
  xc_Weigher :: "weight \<times> u32"
  xc_MaxAssetsIntoHolding :: u32
  UniversalAliases :: "('n, 'i, 'p, 'j) location \<times> ('n, 'i, 'p, 'j) junction \<Rightarrow> bool"
  SafeCallFilter :: "'x \<Rightarrow> bool"
  Aliasers :: "('n, 'i, 'p, 'j) location \<Rightarrow> bool"

text \<open>The unit type contains no asset and no location.\<close>

definition XcmConfig :: "('n, 'i, 'p, 'j, 'x) xcm_builder \<Rightarrow> u32 \<Rightarrow> ('n, 'i, 'p, 'j, 'x, 'a) xcm_config" where
  "XcmConfig X parachain_id =
     \<lparr>IsTeleporter = (\<lambda>_ _. False), xc_UniversalLocation = UniversalLocation parachain_id,
      xc_Barrier = Barrier X parachain_id, xc_Weigher = (UnitWeightCost, MaxInstructions),
      xc_MaxAssetsIntoHolding = MaxAssetsIntoHolding, UniversalAliases = Nothing,
      SafeCallFilter = Everything, Aliasers = Nothing\<rparr>"

definition LocalOriginToLocation ::
  "('n, 'i, 'p, 'j, 'x) xcm_builder \<Rightarrow> account_id \<Rightarrow> ('n, 'i, 'p, 'j) location option" where
  "LocalOriginToLocation X = SignedToAccountId32 X RelayNetwork"

record ('n, 'i, 'p, 'j, 'm) xcm_pallet_config =
  SendXcmOrigin :: "account_id \<Rightarrow> ('n, 'i, 'p, 'j) location option"
  ExecuteXcmOrigin :: "account_id \<Rightarrow> ('n, 'i, 'p, 'j) location option"
  XcmExecuteFilter :: "('n, 'i, 'p, 'j) location \<times> 'm \<Rightarrow> bool"
  XcmTeleportFilter :: "('n, 'i, 'p, 'j) location \<times> 'm \<Rightarrow> bool"
  XcmReserveTransferFilter :: "('n, 'i, 'p, 'j) location \<times> 'm \<Rightarrow> bool"
  VERSION_DISCOVERY_QUEUE_SIZE :: u32
  MaxLockers :: u32
  MaxRemoteLockConsumers :: u32

text \<open>An origin check that converts a signed origin is the conversion itself.\<close>

definition xcm_Config :: "('n, 'i, 'p, 'j, 'x) xcm_builder \<Rightarrow> ('n, 'i, 'p, 'j, 'm) xcm_pallet_config" where
  "xcm_Config X =
     \<lparr>SendXcmOrigin = LocalOriginToLocation X, ExecuteXcmOrigin = LocalOriginToLocation X,
      XcmExecuteFilter = Everything, XcmTeleportFilter = Everything,
      XcmReserveTransferFilter = Nothing, VERSION_DISCOVERY_QUEUE_SIZE = 100,
      MaxLockers = 8, MaxRemoteLockConsumers = 0\<rparr>"


section \<open>Properties\<close>

lemmas barrier_simps = Barrier_def UniversalLocation_def Everything_def ParentOrParentsPlurality_iff

text \<open>A reference instance: a message is its origin and four flags.\<close>

type_synonym sample_message = "(unit, unit, unit, unit) location \<times> bool \<times> bool \<times> bool \<times> bool"

definition reference_xcm :: "(unit, unit, unit, unit, sample_message) xcm_builder" where
  "reference_xcm =
     \<lparr>origin_of = fst, has_credit = (\<lambda>x. fst (snd x)), buys_execution = (\<lambda>x. fst (snd (snd x))),
      asks_unpaid = (\<lambda>x. fst (snd (snd (snd x)))), reserve_to_relay = (\<lambda>x. snd (snd (snd (snd x)))),
      drop_topic = (\<lambda>x. x), compute_origin = (\<lambda>_ _ x. Some x),
      TakeWeightCredit = (\<lambda>x. fst (snd x)),
      AllowTopLevelPaidExecutionFrom = (\<lambda>T x. T (fst x) \<and> fst (snd (snd x))),
      AllowExplicitUnpaidExecutionFrom = (\<lambda>T x. T (fst x) \<and> fst (snd (snd (snd x)))),
      first_of = (\<lambda>A B x. A x \<or> B x), WithComputedOrigin = (\<lambda>A _ _. A),
      DenyReserveTransferToRelayChain = (\<lambda>x. \<not> snd (snd (snd (snd x)))),
      DenyThenTry = (\<lambda>D A x. D x \<and> A x), TrailingSetTopicAsId = (\<lambda>A. A),
      AccountId32Aliases = (\<lambda>_ l. case interior l of [AccountId32 _ a] \<Rightarrow>
        if parents l = 0 then Some a else None | _ \<Rightarrow> None),
      ParentIsPreset = (\<lambda>l. if parents l = 1 \<and> interior l = [] then Some 7 else None),
      either_account = (\<lambda>f g l. case f l of Some a \<Rightarrow> Some a | None \<Rightarrow> g l),
      SignedToAccountId32 = (\<lambda>_ a. Some \<lparr>parents = 0, interior = [AccountId32 None a]\<rparr>)\<rparr>"

lemma documented_reference_xcm:
  "documented_barriers reference_xcm" "documented_converters reference_xcm"
  by (auto simp: documented_barriers_def documented_converters_def reference_xcm_def
      split: list.splits junction.splits if_splits)

text \<open>
  C36. The barrier is exactly this: after the topic is dropped, a message is executed unless it
  is a reserve transfer to the relay chain, provided its weight is already paid for, or its
  computed origin buys execution, or it asks for free execution and its computed origin is the
  relay chain or any plurality of it. The computed origin is the one the message gives itself,
  relative to the universal location of the chain and within eight instructions; the barrier
  does not check it.
\<close>
theorem barrier_exact:
  assumes "documented_barriers X"
  shows "Barrier X parachain_id x \<longleftrightarrow>
    \<not> reserve_to_relay X (drop_topic X x) \<and>
    (has_credit X (drop_topic X x) \<or>
     (\<exists>y. compute_origin X [Parachain parachain_id] 8 (drop_topic X x) = Some y \<and>
        (buys_execution X y \<or>
         asks_unpaid X y \<and> parents (origin_of X y) = 1 \<and>
         (interior (origin_of X y) = [] \<or> (\<exists>i p. interior (origin_of X y) = [Plurality i p])))))"
  using assms by (auto simp: documented_barriers_def barrier_simps split: option.splits)

theorem barrier_exact_witness:
  "\<not> Barrier reference_xcm 1000
       (\<lparr>parents = 1, interior = [Parachain 2000]\<rparr>, False, False, True, False) \<and>
   Barrier reference_xcm 1000 (RelayLocation, False, False, True, False)"
  unfolding barrier_exact [OF documented_reference_xcm(1)]
  by (simp add: reference_xcm_def RelayLocation_def del: split_paired_Ex)

text \<open>
  Only the relay chain and local 32-byte accounts own an account on the chain: whatever
  location has an account is one of the two, so a sibling parachain has none and nothing can be
  deposited for it, and the two converters never compete for a location.
\<close>
theorem accounts_of_locations:
  assumes "documented_converters X" "LocationToAccountId X l = Some a"
  shows "(parents l = 0 \<and> (\<exists>i. interior l = [AccountId32 i a])) \<or>
         (l = RelayLocation \<and> AccountId32Aliases X RelayNetwork l = None)"
proof (cases "AccountId32Aliases X RelayNetwork l")
  case None
  with assms have "ParentIsPreset X l = Some a"
    by (simp add: documented_converters_def LocationToAccountId_def)
  with assms(1) None show ?thesis by (auto simp: documented_converters_def RelayLocation_def)
next
  case (Some b)
  with assms show ?thesis by (auto simp: documented_converters_def LocationToAccountId_def)
qed

theorem accounts_of_locations_witness:
  "LocationToAccountId reference_xcm \<lparr>parents = 1, interior = [Parachain 2000]\<rparr> = None"
  using accounts_of_locations [OF documented_reference_xcm(2),
      of "\<lparr>parents = 1, interior = [Parachain 2000]\<rparr>"]
  by (auto simp: RelayLocation_def simp del: split_paired_Ex intro: option.exhaust
      [of "LocationToAccountId reference_xcm \<lparr>parents = 1, interior = [Parachain 2000]\<rparr>"])

text \<open>
  Every signed account may send and execute messages, although the comment beside
  \<open>LocalOriginToLocation\<close> says that no local origin may, and its outbound teleports pass the
  filter of the pallet while no inbound teleport is ever trusted; reserve transfers are refused.
\<close>
theorem signed_origins_send:
  assumes "documented_converters X" and "C = xcm_Config X"
  shows "(\<exists>l. SendXcmOrigin C a = Some l \<and> ExecuteXcmOrigin C a = Some l \<and>
      XcmExecuteFilter C (l, m) \<and> XcmTeleportFilter C (l, assets) \<and>
      \<not> XcmReserveTransferFilter C (l, assets)) \<and>
    \<not> IsTeleporter (XcmConfig X parachain_id) asset sender"
  using assms
  by (auto simp: documented_converters_def xcm_Config_def XcmConfig_def LocalOriginToLocation_def
      Everything_def Nothing_def)

theorem signed_origins_send_witness:
  "\<exists>l. SendXcmOrigin (xcm_Config reference_xcm :: (unit, unit, unit, unit, unit) xcm_pallet_config) 5 = Some l"
  using signed_origins_send [OF documented_reference_xcm(2) refl,
      where m = "()" and assets = "()" and a = 5, THEN conjunct1] by blast

text \<open>
  The weigher of the SDK accepts a message with at most \<open>L\<close> instructions, the nested ones
  counted, and its weight is no less than that of its instructions at \<open>U\<close> each, up to the
  largest number of 64 bits; \<open>count\<close> is the number of instructions.
\<close>

definition documented_weigher ::
  "(weight \<times> u32 \<Rightarrow> 'm \<Rightarrow> weight option) \<Rightarrow> ('m \<Rightarrow> nat) \<Rightarrow> bool" where
  "documented_weigher FixedWeightBounds count \<longleftrightarrow>
     (\<forall>U L m w. FixedWeightBounds (U, L) m = Some w \<longrightarrow>
        count m \<le> unat L \<and>
        min (count m * unat (ref_time U)) (2 ^ 64 - 1) \<le> unat (ref_time w) \<and>
        min (count m * unat (proof_size U)) (2 ^ 64 - 1) \<le> unat (proof_size w))"

text \<open>
  What the message queue may do in one block, by its documentation: the messages it serves at the
  start have a weight and need together no more than \<open>ServiceWeight\<close>, and those it serves when
  the block is idle no more than \<open>IdleMaxServiceWeight\<close>; without that it serves none.
\<close>

fun fits_in :: "weight option \<Rightarrow> ('m \<Rightarrow> weight option) \<Rightarrow> 'm list \<Rightarrow> bool" where
  "fits_in None weigh ms \<longleftrightarrow> ms = []"
| "fits_in (Some limit) weigh ms \<longleftrightarrow>
     list_all (\<lambda>m. weigh m \<noteq> None) ms \<and>
     (\<Sum>m\<leftarrow>ms. unat (ref_time (the (weigh m)))) \<le> unat (ref_time limit) \<and>
     (\<Sum>m\<leftarrow>ms. unat (proof_size (the (weigh m)))) \<le> unat (proof_size limit)"

definition may_serve ::
  "message_queue_config \<Rightarrow> ('m \<Rightarrow> weight option) \<Rightarrow> 'm list \<Rightarrow> 'm list \<Rightarrow> bool" where
  "may_serve C weigh start_served idle_served \<longleftrightarrow>
     fits_in (Some (ServiceWeight C)) weigh start_served \<and>
     fits_in (IdleMaxServiceWeight C) weigh idle_served"

definition reference_weigher :: "weight \<times> u32 \<Rightarrow> nat \<Rightarrow> weight option" where
  "reference_weigher = (\<lambda>(U, L) n.
     if n \<le> unat L
     then Some (from_parts (word_of_nat (min (n * unat (ref_time U)) (2 ^ 64 - 1)))
                  (word_of_nat (min (n * unat (proof_size U)) (2 ^ 64 - 1)))) else None)"

lemma documented_reference_weigher: "documented_weigher reference_weigher (\<lambda>n. n)"
  by (auto simp: documented_weigher_def reference_weigher_def unat_of_nat split: if_splits)

lemma sum_list_mono_count:
  "(\<And>m. m \<in> set ms \<Longrightarrow> f m \<le> g m) \<Longrightarrow> (\<Sum>m\<leftarrow>ms. f m) \<le> (\<Sum>m\<leftarrow>ms. g m :: nat)"
  by (induction ms) (auto intro: add_mono)

lemma proof_per_instruction:
  assumes "documented_weigher F count"
    and "F (xc_Weigher (XcmConfig X i :: ('n, 'i, 'p, 'j, 'x, 'a) xcm_config)) m = Some w"
  shows "count m * 65536 \<le> unat (proof_size w)" "count m \<le> 100"
proof -
  have "count m \<le> unat MaxInstructions \<and>
      min (count m * unat (proof_size UnitWeightCost)) (2 ^ 64 - 1) \<le> unat (proof_size w)"
    using assms unfolding documented_weigher_def XcmConfig_def by simp
  then show "count m * 65536 \<le> unat (proof_size w)" "count m \<le> 100"
    by (auto simp: UnitWeightCost_def MaxInstructions_def min_def split: if_splits)
qed



end
