(* ===== verification/Xcm_Origins.thy ===== *)
theory Xcm_Origins
  imports Xcm_Config
begin

text \<open>
  Which local origin the instruction \<open>Transact\<close> of a message gets, and who may therefore change
  the collator set (\<open>XcmOriginToTransactDispatchOrigin\<close> of
  \<open>parachain-runtime/src/xcm_config.rs\<close>, \<open>CollatorSelectionUpdateOrigin\<close> of
  \<open>parachain-runtime/src/lib.rs\<close>). The converters and checks themselves are code of the SDK:
  the record \<open>origin_builder\<close>, with \<open>documented_origins\<close> for its documentation.
\<close>

section \<open>Origins\<close>

datatype origin_kind = Native | SovereignAccount | Superuser | Xcm

datatype ('n, 'i, 'p, 'j) runtime_origin =
    Root
  | Signed account_id
  | Relay
  | SiblingPara u32
  | Xcm_origin "('n, 'i, 'p, 'j) location"

type_synonym ('n, 'i, 'p, 'j) converter =
  "('n, 'i, 'p, 'j) location \<Rightarrow> origin_kind \<Rightarrow> ('n, 'i, 'p, 'j) runtime_origin option"

text \<open>\<open>convert_first\<close> is the conversion of a tuple of converters.\<close>

record ('n, 'i, 'p, 'j) origin_builder =
  SovereignSignedViaLocation ::
    "(('n, 'i, 'p, 'j) location \<Rightarrow> account_id option) \<Rightarrow> ('n, 'i, 'p, 'j) converter"
  RelayChainAsNative :: "('n, 'i, 'p, 'j) runtime_origin \<Rightarrow> ('n, 'i, 'p, 'j) converter"
  SiblingParachainAsNative :: "('n, 'i, 'p, 'j) converter"
  SignedAccountId32AsNative :: "'n option \<Rightarrow> ('n, 'i, 'p, 'j) converter"
  XcmPassthrough :: "('n, 'i, 'p, 'j) converter"
  convert_first :: "('n, 'i, 'p, 'j) converter list \<Rightarrow> ('n, 'i, 'p, 'j) converter"
  EnsureRoot :: "('n, 'i, 'p, 'j) runtime_origin \<Rightarrow> bool"
  EnsureXcm ::
    "(('n, 'i, 'p, 'j) location \<Rightarrow> bool) \<Rightarrow> ('n, 'i, 'p, 'j) runtime_origin \<Rightarrow> bool"
  IsVoiceOfBody :: "('n, 'i, 'p, 'j) location \<Rightarrow> 'i \<Rightarrow> ('n, 'i, 'p, 'j) location \<Rightarrow> bool"
  EitherOfDiverse ::
    "(('n, 'i, 'p, 'j) runtime_origin \<Rightarrow> bool) \<Rightarrow> (('n, 'i, 'p, 'j) runtime_origin \<Rightarrow> bool) \<Rightarrow>
     ('n, 'i, 'p, 'j) runtime_origin \<Rightarrow> bool"
  Body_Defense :: 'i
  Part_Voice :: 'p

fun first_Some :: "('a \<Rightarrow> 'b \<Rightarrow> 'c option) list \<Rightarrow> 'a \<Rightarrow> 'b \<Rightarrow> 'c option" where
  "first_Some [] _ _ = None"
| "first_Some (f # fs) a b = (case f a b of Some c \<Rightarrow> Some c | None \<Rightarrow> first_Some fs a b)"

definition documented_origins :: "('n, 'i, 'p, 'j) origin_builder \<Rightarrow> bool" where
  "documented_origins Q \<longleftrightarrow>
     SovereignSignedViaLocation Q =
       (\<lambda>C l k. if k = SovereignAccount then map_option Signed (C l) else None) \<and>
     RelayChainAsNative Q =
       (\<lambda>r l k. if k = Native \<and> parents l = 1 \<and> interior l = [] then Some r else None) \<and>
     SiblingParachainAsNative Q =
       (\<lambda>l k. case interior l of [Parachain i] \<Rightarrow>
           if k = Native \<and> parents l = 1 then Some (SiblingPara i) else None | _ \<Rightarrow> None) \<and>
     SignedAccountId32AsNative Q =
       (\<lambda>n l k. case interior l of [AccountId32 m a] \<Rightarrow>
           if k = Native \<and> parents l = 0 \<and> (m = None \<or> m = n) then Some (Signed a) else None
         | _ \<Rightarrow> None) \<and>
     XcmPassthrough Q = (\<lambda>l k. if k = Xcm then Some (Xcm_origin l) else None) \<and>
     convert_first Q = first_Some \<and>
     EnsureRoot Q = (\<lambda>r. r = Root) \<and>
     EnsureXcm Q = (\<lambda>F r. \<exists>l. r = Xcm_origin l \<and> F l) \<and>
     IsVoiceOfBody Q = (\<lambda>p b l. l = p\<lparr>interior := interior p @ [Plurality b (Part_Voice Q)]\<rparr>) \<and>
     EitherOfDiverse Q = (\<lambda>A B r. A r \<or> B r)"

section \<open>The configuration\<close>

definition RelayChainOrigin :: "('n, 'i, 'p, 'j) runtime_origin" where
  "RelayChainOrigin = Relay"

definition XcmOriginToTransactDispatchOrigin ::
  "('n, 'i, 'p, 'j, 'x) xcm_builder \<Rightarrow> ('n, 'i, 'p, 'j) origin_builder \<Rightarrow>
   ('n, 'i, 'p, 'j) converter" where
  "XcmOriginToTransactDispatchOrigin X Q =
     convert_first Q
       [SovereignSignedViaLocation Q (LocationToAccountId X),
        RelayChainAsNative Q RelayChainOrigin,
        SiblingParachainAsNative Q,
        SignedAccountId32AsNative Q RelayNetwork,
        XcmPassthrough Q]"

definition StakingAdminBodyId :: "('n, 'i, 'p, 'j) origin_builder \<Rightarrow> 'i" where
  "StakingAdminBodyId Q = Body_Defense Q"

definition CollatorSelectionUpdateOrigin ::
  "('n, 'i, 'p, 'j) origin_builder \<Rightarrow> ('n, 'i, 'p, 'j) runtime_origin \<Rightarrow> bool" where
  "CollatorSelectionUpdateOrigin Q =
     EitherOfDiverse Q (EnsureRoot Q)
       (EnsureXcm Q (IsVoiceOfBody Q RelayLocation (StakingAdminBodyId Q)))"

text \<open>
  The origin check of the queue pallet, and the one of the message pallet for its privileged
  calls.
\<close>

definition ControllerOrigin ::
  "('n, 'i, 'p, 'j) origin_builder \<Rightarrow> ('n, 'i, 'p, 'j) runtime_origin \<Rightarrow> bool" where
  "ControllerOrigin Q = EnsureRoot Q"

definition AdminOrigin ::
  "('n, 'i, 'p, 'j) origin_builder \<Rightarrow> ('n, 'i, 'p, 'j) runtime_origin \<Rightarrow> bool" where
  "AdminOrigin Q = EnsureRoot Q"

section \<open>What a message can become\<close>

text \<open>
  The conversion in one table: the kind decides which converter can answer, and at most one of
  them does.
\<close>

fun origin_table ::
  "(('n, 'i, 'p, 'j) location \<Rightarrow> account_id option) \<Rightarrow> ('n, 'i, 'p, 'j) location \<Rightarrow> origin_kind \<Rightarrow>
   ('n, 'i, 'p, 'j) runtime_origin option" where
  "origin_table C l SovereignAccount = map_option Signed (C l)"
| "origin_table C l Native =
     (if parents l = 1 \<and> interior l = [] then Some Relay
      else case interior l of
        [Parachain i] \<Rightarrow> if parents l = 1 then Some (SiblingPara i) else None
      | [AccountId32 None a] \<Rightarrow> if parents l = 0 then Some (Signed a) else None
      | _ \<Rightarrow> None)"
| "origin_table C l Xcm = Some (Xcm_origin l)"
| "origin_table C l Superuser = None"

text \<open>The documented behaviour, one equation for each converter and check.\<close>

lemma documented_converter:
  assumes "documented_origins Q"
  shows "SovereignSignedViaLocation Q C l k =
      (if k = SovereignAccount then map_option Signed (C l) else None)"
    and "RelayChainAsNative Q r l k =
      (if k = Native \<and> parents l = 1 \<and> interior l = [] then Some r else None)"
    and "SiblingParachainAsNative Q l k =
      (case interior l of [Parachain i] \<Rightarrow>
         if k = Native \<and> parents l = 1 then Some (SiblingPara i) else None | _ \<Rightarrow> None)"
    and "SignedAccountId32AsNative Q n l k =
      (case interior l of [AccountId32 m a] \<Rightarrow>
         if k = Native \<and> parents l = 0 \<and> (m = None \<or> m = n) then Some (Signed a) else None
       | _ \<Rightarrow> None)"
    and "XcmPassthrough Q l k = (if k = Xcm then Some (Xcm_origin l) else None)"
    and "convert_first Q fs = first_Some fs"
  using assms by (simp_all only: documented_origins_def)

lemma documented_check:
  assumes "documented_origins Q"
  shows "EnsureRoot Q r = (r = Root)"
    and "EnsureXcm Q F r = (\<exists>l. r = Xcm_origin l \<and> F l)"
    and "IsVoiceOfBody Q p b l = (l = p\<lparr>interior := interior p @ [Plurality b (Part_Voice Q)]\<rparr>)"
    and "EitherOfDiverse Q A B r = (A r \<or> B r)"
  using assms by (simp_all only: documented_origins_def)

lemma conversion_table:
  assumes "documented_origins Q"
  shows "XcmOriginToTransactDispatchOrigin X Q l k = origin_table (LocationToAccountId X) l k"
proof -
  note eqs = documented_converter [OF assms] RelayChainOrigin_def RelayNetwork_def
    XcmOriginToTransactDispatchOrigin_def
  consider (none) "interior l = []" | (one) j where "interior l = [j]"
    | (more) j j' js where "interior l = j # j' # js"
    by (metis list.exhaust)
  then show ?thesis
  proof cases
    case one
    then show ?thesis
      by (cases k; cases j) (simp_all add: eqs split: option.split)
  next
    case more
    then show ?thesis
      by (cases k; cases j) (simp_all add: eqs split: option.split)
  qed (cases k; simp add: eqs split: option.split)
qed

lemmas origin_table_splits = option.splits list.splits junction.splits if_splits

lemma table_never_Root: "origin_table C l k \<noteq> Some Root"
  by (cases k) (auto split: origin_table_splits)

lemma table_Signed:
  "origin_table C l k = Some (Signed a) \<Longrightarrow>
     k = SovereignAccount \<and> C l = Some a \<or>
     k = Native \<and> l = \<lparr>parents = 0, interior = [AccountId32 None a]\<rparr>"
  by (cases l; cases k) (auto split: origin_table_splits)

lemma table_Xcm_origin:
  "origin_table C l k = Some (Xcm_origin m) \<Longrightarrow> k = Xcm \<and> m = l"
  by (cases k) (auto split: origin_table_splits)

text \<open>Converters and checks that follow their documentation, for the instances below.\<close>

definition reference_origins :: "(unit, unit, unit, unit) origin_builder" where
  "reference_origins =
     \<lparr>SovereignSignedViaLocation =
        (\<lambda>C l k. if k = SovereignAccount then map_option Signed (C l) else None),
      RelayChainAsNative =
        (\<lambda>r l k. if k = Native \<and> parents l = 1 \<and> interior l = [] then Some r else None),
      SiblingParachainAsNative = (\<lambda>l k. case interior l of
          [Parachain i] \<Rightarrow> if k = Native \<and> parents l = 1 then Some (SiblingPara i) else None
        | _ \<Rightarrow> None),
      SignedAccountId32AsNative = (\<lambda>n l k. case interior l of
          [AccountId32 m a] \<Rightarrow>
            if k = Native \<and> parents l = 0 \<and> (m = None \<or> m = n) then Some (Signed a) else None
        | _ \<Rightarrow> None),
      XcmPassthrough = (\<lambda>l k. if k = Xcm then Some (Xcm_origin l) else None),
      convert_first = first_Some,
      EnsureRoot = (\<lambda>r. r = Root),
      EnsureXcm = (\<lambda>F r. \<exists>l. r = Xcm_origin l \<and> F l),
      IsVoiceOfBody = (\<lambda>p b l. l = p\<lparr>interior := interior p @ [Plurality b ()]\<rparr>),
      EitherOfDiverse = (\<lambda>A B r. A r \<or> B r),
      Body_Defense = (), Part_Voice = ()\<rparr>"

lemma documented_reference_origins: "documented_origins reference_origins"
  by (simp add: documented_origins_def reference_origins_def)

section \<open>Properties\<close>

text \<open>
  C37. No message is given the root origin: whatever the location it comes from and whatever
  origin kind it asks for, the origin it gets passes neither the check of the administration of
  the message pallet nor that of the control of the queues, and asking for a superuser gets
  none at all. It acts as a signed account only if that account is the sovereign account of
  its location, or if its location is that local account itself.
\<close>
theorem messages_never_root:
  assumes "documented_origins Q"
  shows "XcmOriginToTransactDispatchOrigin X Q l Superuser = None \<and>
    (\<forall>r. XcmOriginToTransactDispatchOrigin X Q l k = Some r \<longrightarrow>
       \<not> AdminOrigin Q r \<and> \<not> ControllerOrigin Q r \<and>
       (\<forall>a. r = Signed a \<longrightarrow>
          k = SovereignAccount \<and> LocationToAccountId X l = Some a \<or>
          k = Native \<and> l = \<lparr>parents = 0, interior = [AccountId32 None a]\<rparr>))"
proof -
  have "r \<noteq> Root" if "origin_table (LocationToAccountId X) l k = Some r" for r
    using that table_never_Root by blast
  moreover have "EnsureRoot Q r = (r = Root)" for r
    by (simp add: documented_check [OF assms])
  ultimately show ?thesis
    unfolding conversion_table [OF assms] AdminOrigin_def ControllerOrigin_def
    by (auto dest: table_Signed)
qed

theorem messages_never_root_witness:
  "XcmOriginToTransactDispatchOrigin reference_xcm reference_origins \<lparr>parents = 1, interior = []\<rparr> Native =
     Some Relay \<and>
   \<not> AdminOrigin reference_origins (Relay :: (unit, unit, unit, unit) runtime_origin)"
proof -
  have "XcmOriginToTransactDispatchOrigin reference_xcm reference_origins \<lparr>parents = 1, interior = []\<rparr> Native =
      Some Relay"
    by (simp add: conversion_table [OF documented_reference_origins])
  with messages_never_root [OF documented_reference_origins,
      of reference_xcm "\<lparr>parents = 1, interior = []\<rparr>" Native] show ?thesis by blast
qed

text \<open>
  C38. The collator set is governed from the relay chain only: the origin of a message passes the
  check of the collator pallet exactly if the message comes from the voice of the staking
  administration of the relay chain and is dispatched as a message origin; the relay chain
  itself, its sovereign account, sibling chains and local accounts are all refused.
\<close>
theorem collators_governed_by_voice:
  assumes "documented_origins Q"
    and "XcmOriginToTransactDispatchOrigin X Q l k = Some r"
  shows "CollatorSelectionUpdateOrigin Q r \<longleftrightarrow>
    k = Xcm \<and> parents l = 1 \<and> interior l = [Plurality (StakingAdminBodyId Q) (Part_Voice Q)]"
proof -
  note table = assms(2) [unfolded conversion_table [OF assms(1)]]
  have "r \<noteq> Root" using table table_never_Root by blast
  then have "CollatorSelectionUpdateOrigin Q r \<longleftrightarrow>
      (\<exists>m. r = Xcm_origin m \<and> parents m = 1 \<and>
         interior m = [Plurality (StakingAdminBodyId Q) (Part_Voice Q)])"
    by (auto simp: CollatorSelectionUpdateOrigin_def documented_check [OF assms(1)]
        RelayLocation_def location.equality)
  moreover have "k = Xcm \<Longrightarrow> r = Xcm_origin l" using table by simp
  moreover have "r = Xcm_origin m \<Longrightarrow> k = Xcm \<and> m = l" for m
    using table table_Xcm_origin by blast
  ultimately show ?thesis by blast
qed

theorem collators_governed_by_voice_witness:
  "\<exists>r. XcmOriginToTransactDispatchOrigin reference_xcm reference_origins
      \<lparr>parents = 1, interior = [Plurality () ()]\<rparr> Xcm = Some r \<and>
     CollatorSelectionUpdateOrigin reference_origins r"
proof -
  let ?l = "\<lparr>parents = 1, interior = [Plurality () ()]\<rparr> :: (unit, unit, unit, unit) location"
  have "XcmOriginToTransactDispatchOrigin reference_xcm reference_origins ?l Xcm = Some (Xcm_origin ?l)"
    by (simp add: conversion_table [OF documented_reference_origins])
  from this collators_governed_by_voice [OF documented_reference_origins this] show ?thesis
    by (auto simp: StakingAdminBodyId_def reference_origins_def)
qed

end
