(* ===== verification/Xcm_Assets.thy ===== *)
theory Xcm_Assets
  imports Xcm_Config
begin

text \<open>
  Which assets the parachain handles and whom it trusts for them, and where its messages go
  (\<open>LocalAssetTransactor\<close>, \<open>LocalBalancesTransactor\<close>, \<open>AssetTransactors\<close>, \<open>IsReserve\<close>,
  \<open>Trader\<close> and \<open>XcmRouter\<close> of \<open>parachain-runtime/src/xcm_config.rs\<close>). The adapters are code of
  the SDK: the records \<open>asset_builder\<close> and \<open>router_builder\<close>, with \<open>documented_assets\<close> and
  \<open>documented_routers\<close> for their documentation.
\<close>

section \<open>Assets\<close>

datatype ('n, 'i, 'p, 'j) asset =
    Fungible "('n, 'i, 'p, 'j) location" u128
  | NonFungible "('n, 'i, 'p, 'j) location"

fun asset_id :: "('n, 'i, 'p, 'j) asset \<Rightarrow> ('n, 'i, 'p, 'j) location" where
  "asset_id (Fungible l _) = l"
| "asset_id (NonFungible l) = l"

datatype asset_error = AssetNotFound | AccountIdConversionFailed

text \<open>The pallet that holds the balances of the chain; the runtime has one.\<close>

datatype currency = Balances

text \<open>A transactor says which account of which currency a deposit credits, and by how much.\<close>

type_synonym ('n, 'i, 'p, 'j) transactor =
  "('n, 'i, 'p, 'j) asset \<Rightarrow> ('n, 'i, 'p, 'j) location \<Rightarrow>
   (asset_error, currency \<times> account_id \<times> u128) result"

record ('n, 'i, 'p, 'j) asset_builder =
  IsConcrete :: "('n, 'i, 'p, 'j) location \<Rightarrow> ('n, 'i, 'p, 'j) asset \<Rightarrow> u128 option"
  CurrencyAdapter ::
    "currency \<Rightarrow> (('n, 'i, 'p, 'j) asset \<Rightarrow> u128 option) \<Rightarrow>
     (('n, 'i, 'p, 'j) location \<Rightarrow> account_id option) \<Rightarrow> ('n, 'i, 'p, 'j) transactor"
  transactor_tuple :: "('n, 'i, 'p, 'j) transactor list \<Rightarrow> ('n, 'i, 'p, 'j) transactor"
  NativeAsset :: "('n, 'i, 'p, 'j) asset \<Rightarrow> ('n, 'i, 'p, 'j) location \<Rightarrow> bool"

fun first_handled :: "('n, 'i, 'p, 'j) transactor list \<Rightarrow> ('n, 'i, 'p, 'j) transactor" where
  "first_handled [] _ _ = Err AssetNotFound"
| "first_handled (t # ts) a w =
     (case t a w of Err AssetNotFound \<Rightarrow> first_handled ts a w | r \<Rightarrow> r)"

definition documented_assets :: "('n, 'i, 'p, 'j) asset_builder \<Rightarrow> bool" where
  "documented_assets A \<longleftrightarrow>
     IsConcrete A = (\<lambda>l a. case a of Fungible m n \<Rightarrow> if m = l then Some n else None
                              | NonFungible _ \<Rightarrow> None) \<and>
     CurrencyAdapter A = (\<lambda>c M C a w. case M a of None \<Rightarrow> Err AssetNotFound
        | Some n \<Rightarrow> (case C w of None \<Rightarrow> Err AccountIdConversionFailed
                   | Some acc \<Rightarrow> Ok (c, acc, n))) \<and>
     transactor_tuple A = first_handled \<and>
     NativeAsset A = (\<lambda>a w. asset_id a = w)"

definition LocalAssetTransactor ::
  "('n, 'i, 'p, 'j, 'x) xcm_builder \<Rightarrow> ('n, 'i, 'p, 'j) asset_builder \<Rightarrow>
   ('n, 'i, 'p, 'j) transactor" where
  "LocalAssetTransactor X A =
     CurrencyAdapter A Balances (IsConcrete A RelayLocation) (LocationToAccountId X)"

definition LocalBalancesTransactor ::
  "('n, 'i, 'p, 'j, 'x) xcm_builder \<Rightarrow> ('n, 'i, 'p, 'j) asset_builder \<Rightarrow>
   ('n, 'i, 'p, 'j) transactor" where
  "LocalBalancesTransactor X A =
     CurrencyAdapter A Balances (IsConcrete A TokenLocation) (LocationToAccountId X)"

definition AssetTransactors ::
  "('n, 'i, 'p, 'j, 'x) xcm_builder \<Rightarrow> ('n, 'i, 'p, 'j) asset_builder \<Rightarrow>
   ('n, 'i, 'p, 'j) transactor" where
  "AssetTransactors X A =
     transactor_tuple A [LocalBalancesTransactor X A, LocalAssetTransactor X A]"

definition IsReserve ::
  "('n, 'i, 'p, 'j) asset_builder \<Rightarrow> ('n, 'i, 'p, 'j) asset \<Rightarrow> ('n, 'i, 'p, 'j) location \<Rightarrow> bool" where
  "IsReserve A = NativeAsset A"

text \<open>The asset the trader sells weight for, converted by the fee polynomial of the runtime.\<close>

definition Trader_asset :: "('n, 'i, 'p, 'j) location" where
  "Trader_asset = RelayLocation"

section \<open>Routing\<close>

datatype send_error = NotApplicable | other_send_error

datatype channel = Ump | Xcmp u32

type_synonym ('n, 'i, 'p, 'j, 'm) router =
  "('n, 'i, 'p, 'j) location \<Rightarrow> 'm \<Rightarrow> (send_error, channel \<times> 'm) result"

text \<open>
  \<open>ump_refuses\<close> and \<open>xcmp_refuses\<close> tell when a channel does not take a message that is meant for
  it, such as one that is too large.
\<close>

record ('n, 'i, 'p, 'j, 'm) router_builder =
  with_topic :: "'m \<Rightarrow> 'm"
  ump_refuses :: "'m \<Rightarrow> bool"
  xcmp_refuses :: "u32 \<Rightarrow> 'm \<Rightarrow> bool"
  ParentAsUmp :: "('n, 'i, 'p, 'j, 'm) router"
  XcmpQueue :: "('n, 'i, 'p, 'j, 'm) router"
  router_tuple :: "('n, 'i, 'p, 'j, 'm) router list \<Rightarrow> ('n, 'i, 'p, 'j, 'm) router"
  WithUniqueTopic :: "('n, 'i, 'p, 'j, 'm) router \<Rightarrow> ('n, 'i, 'p, 'j, 'm) router"

fun first_applicable :: "('n, 'i, 'p, 'j, 'm) router list \<Rightarrow> ('n, 'i, 'p, 'j, 'm) router" where
  "first_applicable [] _ _ = Err NotApplicable"
| "first_applicable (r # rs) d m =
     (case r d m of Err NotApplicable \<Rightarrow> first_applicable rs d m | res \<Rightarrow> res)"

definition documented_routers :: "('n, 'i, 'p, 'j, 'm) router_builder \<Rightarrow> bool" where
  "documented_routers R \<longleftrightarrow>
     ParentAsUmp R = (\<lambda>d m. if d = RelayLocation
        then (if ump_refuses R m then Err other_send_error else Ok (Ump, m))
        else Err NotApplicable) \<and>
     XcmpQueue R = (\<lambda>d m. case interior d of
          [Parachain i] \<Rightarrow> if parents d = 1
            then (if xcmp_refuses R i m then Err other_send_error else Ok (Xcmp i, m))
            else Err NotApplicable
        | _ \<Rightarrow> Err NotApplicable) \<and>
     router_tuple R = first_applicable \<and>
     WithUniqueTopic R = (\<lambda>r d m. r d (with_topic R m))"

definition XcmRouter ::
  "('n, 'i, 'p, 'j, 'm) router_builder \<Rightarrow> ('n, 'i, 'p, 'j, 'm) router" where
  "XcmRouter R = WithUniqueTopic R (router_tuple R [ParentAsUmp R, XcmpQueue R])"

section \<open>Properties\<close>

lemma documented_adapter:
  assumes "documented_assets A"
  shows "CurrencyAdapter A c M C a w =
      (case M a of None \<Rightarrow> Err AssetNotFound
       | Some n \<Rightarrow> (case C w of None \<Rightarrow> Err AccountIdConversionFailed
                  | Some acc \<Rightarrow> Ok (c, acc, n)))"
    and "IsConcrete A l a = (case a of Fungible m n \<Rightarrow> if m = l then Some n else None
       | NonFungible _ \<Rightarrow> None)"
    and "transactor_tuple A ts = first_handled ts"
    and "NativeAsset A a w = (asset_id a = w)"
  using assms by (simp_all only: documented_assets_def)

lemma documented_routing:
  assumes "documented_routers R"
  shows "ParentAsUmp R d m = (if d = RelayLocation
      then (if ump_refuses R m then Err other_send_error else Ok (Ump, m))
      else Err NotApplicable)"
    and "XcmpQueue R d m = (case interior d of
        [Parachain i] \<Rightarrow> if parents d = 1
          then (if xcmp_refuses R i m then Err other_send_error else Ok (Xcmp i, m))
          else Err NotApplicable
      | _ \<Rightarrow> Err NotApplicable)"
    and "router_tuple R rs = first_applicable rs"
    and "WithUniqueTopic R r d m = r d (with_topic R m)"
  using assms by (simp_all only: documented_routers_def)

lemma locations_differ [simp]: "TokenLocation \<noteq> RelayLocation" "RelayLocation \<noteq> TokenLocation"
  by (simp_all add: TokenLocation_def RelayLocation_def)

text \<open>
  The parachain does not tell its own token from that of the relay chain: a fungible asset
  of either location credits the same balance of the same account with the same amount, and
  every other asset is refused as not found. The relay chain is trusted as the reserve of its
  token, and fees are taken in it, so whoever moves relay chain tokens in holds the native
  currency.
\<close>
theorem relay_token_is_native:
  assumes "documented_assets A"
  shows "AssetTransactors X A (Fungible RelayLocation n) who =
      AssetTransactors X A (Fungible TokenLocation n) who \<and>
    AssetTransactors X A (Fungible TokenLocation n) who =
      (case LocationToAccountId X who of None \<Rightarrow> Err AccountIdConversionFailed
       | Some acc \<Rightarrow> Ok (Balances, acc, n)) \<and>
    (AssetTransactors X A a who = Err AssetNotFound \<longleftrightarrow>
       (\<forall>m. a \<noteq> Fungible RelayLocation m \<and> a \<noteq> Fungible TokenLocation m)) \<and>
    IsReserve A (Fungible Trader_asset n) RelayLocation"
  by (cases a) (auto simp: AssetTransactors_def LocalAssetTransactor_def
      LocalBalancesTransactor_def IsReserve_def Trader_asset_def documented_adapter [OF assms]
      split: option.splits)

definition reference_assets :: "(unit, unit, unit, unit) asset_builder" where
  "reference_assets =
     \<lparr>IsConcrete = (\<lambda>l a. case a of Fungible m n \<Rightarrow> if m = l then Some n else None
                              | NonFungible _ \<Rightarrow> None),
      CurrencyAdapter = (\<lambda>c M C a w. case M a of None \<Rightarrow> Err AssetNotFound
        | Some n \<Rightarrow> (case C w of None \<Rightarrow> Err AccountIdConversionFailed
                   | Some acc \<Rightarrow> Ok (c, acc, n))),
      transactor_tuple = first_handled, NativeAsset = (\<lambda>a w. asset_id a = w)\<rparr>"

theorem relay_token_is_native_witness:
  "AssetTransactors reference_xcm reference_assets (Fungible RelayLocation 5) RelayLocation =
     Ok (Balances, 7, 5)"
proof -
  have "documented_assets reference_assets"
    by (simp add: documented_assets_def reference_assets_def)
  from relay_token_is_native [OF this, of reference_xcm 5 RelayLocation] show ?thesis
    by (simp add: LocationToAccountId_def reference_xcm_def RelayLocation_def)
qed

text \<open>
  C39. Outgoing messages reach the relay chain and sibling chains and nothing else: the router
  takes a message exactly for those destinations, hands it to the upward queue or to the
  channel of the sibling it is addressed to, always after it was given a topic, and answers
  that no router applies for every other destination.
\<close>
theorem router_exact:
  assumes "documented_routers R"
  shows "(XcmRouter R d m = Ok (c, m') \<longleftrightarrow>
      m' = with_topic R m \<and>
      (d = RelayLocation \<and> c = Ump \<and> \<not> ump_refuses R m' \<or>
       (\<exists>i. d = \<lparr>parents = 1, interior = [Parachain i]\<rparr> \<and> c = Xcmp i \<and> \<not> xcmp_refuses R i m'))) \<and>
    (XcmRouter R d m = Err NotApplicable \<longleftrightarrow>
       d \<noteq> RelayLocation \<and> (\<forall>i. d \<noteq> \<lparr>parents = 1, interior = [Parachain i]\<rparr>))"
  by (cases d) (auto simp: XcmRouter_def documented_routing [OF assms] RelayLocation_def
      split: list.splits junction.splits)

definition reference_routers :: "(unit, unit, unit, unit, nat list) router_builder" where
  "reference_routers =
     \<lparr>with_topic = (\<lambda>m. m @ [0]), ump_refuses = (\<lambda>_. False), xcmp_refuses = (\<lambda>_ _. False),
      ParentAsUmp = (\<lambda>d m. if d = RelayLocation
        then (if False then Err other_send_error else Ok (Ump, m)) else Err NotApplicable),
      XcmpQueue = (\<lambda>d m. case interior d of
          [Parachain i] \<Rightarrow> if parents d = 1
            then (if False then Err other_send_error else Ok (Xcmp i, m)) else Err NotApplicable
        | _ \<Rightarrow> Err NotApplicable),
      router_tuple = first_applicable, WithUniqueTopic = (\<lambda>r d m. r d (m @ [0]))\<rparr>"

theorem router_exact_witness:
  "XcmRouter reference_routers \<lparr>parents = 1, interior = [Parachain 2000]\<rparr> [3] =
     Ok (Xcmp 2000, [3, 0])"
proof -
  have "documented_routers reference_routers"
    by (simp add: documented_routers_def reference_routers_def
        cong: if_cong list.case_cong junction.case_cong)
  from router_exact [OF this, of "\<lparr>parents = 1, interior = [Parachain 2000]\<rparr>" "[3]"] show ?thesis
    by (simp add: reference_routers_def RelayLocation_def)
qed

end
