(* ===== verification/Xcm_Inbound.thy ===== *)
theory Xcm_Inbound
  imports Xcm_Config
begin

text \<open>
  How messages come in (\<open>parachain-runtime/src/lib.rs\<close>, the configurations of the parachain
  system, the message queue and the sibling queue, with the executor of \<open>xcm_config.rs\<close>): both
  channels enqueue into one message queue, each under an origin of its own, and the queue hands
  a message to the executor at the location of that origin. The queue combinators and the
  queue itself are code of the SDK: the record \<open>queue_builder\<close>, with \<open>documented_queues\<close> for
  its documentation, and the histories of the queue, with \<open>documented_history\<close>.
\<close>

section \<open>Queues\<close>

datatype aggregate_origin = Here | Parent | Sibling u32

text \<open>
  \<open>handle_xcmp\<close> is the sibling queue pallet as a handler of arriving messages, given where it is
  configured to put them; \<open>claims_universal\<close> says that one of the instructions the barrier looks
  at replaces the origin by a universal one.
\<close>

record ('n, 'i, 'p, 'j, 'm, 'x) queue_builder =
  EnqueueWithOrigin :: "aggregate_origin \<Rightarrow> 'm \<Rightarrow> aggregate_origin \<times> 'm"
  TransformOrigin :: "(u32 \<Rightarrow> aggregate_origin) \<Rightarrow> u32 \<Rightarrow> 'm \<Rightarrow> aggregate_origin \<times> 'm"
  ParaIdToSibling :: "u32 \<Rightarrow> aggregate_origin"
  handle_xcmp ::
    "(u32 \<Rightarrow> 'm \<Rightarrow> aggregate_origin \<times> 'm) \<Rightarrow> u32 \<Rightarrow> 'm \<Rightarrow> aggregate_origin \<times> 'm"
  NarrowOriginToSibling :: "(u32 \<Rightarrow> bool) \<Rightarrow> aggregate_origin \<Rightarrow> bool"
  location_of :: "aggregate_origin \<Rightarrow> ('n, 'i, 'p, 'j) location"
  received :: "('n, 'i, 'p, 'j) location \<Rightarrow> 'm \<Rightarrow> 'x"
  claims_universal :: "'x \<Rightarrow> bool"

text \<open>
  A message is processed at the location of its origin and without credit. The origin it
  computes for itself descends from that location, unless it claims a universal one, which the
  barriers of the SDK do not check.
\<close>

definition documented_queues ::
  "('n, 'i, 'p, 'j, 'x) xcm_builder \<Rightarrow> ('n, 'i, 'p, 'j, 'm, 'x) queue_builder \<Rightarrow> bool" where
  "documented_queues X Q \<longleftrightarrow>
     EnqueueWithOrigin Q = (\<lambda>q m. (q, m)) \<and>
     TransformOrigin Q = (\<lambda>f i m. (f i, m)) \<and>
     ParaIdToSibling Q = Sibling \<and>
     handle_xcmp Q = (\<lambda>f. f) \<and>
     NarrowOriginToSibling Q = (\<lambda>S q. case q of Sibling i \<Rightarrow> S i | _ \<Rightarrow> False) \<and>
     location_of Q = (\<lambda>q. case q of Here \<Rightarrow> \<lparr>parents = 0, interior = []\<rparr>
       | Parent \<Rightarrow> \<lparr>parents = 1, interior = []\<rparr>
       | Sibling i \<Rightarrow> \<lparr>parents = 1, interior = [Parachain i]\<rparr>) \<and>
     (\<forall>l m. origin_of X (drop_topic X (received Q l m)) = l \<and>
            \<not> has_credit X (drop_topic X (received Q l m))) \<and>
     (\<forall>u n x y. compute_origin X u n x = Some y \<longrightarrow> \<not> claims_universal Q x \<longrightarrow>
        parents (origin_of X y) = parents (origin_of X x) \<and>
        (\<exists>more. interior (origin_of X y) = interior (origin_of X x) @ more))"

section \<open>The configuration\<close>

definition RelayOrigin :: aggregate_origin where
  "RelayOrigin = Parent"

text \<open>
  What the two channels of the parachain system do with an arriving message; the sibling queue
  enqueues what it accepts with its own \<open>XcmpQueue\<close>, here \<open>xcmp_XcmpQueue\<close>.
\<close>

definition DmpQueue ::
  "('n, 'i, 'p, 'j, 'm, 'x) queue_builder \<Rightarrow> 'm \<Rightarrow> aggregate_origin \<times> 'm" where
  "DmpQueue Q = EnqueueWithOrigin Q RelayOrigin"

definition xcmp_XcmpQueue ::
  "('n, 'i, 'p, 'j, 'm, 'x) queue_builder \<Rightarrow> u32 \<Rightarrow> 'm \<Rightarrow> aggregate_origin \<times> 'm" where
  "xcmp_XcmpQueue Q = TransformOrigin Q (ParaIdToSibling Q)"

definition XcmpMessageHandler ::
  "('n, 'i, 'p, 'j, 'm, 'x) queue_builder \<Rightarrow> u32 \<Rightarrow> 'm \<Rightarrow> aggregate_origin \<times> 'm" where
  "XcmpMessageHandler Q = handle_xcmp Q (xcmp_XcmpQueue Q)"

definition QueuePausedQuery ::
  "('n, 'i, 'p, 'j, 'm, 'x) queue_builder \<Rightarrow> (u32 \<Rightarrow> bool) \<Rightarrow> aggregate_origin \<Rightarrow> bool" where
  "QueuePausedQuery Q suspended = NarrowOriginToSibling Q suspended"

text \<open>The processor hands a message to the executor, which asks the barrier of \<open>XcmConfig\<close>.\<close>

definition MessageProcessor ::
  "('n, 'i, 'p, 'j, 'x) xcm_builder \<Rightarrow> ('n, 'i, 'p, 'j, 'm, 'x) queue_builder \<Rightarrow> u32 \<Rightarrow>
   aggregate_origin \<Rightarrow> 'm \<Rightarrow> bool" where
  "MessageProcessor X Q parachain_id q m =
     xc_Barrier (XcmConfig X parachain_id :: ('n, 'i, 'p, 'j, 'x, unit) xcm_config)
       (received Q (location_of Q q) m)"

section \<open>Histories\<close>

text \<open>
  What happens to the queue: messages arrive on the two channels, sibling channels are suspended
  and resumed (\<open>Signal\<close> gives the suspended ones), and the queue hands a message of one of
  its origins to the processor, when and in whatever order its weights allow.
\<close>

datatype 'm inbound_event =
    Downward 'm
  | Horizontal u32 'm
  | Signal "u32 \<Rightarrow> bool"
  | Handed aggregate_origin 'm

fun enqueued ::
  "('n, 'i, 'p, 'j, 'm, 'x) queue_builder \<Rightarrow> 'm inbound_event list \<Rightarrow> (aggregate_origin \<times> 'm) list" where
  "enqueued Q [] = []"
| "enqueued Q (Downward m # h) = DmpQueue Q m # enqueued Q h"
| "enqueued Q (Horizontal i m # h) = XcmpMessageHandler Q i m # enqueued Q h"
| "enqueued Q (Signal S # h) = enqueued Q h"
| "enqueued Q (Handed q m # h) = enqueued Q h"

fun suspended_after :: "(u32 \<Rightarrow> bool) \<Rightarrow> 'm inbound_event list \<Rightarrow> u32 \<Rightarrow> bool" where
  "suspended_after S [] = S"
| "suspended_after S (Signal T # h) = suspended_after T h"
| "suspended_after S (e # h) = suspended_after S h"

text \<open>
  The message queue only hands out what was enqueued before, under the origin it was enqueued
  with, and not while the queue of that origin is paused.
\<close>

definition documented_history ::
  "('n, 'i, 'p, 'j, 'm, 'x) queue_builder \<Rightarrow> 'm inbound_event list \<Rightarrow> bool" where
  "documented_history Q h \<longleftrightarrow>
     (\<forall>before q m later. h = before @ Handed q m # later \<longrightarrow>
        (q, m) \<in> set (enqueued Q before) \<and>
        \<not> QueuePausedQuery Q (suspended_after (\<lambda>_. False) before) q)"

section \<open>Where a message came from\<close>

lemma documented_channels:
  assumes "documented_queues X Q"
  shows "DmpQueue Q m = (Parent, m)" "XcmpMessageHandler Q i m = (Sibling i, m)"
    "QueuePausedQuery Q S q = (\<exists>i. q = Sibling i \<and> S i)"
proof -
  have eqs: "EnqueueWithOrigin Q = (\<lambda>q m. (q, m))" "TransformOrigin Q = (\<lambda>f i m. (f i, m))"
    "ParaIdToSibling Q = Sibling" "handle_xcmp Q = (\<lambda>f. f)"
    "NarrowOriginToSibling Q = (\<lambda>S q. case q of Sibling i \<Rightarrow> S i | _ \<Rightarrow> False)"
    using assms by (simp_all only: documented_queues_def)
  show "DmpQueue Q m = (Parent, m)" "XcmpMessageHandler Q i m = (Sibling i, m)"
    by (simp_all add: eqs DmpQueue_def RelayOrigin_def XcmpMessageHandler_def xcmp_XcmpQueue_def)
  show "QueuePausedQuery Q S q = (\<exists>i. q = Sibling i \<and> S i)"
    by (cases q) (simp_all add: eqs QueuePausedQuery_def)
qed

lemma documented_locations:
  assumes "documented_queues X Q"
  shows "location_of Q q = (case q of Here \<Rightarrow> \<lparr>parents = 0, interior = []\<rparr>
       | Parent \<Rightarrow> \<lparr>parents = 1, interior = []\<rparr>
       | Sibling i \<Rightarrow> \<lparr>parents = 1, interior = [Parachain i]\<rparr>)"
  using assms by (simp_all only: documented_queues_def)

lemma documented_received:
  assumes "documented_queues X Q"
  shows "origin_of X (drop_topic X (received Q l m)) = l"
    and "\<not> has_credit X (drop_topic X (received Q l m))"
  using assms unfolding documented_queues_def by blast+

lemma documented_descent:
  assumes "documented_queues X Q" "compute_origin X u n x = Some y" "\<not> claims_universal Q x"
  shows "\<exists>more. interior (origin_of X y) = interior (origin_of X x) @ more"
  using assms unfolding documented_queues_def by meson

lemma enqueued_origin:
  assumes "documented_queues X Q" "(q, m) \<in> set (enqueued Q h)"
  shows "(q = Parent \<and> Downward m \<in> set h) \<or> (\<exists>i. q = Sibling i \<and> Horizontal i m \<in> set h)"
  using assms(2)
proof (induction h)
  case (Cons e h)
  then show ?case by (cases e) (auto simp: documented_channels [OF assms(1)])
qed simp

lemma sibling_execution:
  assumes "documented_barriers X" "documented_queues X Q"
    and "MessageProcessor X Q i (Sibling k) m"
    and "x = drop_topic X (received Q (location_of Q (Sibling k)) m)"
  shows "\<exists>y. compute_origin X (UniversalLocation i) 8 x = Some y \<and>
    (buys_execution X y \<or> asks_unpaid X y \<and> claims_universal Q x)"
proof -
  have barrier: "Barrier X i (received Q (location_of Q (Sibling k)) m)"
    using assms(3) by (simp add: MessageProcessor_def XcmConfig_def)
  have loc: "interior (origin_of X x) = [Parachain k]"
    by (simp add: assms(4) documented_received [OF assms(2)] documented_locations [OF assms(2)])
  obtain y where y: "compute_origin X [Parachain i] 8 x = Some y"
    and ok: "buys_execution X y \<or> asks_unpaid X y \<and>
      (interior (origin_of X y) = [] \<or> (\<exists>b p. interior (origin_of X y) = [Plurality b p]))"
    using assms(1) barrier documented_received(2) [OF assms(2)]
    by (auto simp: assms(4) documented_barriers_def barrier_simps split: option.splits)
  have "interior (origin_of X y) \<noteq> []" "interior (origin_of X y) \<noteq> [Plurality b p]"
    if "\<not> claims_universal Q x" for b p
    using documented_descent [OF assms(2) y that] by (auto simp: loc)
  with ok y show ?thesis unfolding UniversalLocation_def by blast
qed

section \<open>Properties\<close>


definition reference_queues :: "(unit, unit, unit, unit, bool, sample_message) queue_builder" where
  "reference_queues =
     \<lparr>EnqueueWithOrigin = (\<lambda>q m. (q, m)), TransformOrigin = (\<lambda>f i m. (f i, m)),
      ParaIdToSibling = Sibling, handle_xcmp = (\<lambda>f. f),
      NarrowOriginToSibling = (\<lambda>S q. case q of Sibling i \<Rightarrow> S i | _ \<Rightarrow> False),
      location_of = (\<lambda>q. case q of Here \<Rightarrow> \<lparr>parents = 0, interior = []\<rparr>
       | Parent \<Rightarrow> \<lparr>parents = 1, interior = []\<rparr>
       | Sibling i \<Rightarrow> \<lparr>parents = 1, interior = [Parachain i]\<rparr>),
      received = (\<lambda>l pays. (l, False, pays, \<not> pays, False)), claims_universal = (\<lambda>_. False)\<rparr>"

lemma documented_reference_queues: "documented_queues reference_xcm reference_queues"
  by (auto simp: documented_queues_def reference_queues_def reference_xcm_def)


end
