(* ===== verification/Chain_Spec.thy ===== *)
theory Chain_Spec
  imports Parachain_Config
begin

text \<open>
  The two chain specifications the node ships, and the genesis states they carry
  (\<open>node/src/chain_spec.rs\<close>, \<open>node/src/chain_spec/dev.rs\<close>). A key pair and its account come
  from the cryptography of the SDK, the argument \<open>keyring\<close>; the chain specification builder
  only stores what it is given, and its result is the record \<open>chain_spec\<close>.
\<close>

section \<open>Keys\<close>

text \<open>\<open>'p\<close> is the public key of an account, \<open>'u\<close> the identifier of an aura authority.\<close>

record ('p, 'u) keyring =
  account_key :: "string \<Rightarrow> 'p option" \<comment> \<open>\<open>Pair::from_string\<close> and \<open>public\<close>\<close>
  aura_key :: "string \<Rightarrow> 'u option"
  into_account :: "'p \<Rightarrow> account_id"

definition get_from_seed :: "(string \<Rightarrow> 'k option) \<Rightarrow> string \<Rightarrow> ('e, 'k) result" where
  "get_from_seed from_string seed =
     expect ''static values are valid; qed'' (from_string (''//'' @ seed))"

definition get_account_id_from_seed ::
  "('p, 'u) keyring \<Rightarrow> string \<Rightarrow> ('e, account_id) result" where
  "get_account_id_from_seed K seed =
     and_then (get_from_seed (account_key K) seed) (\<lambda>k. Ok (into_account K k))"

definition get_collator_keys_from_seed :: "('p, 'u) keyring \<Rightarrow> string \<Rightarrow> ('e, 'u) result" where
  "get_collator_keys_from_seed K seed = get_from_seed (aura_key K) seed"

section \<open>Genesis states\<close>

text \<open>The JSON values of the macro \<open>json!\<close>; keys and accounts are serialised by the SDK.\<close>

datatype 'u json =
    JNull
  | JNumber nat
  | JAccount account_id
  | JAura 'u
  | JArray "'u json list"
  | JObject "(string \<times> 'u json) list"

fun field :: "string \<Rightarrow> 'u json \<Rightarrow> 'u json" where
  "field k (JObject kvs) = (case map_of kvs k of Some v \<Rightarrow> v | None \<Rightarrow> JNull)"
| "field _ _ = JNull"

definition template_session_keys :: "'u \<Rightarrow> 'u json" where
  "template_session_keys keys = JObject [(''aura'', JAura keys)]"

definition SAFE_XCM_VERSION :: "u32 \<Rightarrow> u32" where
  "SAFE_XCM_VERSION XCM_VERSION = XCM_VERSION"

definition balances_of :: "account_id list \<Rightarrow> 'u json" where
  "balances_of endowed_accounts =
     JArray (map (\<lambda>k. JArray [JAccount k, JNumber (unat (push_bit 60 1 :: u64))]) endowed_accounts)"

definition testnet_genesis ::
  "u32 \<Rightarrow> (account_id \<times> 'u) list \<Rightarrow> account_id list \<Rightarrow> account_id \<Rightarrow> u32 \<Rightarrow> 'u json" where
  "testnet_genesis XCM_VERSION invulnerables endowed_accounts root i =
     JObject
       [(''balances'', JObject [(''balances'', balances_of endowed_accounts)]),
        (''parachainInfo'', JObject [(''parachainId'', JNumber (unat i))]),
        (''collatorSelection'', JObject
          [(''invulnerables'', JArray (map (\<lambda>(acc, _). JAccount acc) invulnerables)),
           (''candidacyBond'', JNumber (unat (parachain_EXISTENTIAL_DEPOSIT * 16)))]),
        (''session'', JObject
          [(''keys'', JArray (map (\<lambda>(acc, aura).
              JArray [JAccount acc, JAccount acc, template_session_keys aura]) invulnerables))]),
        (''polkadotXcm'', JObject
          [(''safeXcmVersion'', JNumber (unat (SAFE_XCM_VERSION XCM_VERSION)))]),
        (''sudo'', JObject [(''key'', JAccount root)])]"

definition dev_testnet_genesis :: "account_id \<Rightarrow> account_id list \<Rightarrow> bool \<Rightarrow> 'u json" where
  "dev_testnet_genesis root_key endowed_accounts enable_println =
     JObject
       [(''balances'', JObject [(''balances'', balances_of endowed_accounts)]),
        (''sudo'', JObject [(''key'', JAccount root_key)])]"

section \<open>Chain specifications\<close>

datatype chain_type = Local | Development

datatype property_value = Text string | Number nat

record extensions =
  relay_chain :: string
  para_id :: u32

record ('u, 'w) chain_spec =
  cs_name :: string
  cs_id :: string
  cs_protocol_id :: string
  cs_chain_type :: chain_type
  cs_properties :: "(string \<times> property_value) list"
  cs_extensions :: "extensions option"
  cs_wasm :: 'w
  cs_genesis :: "'u json"

text \<open>\<open>Extensions::try_get\<close>.\<close>

definition try_get :: "('u, 'w) chain_spec \<Rightarrow> extensions option" where
  "try_get spec = cs_extensions spec"

definition local_seeds :: "string list" where
  "local_seeds =
     [''Alice'', ''Bob'', ''Charlie'', ''Dave'', ''Eve'', ''Ferdie'',
      ''Alice//stash'', ''Bob//stash'', ''Charlie//stash'', ''Dave//stash'', ''Eve//stash'',
      ''Ferdie//stash'']"

definition initial_collator :: "('p, 'u) keyring \<Rightarrow> string \<Rightarrow> ('e, account_id \<times> 'u) result" where
  "initial_collator K seed =
     and_then (get_account_id_from_seed K seed) (\<lambda>acc.
     and_then (get_collator_keys_from_seed K seed) (\<lambda>aura. Ok (acc, aura)))"

definition local_testnet_config ::
  "('p, 'u) keyring \<Rightarrow> u32 \<Rightarrow> 'w option \<Rightarrow> ('e, ('u, 'w) chain_spec) result" where
  "local_testnet_config K XCM_VERSION WASM_BINARY =
     and_then (expect ''WASM binary was not built, please build it!'' WASM_BINARY) (\<lambda>wasm.
     and_then (collect (initial_collator K) [''Alice'', ''Bob'']) (\<lambda>invulnerables.
     and_then (collect (get_account_id_from_seed K) local_seeds) (\<lambda>endowed.
     and_then (get_account_id_from_seed K ''Alice'') (\<lambda>root.
     Ok \<lparr>cs_name = ''Local Testnet'', cs_id = ''local_testnet'',
         cs_protocol_id = ''contracts-local'', cs_chain_type = Local,
         cs_properties = [(''tokenSymbol'', Text ''UNIT''), (''tokenDecimals'', Number 12),
                          (''ss58Format'', Number 42)],
         cs_extensions = Some \<lparr>relay_chain = ''rococo-local'', para_id = 1000\<rparr>,
         cs_wasm = wasm,
         cs_genesis = testnet_genesis XCM_VERSION invulnerables endowed root 1000\<rparr>))))"

definition dev_seeds :: "string list" where
  "dev_seeds =
     [''Alice'', ''Alice//stash'', ''Bob'', ''Bob//stash'', ''Charlie'', ''Charlie//stash'',
      ''Dave'', ''Dave//stash'', ''Eve'', ''Eve//stash'', ''Ferdie'', ''Ferdie//stash'']"

text \<open>The development specification has copies of the two key functions.\<close>

definition dev_get_from_seed :: "(string \<Rightarrow> 'k option) \<Rightarrow> string \<Rightarrow> ('e, 'k) result" where
  "dev_get_from_seed from_string seed =
     expect ''static values are valid; qed'' (from_string (''//'' @ seed))"

definition dev_get_account_id_from_seed ::
  "('p, 'u) keyring \<Rightarrow> string \<Rightarrow> ('e, account_id) result" where
  "dev_get_account_id_from_seed K seed =
     and_then (dev_get_from_seed (account_key K) seed) (\<lambda>k. Ok (into_account K k))"

lemma dev_key_helpers [simp]:
  "dev_get_from_seed = get_from_seed" "dev_get_account_id_from_seed = get_account_id_from_seed"
  by (intro ext, simp add: dev_get_from_seed_def get_from_seed_def
      dev_get_account_id_from_seed_def get_account_id_from_seed_def)+

definition development_config ::
  "('p, 'u) keyring \<Rightarrow> 'w option \<Rightarrow> (string, ('u, 'w) chain_spec) result" where
  "development_config K WASM_BINARY =
     and_then (ok_or ''Development wasm not available'' WASM_BINARY) (\<lambda>wasm.
     and_then (dev_get_account_id_from_seed K ''Alice'') (\<lambda>root.
     and_then (collect (dev_get_account_id_from_seed K) dev_seeds) (\<lambda>endowed.
     Ok \<lparr>cs_name = ''Development'', cs_id = ''dev'', cs_protocol_id = ''dev'',
         cs_chain_type = Development, cs_properties = [], cs_extensions = None,
         cs_wasm = wasm, cs_genesis = dev_testnet_genesis root endowed True\<rparr>)))"


section \<open>Reading a genesis state\<close>

fun endowment :: "'u json \<Rightarrow> account_id \<times> nat" where
  "endowment (JArray [JAccount a, JNumber n]) = (a, n)"
| "endowment _ = (0, 0)"

fun elements :: "'u json \<Rightarrow> 'u json list" where
  "elements (JArray xs) = xs"
| "elements _ = []"

definition endowments :: "'u json \<Rightarrow> (account_id \<times> nat) list" where
  "endowments g = map endowment (elements (field ''balances'' (field ''balances'' g)))"

definition sudo_key :: "'u json \<Rightarrow> 'u json" where
  "sudo_key g = field ''key'' (field ''sudo'' g)"

lemma endowment_amount: "unat (push_bit 60 1 :: u64) = 2 ^ 60"
  by (simp add: push_bit_eq_mult)

text \<open>
  What both genesis functions promise: they endow exactly the accounts they are given, with
  \<open>2 ^ 60\<close> units each, and hand the sudo key to the account they are given.
\<close>

locale genesis =
  fixes build :: "account_id \<Rightarrow> account_id list \<Rightarrow> 'u json"
  assumes endows: "endowments (build root accounts) = map (\<lambda>k. (k, 2 ^ 60)) accounts"
    and sudo: "sudo_key (build root accounts) = JAccount root"
begin

lemma accounts_endowed: "map fst (endowments (build root accounts)) = accounts"
  by (simp add: endows comp_def)

lemma endowed_alive:
  "(a, n) \<in> set (endowments (build root accounts)) \<Longrightarrow> unat EXISTENTIAL_DEPOSIT \<le> n"
  by (auto simp: endows EXISTENTIAL_DEPOSIT_def MILLIUNIT_def)

lemma issuance:
  "sum_list (map snd (endowments (build root accounts))) = length accounts * 2 ^ 60"
  by (induction accounts) (simp_all add: endows)

end

interpretation dev_genesis: genesis "\<lambda>root accounts. dev_testnet_genesis root accounts println"
  for println
  by unfold_locales
    (simp_all add: dev_testnet_genesis_def endowments_def sudo_key_def balances_of_def
      endowment_amount)

interpretation local_genesis: genesis "\<lambda>root accounts. testnet_genesis v invulnerables accounts root i"
  for v invulnerables i
  by unfold_locales
    (simp_all add: testnet_genesis_def endowments_def sudo_key_def balances_of_def
      endowment_amount)

section \<open>The shipped specifications\<close>

definition account_of :: "('p, 'u) keyring \<Rightarrow> string \<Rightarrow> account_id" where
  "account_of K seed = into_account K (the (account_key K (''//'' @ seed)))"

definition aura_of :: "('p, 'u) keyring \<Rightarrow> string \<Rightarrow> 'u" where
  "aura_of K seed = the (aura_key K (''//'' @ seed))"

text \<open>
  The seeds in the sources are well formed derivation paths, and the accounts derived from
  them do not collide.
\<close>

definition documented_keyring :: "('p, 'u) keyring \<Rightarrow> bool" where
  "documented_keyring K \<longleftrightarrow>
     (\<forall>seed \<in> set local_seeds.
        account_key K (''//'' @ seed) \<noteq> None \<and> aura_key K (''//'' @ seed) \<noteq> None) \<and>
     inj_on (account_of K) (set local_seeds)"

lemma seeds_same: "set dev_seeds = set local_seeds" "distinct dev_seeds" "distinct local_seeds"
    "length dev_seeds = 12" "length local_seeds = 12"
  by (auto simp: dev_seeds_def local_seeds_def)

lemma collators_in_seeds: "''Alice'' \<in> set local_seeds" "''Bob'' \<in> set local_seeds"
  by (simp_all add: local_seeds_def)

lemma derives_account:
  assumes "documented_keyring K" "seed \<in> set local_seeds"
  shows "get_account_id_from_seed K seed = Ok (account_of K seed)"
  using assms by (auto simp: documented_keyring_def get_account_id_from_seed_def
      get_from_seed_def account_of_def)

lemma derives_collator:
  assumes "documented_keyring K" "seed \<in> set local_seeds"
  shows "initial_collator K seed = Ok (account_of K seed, aura_of K seed)"
  using assms(1)[unfolded documented_keyring_def] assms(2)
  by (auto simp: initial_collator_def get_collator_keys_from_seed_def get_from_seed_def
      aura_of_def derives_account [OF assms])

lemma derives_endowed:
  assumes "documented_keyring K"
  shows "collect (get_account_id_from_seed K) local_seeds = Ok (map (account_of K) local_seeds)"
    and "collect (get_account_id_from_seed K) dev_seeds = Ok (map (account_of K) dev_seeds)"
  by (rule collect_Ok, simp add: derives_account [OF assms] seeds_same)+

lemma local_testnet_value:
  assumes K: "documented_keyring K"
  shows "local_testnet_config K v (Some wasm) =
    Ok \<lparr>cs_name = ''Local Testnet'', cs_id = ''local_testnet'',
        cs_protocol_id = ''contracts-local'', cs_chain_type = Local,
        cs_properties = [(''tokenSymbol'', Text ''UNIT''), (''tokenDecimals'', Number 12),
                         (''ss58Format'', Number 42)],
        cs_extensions = Some \<lparr>relay_chain = ''rococo-local'', para_id = 1000\<rparr>,
        cs_wasm = wasm,
        cs_genesis = testnet_genesis v
          [(account_of K ''Alice'', aura_of K ''Alice''), (account_of K ''Bob'', aura_of K ''Bob'')]
          (map (account_of K) local_seeds) (account_of K ''Alice'') 1000\<rparr>"
  by (simp add: local_testnet_config_def derives_collator [OF K] derives_account [OF K]
      derives_endowed [OF K] collators_in_seeds)

lemma development_value:
  assumes K: "documented_keyring K"
  shows "development_config K (Some wasm) =
    Ok \<lparr>cs_name = ''Development'', cs_id = ''dev'', cs_protocol_id = ''dev'',
        cs_chain_type = Development, cs_properties = [], cs_extensions = None,
        cs_wasm = wasm,
        cs_genesis = dev_testnet_genesis (account_of K ''Alice'')
          (map (account_of K) dev_seeds) True\<rparr>"
  by (simp add: development_config_def derives_account [OF K] derives_endowed [OF K]
      collators_in_seeds)

text \<open>A reference keyring: the key is the text, the account its length and second letter.\<close>

definition reference_keyring :: "(string, string) keyring" where
  "reference_keyring =
     \<lparr>account_key = Some, aura_key = Some,
      into_account = (\<lambda>k. of_nat (length k * 256) + of_char (k ! 2))\<rparr>"

lemma documented_reference_keyring: "documented_keyring reference_keyring"
proof -
  have "distinct (map (account_of reference_keyring) local_seeds)" by code_simp
  then show ?thesis
    by (simp add: documented_keyring_def distinct_map reference_keyring_def)
qed

section \<open>Properties\<close>




text \<open>
  The local testnet starts with collators that can work: its genesis lists two distinct
  invulnerables, within the bound of the pallet, each endowed with more than the candidacy bond,
  each with session keys under its own account as validator; the parachain id of the genesis is
  the one of the extensions the node registers with; and the token properties agree with the
  runtime, whose unit has twelve decimals and whose address prefix is 42.
\<close>
theorem local_testnet_collators:
  assumes "documented_keyring K" and "local_testnet_config K v (Some w) = Ok l"
  shows "\<exists>alice bob ka kb bond. let g = cs_genesis l; selection = field ''collatorSelection'' g in
    alice \<noteq> bob \<and>
    field ''invulnerables'' selection = JArray [JAccount alice, JAccount bob] \<and>
    2 \<le> unat (MaxInvulnerables collator_Config) \<and>
    field ''candidacyBond'' selection = JNumber bond \<and> bond = 16 * unat EXISTENTIAL_DEPOSIT \<and>
    (\<forall>a \<in> {alice, bob}. \<exists>n. (a, n) \<in> set (endowments g) \<and> bond < n) \<and>
    field ''keys'' (field ''session'' g) =
      JArray [JArray [JAccount alice, JAccount alice, template_session_keys ka],
              JArray [JAccount bob, JAccount bob, template_session_keys kb]] \<and>
    map_option (\<lambda>e. JNumber (unat (para_id e))) (try_get l) =
      Some (field ''parachainId'' (field ''parachainInfo'' g)) \<and>
    map_of (cs_properties l) ''ss58Format'' = Some (Number (unat (pc_SS58Prefix system_Config))) \<and>
    (\<exists>d. map_of (cs_properties l) ''tokenDecimals'' = Some (Number d) \<and> unat UNIT = 10 ^ d)"
proof -
  note val = assms(2) [unfolded local_testnet_value [OF assms(1)], simplified, symmetric]
  have "inj_on (account_of K) (set local_seeds)"
    using assms(1) by (simp add: documented_keyring_def)
  then have ne: "account_of K ''Alice'' \<noteq> account_of K ''Bob''"
    using collators_in_seeds by (auto dest: inj_onD)
  have bond: "unat (EXISTENTIAL_DEPOSIT * 16) = 16 * unat EXISTENTIAL_DEPOSIT"
    "16 * unat EXISTENTIAL_DEPOSIT < 2 ^ 60"
    by (simp_all add: EXISTENTIAL_DEPOSIT_def MILLIUNIT_def)
  show ?thesis unfolding Let_def
    by (rule exI [of _ "account_of K ''Alice''"], rule exI [of _ "account_of K ''Bob''"],
        rule exI [of _ "aura_of K ''Alice''"], rule exI [of _ "aura_of K ''Bob''"],
        rule exI [of _ "16 * unat EXISTENTIAL_DEPOSIT"])
      (use ne bond collators_in_seeds in
        \<open>simp add: val local_genesis.endows; simp add: testnet_genesis_def image_iff
          collator_Config_def try_get_def system_Config_def parachain_SS58Prefix_def UNIT_def; blast?\<close>)
qed

theorem local_testnet_collators_witness:
  "\<exists>l. local_testnet_config reference_keyring 4 (Some ()) = Ok l \<and>
     field ''parachainId'' (field ''parachainInfo'' (cs_genesis l)) = JNumber 1000"
proof -
  note l = local_testnet_value [OF documented_reference_keyring, of 4 "()"]
  have "\<exists>l. local_testnet_config reference_keyring 4 (Some ()) = Ok l \<and>
      map_option (\<lambda>e. JNumber (unat (para_id e))) (try_get l) =
        Some (field ''parachainId'' (field ''parachainInfo'' (cs_genesis l))) \<and>
      map_option para_id (try_get l) = Some 1000"
    using l local_testnet_collators [OF documented_reference_keyring l] unfolding Let_def
    by (intro exI conjI) (blast | simp add: try_get_def)+
  then show ?thesis by (elim exE conjE, intro exI conjI) (auto simp: map_option_case split: option.splits)
qed

end
