(* ===== verification/Runtime_Apis.thy ===== *)
theory Runtime_Apis
  imports Parachain_Config
begin

text \<open>
  The runtime APIs of the two runtimes (the \<open>impl_runtime_apis!\<close> blocks of
  \<open>runtime/src/lib.rs\<close> and \<open>parachain-runtime/src/lib.rs\<close>): which function of which pallet a
  call of the node runs, and with which arguments. The calls are grouped by what serves them;
  a group has a constructor per function of the block and its target one per function they
  delegate to, which is code of the SDK. Blocks, extrinsics, hashes and encoded data are
  values of an abstract type. The other functions of the blocks are in
  \<open>Runtime_Apis_More\<close>, the slot duration is in \<open>Parachain_Config\<close>.
\<close>

section \<open>The traits a runtime implements\<close>

definition solo_apis :: "string list" where
  "solo_apis =
     [''Core'', ''Metadata'', ''BlockBuilder'', ''TaggedTransactionQueue'', ''OffchainWorkerApi'',
      ''SessionKeys'', ''AccountNonceApi'', ''TransactionPaymentApi'',
      ''TransactionPaymentCallApi'', ''ContractsApi'', ''GenesisBuilder'']"

definition parachain_apis :: "string list" where
  "parachain_apis =
     [''AuraApi'', ''Core'', ''Metadata'', ''BlockBuilder'', ''TaggedTransactionQueue'',
      ''OffchainWorkerApi'', ''SessionKeys'', ''AccountNonceApi'', ''TransactionPaymentApi'',
      ''TransactionPaymentCallApi'', ''CollectCollationInfo'', ''ContractsApi'',
      ''GenesisBuilder'']"

section \<open>Blocks and extrinsics\<close>

text \<open>\<open>Core\<close>, \<open>BlockBuilder\<close>, \<open>TaggedTransactionQueue\<close> and \<open>OffchainWorkerApi\<close>.\<close>

datatype 'v block_api =
    execute_block 'v
  | initialize_block 'v
  | apply_extrinsic 'v
  | finalize_block
  | inherent_extrinsics 'v
  | check_inherents 'v 'v
  | validate_transaction 'v 'v 'v
  | offchain_worker 'v

datatype 'v executive_call =
    Executive_execute_block 'v
  | Executive_initialize_block 'v
  | Executive_apply_extrinsic 'v
  | Executive_finalize_block
  | data_create_extrinsics 'v
  | data_check_extrinsics 'v 'v
  | Executive_validate_transaction 'v 'v 'v
  | Executive_offchain_worker 'v

fun solo_block_api :: "'v block_api \<Rightarrow> 'v executive_call" where
  "solo_block_api (execute_block block) = Executive_execute_block block"
| "solo_block_api (initialize_block header) = Executive_initialize_block header"
| "solo_block_api (apply_extrinsic x) = Executive_apply_extrinsic x"
| "solo_block_api finalize_block = Executive_finalize_block"
| "solo_block_api (inherent_extrinsics data) = data_create_extrinsics data"
| "solo_block_api (check_inherents block data) = data_check_extrinsics data block"
| "solo_block_api (validate_transaction source tx block_hash) =
     Executive_validate_transaction source tx block_hash"
| "solo_block_api (offchain_worker header) = Executive_offchain_worker header"

fun parachain_block_api :: "'v block_api \<Rightarrow> 'v executive_call" where
  "parachain_block_api (execute_block block) = Executive_execute_block block"
| "parachain_block_api (initialize_block header) = Executive_initialize_block header"
| "parachain_block_api (apply_extrinsic x) = Executive_apply_extrinsic x"
| "parachain_block_api finalize_block = Executive_finalize_block"
| "parachain_block_api (inherent_extrinsics data) = data_create_extrinsics data"
| "parachain_block_api (check_inherents block data) = data_check_extrinsics data block"
| "parachain_block_api (validate_transaction source tx block_hash) =
     Executive_validate_transaction source tx block_hash"
| "parachain_block_api (offchain_worker header) = Executive_offchain_worker header"

section \<open>Fees\<close>

text \<open>\<open>TransactionPaymentApi\<close> and \<open>TransactionPaymentCallApi\<close>.\<close>

datatype 'v payment_api =
    query_info 'v u32
  | query_fee_details 'v u32
  | query_weight_to_fee weight
  | query_length_to_fee u32
  | query_call_info 'v u32
  | query_call_fee_details 'v u32
  | call_query_weight_to_fee weight
  | call_query_length_to_fee u32

datatype 'v payment_call =
    TransactionPayment_query_info 'v u32
  | TransactionPayment_query_fee_details 'v u32
  | TransactionPayment_query_call_info 'v u32
  | TransactionPayment_query_call_fee_details 'v u32
  | TransactionPayment_weight_to_fee weight
  | TransactionPayment_length_to_fee u32

fun solo_payment_api :: "'v payment_api \<Rightarrow> 'v payment_call" where
  "solo_payment_api (query_info uxt n) = TransactionPayment_query_info uxt n"
| "solo_payment_api (query_fee_details uxt n) = TransactionPayment_query_fee_details uxt n"
| "solo_payment_api (query_weight_to_fee w) = TransactionPayment_weight_to_fee w"
| "solo_payment_api (query_length_to_fee n) = TransactionPayment_length_to_fee n"
| "solo_payment_api (query_call_info call n) = TransactionPayment_query_call_info call n"
| "solo_payment_api (query_call_fee_details call n) =
     TransactionPayment_query_call_fee_details call n"
| "solo_payment_api (call_query_weight_to_fee w) = TransactionPayment_weight_to_fee w"
| "solo_payment_api (call_query_length_to_fee n) = TransactionPayment_length_to_fee n"

fun parachain_payment_api :: "'v payment_api \<Rightarrow> 'v payment_call" where
  "parachain_payment_api (query_info uxt n) = TransactionPayment_query_info uxt n"
| "parachain_payment_api (query_fee_details uxt n) = TransactionPayment_query_fee_details uxt n"
| "parachain_payment_api (query_weight_to_fee w) = TransactionPayment_weight_to_fee w"
| "parachain_payment_api (query_length_to_fee n) = TransactionPayment_length_to_fee n"
| "parachain_payment_api (query_call_info call n) = TransactionPayment_query_call_info call n"
| "parachain_payment_api (query_call_fee_details call n) =
     TransactionPayment_query_call_fee_details call n"
| "parachain_payment_api (call_query_weight_to_fee w) = TransactionPayment_weight_to_fee w"
| "parachain_payment_api (call_query_length_to_fee n) = TransactionPayment_length_to_fee n"

section \<open>Contracts\<close>

text \<open>The settings of the SDK, as far as the sources name them.\<close>

datatype debug_info = UnsafeDebug | other_debug
datatype collect_events = UnsafeCollect | other_events
datatype determinism = Enforced | other_determinism

definition CONTRACTS_DEBUG_OUTPUT :: debug_info where
  "CONTRACTS_DEBUG_OUTPUT = UnsafeDebug"

definition CONTRACTS_EVENTS :: collect_events where
  "CONTRACTS_EVENTS = UnsafeCollect"

text \<open>The parachain runtime declares the same two settings.\<close>

definition parachain_DEBUG_OUTPUT :: debug_info where
  "parachain_DEBUG_OUTPUT = UnsafeDebug"

definition parachain_EVENTS :: collect_events where
  "parachain_EVENTS = UnsafeCollect"

lemma parachain_settings [simp]:
  "parachain_DEBUG_OUTPUT = CONTRACTS_DEBUG_OUTPUT" "parachain_EVENTS = CONTRACTS_EVENTS"
  by (simp_all add: parachain_DEBUG_OUTPUT_def CONTRACTS_DEBUG_OUTPUT_def parachain_EVENTS_def
      CONTRACTS_EVENTS_def)

datatype 'v contracts_api =
    contracts_call account_id account_id u128 "weight option" "u128 option" "u8 list"
  | contracts_instantiate account_id u128 "weight option" "u128 option" 'v "u8 list" "u8 list"
  | contracts_upload_code account_id "u8 list" "u128 option" determinism
  | contracts_get_storage account_id "u8 list"

datatype 'v contracts_target =
    Contracts_bare_call account_id account_id u128 weight "u128 option" "u8 list"
      debug_info collect_events determinism
  | Contracts_bare_instantiate account_id u128 weight "u128 option" 'v "u8 list" "u8 list"
      debug_info collect_events
  | Contracts_bare_upload_code account_id "u8 list" "u128 option" determinism
  | Contracts_get_storage account_id "u8 list"

text \<open>\<open>block_limit\<close> is the \<open>max_block\<close> of the limits that the runtime's builder chain produced.\<close>

fun solo_contracts_api :: "weight \<Rightarrow> 'v contracts_api \<Rightarrow> 'v contracts_target" where
  "solo_contracts_api block_limit
     (contracts_call origin dest value gas_limit storage_deposit_limit input_data) =
     (let gas_limit = unwrap_or gas_limit block_limit
      in Contracts_bare_call origin dest value gas_limit storage_deposit_limit input_data
           CONTRACTS_DEBUG_OUTPUT CONTRACTS_EVENTS Enforced)"
| "solo_contracts_api block_limit
     (contracts_instantiate origin value gas_limit storage_deposit_limit code data salt) =
     (let gas_limit = unwrap_or gas_limit block_limit
      in Contracts_bare_instantiate origin value gas_limit storage_deposit_limit code data salt
           CONTRACTS_DEBUG_OUTPUT CONTRACTS_EVENTS)"
| "solo_contracts_api _ (contracts_upload_code origin code storage_deposit_limit det) =
     Contracts_bare_upload_code origin code storage_deposit_limit det"
| "solo_contracts_api _ (contracts_get_storage address key) = Contracts_get_storage address key"

fun parachain_contracts_api :: "weight \<Rightarrow> 'v contracts_api \<Rightarrow> 'v contracts_target" where
  "parachain_contracts_api block_limit
     (contracts_call origin dest value gas_limit storage_deposit_limit input_data) =
     (let gas_limit = unwrap_or gas_limit block_limit
      in Contracts_bare_call origin dest value gas_limit storage_deposit_limit input_data
           parachain_DEBUG_OUTPUT parachain_EVENTS Enforced)"
| "parachain_contracts_api block_limit
     (contracts_instantiate origin value gas_limit storage_deposit_limit code data salt) =
     (let gas_limit = unwrap_or gas_limit block_limit
      in Contracts_bare_instantiate origin value gas_limit storage_deposit_limit code data salt
           parachain_DEBUG_OUTPUT parachain_EVENTS)"
| "parachain_contracts_api _ (contracts_upload_code origin code storage_deposit_limit det) =
     Contracts_bare_upload_code origin code storage_deposit_limit det"
| "parachain_contracts_api _ (contracts_get_storage address key) =
     Contracts_get_storage address key"

section \<open>Properties\<close>

text \<open>
  The development runtime is a stand-in for the parachain runtime: the calls for blocks,
  extrinsics, fees and contracts run the same functions with the same arguments in both, where
  the limit of a block is the same, and with a given gas limit whatever the block limits are.
\<close>
theorem runtime_apis_agree:
  "solo_block_api b = parachain_block_api b \<and>
   solo_payment_api p = parachain_payment_api p \<and>
   solo_contracts_api block_limit c = parachain_contracts_api block_limit c \<and>
   solo_contracts_api m (contracts_call origin dest value (Some g) limit input) =
     parachain_contracts_api m' (contracts_call origin dest value (Some g) limit input)"
  by (cases b; cases p; cases c) simp_all

text \<open>The gas a dry run of a contract gets when it runs under the fixed settings.\<close>

fun dry_run_gas :: "'v contracts_target \<Rightarrow> weight option" where
  "dry_run_gas (Contracts_bare_call _ _ _ g _ _ UnsafeDebug UnsafeCollect Enforced) = Some g"
| "dry_run_gas (Contracts_bare_instantiate _ _ g _ _ _ _ UnsafeDebug UnsafeCollect) = Some g"
| "dry_run_gas _ = None"

text \<open>
  A dry run of a contract without a gas limit is metered against a whole block and one with
  a limit against that limit, for calls and instantiations alike; the caller chooses neither
  the debug output, nor the event collection, nor the determinism of a call.
\<close>
theorem dry_runs_metered:
  "dry_run_gas (parachain_contracts_api block_limit
     (contracts_call origin dest value gas limit input)) =
     Some (case gas of None \<Rightarrow> block_limit | Some g \<Rightarrow> g) \<and>
   dry_run_gas (parachain_contracts_api block_limit
     (contracts_instantiate origin value gas limit code data salt)) =
     Some (case gas of None \<Rightarrow> block_limit | Some g \<Rightarrow> g)"
  by (cases gas) (simp_all add: CONTRACTS_DEBUG_OUTPUT_def CONTRACTS_EVENTS_def)

end
