(* ===== verification/Runtime_Apis_More.thy ===== *)
theory Runtime_Apis_More
  imports Runtime_Apis Runtime_Transactions
begin

text \<open>
  The remaining functions of the \<open>impl_runtime_apis!\<close> blocks of \<open>runtime/src/lib.rs\<close> and
  \<open>parachain-runtime/src/lib.rs\<close>: metadata, session keys, nonces, genesis, what only the
  parachain runtime has, and the functions behind the features \<open>try-runtime\<close> and
  \<open>runtime-benchmarks\<close>.
\<close>

section \<open>Metadata, accounts, session keys, genesis\<close>

datatype metadata_api = metadata | metadata_at_version u32 | metadata_versions

datatype metadata_call =
    OpaqueMetadata_new_Runtime_metadata
  | Runtime_metadata_at_version u32
  | Runtime_metadata_versions

datatype keys_api =
    generate_session_keys "u8 list option"
  | decode_session_keys "u8 list"
  | account_nonce account_id

text \<open>The session keys are generated and decoded by the key set of the runtime, given by its fields.\<close>

datatype keys_call =
    SessionKeys_generate "string list" "u8 list option"
  | SessionKeys_decode_into_raw_public_keys "string list" "u8 list"
  | System_account_nonce account_id

datatype genesis_api = create_default_config | build_config "u8 list"

datatype genesis_call = genesis_create_default_config | genesis_build_config "u8 list"

definition solo_SessionKeys :: "string list" where
  "solo_SessionKeys = []"

definition SessionKeys :: "string list" where
  "SessionKeys = [''aura'']"

fun solo_metadata_api :: "metadata_api \<Rightarrow> metadata_call" where
  "solo_metadata_api metadata = OpaqueMetadata_new_Runtime_metadata"
| "solo_metadata_api (metadata_at_version v) = Runtime_metadata_at_version v"
| "solo_metadata_api metadata_versions = Runtime_metadata_versions"

fun parachain_metadata_api :: "metadata_api \<Rightarrow> metadata_call" where
  "parachain_metadata_api metadata = OpaqueMetadata_new_Runtime_metadata"
| "parachain_metadata_api (metadata_at_version v) = Runtime_metadata_at_version v"
| "parachain_metadata_api metadata_versions = Runtime_metadata_versions"

fun solo_keys_api :: "keys_api \<Rightarrow> keys_call" where
  "solo_keys_api (generate_session_keys seed) = SessionKeys_generate solo_SessionKeys seed"
| "solo_keys_api (decode_session_keys encoded) =
     SessionKeys_decode_into_raw_public_keys solo_SessionKeys encoded"
| "solo_keys_api (account_nonce account) = System_account_nonce account"

fun parachain_keys_api :: "keys_api \<Rightarrow> keys_call" where
  "parachain_keys_api (generate_session_keys seed) = SessionKeys_generate SessionKeys seed"
| "parachain_keys_api (decode_session_keys encoded) =
     SessionKeys_decode_into_raw_public_keys SessionKeys encoded"
| "parachain_keys_api (account_nonce account) = System_account_nonce account"

fun solo_genesis_api :: "genesis_api \<Rightarrow> genesis_call" where
  "solo_genesis_api create_default_config = genesis_create_default_config"
| "solo_genesis_api (build_config config) = genesis_build_config config"

fun parachain_genesis_api :: "genesis_api \<Rightarrow> genesis_call" where
  "parachain_genesis_api create_default_config = genesis_create_default_config"
| "parachain_genesis_api (build_config config) = genesis_build_config config"

text \<open>\<open>Core::version\<close>.\<close>

definition solo_version :: "'a \<Rightarrow> 'a runtime_version" where
  "solo_version runtime_api_versions = solo_VERSION runtime_api_versions"

definition parachain_version :: "'a \<Rightarrow> 'a runtime_version" where
  "parachain_version runtime_api_versions = VERSION runtime_api_versions"

section \<open>Functions of the parachain runtime alone\<close>

datatype 'v parachain_only_api =
    authorities
  | collect_collation_info 'v

datatype 'v parachain_only_call =
    Authorities_get_into_inner
  | ParachainSystem_collect_collation_info 'v

fun parachain_only :: "'v parachain_only_api \<Rightarrow> 'v parachain_only_call" where
  "parachain_only authorities = Authorities_get_into_inner"
| "parachain_only (collect_collation_info header) = ParachainSystem_collect_collation_info header"

section \<open>Functions behind features\<close>

text \<open>
  Upgrades and blocks are tried with an intentional \<open>unwrap\<close>: a failure of the executive is a
  panic. \<open>try_runtime_upgrade\<close> and \<open>try_execute_block\<close> are those of the SDK.
\<close>

definition on_runtime_upgrade ::
  "('k \<Rightarrow> (string, weight) result) \<Rightarrow> weight \<Rightarrow> 'k \<Rightarrow> ('e, weight \<times> weight) result" where
  "on_runtime_upgrade try_runtime_upgrade block_limit checks =
     and_then (unwrap (try_runtime_upgrade checks)) (\<lambda>w. Ok (w, block_limit))"

definition try_block ::
  "('v \<Rightarrow> bool \<Rightarrow> bool \<Rightarrow> 'k \<Rightarrow> (string, weight) result) \<Rightarrow> 'v \<Rightarrow> bool \<Rightarrow> bool \<Rightarrow> 'k \<Rightarrow>
   ('e, weight) result" where
  "try_block try_execute_block block state_root_check signature_check select =
     unwrap (try_execute_block block state_root_check signature_check select)"

definition benchmarks :: "(string \<times> string) list" where
  "benchmarks =
     [(''frame_system'', ''SystemBench::<Runtime>''), (''pallet_balances'', ''Balances''),
      (''pallet_session'', ''SessionBench::<Runtime>''), (''pallet_timestamp'', ''Timestamp''),
      (''pallet_message_queue'', ''MessageQueue''), (''pallet_sudo'', ''Sudo''),
      (''pallet_collator_selection'', ''CollatorSelection''),
      (''cumulus_pallet_parachain_system'', ''ParachainSystem''),
      (''cumulus_pallet_xcmp_queue'', ''XcmpQueue'')]"

text \<open>\<open>list_benchmarks\<close> describes the benchmarks of the list, with the extra ones if asked to.\<close>

definition benchmark_metadata ::
  "((string \<times> string) list \<Rightarrow> bool \<Rightarrow> 'b list) \<Rightarrow> 'i list \<Rightarrow> bool \<Rightarrow> 'b list \<times> 'i list" where
  "benchmark_metadata list_benchmarks storage_info extra =
     (list_benchmarks benchmarks extra, storage_info)"

text \<open>
  \<open>add_benchmarks\<close> runs the benchmarks of the list a configuration selects and returns their
  batches.
\<close>

definition dispatch_benchmark ::
  "((string \<times> string) list \<Rightarrow> 'c \<Rightarrow> 'k \<Rightarrow> 'b list) \<Rightarrow> 'k \<Rightarrow> 'c \<Rightarrow> (string, 'b list) result" where
  "dispatch_benchmark add_benchmarks whitelisted_storage_keys config =
     (let batches = add_benchmarks benchmarks config whitelisted_storage_keys
      in if batches = [] then Err ''Benchmark not found for this pallet.'' else Ok batches)"

section \<open>What the two runtimes share\<close>

lemma keys_apis_agree:
  "solo_keys_api c = parachain_keys_api c \<longleftrightarrow>
     (\<forall>seed. c \<noteq> generate_session_keys seed) \<and> (\<forall>keys. c \<noteq> decode_session_keys keys)"
  by (cases c) (simp_all add: solo_SessionKeys_def SessionKeys_def)

lemma benchmarked_pallets:
  "set (map fst benchmarks) \<subseteq> set (map snd parachain_pallets)"
  by (simp add: benchmarks_def parachain_pallets_def)

text \<open>
  The development runtime is a stand-in for the parachain runtime: every trait it
  implements the parachain runtime implements as well, the calls for blocks, extrinsics, fees
  and contracts run the same functions with the same arguments in both, given the same limit
  of a block, and so do all others but the session keys, of which the development runtime has
  none. What the parachain runtime implements beyond that are the slots and authorities of
  aura and the collation data.
\<close>
theorem apis_agree:
  "set parachain_apis = set solo_apis \<union> {''AuraApi'', ''CollectCollationInfo''} \<and>
   solo_block_api b = parachain_block_api b \<and>
   solo_payment_api p = parachain_payment_api p \<and>
   solo_contracts_api block_limit c = parachain_contracts_api block_limit c \<and>
   solo_metadata_api t = parachain_metadata_api t \<and>
   solo_genesis_api g = parachain_genesis_api g \<and>
   {s. solo_keys_api s \<noteq> parachain_keys_api s} =
     range generate_session_keys \<union> range decode_session_keys"
proof -
  have "solo_block_api b = parachain_block_api b" by (cases b) simp_all
  moreover have "solo_payment_api p = parachain_payment_api p" by (cases p) simp_all
  moreover have "solo_contracts_api block_limit c = parachain_contracts_api block_limit c"
    by (cases c) simp_all
  moreover have "set parachain_apis = set solo_apis \<union> {''AuraApi'', ''CollectCollationInfo''}"
    by (auto simp: parachain_apis_def solo_apis_def)
  moreover have "solo_metadata_api t = parachain_metadata_api t" by (cases t) simp_all
  moreover have "solo_genesis_api g = parachain_genesis_api g" by (cases g) simp_all
  ultimately show ?thesis by (auto simp: keys_apis_agree)
qed

end
