(* ===== verification/Runtime_Collators.thy ===== *)
theory Runtime_Collators
  imports Chain_Spec Runtime_Apis_More
begin

text \<open>
  The life of a collator on the parachain: the keys the genesis state gives it, the slots it
  authors, the pallets that are told about its blocks and when it is kicked for silence
  (\<open>parachain-runtime/src/lib.rs\<close>); the development runtime names no author at all
  (\<open>runtime/src/lib.rs\<close>). The rules of the aura, session and collator selection pallets are code
  of the SDK: the record \<open>collation_sdk\<close>, with their documentation in \<open>documented_collation\<close>.
  The last section is the native executor of the development node (\<open>node/src/service/dev.rs\<close>).
\<close>

section \<open>What the SDK provides\<close>

text \<open>
  Slots, block numbers and milliseconds are natural numbers here: the arguments of the SDK's
  rules are values of the running chain, only the constants are the program's.
\<close>

record 'u collation_sdk =
  slot_accepted :: "aura_config \<Rightarrow> nat \<Rightarrow> nat \<Rightarrow> bool" \<comment> \<open>slot of the parent, slot of the block\<close>
  author_index :: "'u list \<Rightarrow> nat \<Rightarrow> nat option" \<comment> \<open>\<open>FindAuthor\<close> of the aura pallet\<close>
  account_from_index :: "account_id list \<Rightarrow> nat \<Rightarrow> account_id option"
  stale :: "nat \<Rightarrow> nat \<Rightarrow> nat \<Rightarrow> bool" \<comment> \<open>threshold, block last authored, this block\<close>
  session_authorities :: "(account_id \<times> 'u) list \<Rightarrow> account_id list \<Rightarrow> 'u list"

definition documented_collation :: "'u collation_sdk \<Rightarrow> bool" where
  "documented_collation C \<longleftrightarrow>
     (\<forall>c p s. slot_accepted C c p s = (if AllowMultipleBlocksPerSlot c then p \<le> s else p < s)) \<and>
     (\<forall>us s. author_index C us s = (if us = [] then None else Some (s mod length us))) \<and>
     (\<forall>vs i. account_from_index C vs i = (if i < length vs then Some (vs ! i) else None)) \<and>
     (\<forall>t l n. stale C t l n = (t \<le> n - l)) \<and>
     (\<forall>keys vs. set vs \<subseteq> fst ` set keys \<longrightarrow>
        session_authorities C keys vs = map (\<lambda>v. the (map_of keys v)) vs)"

section \<open>Configuration\<close>

record author_handlers =
  EventHandler :: "string list"

text \<open>
  \<open>FindAccountFromAuthorIndex<Self, Aura>\<close>: the aura pallet finds the index, the session
  pallet the validator at that index. The parachain tells the collator selection about the
  author; the development runtime has neither.
\<close>

definition FindAuthor ::
  "'u collation_sdk \<Rightarrow> 'u list \<Rightarrow> account_id list \<Rightarrow> nat \<Rightarrow> account_id option" where
  "FindAuthor C auths validators slot =
     do { i \<leftarrow> author_index C auths slot; account_from_index C validators i }"

definition authorship_Config :: author_handlers where
  "authorship_Config = \<lparr>EventHandler = [''CollatorSelection'']\<rparr>"

definition solo_FindAuthor :: "nat \<Rightarrow> account_id option" where
  "solo_FindAuthor slot = None"

definition solo_authorship_Config :: author_handlers where
  "solo_authorship_Config = \<lparr>EventHandler = []\<rparr>"

record 'c parachain_system_config =
  psc_SelfParaId :: u32
  psc_ReservedDmpWeight :: weight
  psc_ReservedXcmpWeight :: weight
  psc_CheckAssociatedRelayNumber :: 'c
  psc_ConsensusHook :: consensus_hook

text \<open>
  \<open>own_id\<close> is the number the pallet \<open>parachain_info\<close> stores, \<open>strictly_increases\<close> the check of
  the SDK on the relay chain block a block builds on. The queues of this configuration are in
  \<open>Xcm_Inbound\<close>.
\<close>

definition parachain_system_Config :: "'p sdk \<Rightarrow> u32 \<Rightarrow> 'c \<Rightarrow> 'c parachain_system_config" where
  "parachain_system_Config S own_id strictly_increases =
     \<lparr>psc_SelfParaId = own_id, psc_ReservedDmpWeight = ReservedDmpWeight S,
      psc_ReservedXcmpWeight = ReservedXcmpWeight S,
      psc_CheckAssociatedRelayNumber = strictly_increases, psc_ConsensusHook = ConsensusHook\<rparr>"

section \<open>Slots in a row\<close>

lemma parachain_slots_strict:
  assumes "documented_collation C"
  shows "slot_accepted C (aura_Config times_two) p s = (p < s)"
  using assms by (simp add: documented_collation_def aura_Config_def)

lemma accepted_increasing:
  assumes "documented_collation C" "successively (slot_accepted C (aura_Config times_two)) slots"
  shows "sorted_wrt (<) slots"
proof -
  have "successively (<) slots"
    using assms(2) by (simp add: parachain_slots_strict [OF assms(1)])
  then show ?thesis by (simp add: successively_conv_sorted_wrt transp_on_less)
qed

text \<open>A row of slots that strictly increases grows by at least one per block.\<close>

lemma increasing_gap:
  fixes slots :: "nat list"
  assumes "sorted_wrt (<) slots" "j \<le> n" "n < length slots"
  shows "n - j \<le> slots ! n - slots ! j \<and> slots ! j \<le> slots ! n"
  using assms(2,3)
proof (induction rule: dec_induct)
  case (step k)
  then have "slots ! k < slots ! Suc k"
    using assms(1) by (simp add: sorted_wrt_nth_less)
  with step show ?case by (simp, linarith)
qed simp

lemma increasing_reflects:
  fixes slots :: "nat list"
  assumes "sorted_wrt (<) slots" "j < length slots" "n < length slots" "slots ! j \<le> slots ! n"
  shows "j \<le> n"
  using assms sorted_wrt_nth_less [OF assms(1), of n j] by (metis leD not_le_imp_less)

text \<open>Among \<open>N\<close> slots in a row every residue occurs.\<close>

lemma residue_in_window:
  fixes N :: nat
  assumes "k < N" "N \<le> Suc s"
  obtains t where "t \<le> s" "s < t + N" "t mod N = k"
proof
  let ?d = "(s + N - k) mod N" let ?t = "s - ?d"
  have d: "?d < N" "?d \<le> s" using assms mod_less_divisor [of N "s + N - k"] by linarith+
  show "?t \<le> s" "s < ?t + N" using d by simp_all
  have "s + N - k = N * ((s + N - k) div N) + ?d" by simp
  then have "?t + N = N * ((s + N - k) div N) + k" using d assms(1) by linarith
  then have "(?t + N) mod N = k" using assms(1) by simp
  then show "?t mod N = k" by simp
qed

section \<open>Collators are not kicked for silence\<close>

text \<open>
  With \<open>N\<close> validators, a validator that takes every slot of its turn has a block among the last
  \<open>N\<close> blocks of the chain, as no slot has two blocks.
\<close>

lemma author_of_slot:
  assumes "documented_collation C" "auths \<noteq> []" "length auths = length validators"
  shows "FindAuthor C auths validators t = Some (validators ! (t mod length validators))"
proof -
  have "t mod length auths < length validators" using assms(2,3) by (metis length_greater_0_conv mod_less_divisor)
  then show ?thesis using assms by (simp add: FindAuthor_def documented_collation_def)
qed

lemma authored_recently:
  assumes C: "documented_collation C"
    and chain: "successively (slot_accepted C (aura_Config times_two)) slots"
    and v: "v \<in> set validators" "length auths = length validators"
    and honest: "\<And>t. hd slots \<le> t \<Longrightarrow> t \<le> last slots \<Longrightarrow> FindAuthor C auths validators t = Some v \<Longrightarrow>
      t \<in> set slots"
    and n: "n < length slots" "length validators \<le> Suc n"
  obtains j where "j \<le> n" "n - j < length validators"
    "FindAuthor C auths validators (slots ! j) = Some v"
proof -
  let ?N = "length validators"
  note inc = accepted_increasing [OF C chain]
  obtain k where k: "k < ?N" "validators ! k = v" using v(1) by (metis in_set_conv_nth)
  have ends: "slots ! 0 = hd slots" "slots ! (length slots - 1) = last slots"
    using n(1) by (cases slots; simp add: last_conv_nth)+
  have "hd slots + n \<le> slots ! n"
    using increasing_gap [OF inc, of 0 n] n(1) ends(1) by linarith
  then have "?N \<le> Suc (slots ! n)" using n(2) by linarith
  then obtain t where t: "t \<le> slots ! n" "slots ! n < t + ?N" "t mod ?N = k"
    using residue_in_window [OF k(1)] by blast
  have nonempty: "auths \<noteq> []" using v k(1) by auto
  have author: "FindAuthor C auths validators t = Some v"
    using author_of_slot [OF C nonempty v(2)] t(3) k(2) by simp
  have "hd slots \<le> t" using \<open>hd slots + n \<le> slots ! n\<close> t(2) n(2) by linarith
  moreover have "t \<le> last slots"
    using increasing_gap [OF inc, of n "length slots - 1"] n(1) ends(2) t(1) by linarith
  ultimately have "t \<in> set slots" using honest author by blast
  then obtain j where j: "j < length slots" "slots ! j = t" by (metis in_set_conv_nth)
  then have "j \<le> n" using increasing_reflects [OF inc j(1) n(1)] t(1) by simp
  moreover have "n - j < ?N" using increasing_gap [OF inc \<open>j \<le> n\<close> n(1)] j(2) t(2) by linarith
  ultimately show thesis using that author j(2) by blast
qed

text \<open>
  C31. A collator that takes its turns is never kicked. Where the validators are no more than the
  invulnerables and candidates the collator selection admits, every block of the chain follows
  less than a kick threshold after a block of any validator that authors each slot the aura
  pallet gives it, once every validator had a turn. It rests on one block per slot, on the
  bounds of the collator set and on the threshold of a whole session.
\<close>
theorem diligent_collator_not_kicked:
  assumes "documented_collation C"
    and "successively (slot_accepted C (aura_Config times_two)) slots"
    and "v \<in> set validators" "length auths = length validators"
    and "length validators \<le>
      unat (MaxInvulnerables collator_Config) + unat (MaxCandidates collator_Config)"
    and "\<And>t. hd slots \<le> t \<Longrightarrow> t \<le> last slots \<Longrightarrow> FindAuthor C auths validators t = Some v \<Longrightarrow>
      t \<in> set slots"
    and "n < length slots" "length validators \<le> Suc n"
    and "KickThreshold collator_Config = Some threshold"
  shows "\<exists>j \<le> n. FindAuthor C auths validators (slots ! j) = Some v \<and>
    \<not> stale C (unat threshold) (first + j) (first + n)"
proof -
  obtain j where j: "j \<le> n" "n - j < length validators"
    "FindAuthor C auths validators (slots ! j) = Some v"
    using authored_recently [OF assms(1-4,6-8)] by blast
  have "unat threshold = 1800" using assms(9) by (auto simp: collator_Config_def)
  moreover have "length validators \<le> 120" using assms(5) by (simp add: collator_Config_def)
  ultimately have "\<not> stale C (unat threshold) (first + j) (first + n)"
    using assms(1) j(2) by (simp add: documented_collation_def)
  with j show ?thesis by blast
qed

text \<open>A reference instance of the rules.\<close>

definition reference_collation :: "'u collation_sdk" where
  "reference_collation =
     \<lparr>slot_accepted = (\<lambda>c p s. if AllowMultipleBlocksPerSlot c then p \<le> s else p < s),
      author_index = (\<lambda>us s. if us = [] then None else Some (s mod length us)),
      account_from_index = (\<lambda>vs i. if i < length vs then Some (vs ! i) else None),
      stale = (\<lambda>t l n. t \<le> n - l),
      session_authorities = (\<lambda>keys vs. map (\<lambda>v. the (map_of keys v)) vs)\<rparr>"

lemma documented_reference_collation: "documented_collation reference_collation"
  by (simp add: documented_collation_def reference_collation_def)

text \<open>Two validators; the second misses its turn at slot 13.\<close>

theorem diligent_collator_not_kicked_witness:
  "\<exists>j \<le> 3. FindAuthor reference_collation [(), ()] [7, 8] ([10, 11, 12, 14 :: nat] ! j) = Some 7 \<and>
     \<not> stale (reference_collation :: unit collation_sdk) 1800 (5 + j) (5 + 3)"
proof -
  have "\<exists>j \<le> 3. FindAuthor reference_collation [(), ()] [7, 8] ([10, 11, 12, 14 :: nat] ! j) = Some 7 \<and>
     \<not> stale (reference_collation :: unit collation_sdk) (unat (1800 :: u32)) (5 + j) (5 + 3)"
  proof (rule diligent_collator_not_kicked [OF documented_reference_collation, where times_two = "\<lambda>p. p * 2"])
    show "t \<in> set [10, 11, 12, 14]"
      if "hd [10, 11, 12, 14 :: nat] \<le> t" "t \<le> last [10, 11, 12, 14]"
        "FindAuthor reference_collation [(), ()] [7, 8] t = Some 7" for t
    proof -
      have "t \<noteq> 13" using that(3)
        by (auto simp: FindAuthor_def reference_collation_def numeral_2_eq_2 [symmetric])
      then show ?thesis using that(1,2) by auto
    qed
  qed (simp_all add: reference_collation_def aura_Config_def collator_Config_def)
  then show ?thesis by simp
qed

section \<open>Sessions by the clock\<close>

text \<open>
  C33. A session lasts its six hours by the clock. The timestamp of a block lies in the slot
  of the block, and no two blocks share a slot; so over the blocks of one session, however they
  are spaced, the timestamps advance by more than six hours less one slot. A chain
  that lags behind only makes its sessions longer.
\<close>
theorem sessions_last_by_the_clock:
  assumes "documented_collation C"
    and "\<And>p. unat p * 2 < 2 ^ 64 \<Longrightarrow> times_two p = p * 2"
    and "successively (\<lambda>a b. slot_accepted C (aura_Config times_two)
      (a div unat (slot_duration times_two)) (b div unat (slot_duration times_two))) ts"
    and "session_period session_Config = Some p"
    and "i + unat p < length ts"
  shows "6 * 60 * 60 * 1000 < ts ! (i + unat p) - ts ! i + unat SLOT_DURATION"
proof -
  have slot: "slot_duration times_two = 12000"
    using assms(2) [of 6000]
    by (simp add: slot_duration_def aura_Config_def timestamp_MinimumPeriod_def)
  have p: "unat p = 1800" using assms(4) by (auto simp: session_Config_def)
  let ?slots = "map (\<lambda>t. t div 12000) ts"
  have "successively (slot_accepted C (aura_Config times_two)) ?slots"
    using assms(3) by (simp add: slot successively_map)
  from accepted_increasing [OF assms(1) this]
  have "1800 \<le> ?slots ! (i + 1800) - ?slots ! i"
    using increasing_gap [of ?slots i "i + 1800"] assms(5) p by simp
  then have "1800 \<le> ts ! (i + 1800) div 12000 - ts ! i div 12000"
    using assms(5) p by simp
  then have "21600000 < ts ! (i + 1800) - ts ! i + 12000" by linarith
  then show ?thesis by (simp add: p)
qed

theorem sessions_last_by_the_clock_witness:
  "\<exists>ts. length ts = 1801 \<and> 6 * 60 * 60 * 1000 < ts ! 1800 - ts ! 0 + (12000 :: nat)"
proof -
  obtain n :: nat where n: "n = 1801" by simp
  let ?ts = "map ((*) 12000) [0..<n]"
  have slot: "slot_duration (\<lambda>p. p * 2) = 12000"
    by (simp add: slot_duration_def aura_Config_def timestamp_MinimumPeriod_def)
  have strict: "slot_accepted (reference_collation :: unit collation_sdk)
      (aura_Config (\<lambda>p. p * 2)) a b = (a < b)" for a b
    by (rule parachain_slots_strict [OF documented_reference_collation])
  have "sorted_wrt (<) [0..<n]" by simp
  then have "successively (<) [0..<n]" by (simp add: successively_conv_sorted_wrt transp_on_less)
  then have chain: "successively (\<lambda>a b. slot_accepted (reference_collation :: unit collation_sdk)
      (aura_Config (\<lambda>p. p * 2)) (a div unat (slot_duration (\<lambda>p. p * 2)))
      (b div unat (slot_duration (\<lambda>p. p * 2)))) ?ts"
    by (simp add: slot strict successively_map)
  have period: "session_period session_Config = Some 1800" by (simp add: session_Config_def)
  have "6 * 60 * 60 * 1000 < ?ts ! (0 + unat (1800 :: u32)) - ?ts ! 0 + unat SLOT_DURATION"
    by (rule sessions_last_by_the_clock [OF documented_reference_collation _ chain period])
      (simp_all add: n)
  moreover have "length ?ts = 1801" by (simp add: n)
  ultimately show ?thesis by (intro exI [of _ ?ts]) simp
qed

section \<open>The first authors\<close>

fun account_in :: "'u json \<Rightarrow> account_id" where
  "account_in (JAccount a) = a"
| "account_in _ = 0"

fun session_key_in :: "'u json \<Rightarrow> account_id \<times> 'u" where
  "session_key_in (JArray [JAccount a, _, keys]) =
     (a, case field ''aura'' keys of JAura u \<Rightarrow> u | _ \<Rightarrow> undefined)"
| "session_key_in _ = undefined"

definition genesis_invulnerables :: "'u json \<Rightarrow> account_id list" where
  "genesis_invulnerables g =
     map account_in (elements (field ''invulnerables'' (field ''collatorSelection'' g)))"

definition genesis_keys :: "'u json \<Rightarrow> (account_id \<times> 'u) list" where
  "genesis_keys g = map session_key_in (elements (field ''keys'' (field ''session'' g)))"

lemma testnet_genesis_collators:
  "genesis_invulnerables (testnet_genesis v cs accounts root i) = map fst cs"
  "genesis_keys (testnet_genesis v cs accounts root i) = cs"
  by (simp_all add: genesis_invulnerables_def genesis_keys_def testnet_genesis_def
      template_session_keys_def comp_def case_prod_beta)

text \<open>
  The validators are the two invulnerables in some order, and the aura keys are theirs in the
  same order.
\<close>

lemma genesis_session:
  assumes K: "documented_keyring K" and C: "documented_collation C"
    and l: "local_testnet_config K v (Some w) = Ok l"
    and vs: "distinct vs" "set vs = set (genesis_invulnerables (cs_genesis l))"
    and us: "us = session_authorities C (genesis_keys (cs_genesis l)) vs"
  shows "length vs = 2" "length us = 2"
    and "\<exists>seed \<in> {''Alice'', ''Bob''}. FindAuthor C us vs t = Some (account_of K seed) \<and>
      us ! (t mod length us) = aura_of K seed"
proof -
  let ?a = "account_of K ''Alice''" and ?b = "account_of K ''Bob''"
  note l' = l [unfolded local_testnet_value [OF K], simplified, symmetric]
  have ne: "?a \<noteq> ?b"
    using K collators_in_seeds by (auto simp: documented_keyring_def dest: inj_onD)
  have set: "set vs = {?a, ?b}" using vs(2) by (simp add: l' testnet_genesis_collators)
  show len: "length vs = 2" using distinct_card [OF vs(1)] ne by (simp add: set)
  let ?keys = "[(?a, aura_of K ''Alice''), (?b, aura_of K ''Bob'')]"
  have us': "us = map (\<lambda>v. the (map_of ?keys v)) vs"
    using C us by (simp add: l' testnet_genesis_collators documented_collation_def set)
  then show len': "length us = 2" using len by simp
  then have "us \<noteq> []" "length us = length vs" using len by auto
  note author = author_of_slot [OF C this]
  have in_range: "t mod 2 < length vs" by (simp add: len)
  have key: "us ! (t mod length us) = the (map_of ?keys (vs ! (t mod 2)))"
    using in_range unfolding us' by (simp add: len)
  have "vs ! (t mod 2) \<in> {?a, ?b}" using nth_mem [OF in_range] by (simp only: set)
  then show "\<exists>seed \<in> {''Alice'', ''Bob''}. FindAuthor C us vs t = Some (account_of K seed) \<and>
      us ! (t mod length us) = aura_of K seed"
    using ne by (auto simp: author len key)
qed

text \<open>
  The genesis state of the local testnet makes two collators that take turns. Whatever
  order the session pallet keeps the invulnerables in, the author the runtime finds for a slot is
  one of the two accounts, the aura key at that slot is the one derived from the seed of that very
  account, and the next slot has the other author. With two collators the chain starts below
  the minimum of four eligible collators.
\<close>
theorem genesis_collators_take_turns:
  assumes "documented_keyring K" "documented_collation C"
    and "local_testnet_config K v (Some w) = Ok l"
    and "distinct vs" "set vs = set (genesis_invulnerables (cs_genesis l))"
    and "us = session_authorities C (genesis_keys (cs_genesis l)) vs"
  shows "(\<exists>seed \<in> {''Alice'', ''Bob''}. FindAuthor C us vs t = Some (account_of K seed) \<and>
       us ! (t mod length us) = aura_of K seed) \<and>
    FindAuthor C us vs (Suc t) \<noteq> FindAuthor C us vs t \<and>
    length vs < unat (MinEligibleCollators collator_Config)"
proof (intro conjI)
  note session = genesis_session [OF assms(1-6)]
  show "\<exists>seed \<in> {''Alice'', ''Bob''}. FindAuthor C us vs t = Some (account_of K seed) \<and>
      us ! (t mod length us) = aura_of K seed" by (rule session(3))
  have "us \<noteq> []" "length us = length vs" using session(1,2) by auto
  note author = author_of_slot [OF assms(2) this]
  have in_range: "t mod 2 < length vs" "Suc t mod 2 < length vs" by (simp_all add: session(1))
  have "t mod 2 \<noteq> Suc t mod 2" by presburger
  then show "FindAuthor C us vs (Suc t) \<noteq> FindAuthor C us vs t"
    using nth_eq_iff_index_eq [OF assms(4) in_range] by (auto simp: author session(1))
  show "length vs < unat (MinEligibleCollators collator_Config)"
    by (simp add: session(1) collator_Config_def)
qed

theorem genesis_collators_take_turns_witness:
  "\<exists>(us :: string list) vs seed. length vs = 2 \<and>
     FindAuthor reference_collation us vs 5 = Some (account_of reference_keyring seed) \<and>
     FindAuthor reference_collation us vs 6 \<noteq> FindAuthor reference_collation us vs 5"
proof -
  let ?vs = "[account_of reference_keyring ''Bob'', account_of reference_keyring ''Alice'']"
  obtain l :: "(string, unit) chain_spec" where
    l: "(local_testnet_config reference_keyring 4 (Some ()) :: (string, _) result) = Ok l"
    and invulnerables: "set ?vs = set (genesis_invulnerables (cs_genesis l))"
    by (simp add: local_testnet_value [OF documented_reference_keyring] testnet_genesis_collators
        insert_commute)
  have "distinct ?vs" by code_simp
  obtain us where us:
    "us = session_authorities reference_collation (genesis_keys (cs_genesis l)) ?vs" by simp
  have "(\<exists>seed. FindAuthor reference_collation us ?vs 5 = Some (account_of reference_keyring seed)) \<and>
      FindAuthor reference_collation us ?vs 6 \<noteq> FindAuthor reference_collation us ?vs 5"
    using genesis_collators_take_turns [OF documented_reference_keyring
        documented_reference_collation l \<open>distinct ?vs\<close> invulnerables us, of 5] by force
  then show ?thesis by (intro exI [of _ us] exI [of _ ?vs]) simp
qed

section \<open>Blocks before the relay chain\<close>

text \<open>
  The macro \<open>register_validate_block!\<close> makes the relay chain check a block of the parachain with
  the executor of \<open>aura_ext\<close> around the \<open>Executive\<close> of the runtime. As documented, that
  executor verifies the seal of the block against the author of its slot before it hands on
  the block without the seal; \<open>'s\<close> is the state of the runtime.
\<close>

record ('u, 'b, 's) seal_sdk =
  slot_of :: "'b \<Rightarrow> nat"
  sealed_by :: "'u \<Rightarrow> 'b \<Rightarrow> bool"
  unsealed :: "'b \<Rightarrow> 'b"
  BlockExecutor :: "'u list \<Rightarrow> ('s \<Rightarrow> 'b \<Rightarrow> 's option) \<Rightarrow> 's \<Rightarrow> 'b \<Rightarrow> 's option"

definition documented_seal :: "'u collation_sdk \<Rightarrow> ('u, 'b, 's) seal_sdk \<Rightarrow> bool" where
  "documented_seal C X \<longleftrightarrow>
     (\<forall>us executive s b s'. BlockExecutor X us executive s b = Some s' \<longrightarrow>
        (\<exists>i < length us. author_index C us (slot_of X b) = Some i \<and> sealed_by X (us ! i) b) \<and>
        executive s (unsealed X b) = Some s')"

definition validate_block ::
  "('u, 'b, 's) seal_sdk \<Rightarrow> 'u list \<Rightarrow> ('s \<Rightarrow> 'b \<Rightarrow> 's option) \<Rightarrow> 's \<Rightarrow> 'b \<Rightarrow> 's option" where
  "validate_block X us executive = BlockExecutor X us executive"

text \<open>
  C32. Only the collator whose turn it is can extend the parachain. In the first session of the
  local testnet, every block the relay chain accepts carries the seal of the aura key derived
  from the seed of the account the runtime finds as the author of its slot, and the block
  without that seal executes.
\<close>
theorem only_the_author_seals:
  assumes "documented_keyring K" "documented_collation C"
    and "local_testnet_config K v (Some w) = Ok l"
    and "distinct vs" "set vs = set (genesis_invulnerables (cs_genesis l))"
    and "us = session_authorities C (genesis_keys (cs_genesis l)) vs"
    and "documented_seal C X" "validate_block X us executive s b = Some s'"
  shows "\<exists>seed \<in> {''Alice'', ''Bob''}. FindAuthor C us vs (slot_of X b) = Some (account_of K seed) \<and>
    sealed_by X (aura_of K seed) b \<and> executive s (unsealed X b) = Some s'"
proof -
  from genesis_session(3) [OF assms(1-6)] obtain seed where seed: "seed \<in> {''Alice'', ''Bob''}"
    "FindAuthor C us vs (slot_of X b) = Some (account_of K seed)"
    "us ! (slot_of X b mod length us) = aura_of K seed" by blast
  from assms(7,8) obtain i where i: "author_index C us (slot_of X b) = Some i"
    "sealed_by X (us ! i) b" "executive s (unsealed X b) = Some s'"
    unfolding documented_seal_def validate_block_def by blast
  from i(1) assms(2) have "i = slot_of X b mod length us"
    by (auto simp: documented_collation_def split: if_splits)
  with seed i(2,3) show ?thesis by auto
qed

text \<open>A block is its slot and the key that sealed it.\<close>

definition reference_seal :: "(string, nat \<times> string, nat) seal_sdk" where
  "reference_seal =
     \<lparr>slot_of = fst, sealed_by = (\<lambda>u b. snd b = u), unsealed = (\<lambda>b. (fst b, [])),
      BlockExecutor = (\<lambda>us executive s b.
        if us \<noteq> [] \<and> snd b = us ! (fst b mod length us) then executive s (fst b, []) else None)\<rparr>"

lemma documented_reference_seal: "documented_seal reference_collation reference_seal"
  by (auto simp: documented_seal_def reference_collation_def reference_seal_def split: if_splits)

theorem only_the_author_seals_witness:
  "\<exists>us. validate_block reference_seal us (\<lambda>s b. Some (Suc s)) 0 (5, ''//Alice'') = Some 1 \<and>
     (\<exists>seed \<in> {''Alice'', ''Bob''}. sealed_by reference_seal (aura_of reference_keyring seed) (5, ''//Alice''))"
proof -
  let ?vs = "[account_of reference_keyring ''Bob'', account_of reference_keyring ''Alice'']"
  obtain l :: "(string, unit) chain_spec" where
    l: "(local_testnet_config reference_keyring 4 (Some ()) :: (string, _) result) = Ok l"
    and g: "set ?vs = set (genesis_invulnerables (cs_genesis l))"
      "genesis_keys (cs_genesis l) =
        [(account_of reference_keyring ''Alice'', aura_of reference_keyring ''Alice''),
         (account_of reference_keyring ''Bob'', aura_of reference_keyring ''Bob'')]"
    by (simp add: local_testnet_value [OF documented_reference_keyring] testnet_genesis_collators
        insert_commute)
  let ?us = "session_authorities reference_collation (genesis_keys (cs_genesis l)) ?vs"
  have d: "distinct ?vs" by code_simp
  then have us: "?us = [''//Bob'', ''//Alice'']"
    by (simp add: g(2) reference_collation_def aura_of_def reference_keyring_def)
  have accepted: "validate_block reference_seal ?us (\<lambda>s b. Some (Suc s)) 0 (5, ''//Alice'') = Some 1"
    unfolding us by (simp add: validate_block_def reference_seal_def numeral_2_eq_2 [symmetric])
  from only_the_author_seals [OF documented_reference_keyring documented_reference_collation l d
      g(1) refl documented_reference_seal accepted]
  show ?thesis using accepted by blast
qed

section \<open>The native executor of the development node\<close>

record ('a, 'c) native_version =
  nv_runtime_version :: "'a runtime_version"
  can_author_with :: 'c

text \<open>\<open>nobody\<close> stands for the default value of the SDK's type.\<close>

definition solo_native_version :: "'c \<Rightarrow> 'a \<Rightarrow> ('a, 'c) native_version" where
  "solo_native_version nobody versions =
     \<lparr>nv_runtime_version = solo_VERSION versions, can_author_with = nobody\<rparr>"

definition parachain_native_version :: "'c \<Rightarrow> 'a \<Rightarrow> ('a, 'c) native_version" where
  "parachain_native_version nobody versions =
     \<lparr>nv_runtime_version = VERSION versions, can_author_with = nobody\<rparr>"

record ('a, 'c) native_execution =
  dispatch :: "string \<Rightarrow> u8 list \<Rightarrow> u8 list option"
  native_version_of :: "('a, 'c) native_version"

text \<open>\<open>api_dispatch\<close> is the function the macro generates from the runtime's APIs.\<close>

definition ExecutorDispatch ::
  "(string \<Rightarrow> u8 list \<Rightarrow> u8 list option) \<Rightarrow> 'c \<Rightarrow> 'a \<Rightarrow> ('a, 'c) native_execution" where
  "ExecutorDispatch api_dispatch nobody versions =
     \<lparr>dispatch = (\<lambda>method data. api_dispatch method data),
      native_version_of = solo_native_version nobody versions\<rparr>"

text \<open>
  The native code of the development node never stands in for the runtime of the parachain:
  the comment on \<open>VERSION\<close> says that it replaces the runtime on the chain only where the name,
  the specification version and the authoring version agree, and the first two differ.
\<close>
theorem native_code_only_for_development:
  assumes "\<And>native on_chain. substitutes native on_chain \<Longrightarrow>
      spec_name (nv_runtime_version native) = spec_name on_chain \<and>
      spec_version (nv_runtime_version native) = spec_version on_chain \<and>
      authoring_version (nv_runtime_version native) = authoring_version on_chain"
  shows "\<not> substitutes (native_version_of (ExecutorDispatch f nobody versions)) (VERSION vs) \<and>
    \<not> substitutes (parachain_native_version nobody versions) (solo_VERSION vs)"
  using assms [of "native_version_of (ExecutorDispatch f nobody versions)" "VERSION vs"]
    assms [of "parachain_native_version nobody versions" "solo_VERSION vs"]
  by (auto simp: ExecutorDispatch_def solo_native_version_def parachain_native_version_def
      VERSION_def solo_VERSION_def)

theorem native_code_only_for_development_witness:
  "\<not> (spec_name (nv_runtime_version (native_version_of (ExecutorDispatch (\<lambda>_ _. None) () ()))) =
      spec_name (VERSION ()) \<and>
     spec_version (nv_runtime_version (native_version_of (ExecutorDispatch (\<lambda>_ _. None) () ()))) =
      spec_version (VERSION ()) \<and>
     authoring_version (nv_runtime_version (native_version_of (ExecutorDispatch (\<lambda>_ _. None) () ()))) =
      authoring_version (VERSION ()))"
  using native_code_only_for_development [of "\<lambda>n v.
      spec_name (nv_runtime_version n) = spec_name v \<and>
      spec_version (nv_runtime_version n) = spec_version v \<and>
      authoring_version (nv_runtime_version n) = authoring_version v" "\<lambda>_ _. None" "()" "()" "()"]
  by blast

end
