(* ===== verification/Node_Service.thy ===== *)
theory Node_Service
  imports Chain_Spec "HOL-Library.Sublist"
begin

text \<open>
  How the two services of the node start (\<open>node/src/service.rs\<close>, \<open>node/src/service/dev.rs\<close>).
  Starting a service is a sequence of calls into the SDK, most of which return a \<open>Result\<close> that
  the operator \<open>?\<close> propagates. Which calls are made, in which order and with which settings is
  decided by the code of the repository from the configuration: that is \<open>new_partial\<close>,
  \<open>start_node_impl\<close> and \<open>new_full\<close>, which return the list of the calls. Whether a call succeeds
  is decided by the SDK: that is the argument of \<open>perform\<close>.
\<close>

section \<open>Configuration and steps\<close>

record ('u, 'w) config =
  telemetry_endpoints :: "string list option"
  default_heap_pages :: "u64 option"
  role_is_authority :: bool
  offchain_worker_enabled :: bool
  database_path :: "string option"
  config_base_path :: string
  config_chain_spec :: "('u, 'w) chain_spec"

datatype heap_strategy = DEFAULT_HEAP_ALLOC_STRATEGY | Static_extra_pages u32

datatype da_profile = Collator | FullNode

datatype step =
    New_telemetry_worker u32
  | New_full_parts bool "heap_strategy option"
  | Spawn bool bool string \<comment> \<open>essential, blocking, name\<close>
  | Spawn_offchain_workers string bool bool \<comment> \<open>group, validator, HTTP requests\<close>
  | New_transaction_pool bool
  | New_block_import
  | Query_slot_duration
  | New_import_queue
  | Build_relay_chain_interface
  | Build_network
  | Spawn_tasks
  | Gather_hwbench
  | Print_hwbench
  | Warn_hardware
  | Get_overseer_handle
  | Start_relay_chain_tasks da_profile u64 \<comment> \<open>slot duration in milliseconds\<close>
  | Expect_collator_key
  | Run_aura u64 u64 \<comment> \<open>authoring and relay slot duration in milliseconds\<close>
  | Run_delayed_finalize u64
  | Start_network

text \<open>The steps whose result is propagated with \<open>?\<close> or unwrapped with \<open>expect\<close>.\<close>

definition fallible :: "step \<Rightarrow> bool" where
  "fallible s =
     (case s of New_telemetry_worker _ \<Rightarrow> True | New_full_parts _ _ \<Rightarrow> True
      | Query_slot_duration \<Rightarrow> True | Build_relay_chain_interface \<Rightarrow> True
      | Build_network \<Rightarrow> True | Spawn_tasks \<Rightarrow> True | Get_overseer_handle \<Rightarrow> True
      | Start_relay_chain_tasks _ _ \<Rightarrow> True | Expect_collator_key \<Rightarrow> True | _ \<Rightarrow> False)"

text \<open>
  \<open>world n\<close> tells whether the \<open>n\<close>-th step succeeds, where it can fail. The value is the steps
  that were carried out and the result of the whole.
\<close>

fun perform :: "(nat \<Rightarrow> bool) \<Rightarrow> step list \<Rightarrow> step list \<times> (step, unit) result" where
  "perform world [] = ([], Ok ())"
| "perform world (s # ss) =
     (if fallible s \<and> \<not> world 0
      then ([], if s = Expect_collator_key
                then Panic ''Command line arguments do not allow this. qed'' else Err s)
      else (let (done, r) = perform (\<lambda>n. world (Suc n)) ss in (s # done, r)))"

section \<open>The parachain service\<close>

definition has_telemetry :: "('u, 'w) config \<Rightarrow> bool" where
  "has_telemetry c = (case telemetry_endpoints c of Some es \<Rightarrow> es \<noteq> [] | None \<Rightarrow> False)"

definition heap_pages :: "('u, 'w) config \<Rightarrow> heap_strategy" where
  "heap_pages c =
     (case default_heap_pages c of None \<Rightarrow> DEFAULT_HEAP_ALLOC_STRATEGY
      | Some h \<Rightarrow> Static_extra_pages (ucast h))"

definition build_import_queue :: "step list" where
  "build_import_queue = [Query_slot_duration, New_import_queue]"

definition new_partial :: "('u, 'w) config \<Rightarrow> step list" where
  "new_partial c =
     (if has_telemetry c then [New_telemetry_worker 16] else []) @
     [New_full_parts (has_telemetry c) (Some (heap_pages c))] @
     (if has_telemetry c then [Spawn False False ''telemetry''] else []) @
     [New_transaction_pool (role_is_authority c), New_block_import] @
     build_import_queue"

definition start_consensus :: "u64 \<Rightarrow> step list" where
  "start_consensus relay_chain_slot_duration =
     [Query_slot_duration, Run_aura 500 relay_chain_slot_duration, Spawn True False ''aura'']"

text \<open>
  \<open>prepare\<close> is \<open>prepare_node_config\<close> of the SDK, \<open>hwbench\<close> whether a hardware benchmark was
  made and \<open>hardware_ok\<close> whether it meets the reference hardware.
\<close>

definition start_node_impl ::
  "(('u, 'w) config \<Rightarrow> ('u, 'w) config) \<Rightarrow> ('u, 'w) config \<Rightarrow> bool \<Rightarrow> bool \<Rightarrow> step list" where
  "start_node_impl prepare cfg hwbench hardware_ok =
     (let c = prepare cfg;
          validator = role_is_authority c;
          relay_chain_slot_duration = 6 * 1000
      in new_partial c @
         [Build_relay_chain_interface, Build_network] @
         (if offchain_worker_enabled c
          then [Spawn_offchain_workers ''offchain-work'' (role_is_authority c) False] else []) @
         [Spawn_tasks] @
         (if hwbench
          then [Print_hwbench] @
               (if \<not> hardware_ok \<and> validator then [Warn_hardware] else []) @
               (if has_telemetry c then [Spawn False False ''telemetry_hwbench''] else [])
          else []) @
         [Get_overseer_handle,
          Start_relay_chain_tasks (if validator then Collator else FullNode)
            relay_chain_slot_duration] @
         (if validator
          then Expect_collator_key # start_consensus relay_chain_slot_duration else []) @
         [Start_network])"

definition start_parachain_node ::
  "(('u, 'w) config \<Rightarrow> ('u, 'w) config) \<Rightarrow> ('u, 'w) config \<Rightarrow> bool \<Rightarrow> bool \<Rightarrow> step list" where
  "start_parachain_node prepare cfg hwbench hardware_ok =
     start_node_impl prepare cfg hwbench hardware_ok"

section \<open>The development service\<close>

definition dev_new_partial :: "('u, 'w) config \<Rightarrow> step list" where
  "dev_new_partial c =
     (if has_telemetry c then [New_telemetry_worker 16] else []) @
     [New_full_parts (has_telemetry c) None] @
     (if has_telemetry c then [Spawn False False ''telemetry''] else []) @
     [New_import_queue, New_transaction_pool (role_is_authority c)]"

definition new_full :: "('u, 'w) config \<Rightarrow> u64 \<Rightarrow> step list" where
  "new_full c finalize_delay_sec =
     dev_new_partial c @ [Build_network] @
     (if offchain_worker_enabled c
      then [Spawn_offchain_workers ''offchain-worker'' (role_is_authority c) True] else []) @
     [Spawn_tasks, Spawn True True ''instant-seal'',
      Run_delayed_finalize finalize_delay_sec, Spawn True True ''delayed_finalize'',
      Start_network]"


section \<open>Starting up\<close>

lemma perform_Cons:
  "perform world (s # ss) =
     (if fallible s \<and> \<not> world 0
      then ([], if s = Expect_collator_key
                then Panic ''Command line arguments do not allow this. qed'' else Err s)
      else (s # fst (perform (\<lambda>n. world (Suc n)) ss), snd (perform (\<lambda>n. world (Suc n)) ss)))"
  by (simp add: case_prod_beta)

lemma perform_prefix: "prefix (fst (perform world ss)) ss"
  by (induction ss arbitrary: world) (simp_all add: perform_Cons del: perform.simps(2))

lemma perform_all_succeed: "perform (\<lambda>_. True) ss = (ss, Ok ())"
  by (induction ss) auto

lemma perform_in: "s \<in> set (fst (perform world ss)) \<Longrightarrow> s \<in> set ss"
  using perform_prefix set_mono_prefix by blast

lemma perform_complete: "snd (perform world ss) = Ok () \<longleftrightarrow> fst (perform world ss) = ss"
  by (induction ss arbitrary: world) (auto simp: perform_Cons simp del: perform.simps(2))

lemma perform_stops:
  "snd (perform world ss) = Err s \<Longrightarrow>
   \<exists>rest. ss = fst (perform world ss) @ s # rest \<and> fallible s \<and>
     \<not> world (length (fst (perform world ss)))"
  by (induction ss arbitrary: world)
    (auto simp: perform_Cons simp del: perform.simps(2) split: if_splits)

lemma perform_before:
  assumes "ss = xs @ s # ys" "s \<in> set (fst (perform world ss))" "s \<notin> set xs"
  shows "set xs \<subseteq> set (fst (perform world ss))"
  using perform_prefix [of world ss] assms by (auto simp: prefix_append dest: set_mono_prefix)

lemma fallible_simps [simp]:
  "fallible (New_telemetry_worker n)" "fallible (New_full_parts b h)"
  "\<not> fallible (Spawn e bl name)" "\<not> fallible (Spawn_offchain_workers g v http)"
  "\<not> fallible (New_transaction_pool b)" "\<not> fallible New_block_import"
  "fallible Query_slot_duration" "\<not> fallible New_import_queue"
  "fallible Build_relay_chain_interface" "fallible Build_network" "fallible Spawn_tasks"
  "\<not> fallible Gather_hwbench" "\<not> fallible Print_hwbench" "\<not> fallible Warn_hardware" "fallible Get_overseer_handle"
  "fallible (Start_relay_chain_tasks p d)" "fallible Expect_collator_key"
  "\<not> fallible (Run_aura a r)" "\<not> fallible (Run_delayed_finalize d)"
  "\<not> fallible Start_network"
  by (simp_all add: fallible_def)

text \<open>
  What the startup of a service promises the network: the call that opens it to the network is
  the last one and happens once, so it is made exactly when everything before it succeeded.
\<close>

locale startup =
  fixes script :: "'c \<Rightarrow> step list"
  assumes network_last: "\<exists>ss. script c = ss @ [Start_network] \<and> Start_network \<notin> set ss"
begin

lemma network_iff_success:
  "Start_network \<in> set (fst (perform world (script c))) \<longleftrightarrow>
     snd (perform world (script c)) = Ok ()"
proof
  assume "snd (perform world (script c)) = Ok ()"
  then have "fst (perform world (script c)) = script c" by (simp add: perform_complete)
  then show "Start_network \<in> set (fst (perform world (script c)))"
    using network_last [of c] by auto
next
  obtain ss where ss: "script c = ss @ [Start_network]" "Start_network \<notin> set ss"
    using network_last by blast
  assume "Start_network \<in> set (fst (perform world (script c)))"
  moreover have "prefix (fst (perform world (script c))) (ss @ [Start_network])"
    using perform_prefix ss(1) by metis
  ultimately have "fst (perform world (script c)) = script c"
    using ss by (auto simp: prefix_snoc dest: set_mono_prefix)
  then show "snd (perform world (script c)) = Ok ()" by (simp add: perform_complete)
qed

end

interpretation parachain_startup: startup "\<lambda>c. start_parachain_node prepare c hwbench ok"
  for prepare hwbench ok
  by unfold_locales
    (auto simp: start_parachain_node_def start_node_impl_def Let_def new_partial_def
      build_import_queue_def start_consensus_def)

interpretation dev_startup: startup "\<lambda>c. new_full c delay"
  for delay
  by unfold_locales (auto simp: new_full_def dev_new_partial_def)

lemmas script_defs = start_parachain_node_def start_node_impl_def Let_def new_partial_def
  build_import_queue_def start_consensus_def new_full_def dev_new_partial_def

lemma authority_script:
  assumes "role_is_authority (prepare c)"
  shows "\<exists>ss. start_parachain_node prepare c hwbench ok =
    (ss @ [Start_relay_chain_tasks Collator 6000, Expect_collator_key, Query_slot_duration]) @
      Run_aura 500 6000 # [Spawn True False ''aura'', Start_network] \<and>
    Run_aura 500 6000 \<notin> set ss"
  by (rule exI [of _ "new_partial (prepare c) @ [Build_relay_chain_interface, Build_network] @
        (if offchain_worker_enabled (prepare c)
         then [Spawn_offchain_workers ''offchain-work'' True False] else []) @ [Spawn_tasks] @
        (if hwbench then [Print_hwbench] @ (if \<not> ok then [Warn_hardware] else []) @
           (if has_telemetry (prepare c) then [Spawn False False ''telemetry_hwbench''] else [])
         else []) @ [Get_overseer_handle]"])
    (use assms in \<open>auto simp: script_defs\<close>)

text \<open>The two services on a node without telemetry whose role is an authority.\<close>

definition sample_config :: "(unit, unit) config" where
  "sample_config =
     \<lparr>telemetry_endpoints = None, default_heap_pages = None, role_is_authority = True,
      offchain_worker_enabled = True, database_path = None, config_base_path = ''base'',
      config_chain_spec =
        \<lparr>cs_name = ''Development'', cs_id = ''dev'', cs_protocol_id = ''dev'',
         cs_chain_type = Development, cs_properties = [], cs_extensions = None, cs_wasm = (),
         cs_genesis = JNull\<rparr>\<rparr>"

section \<open>Properties\<close>



text \<open>
  C29. Only an authority produces blocks: a successful start of the parachain service runs the
  aura collator exactly if the prepared role is an authority, and then with 500 ms of authoring
  time, the six second slots of the relay chain and the recovery profile of a collator, while
  any other node recovers as a full node; and no run at all, however it fails, starts the
  collator on a node that is not an authority.
\<close>
theorem only_authorities_collate:
  assumes run: "perform world (start_parachain_node prepare c hwbench ok) = (done, r)"
  shows "(r = Ok () \<longrightarrow>
      (Run_aura 500 6000 \<in> set done) = role_is_authority (prepare c) \<and>
      Start_relay_chain_tasks (if role_is_authority (prepare c) then Collator else FullNode) 6000
        \<in> set done) \<and>
    (\<forall>a d. Run_aura a d \<in> set done \<longrightarrow>
      role_is_authority (prepare c) \<and> Expect_collator_key \<in> set done \<and>
      Start_relay_chain_tasks Collator d \<in> set done)"
proof -
  let ?s = "start_parachain_node prepare c hwbench ok"
  have d: "done = fst (perform world ?s)" "r = snd (perform world ?s)" using run by simp_all
  have ok: "r = Ok () \<Longrightarrow> done = ?s" using d perform_complete by metis
  have aura: "Run_aura a e \<in> set done \<Longrightarrow> role_is_authority (prepare c) \<and> e = 6000" for a e
    using perform_in [of "Run_aura a e" world ?s] d(1) by (auto simp: script_defs split: if_splits)
  have "Expect_collator_key \<in> set done \<and> Start_relay_chain_tasks Collator 6000 \<in> set done"
    if "Run_aura a e \<in> set done" for a e
  proof -
    from that d(1) have a: "Run_aura a e = Run_aura 500 6000"
      using perform_in [of "Run_aura a e" world ?s] by (auto simp: script_defs split: if_splits)
    from aura [OF that] have "role_is_authority (prepare c)" by simp
    from authority_script [of prepare c hwbench ok, OF this] obtain ss where
      ss: "?s = (ss @ [Start_relay_chain_tasks Collator 6000, Expect_collator_key,
        Query_slot_duration]) @ Run_aura 500 6000 # [Spawn True False ''aura'', Start_network]"
      "Run_aura 500 6000 \<notin> set ss" by blast
    from that have "Run_aura 500 6000 \<in> set (fst (perform world ?s))" unfolding d(1) a .
    from perform_before [OF ss(1) this] ss(2) show ?thesis unfolding d(1) by simp
  qed
  moreover have "Run_aura 500 6000 \<in> set ?s \<longleftrightarrow> role_is_authority (prepare c)"
    "Start_relay_chain_tasks (if role_is_authority (prepare c) then Collator else FullNode) 6000
      \<in> set ?s"
    by (simp_all add: script_defs)
  ultimately show ?thesis using aura ok by metis
qed


theorem only_authorities_collate_witness:
  "Run_aura 500 6000 \<in> set (start_parachain_node (\<lambda>c. c) sample_config False True)"
proof -
  let ?s = "start_parachain_node (\<lambda>c. c) sample_config False True"
  from only_authorities_collate [OF perform_all_succeed, of "\<lambda>c. c" sample_config False True] show ?thesis
    by (simp add: sample_config_def)
qed

text \<open>
  The development service makes blocks whatever the role of the node is: once started it
  seals instantly and finalises with the delay it was given, the finalisation never runs before
  the sealing does, and it neither asks the runtime for a slot duration, which the development
  runtime does not have, nor runs the aura collator. Its offchain workers, unlike those of the
  parachain service, may make HTTP requests.
\<close>
theorem dev_service_seals:
  assumes run: "perform world (new_full c delay) = (done, r)"
  shows "(r = Ok () \<longrightarrow> Run_delayed_finalize delay \<in> set done) \<and>
    (\<forall>d. Run_delayed_finalize d \<in> set done \<longrightarrow>
       d = delay \<and> Spawn True True ''instant-seal'' \<in> set done) \<and>
    Query_slot_duration \<notin> set done \<and> (\<forall>a d. Run_aura a d \<notin> set done) \<and>
    (\<forall>g v http. Spawn_offchain_workers g v http \<in> set done \<longrightarrow>
       offchain_worker_enabled c \<and> v = role_is_authority c \<and> http)"
proof -
  have d: "done = fst (perform world (new_full c delay))" "r = snd (perform world (new_full c delay))"
    using run by simp_all
  have in_script: "s \<in> set done \<Longrightarrow> s \<in> set (new_full c delay)" for s
    using perform_in d(1) by blast
  have split: "new_full c delay =
      (dev_new_partial c @ [Build_network] @
       (if offchain_worker_enabled c
        then [Spawn_offchain_workers ''offchain-worker'' (role_is_authority c) True] else []) @
       [Spawn_tasks, Spawn True True ''instant-seal'']) @
      Run_delayed_finalize delay # [Spawn True True ''delayed_finalize'', Start_network]"
    by (simp add: new_full_def)
  have "Spawn True True ''instant-seal'' \<in> set done" if "Run_delayed_finalize delay \<in> set done"
    using perform_before [OF split, of world] that d(1) by (auto simp: dev_new_partial_def)
  moreover have "r = Ok () \<Longrightarrow> done = new_full c delay" using d perform_complete by metis
  moreover have "\<forall>d. Run_delayed_finalize d \<in> set (new_full c delay) \<longrightarrow> d = delay"
    "Query_slot_duration \<notin> set (new_full c delay)"
    "\<forall>a d. Run_aura a d \<notin> set (new_full c delay)"
    "\<forall>g v http. Spawn_offchain_workers g v http \<in> set (new_full c delay) \<longrightarrow>
       offchain_worker_enabled c \<and> v = role_is_authority c \<and> http"
    "Run_delayed_finalize delay \<in> set (new_full c delay)"
    by (simp_all add: new_full_def dev_new_partial_def)
  ultimately show ?thesis using in_script by blast
qed

theorem dev_service_seals_witness:
  "Run_delayed_finalize 1 \<in> set (fst (perform (\<lambda>_. True) (new_full sample_config 1)))"
proof -
  from dev_service_seals [OF perform_all_succeed, of 1 sample_config] show ?thesis
    by (simp add: perform_all_succeed)
qed

end
