(* ===== verification/Service_Wiring.thy ===== *)
theory Service_Wiring
  imports Node_Service
begin

text \<open>
  The values the two services hand from call to call (\<open>node/src/service.rs\<close>,
  \<open>node/src/service/dev.rs\<close>): a startup as a list of statements, each with the SDK calls it
  makes, the values it borrows or clones, the values it moves, which are gone afterwards, and
  the values it binds. The statements make exactly the calls of \<open>Node_Service\<close>, and
  \<open>scoped\<close> checks them the way the ownership rules of the language do.
\<close>

section \<open>Statements and their scope\<close>

record statement =
  makes :: "step list"
  borrows :: "string list"
  moves :: "string list"
  binds :: "string list"

abbreviation stmt :: "step list \<Rightarrow> string list \<Rightarrow> string list \<Rightarrow> string list \<Rightarrow> statement" where
  "stmt calls bs ms ns \<equiv> \<lparr>makes = calls, borrows = bs, moves = ms, binds = ns\<rparr>"

text \<open>
  \<open>scoped live p\<close> are the values alive after \<open>p\<close>, or \<^const>\<open>None\<close> where a statement uses a
  value that was not bound or was moved before.
\<close>

fun scoped :: "string list \<Rightarrow> statement list \<Rightarrow> string list option" where
  "scoped live [] = Some live"
| "scoped live (s # ss) =
     (if list_all (\<lambda>x. x \<in> set live) (borrows s @ moves s)
      then scoped (binds s @ filter (\<lambda>x. x \<notin> set (moves s)) live) ss else None)"

definition calls_of :: "statement list \<Rightarrow> step list" where
  "calls_of p = concat (map makes p)"

section \<open>The parachain service\<close>

text \<open>
  \<open>other\<close> of the partial components is destructured by the caller into its three values, and
  the fields of the others keep their names.
\<close>

definition partial_wiring :: "('u, 'w) config \<Rightarrow> statement list" where
  "partial_wiring c =
     [stmt (if has_telemetry c then [New_telemetry_worker 16] else []) [''config''] []
        [''telemetry''],
      stmt [] [''config''] [] [''heap_pages''],
      stmt [] [''config'', ''heap_pages''] [] [''executor''],
      stmt [New_full_parts (has_telemetry c) (Some (heap_pages c))] [''config'', ''telemetry'']
        [''executor''] [''client'', ''backend'', ''keystore_container'', ''task_manager''],
      stmt [] [''telemetry''] [] [''telemetry_worker_handle''],
      stmt (if has_telemetry c then [Spawn False False ''telemetry''] else []) [''task_manager'']
        [''telemetry''] [''telemetry''],
      stmt [New_transaction_pool (role_is_authority c)] [''config'', ''task_manager'', ''client''] []
        [''transaction_pool''],
      stmt [New_block_import] [''client'', ''backend''] [] [''block_import''],
      stmt build_import_queue
        [''client'', ''block_import'', ''config'', ''telemetry'', ''task_manager''] []
        [''import_queue'']]"

text \<open>The end of the startup: block announcements, relay chain tasks, collation, the network.\<close>

definition collation_wiring :: "('u, 'w) config \<Rightarrow> statement list" where
  "collation_wiring c =
     [stmt [] [''sync_service''] [] [''announce_block''],
      stmt [] [] [] [''relay_chain_slot_duration''],
      stmt [Get_overseer_handle] [''relay_chain_interface''] [] [''overseer_handle''],
      stmt [Start_relay_chain_tasks (if role_is_authority c then Collator else FullNode) (6 * 1000)]
        [''client'', ''announce_block'', ''para_id'', ''relay_chain_interface'', ''task_manager'',
         ''validator'', ''relay_chain_slot_duration'', ''overseer_handle'', ''sync_service'']
        [''import_queue_service''] []] @
     (if role_is_authority c
      then [stmt (Expect_collator_key # start_consensus (6 * 1000))
              [''client'', ''prometheus_registry'', ''telemetry'', ''task_manager'',
               ''relay_chain_interface'', ''sync_service'', ''keystore_container'',
               ''relay_chain_slot_duration'', ''para_id'']
              [''block_import'', ''transaction_pool'', ''collator_key'', ''overseer_handle'',
               ''announce_block''] []] else []) @
     [stmt [Start_network] [] [''start_network''] [],
      stmt [] [] [''task_manager'', ''client''] [''result'']]"

definition start_node_wiring :: "('u, 'w) config \<Rightarrow> bool \<Rightarrow> bool \<Rightarrow> statement list" where
  "start_node_wiring c hwbench hardware_ok =
     [stmt [] [] [''parachain_config''] [''config'']] @
     partial_wiring c @
     [stmt [] [''config''] [] [''net_config''],
      stmt [Build_relay_chain_interface]
        [''config'', ''task_manager'', ''collator_options'', ''hwbench'']
        [''polkadot_config'', ''telemetry_worker_handle'']
        [''relay_chain_interface'', ''collator_key''],
      stmt [] [''config''] [] [''validator''],
      stmt [] [''config''] [] [''prometheus_registry''],
      stmt [] [''import_queue''] [] [''import_queue_service''],
      stmt [Build_network]
        [''config'', ''client'', ''transaction_pool'', ''para_id'', ''task_manager'',
         ''relay_chain_interface'']
        [''net_config'', ''import_queue'']
        [''network'', ''system_rpc_tx'', ''tx_handler_controller'', ''start_network'',
         ''sync_service'']] @
     (if offchain_worker_enabled c
      then [stmt [Spawn_offchain_workers ''offchain-work'' (role_is_authority c) False]
              [''task_manager'', ''client'', ''keystore_container'', ''backend'',
               ''transaction_pool'', ''network'', ''config''] [] []] else []) @
     [stmt [] [''client'', ''transaction_pool''] [] [''rpc_builder''],
      stmt [Spawn_tasks]
        [''client'', ''transaction_pool'', ''task_manager'', ''keystore_container'', ''network'',
         ''sync_service'', ''telemetry'']
        [''rpc_builder'', ''config'', ''backend'', ''system_rpc_tx'', ''tx_handler_controller''] []] @
     (if hwbench
      then [stmt ([Print_hwbench] @
               (if \<not> hardware_ok \<and> role_is_authority c then [Warn_hardware] else []) @
               (if has_telemetry c then [Spawn False False ''telemetry_hwbench''] else []))
              [''validator'', ''telemetry'', ''task_manager''] [''hwbench''] []] else []) @
     collation_wiring c"

text \<open>
  The two functions both of these call, from their own parameters; a parameter that is a
  reference or is copied counts as borrowed.
\<close>

definition import_queue_parameters :: "string list" where
  "import_queue_parameters =
     [''client'', ''block_import'', ''config'', ''telemetry'', ''task_manager'']"

definition import_queue_wiring :: "statement list" where
  "import_queue_wiring =
     [stmt [Query_slot_duration] [''client''] [] [''slot_duration''],
      stmt [New_import_queue] [''slot_duration'', ''task_manager'', ''config'']
        [''client'', ''block_import'', ''telemetry''] [''result'']]"

definition consensus_parameters :: "string list" where
  "consensus_parameters =
     [''client'', ''block_import'', ''prometheus_registry'', ''telemetry'', ''task_manager'',
      ''relay_chain_interface'', ''transaction_pool'', ''sync_oracle'', ''keystore'',
      ''relay_chain_slot_duration'', ''para_id'', ''collator_key'', ''overseer_handle'',
      ''announce_block'']"

definition consensus_wiring :: "u64 \<Rightarrow> statement list" where
  "consensus_wiring relay_chain_slot_duration =
     [stmt [Query_slot_duration] [''client''] [] [''slot_duration''],
      stmt [] [''task_manager'', ''client'', ''prometheus_registry'', ''telemetry'']
        [''transaction_pool''] [''proposer_factory''],
      stmt [] [] [''proposer_factory''] [''proposer''],
      stmt [] [''client'', ''task_manager''] [''announce_block''] [''collator_service''],
      stmt [] [''para_id'', ''slot_duration'', ''relay_chain_slot_duration'']
        [''block_import'', ''client'', ''relay_chain_interface'', ''sync_oracle'', ''keystore'',
         ''collator_key'', ''overseer_handle'', ''proposer'', ''collator_service''] [''params''],
      stmt [Run_aura 500 relay_chain_slot_duration] [] [''params''] [''fut''],
      stmt [Spawn True False ''aura''] [''task_manager''] [''fut''] [],
      stmt [] [] [] [''result'']]"

section \<open>The development service\<close>

definition dev_partial_wiring :: "('u, 'w) config \<Rightarrow> statement list" where
  "dev_partial_wiring c =
     [stmt (if has_telemetry c then [New_telemetry_worker 16] else []) [''config''] []
        [''telemetry''],
      stmt [] [''config''] [] [''executor''],
      stmt [New_full_parts (has_telemetry c) None] [''config'', ''telemetry''] [''executor'']
        [''client'', ''backend'', ''keystore_container'', ''task_manager''],
      stmt [] [''backend''] [] [''select_chain''],
      stmt (if has_telemetry c then [Spawn False False ''telemetry''] else []) [''task_manager'']
        [''telemetry''] [''telemetry''],
      stmt [New_import_queue] [''client'', ''task_manager'', ''config''] [] [''import_queue''],
      stmt [New_transaction_pool (role_is_authority c)] [''config'', ''task_manager'', ''client''] []
        [''transaction_pool'']]"

definition new_full_wiring :: "('u, 'w) config \<Rightarrow> u64 \<Rightarrow> statement list" where
  "new_full_wiring c delay =
     dev_partial_wiring c @
     [stmt [] [''config''] [] [''net_config''],
      stmt [Build_network] [''config'', ''client'', ''transaction_pool'', ''task_manager'']
        [''net_config'', ''import_queue'']
        [''network'', ''system_rpc_tx'', ''tx_handler_controller'', ''network_starter'',
         ''sync_service'']] @
     (if offchain_worker_enabled c
      then [stmt [Spawn_offchain_workers ''offchain-worker'' (role_is_authority c) True]
              [''task_manager'', ''client'', ''config'', ''keystore_container'', ''backend'',
               ''transaction_pool'', ''network''] [] []] else []) @
     [stmt [] [''config''] [] [''prometheus_registry''],
      stmt [] [''client'', ''transaction_pool''] [] [''rpc_extensions_builder''],
      stmt [Spawn_tasks]
        [''network'', ''client'', ''keystore_container'', ''task_manager'', ''transaction_pool'',
         ''sync_service'', ''telemetry'']
        [''rpc_extensions_builder'', ''backend'', ''system_rpc_tx'', ''tx_handler_controller'',
         ''config''] [],
      stmt [] [''task_manager'', ''client'', ''transaction_pool'', ''prometheus_registry'',
        ''telemetry''] [] [''proposer''],
      stmt [] [''client''] [''proposer'', ''transaction_pool'', ''select_chain''] [''params''],
      stmt [] [] [''params''] [''authorship_future''],
      stmt [Spawn True True ''instant-seal''] [''task_manager''] [''authorship_future''] [],
      stmt [] [''task_manager'', ''finalize_delay_sec''] [''client''] [''delayed_finalize_params''],
      stmt [Run_delayed_finalize delay, Spawn True True ''delayed_finalize''] [''task_manager'']
        [''delayed_finalize_params''] [],
      stmt [Start_network] [] [''network_starter''] [],
      stmt [] [] [''task_manager''] [''result'']]"

section \<open>Properties\<close>

lemma calls_of_append [simp]: "calls_of (p @ q) = calls_of p @ calls_of q"
  by (simp add: calls_of_def)

lemma calls_of_Cons [simp]: "calls_of (s # p) = makes s @ calls_of p"
  by (simp add: calls_of_def)

lemma calls_of_Nil [simp]: "calls_of [] = []"
  by (simp add: calls_of_def)

lemma partial_calls: "calls_of (partial_wiring c) = new_partial c"
  by (simp add: partial_wiring_def new_partial_def)

text \<open>
  The two views of a startup agree: the statements of either service, with the values they
  pass on, make exactly the calls of the step list that describes its order, errors and
  settings, in every configuration.
\<close>
theorem wiring_refines_steps:
  "calls_of (start_node_wiring (prepare cfg) hwbench ok) =
     start_parachain_node prepare cfg hwbench ok \<and>
   calls_of (new_full_wiring c delay) = new_full c delay \<and>
   calls_of import_queue_wiring = build_import_queue \<and>
   calls_of (consensus_wiring slot) = start_consensus slot"
  by (simp add: import_queue_wiring_def build_import_queue_def consensus_wiring_def
      start_consensus_def start_node_wiring_def collation_wiring_def partial_calls new_full_wiring_def dev_partial_wiring_def
      start_parachain_node_def start_node_impl_def Let_def new_full_def dev_new_partial_def)

text \<open>\<open>scoped\<close> does not look at the calls, so it can be evaluated without the configuration.\<close>

lemma scoped_erase: "scoped live (map (\<lambda>s. s\<lparr>makes := []\<rparr>) p) = scoped live p"
  by (induction p arbitrary: live) simp_all

definition returns :: "string list \<Rightarrow> statement list \<Rightarrow> bool" where
  "returns args p = (case scoped args p of None \<Rightarrow> False | Some live \<Rightarrow> ''result'' \<in> set live)"

lemma returns_erase: "returns args p = returns args (map (\<lambda>s. s\<lparr>makes := []\<rparr>) p)"
  by (simp add: returns_def scoped_erase)

lemma scoped_append:
  "scoped live (p @ q) = (case scoped live p of None \<Rightarrow> None | Some l \<Rightarrow> scoped l q)"
  by (induction p arbitrary: live) auto

lemma scoped_origin:
  "scoped live p = Some l \<Longrightarrow> x \<in> set l \<Longrightarrow> x \<in> set live \<or> (\<exists>s \<in> set p. x \<in> set (binds s))"
  by (induction p arbitrary: live) (fastforce split: if_splits)+

text \<open>What a successful check means: a moved value is not used again unless it is bound anew.\<close>

lemma no_use_after_move:
  assumes "scoped args (p @ s # q @ t # r) = Some live"
    and "x \<in> set (moves s)" "x \<in> set (borrows t) \<union> set (moves t)"
  shows "\<exists>u \<in> set (s # q). x \<in> set (binds u)"
proof -
  obtain l where "scoped l (s # q @ t # r) = Some live"
    using assms(1) by (auto simp: scoped_append split: option.splits)
  then obtain l' where l': "scoped (binds s @ filter (\<lambda>y. y \<notin> set (moves s)) l) q = Some l'"
    "x \<in> set l'"
    using assms(3) by (auto simp: scoped_append list_all_iff split: if_splits option.splits)
  from scoped_origin [OF this] assms(2) show ?thesis by auto
qed

lemma start_node_returns:
  "returns [''parachain_config'', ''polkadot_config'', ''collator_options'', ''para_id'', ''hwbench'']
     (start_node_wiring c hwbench ok)"
  unfolding returns_erase [of _ "start_node_wiring c hwbench ok"]
  by (cases "offchain_worker_enabled c"; cases hwbench; cases "role_is_authority c";
      simp only: start_node_wiring_def collation_wiring_def partial_wiring_def append_Cons append_Nil if_True if_False
        list.map statement.simps; code_simp)

lemma new_full_returns:
  "returns [''config'', ''finalize_delay_sec''] (new_full_wiring c delay)"
  unfolding returns_erase [of _ "new_full_wiring c delay"]
  by (cases "offchain_worker_enabled c";
      simp only: new_full_wiring_def dev_partial_wiring_def append_Cons append_Nil if_True if_False
        list.map statement.simps; code_simp)

lemma parts_return:
  "returns import_queue_parameters import_queue_wiring"
  "returns consensus_parameters (consensus_wiring slot)"
proof -
  show "returns import_queue_parameters import_queue_wiring" by code_simp
  show "returns consensus_parameters (consensus_wiring slot)"
    unfolding returns_erase [of _ "consensus_wiring slot"]
    by (simp only: consensus_wiring_def list.map statement.simps; code_simp)
qed

end
