(* ===== verification/Node_Rpc.thy ===== *)
theory Node_Rpc
  imports Prelude
begin

text \<open>
  The RPC extension of the node (\<open>node/src/rpc.rs\<close>): a module with the methods of the system
  and of the transaction payment API. The modules themselves and \<open>merge\<close> are code of the SDK:
  the record \<open>rpc_sdk\<close>. A module is its methods by name.
\<close>

record ('c, 'p, 'd) full_deps =
  client :: 'c
  pool :: 'p
  deny_unsafe :: 'd

type_synonym 'm rpc_module = "string \<rightharpoonup> 'm"

record ('c, 'p, 'd, 'm) rpc_sdk =
  system_rpc :: "'c \<Rightarrow> 'p \<Rightarrow> 'd \<Rightarrow> 'm rpc_module" \<comment> \<open>\<open>System::new(..).into_rpc()\<close>\<close>
  payment_rpc :: "'c \<Rightarrow> 'm rpc_module"
  merge :: "'m rpc_module \<Rightarrow> 'm rpc_module \<Rightarrow> (string, 'm rpc_module) result"

definition documented_rpc :: "('c, 'p, 'd, 'm) rpc_sdk \<Rightarrow> bool" where
  "documented_rpc S \<longleftrightarrow>
     (\<forall>a b. dom a \<inter> dom b = {} \<longrightarrow> merge S a b = Ok (a ++ b)) \<and>
     (\<forall>a b. dom a \<inter> dom b \<noteq> {} \<longrightarrow> (\<exists>e. merge S a b = Err e))"

definition create_full ::
  "('c, 'p, 'd, 'm) rpc_sdk \<Rightarrow> ('c, 'p, 'd) full_deps \<Rightarrow> (string, 'm rpc_module) result" where
  "create_full S deps =
     (let module = Map.empty
      in and_then (merge S module (system_rpc S (client deps) (pool deps) (deny_unsafe deps)))
           (\<lambda>module. and_then (merge S module (payment_rpc S (client deps)))
           (\<lambda>module. Ok module)))"

section \<open>Properties\<close>

text \<open>
  The RPC module is built exactly if no method of the payment API has the name of one of the
  system API, and then it answers every method of either with the implementation of its own
  module, the system's with the pool and the policy on unsafe calls it was given, and nothing
  else; otherwise an error is returned and the node does not serve a part of the methods.
\<close>
theorem rpc_module_complete:
  assumes "documented_rpc S"
  shows "create_full S deps =
      (if dom (system_rpc S (client deps) (pool deps) (deny_unsafe deps)) \<inter>
            dom (payment_rpc S (client deps)) = {}
       then Ok (system_rpc S (client deps) (pool deps) (deny_unsafe deps) ++
                payment_rpc S (client deps))
       else merge S (system_rpc S (client deps) (pool deps) (deny_unsafe deps))
              (payment_rpc S (client deps))) \<and>
    ((\<exists>m. create_full S deps = Ok m) \<longleftrightarrow>
       dom (system_rpc S (client deps) (pool deps) (deny_unsafe deps)) \<inter>
         dom (payment_rpc S (client deps)) = {})"
proof -
  let ?s = "system_rpc S (client deps) (pool deps) (deny_unsafe deps)"
  let ?p = "payment_rpc S (client deps)"
  have "merge S Map.empty ?s = Ok ?s" using assms by (simp add: documented_rpc_def)
  moreover have "and_then r (\<lambda>m. Ok m) = r" for r :: "(string, 'd rpc_module) result"
    by (cases r) simp_all
  ultimately have "create_full S deps = merge S ?s ?p" by (simp add: create_full_def Let_def)
  then show ?thesis
    using assms unfolding documented_rpc_def by (metis result.distinct(1))
qed

definition reference_rpc :: "(unit, unit, unit, nat) rpc_sdk" where
  "reference_rpc =
     \<lparr>system_rpc = (\<lambda>_ _ _. [''system_accountNextIndex'' \<mapsto> 1]),
      payment_rpc = (\<lambda>_. [''payment_queryInfo'' \<mapsto> 2]),
      merge = (\<lambda>a b. if dom a \<inter> dom b = {} then Ok (a ++ b) else Err ''already registered'')\<rparr>"

theorem rpc_module_complete_witness:
  "\<exists>m. create_full reference_rpc \<lparr>client = (), pool = (), deny_unsafe = ()\<rparr> = Ok m"
proof -
  have "documented_rpc reference_rpc" by (simp add: documented_rpc_def reference_rpc_def)
  from rpc_module_complete [OF this, of "\<lparr>client = (), pool = (), deny_unsafe = ()\<rparr>"]
  show ?thesis by (simp add: reference_rpc_def)
qed

end
