(* ===== verification/Node_Command.thy ===== *)
theory Node_Command
  imports Node_Service Runtime_Apis
begin

text \<open>
  The command line of the node (\<open>node/src/command.rs\<close>, \<open>node/src/cli.rs\<close>): which chain
  specification an identifier names, what each subcommand does, and which service runs where
  there is none. The environment of the process, with the runtimes that were built, the files
  and the SDK's own parsing and configuration, is the record \<open>node_env\<close>.
\<close>

section \<open>Arguments\<close>

record shared_params =
  chain :: "string option"
  dev :: bool
  log :: "string list"

datatype benchmark_cmd =
    Benchmark_Pallet
  | Benchmark_Block
  | Benchmark_Storage
  | Benchmark_Machine
  | Benchmark_other

text \<open>Each subcommand has shared parameters of its own.\<close>

datatype subcommand =
    BuildSpec shared_params
  | CheckBlock shared_params
  | ExportBlocks shared_params
  | ExportState shared_params
  | ImportBlocks shared_params
  | Revert shared_params
  | PurgeChain shared_params
  | ExportGenesisHead shared_params
  | ExportGenesisWasm shared_params
  | Benchmark benchmark_cmd shared_params
  | TryRuntime

record cli =
  cli_subcommand :: "subcommand option"
  cli_run_shared :: shared_params
  no_hardware_benchmarks :: bool
  relay_chain_args :: "string list"
  finalize_delay_sec :: u8

section \<open>The environment\<close>

datatype run_error = Cli_error string | Service_error step

text \<open>The relay chain arguments, with the two defaults taken from the parachain.\<close>

record relay_cli =
  relay_base :: shared_params
  relay_chain_id :: "string option"
  relay_base_path :: "string option"

record ('p, 'u, 'w, 'r) node_env =
  env_keyring :: "('p, 'u) keyring"
  env_XCM_VERSION :: u32
  dev_WASM_BINARY :: "'w option"
  parachain_WASM_BINARY :: "'w option"
  implements_apis :: "'w \<Rightarrow> string list"
  from_json_file :: "string \<Rightarrow> (string, ('u, 'w) chain_spec) result"
  create_configuration ::
    "(string \<Rightarrow> (string, ('u, 'w) chain_spec) result) \<Rightarrow> shared_params \<Rightarrow>
     (string, ('u, 'w) config) result"
  prepare_node_config :: "('u, 'w) config \<Rightarrow> ('u, 'w) config"
  hardware_meets_reference :: bool
  executable_name :: string
  parse_relay_args :: "string list \<Rightarrow> shared_params"
  base_chain_id :: "shared_params \<Rightarrow> bool \<Rightarrow> (string, string) result"
  params_base_path :: "shared_params \<Rightarrow> (string, string option) result"
  path_join :: "string \<Rightarrow> string \<Rightarrow> string"
  create_relay_configuration :: "relay_cli \<Rightarrow> (string, 'r) result"
  runtime_benchmarks :: bool

text \<open>
  The identifier the SDK resolves shared parameters to, and what a configuration it creates
  carries.
\<close>

definition chain_id_of :: "shared_params \<Rightarrow> string" where
  "chain_id_of p =
     (case chain p of Some c \<Rightarrow> c | None \<Rightarrow> if dev p then ''dev'' else '''')"

definition documented_env :: "('p, 'u, 'w, 'r) node_env \<Rightarrow> bool" where
  "documented_env E \<longleftrightarrow>
     (\<forall>load p cfg. create_configuration E load p = Ok cfg \<longrightarrow>
        load (chain_id_of p) = Ok (config_chain_spec cfg)) \<and>
     (\<forall>p isdev c. chain p = Some c \<longrightarrow> base_chain_id E p isdev = Ok c) \<and>
     (\<forall>p. chain p = None \<longrightarrow> base_chain_id E p False = Ok '''')"

section \<open>Chain specifications by identifier\<close>

definition load_spec ::
  "('p, 'u, 'w, 'r) node_env \<Rightarrow> string \<Rightarrow> (string, ('u, 'w) chain_spec) result" where
  "load_spec E i =
     (if i = '''' \<or> i = ''dev''
      then unwrap (development_config (env_keyring E) (dev_WASM_BINARY E))
      else if i = ''contracts-parachain-local''
      then local_testnet_config (env_keyring E) (env_XCM_VERSION E) (parachain_WASM_BINARY E)
      else from_json_file E i)"

definition create_runner ::
  "('p, 'u, 'w, 'r) node_env \<Rightarrow> shared_params \<Rightarrow> (run_error, ('u, 'w) config) result" where
  "create_runner E p = map_err Cli_error (create_configuration E (load_spec E) p)"

section \<open>The relay chain arguments\<close>

definition new_relay_cli ::
  "('p, 'u, 'w, 'r) node_env \<Rightarrow> ('u, 'w) config \<Rightarrow> string list \<Rightarrow> relay_cli" where
  "new_relay_cli E para_config args =
     (let extension = try_get (config_chain_spec para_config)
      in \<lparr>relay_base = parse_relay_args E args,
          relay_chain_id = map_option relay_chain extension,
          relay_base_path = Some (path_join E (config_base_path para_config) ''polkadot'')\<rparr>)"

definition relay_chain_id_of ::
  "('p, 'u, 'w, 'r) node_env \<Rightarrow> relay_cli \<Rightarrow> bool \<Rightarrow> (string, string) result" where
  "relay_chain_id_of E r is_dev =
     and_then (base_chain_id E (relay_base r) is_dev) (\<lambda>i.
     Ok (if i = [] then unwrap_or (relay_chain_id r) [] else i))"

definition relay_base_path_of ::
  "('p, 'u, 'w, 'r) node_env \<Rightarrow> relay_cli \<Rightarrow> (string, string option) result" where
  "relay_base_path_of E r =
     and_then (params_base_path E (relay_base r)) (\<lambda>p.
     Ok (case p of Some q \<Rightarrow> Some q | None \<Rightarrow> relay_base_path r))"

definition p2p_listen_port :: u16 where "p2p_listen_port = 30334"
definition rpc_listen_port :: u16 where "rpc_listen_port = 9945"
definition prometheus_listen_port :: u16 where "prometheus_listen_port = 9616"

text \<open>\<open>init\<close> of the relay chain arguments is never called: it panics.\<close>

definition relay_init :: "(string, unit) result" where
  "relay_init = Panic ''PolkadotCli is never initialized; qed''"


section \<open>Running the node\<close>

text \<open>
  The value of a command is the steps of a service it carried out and its result. A subcommand
  that reaches the code of the SDK has \<open>Ran\<close>; what that code returns is not modelled. \<open>world\<close>
  tells, for a configuration, which steps succeed.
\<close>

datatype ('u, 'w, 'r) outcome =
    Ran string
  | Dev_node "('u, 'w) config" u64
  | Parachain_node "('u, 'w) config" 'r u32 bool

fun within :: "('e, 'a) result \<Rightarrow> ('a \<Rightarrow> step list \<times> ('e, 'b) result) \<Rightarrow> step list \<times> ('e, 'b) result" where
  "within (Ok x) f = f x"
| "within (Err e) _ = ([], Err e)"
| "within (Panic m) _ = ([], Panic m)"

definition and_return ::
  "step list \<times> (step, unit) result \<Rightarrow> 'o \<Rightarrow> step list \<times> (run_error, 'o) result" where
  "and_return t out = (fst t, and_then (map_err Service_error (snd t)) (\<lambda>_. Ok out))"

definition after ::
  "step list \<Rightarrow> step list \<times> (run_error, 'o) result \<Rightarrow> step list \<times> (run_error, 'o) result" where
  "after ss t = (ss @ fst t, snd t)"

text \<open>The changes \<open>run\<close> makes to the parsed arguments of the node itself.\<close>

definition default_args :: "cli \<Rightarrow> cli" where
  "default_args c =
     (let p = cli_run_shared c;
          p = (if chain p = None then p\<lparr>dev := True\<rparr> else p);
          p = (if log p = []
               then p\<lparr>log := [''runtime::contracts=debug'', ''sc_cli=info'', ''sc_rpc_server=info'',
                              ''warn'']\<rparr> else p)
      in c\<lparr>cli_run_shared := p\<rparr>)"

text \<open>The macro \<open>construct_async_run!\<close> and the subcommands that build the partial service.\<close>

definition chain_op ::
  "('p, 'u, 'w, 'r) node_env \<Rightarrow> (('u, 'w) config \<Rightarrow> nat \<Rightarrow> bool) \<Rightarrow> shared_params \<Rightarrow> string \<Rightarrow>
   step list \<times> (run_error, ('u, 'w, 'r) outcome) result" where
  "chain_op E world p cmd =
     within (create_runner E p)
       (\<lambda>cfg. and_return (perform (world cfg) (new_partial cfg)) (Ran cmd))"

definition relay_configuration ::
  "('p, 'u, 'w, 'r) node_env \<Rightarrow> cli \<Rightarrow> ('u, 'w) config \<Rightarrow> (run_error, 'r) result" where
  "relay_configuration E c cfg =
     (let polkadot_cli = new_relay_cli E cfg (executable_name E # relay_chain_args c)
      in map_err (\<lambda>e. Cli_error (''Relay chain argument error: '' @ e))
           (create_relay_configuration E polkadot_cli))"

fun run_benchmark ::
  "('p, 'u, 'w, 'r) node_env \<Rightarrow> (('u, 'w) config \<Rightarrow> nat \<Rightarrow> bool) \<Rightarrow> ('u, 'w) config \<Rightarrow>
   benchmark_cmd \<Rightarrow> step list \<times> (run_error, ('u, 'w, 'r) outcome) result" where
  "run_benchmark E world cfg Benchmark_Pallet =
     (if runtime_benchmarks E then ([], Ok (Ran ''benchmark pallet''))
      else ([], Err (Cli_error ''Benchmarking wasn't enabled when building the node. You can enable it with `--features runtime-benchmarks`.'')))"
| "run_benchmark E world cfg Benchmark_Block =
     and_return (perform (world cfg) (new_partial cfg)) (Ran ''benchmark block'')"
| "run_benchmark E world cfg Benchmark_Storage =
     (if runtime_benchmarks E
      then and_return (perform (world cfg) (new_partial cfg)) (Ran ''benchmark storage'')
      else ([], Err (Cli_error ''Compile with --features=runtime-benchmarks to enable storage benchmarks.'')))"
| "run_benchmark E world cfg Benchmark_Machine = ([], Ok (Ran ''benchmark machine''))"
| "run_benchmark E world cfg Benchmark_other =
     ([], Err (Cli_error ''Benchmarking sub-command unsupported''))"

fun run_subcommand ::
  "('p, 'u, 'w, 'r) node_env \<Rightarrow> (('u, 'w) config \<Rightarrow> nat \<Rightarrow> bool) \<Rightarrow> cli \<Rightarrow> subcommand \<Rightarrow>
   step list \<times> (run_error, ('u, 'w, 'r) outcome) result" where
  "run_subcommand E world c (BuildSpec p) =
     within (create_runner E p) (\<lambda>cfg. ([], Ok (Ran ''build-spec'')))"
| "run_subcommand E world c (CheckBlock p) = chain_op E world p ''check-block''"
| "run_subcommand E world c (ExportBlocks p) = chain_op E world p ''export-blocks''"
| "run_subcommand E world c (ExportState p) = chain_op E world p ''export-state''"
| "run_subcommand E world c (ImportBlocks p) = chain_op E world p ''import-blocks''"
| "run_subcommand E world c (Revert p) = chain_op E world p ''revert''"
| "run_subcommand E world c (PurgeChain p) =
     within (create_runner E p)
       (\<lambda>cfg. ([], and_then (relay_configuration E c cfg) (\<lambda>_. Ok (Ran ''purge-chain''))))"
| "run_subcommand E world c (ExportGenesisHead p) = chain_op E world p ''export-genesis-head''"
| "run_subcommand E world c (ExportGenesisWasm p) =
     within (create_runner E p)
       (\<lambda>cfg. ([], and_then (map_err Cli_error (load_spec E (unwrap_or (chain p) [])))
                     (\<lambda>_. Ok (Ran ''export-genesis-wasm''))))"
| "run_subcommand E world c (Benchmark cmd p) =
     within (create_runner E p) (\<lambda>cfg. run_benchmark E world cfg cmd)"
| "run_subcommand E world c TryRuntime =
     ([], Err (Cli_error ''The `try-runtime` subcommand has been migrated to a standalone CLI (https://github.com/paritytech/try-runtime-cli). It is no longer being maintained here and will be removed entirely some time after January 2024. Please remove this subcommand from your runtime and use the standalone CLI.''))"

text \<open>
  The argument of \<open>then_some\<close> is evaluated in any case, so the benchmark is gathered where the
  database has a path even if it is disabled, and then thrown away.
\<close>

definition run_node ::
  "('p, 'u, 'w, 'r) node_env \<Rightarrow> (('u, 'w) config \<Rightarrow> nat \<Rightarrow> bool) \<Rightarrow> cli \<Rightarrow> ('u, 'w) config \<Rightarrow>
   step list \<times> (run_error, ('u, 'w, 'r) outcome) result" where
  "run_node E world c cfg =
     (if cs_name (config_chain_spec cfg) = ''Development''
      then and_return (perform (world cfg) (new_full cfg (ucast (finalize_delay_sec c))))
             (Dev_node cfg (ucast (finalize_delay_sec c)))
      else
        let hwbench = (\<not> no_hardware_benchmarks c \<and> database_path cfg \<noteq> None)
        in after (if database_path cfg \<noteq> None then [Gather_hwbench] else [])
          (within (ok_or (Cli_error ''Could not find parachain ID in chain-spec.'')
             (map_option para_id (try_get (config_chain_spec cfg)))) (\<lambda>i.
           within (relay_configuration E c cfg) (\<lambda>polkadot_config.
           and_return
             (perform (world cfg)
               (start_parachain_node (prepare_node_config E) cfg hwbench
                 (hardware_meets_reference E)))
             (Parachain_node cfg polkadot_config i hwbench)))))"

definition run ::
  "('p, 'u, 'w, 'r) node_env \<Rightarrow> (('u, 'w) config \<Rightarrow> nat \<Rightarrow> bool) \<Rightarrow> cli \<Rightarrow>
   step list \<times> (run_error, ('u, 'w, 'r) outcome) result" where
  "run E world args =
     (let c = default_args args
      in case cli_subcommand c of
           Some cmd \<Rightarrow> run_subcommand E world c cmd
         | None \<Rightarrow> within (create_runner E (cli_run_shared c)) (run_node E world c))"

text \<open>The entry point of the binary, \<open>main.rs\<close>.\<close>

definition main ::
  "('p, 'u, 'w, 'r) node_env \<Rightarrow> (('u, 'w) config \<Rightarrow> nat \<Rightarrow> bool) \<Rightarrow> cli \<Rightarrow>
   step list \<times> (run_error, ('u, 'w, 'r) outcome) result" where
  "main E world args = run E world args"

section \<open>What a built node relies on\<close>

text \<open>
  Both runtimes were built and are the ones of this repository, and the keyring and the SDK
  behave as documented.
\<close>

definition built_node :: "('p, 'u, 'w, 'r) node_env \<Rightarrow> bool" where
  "built_node E \<longleftrightarrow> documented_env E \<and> documented_keyring (env_keyring E) \<and>
     (\<exists>w. dev_WASM_BINARY E = Some w \<and> implements_apis E w = solo_apis) \<and>
     (\<exists>w. parachain_WASM_BINARY E = Some w \<and> implements_apis E w = parachain_apis)"

text \<open>The slot duration cannot be queried from a runtime that has no \<open>AuraApi\<close>.\<close>

definition documented_slot_query ::
  "('p, 'u, 'w, 'r) node_env \<Rightarrow> (('u, 'w) config \<Rightarrow> nat \<Rightarrow> bool) \<Rightarrow> bool" where
  "documented_slot_query E world \<longleftrightarrow>
     (\<forall>cfg n. ''AuraApi'' \<notin> set (implements_apis E (cs_wasm (config_chain_spec cfg))) \<longrightarrow>
        n < length (new_partial cfg) \<longrightarrow> new_partial cfg ! n = Query_slot_duration \<longrightarrow>
        \<not> world cfg n)"

lemma load_dev:
  assumes "built_node E" "i = '''' \<or> i = ''dev''" "load_spec E i = Ok s"
  shows "cs_name s = ''Development'' \<and> cs_id s = ''dev'' \<and> try_get s = None \<and>
    implements_apis E (cs_wasm s) = solo_apis"
proof -
  from assms(1) obtain w where w: "dev_WASM_BINARY E = Some w" "implements_apis E w = solo_apis"
    "documented_keyring (env_keyring E)" by (auto simp: built_node_def)
  from assms(2,3) w(1) have "cs_name s = ''Development''"
    "cs_id s = ''dev''" "cs_extensions s = None" "cs_wasm s = w"
    by (auto simp: load_spec_def development_value [OF w(3)])
  with w(2) show ?thesis by (simp add: try_get_def)
qed

lemma load_local:
  assumes "built_node E" "load_spec E ''contracts-parachain-local'' = Ok s"
  shows "cs_name s = ''Local Testnet'' \<and>
    try_get s = Some \<lparr>relay_chain = ''rococo-local'', para_id = 1000\<rparr> \<and>
    implements_apis E (cs_wasm s) = parachain_apis"
proof -
  from assms(1) obtain w where w: "parachain_WASM_BINARY E = Some w"
    "implements_apis E w = parachain_apis" "documented_keyring (env_keyring E)"
    by (auto simp: built_node_def)
  from assms(2) w(1) have "cs_name s = ''Local Testnet''"
    "cs_extensions s = Some \<lparr>relay_chain = ''rococo-local'', para_id = 1000\<rparr>" "cs_wasm s = w"
    by (auto simp: load_spec_def local_testnet_value [OF w(3)])
  with w(2) show ?thesis by (simp add: try_get_def)
qed

lemma configured_spec:
  assumes "built_node E" "create_configuration E (load_spec E) p = Ok cfg"
  shows "load_spec E (chain_id_of p) = Ok (config_chain_spec cfg)"
  using assms unfolding built_node_def documented_env_def by blast

lemma create_runner_Ok:
  "create_runner E p = Ok cfg \<longleftrightarrow> create_configuration E (load_spec E) p = Ok cfg"
  by (cases "create_configuration E (load_spec E) p") (auto simp: create_runner_def)

lemma within_Ok:
  "snd (within r f) = Ok y \<Longrightarrow> \<exists>x. r = Ok x \<and> snd (f x) = Ok y \<and> within r f = f x"
  by (cases r) auto

lemma and_return_Ok:
  "snd (and_return t out) = Ok y \<longleftrightarrow> snd t = Ok () \<and> y = out"
  by (cases "snd t") (auto simp: and_return_def)

lemma default_args_simps [simp]:
  "cli_subcommand (default_args c) = cli_subcommand c"
  "no_hardware_benchmarks (default_args c) = no_hardware_benchmarks c"
  "finalize_delay_sec (default_args c) = finalize_delay_sec c"
  "chain (cli_run_shared (default_args c)) = chain (cli_run_shared c)"
  "chain (cli_run_shared c) = None \<Longrightarrow> dev (cli_run_shared (default_args c))"
  by (simp_all add: default_args_def Let_def)

text \<open>An environment in which both runtimes are built, for the instances of the properties.\<close>

definition reference_env :: "(string, string, bool, unit) node_env" where
  "reference_env =
     \<lparr>env_keyring = reference_keyring, env_XCM_VERSION = 4,
      dev_WASM_BINARY = Some True, parachain_WASM_BINARY = Some False,
      implements_apis = (\<lambda>w. if w then solo_apis else parachain_apis),
      from_json_file = (\<lambda>_. Err ''no such file''),
      create_configuration = (\<lambda>load p. and_then (load (chain_id_of p)) (\<lambda>s.
        Ok \<lparr>telemetry_endpoints = None, default_heap_pages = None, role_is_authority = True,
            offchain_worker_enabled = False, database_path = None, config_base_path = ''base'',
            config_chain_spec = s\<rparr>)),
      prepare_node_config = (\<lambda>c. c), hardware_meets_reference = True,
      executable_name = ''node'', parse_relay_args = (\<lambda>_. \<lparr>chain = None, dev = False, log = []\<rparr>),
      base_chain_id = (\<lambda>p d. Ok (case chain p of Some c \<Rightarrow> c | None \<Rightarrow> if d then ''dev'' else '''')),
      params_base_path = (\<lambda>_. Ok None), path_join = (\<lambda>p q. p @ q),
      create_relay_configuration = (\<lambda>_. Ok ()), runtime_benchmarks = False\<rparr>"

lemma built_reference: "built_node reference_env"
  by (auto simp: built_node_def documented_env_def reference_env_def
      documented_reference_keyring rust_simps)

definition reference_world :: "(string, bool) config \<Rightarrow> nat \<Rightarrow> bool" where
  "reference_world cfg n \<longleftrightarrow>
     cs_wasm (config_chain_spec cfg) \<longrightarrow>
     n < length (new_partial cfg) \<longrightarrow> new_partial cfg ! n \<noteq> Query_slot_duration"

lemma documented_reference_world: "documented_slot_query reference_env reference_world"
  by (auto simp: documented_slot_query_def reference_env_def reference_world_def solo_apis_def
      parachain_apis_def)

definition plain_args :: "string option \<Rightarrow> cli" where
  "plain_args i =
     \<lparr>cli_subcommand = None, cli_run_shared = \<lparr>chain = i, dev = False, log = []\<rparr>,
      no_hardware_benchmarks = True, relay_chain_args = [], finalize_delay_sec = 1\<rparr>"

section \<open>Properties\<close>

text \<open>
  Without a subcommand and without \<open>--chain\<close> the node is a development node: it loads the
  specification \<open>dev\<close> and starts the development service with the finalisation delay of the
  command line, whatever else is on it. The help text of the command says that it launches a
  full node of the local testnet.
\<close>
theorem default_is_development:
  assumes "built_node E" "cli_subcommand args = None" "chain (cli_run_shared args) = None"
    and "create_configuration E (load_spec E) (cli_run_shared (default_args args)) = Ok cfg"
  shows "cs_id (config_chain_spec cfg) = ''dev'' \<and>
    (\<exists>delay. unat delay = unat (finalize_delay_sec args) \<and>
       run E world args = and_return (perform (world cfg) (new_full cfg delay)) (Dev_node cfg delay))"
proof -
  have "chain_id_of (cli_run_shared (default_args args)) = ''dev''"
    using assms(3) by (simp add: chain_id_of_def)
  with configured_spec [OF assms(1,4)] load_dev [OF assms(1), of "''dev''" "config_chain_spec cfg"]
  have "cs_id (config_chain_spec cfg) = ''dev''" "cs_name (config_chain_spec cfg) = ''Development''"
    by simp_all
  moreover have "create_runner E (cli_run_shared (default_args args)) = Ok cfg"
    using assms(4) by (simp add: create_runner_Ok)
  moreover have "unat (ucast (finalize_delay_sec args) :: u64) = unat (finalize_delay_sec args)"
    using unsigned_less [of "finalize_delay_sec args", where ?'a = nat]
    by (simp add: unsigned_ucast_eq take_bit_nat_eq_self)
  ultimately show ?thesis using assms(2) by (auto simp: run_def run_node_def)
qed

theorem default_is_development_witness:
  "\<exists>cfg. cs_id (config_chain_spec cfg) = ''dev'' \<and>
     create_configuration reference_env (load_spec reference_env)
       (cli_run_shared (default_args (plain_args None))) = Ok cfg"
proof -
  have "\<exists>cfg. create_configuration reference_env (load_spec reference_env)
      (cli_run_shared (default_args (plain_args None))) = Ok cfg"
    by (simp add: reference_env_def load_spec_def chain_id_of_def default_args_def plain_args_def
        development_value [OF documented_reference_keyring])
  then show ?thesis
    using default_is_development [OF built_reference, of "plain_args None"]
    by (auto simp: plain_args_def)
qed

text \<open>
  C27. The chain specification alone decides which service runs. A node that comes up runs the
  development service exactly for a specification named \<open>Development\<close>, with the given delay,
  and otherwise the parachain service, for the parachain id of the extensions and only with a
  relay chain configuration that was accepted and a hardware benchmark that was not disabled;
  in either case the network was started. So a specification of another name and without
  extensions never starts anything.
\<close>
theorem service_follows_spec:
  assumes "snd (run_node E world c cfg) = Ok out"
  shows "Start_network \<in> set (fst (run_node E world c cfg)) \<and>
    (if cs_name (config_chain_spec cfg) = ''Development''
     then out = Dev_node cfg (ucast (finalize_delay_sec c))
     else \<exists>e r hwbench. try_get (config_chain_spec cfg) = Some e \<and>
       relay_configuration E c cfg = Ok r \<and>
       (hwbench \<longrightarrow> \<not> no_hardware_benchmarks c \<and> database_path cfg \<noteq> None) \<and>
       out = Parachain_node cfg r (para_id e) hwbench)"
proof (cases "cs_name (config_chain_spec cfg) = ''Development''")
  case True
  with assms show ?thesis
    using dev_startup.network_iff_success [of "world cfg" cfg "ucast (finalize_delay_sec c)"]
    by (auto simp: run_node_def and_return_Ok) (simp add: and_return_def)
next
  case False
  let ?hw = "\<not> no_hardware_benchmarks c \<and> database_path cfg \<noteq> None"
  let ?s = "start_parachain_node (prepare_node_config E) cfg ?hw (hardware_meets_reference E)"
  from assms False obtain e r where *: "try_get (config_chain_spec cfg) = Some e"
    "relay_configuration E c cfg = Ok r"
    by (auto simp: run_node_def Let_def after_def dest!: within_Ok)
      (cases "try_get (config_chain_spec cfg)"; force)
  with False have "run_node E world c cfg =
      after (if database_path cfg \<noteq> None then [Gather_hwbench] else [])
        (and_return (perform (world cfg) ?s) (Parachain_node cfg r (para_id e) ?hw))"
    by (simp add: run_node_def Let_def)
  with assms False * show ?thesis
    using parachain_startup.network_iff_success [of "world cfg" "prepare_node_config E" cfg ?hw
        "hardware_meets_reference E"]
    by (auto simp: and_return_Ok after_def) (simp_all add: and_return_def)
qed

theorem service_follows_spec_witness:
  "\<exists>cfg. Start_network \<in> set (fst (run_node reference_env (\<lambda>_ _. True) (plain_args None) cfg))"
proof -
  obtain cfg where cfg: "create_configuration reference_env (load_spec reference_env)
      \<lparr>chain = None, dev = True, log = []\<rparr> = Ok cfg"
    by (simp add: reference_env_def load_spec_def chain_id_of_def
        development_value [OF documented_reference_keyring])
  have "load_spec reference_env ''dev'' = Ok (config_chain_spec cfg)"
    using configured_spec [OF built_reference cfg] by (simp add: chain_id_of_def)
  then have "cs_name (config_chain_spec cfg) = ''Development''"
    using load_dev [OF built_reference] by blast
  then have "snd (run_node reference_env (\<lambda>_ _. True) (plain_args None) cfg) =
      Ok (Dev_node cfg (ucast (finalize_delay_sec (plain_args None))))"
    by (simp add: run_node_def and_return_def perform_all_succeed)
  from service_follows_spec [OF this] show ?thesis by blast
qed

text \<open>The subcommands that build the partial service of the parachain.\<close>

fun partial_service :: "subcommand \<Rightarrow> shared_params option" where
  "partial_service (CheckBlock p) = Some p"
| "partial_service (ExportBlocks p) = Some p"
| "partial_service (ExportState p) = Some p"
| "partial_service (ImportBlocks p) = Some p"
| "partial_service (Revert p) = Some p"
| "partial_service (ExportGenesisHead p) = Some p"
| "partial_service (Benchmark Benchmark_Block p) = Some p"
| "partial_service _ = None"

lemma partial_runs:
  assumes "partial_service cmd = Some p" "snd (run_subcommand E world c cmd) = Ok out"
  shows "\<exists>cfg. create_configuration E (load_spec E) p = Ok cfg \<and>
    snd (perform (world cfg) (new_partial cfg)) = Ok ()"
  using assms
  by (cases "(E, world, c, cmd)" rule: run_subcommand.cases)
    (auto simp: chain_op_def and_return_Ok create_runner_Ok split: if_splits
      elim!: partial_service.elims dest!: within_Ok)

lemma slot_query_in_partial:
  "\<exists>n < length (new_partial cfg). new_partial cfg ! n = Query_slot_duration"
  by (simp only: in_set_conv_nth [symmetric]) (simp add: new_partial_def build_import_queue_def)

lemma perform_needs:
  "snd (perform world ss) = Ok () \<Longrightarrow> n < length ss \<Longrightarrow> fallible (ss ! n) \<Longrightarrow> world n"
proof (induction ss arbitrary: world n)
  case (Cons s ss)
  show ?case
  proof (cases n)
    case 0
    with Cons.prems show ?thesis by (auto split: if_splits)
  next
    case (Suc m)
    with Cons.prems have "snd (perform (\<lambda>n. world (Suc n)) ss) = Ok ()"
      by (simp add: perform_Cons del: perform.simps(2) split: if_splits)
    with Cons.IH [of "\<lambda>n. world (Suc n)" m] Cons.prems Suc show ?thesis by simp
  qed
qed simp

text \<open>
  C26. The subcommands on blocks and state only work for parachain specifications: for the
  development specification, which is also the default, each of them fails before it reaches
  its own work, because it builds the partial service of the parachain, whose import queue asks
  the runtime for a slot duration that the development runtime cannot answer.
\<close>
theorem chain_ops_need_parachain:
  assumes "built_node E" "documented_slot_query E world"
    and "partial_service cmd = Some p" "chain p = None \<or> chain p = Some ''dev''"
  shows "\<nexists>out. snd (run_subcommand E world c cmd) = Ok out"
proof
  assume "\<exists>out. snd (run_subcommand E world c cmd) = Ok out"
  then obtain cfg where cfg: "create_configuration E (load_spec E) p = Ok cfg"
    "snd (perform (world cfg) (new_partial cfg)) = Ok ()"
    using partial_runs [OF assms(3)] by blast
  have "chain_id_of p = '''' \<or> chain_id_of p = ''dev''" using assms(4) by (auto simp: chain_id_of_def)
  then have "implements_apis E (cs_wasm (config_chain_spec cfg)) = solo_apis"
    using load_dev [OF assms(1)] configured_spec [OF assms(1) cfg(1)] by blast
  then have "''AuraApi'' \<notin> set (implements_apis E (cs_wasm (config_chain_spec cfg)))"
    by (simp add: solo_apis_def)
  moreover obtain n where n: "n < length (new_partial cfg)" "new_partial cfg ! n = Query_slot_duration"
    using slot_query_in_partial by blast
  ultimately have "\<not> world cfg n" using assms(2) by (simp add: documented_slot_query_def)
  moreover have "world cfg n" using perform_needs [OF cfg(2) n(1)] n(2) by simp
  ultimately show False by simp
qed

theorem chain_ops_need_parachain_witness:
  "\<nexists>out. snd (run_subcommand reference_env reference_world (plain_args None)
     (ExportBlocks \<lparr>chain = None, dev = False, log = []\<rparr>)) = Ok out"
  by (rule chain_ops_need_parachain [OF built_reference documented_reference_world,
        where p = "\<lparr>chain = None, dev = False, log = []\<rparr>"]) (simp_all only: partial_service.simps shared_params.simps simp_thms)

text \<open>
  The relay chain of the local testnet defaults to the one of the extensions, an explicit
  choice wins, and the relay chain keeps its data under the base path of the node.
\<close>

lemma relay_chain_defaults:
  assumes "built_node E" "load_spec E ''contracts-parachain-local'' = Ok (config_chain_spec cfg)"
    and "r = new_relay_cli E cfg args"
  shows "chain (relay_base r) = None \<Longrightarrow> relay_chain_id_of E r False = Ok ''rococo-local''"
    and "chain (relay_base r) = Some i \<Longrightarrow> i \<noteq> [] \<Longrightarrow> relay_chain_id_of E r d = Ok i"
    and "params_base_path E (relay_base r) = Ok None \<Longrightarrow>
      relay_base_path_of E r = Ok (Some (path_join E (config_base_path cfg) ''polkadot''))"
  using assms load_local [OF assms(1,2)]
  by (auto simp: relay_chain_id_of_def relay_base_path_of_def new_relay_cli_def Let_def
      built_node_def documented_env_def)

end
