(* ===== verification/Relay_Cli.thy ===== *)
theory Relay_Cli
  imports Node_Command
begin

text \<open>
  How the node presents itself and its relay chain to the SDK: the two \<open>SubstrateCli\<close>
  implementations and \<open>CliConfiguration for RelayChainCli\<close> of \<open>node/src/command.rs\<close>. A trait
  is the record of its methods; \<open>'v\<close> stands for the SDK types whose values are only passed on,
  and the answers of the wrapped relay chain command are an argument.
\<close>

section \<open>The identity of the binaries\<close>

text \<open>What the build writes into the environment of the compiler.\<close>

record build_env =
  SUBSTRATE_CLI_IMPL_VERSION :: string
  CARGO_PKG_DESCRIPTION :: string
  CARGO_PKG_AUTHORS :: string

record 's substrate_cli =
  impl_name :: string
  impl_version :: string
  description :: string
  author :: string
  support_url :: string
  copyright_start_year :: int
  cli_load_spec :: "string \<Rightarrow> (string, 's) result"

definition Cli_identity ::
  "build_env \<Rightarrow> ('p, 'u, 'w, 'r) node_env \<Rightarrow> ('u, 'w) chain_spec substrate_cli" where
  "Cli_identity B E =
     \<lparr>impl_name = ''Substrate Contracts Node'',
      impl_version = SUBSTRATE_CLI_IMPL_VERSION B,
      description = CARGO_PKG_DESCRIPTION B,
      author = CARGO_PKG_AUTHORS B,
      support_url = ''https://github.com/paritytech/substrate-contracts-node/issues/new'',
      copyright_start_year = 2021,
      cli_load_spec = load_spec E\<rparr>"

text \<open>
  The relay chain loads specifications through the command line of the relay chain node, parsed
  from the name of the executable alone.
\<close>

definition RelayChainCli_identity ::
  "build_env \<Rightarrow> (string list \<Rightarrow> string \<Rightarrow> (string, 's) result) \<Rightarrow> string \<Rightarrow> 's substrate_cli" where
  "RelayChainCli_identity B polkadot_load_spec executable =
     \<lparr>impl_name = ''Substrate Contracts Node'',
      impl_version = SUBSTRATE_CLI_IMPL_VERSION B,
      description = CARGO_PKG_DESCRIPTION B,
      author = CARGO_PKG_AUTHORS B,
      support_url = ''https://github.com/paritytech/substrate-contracts-node/issues/new'',
      copyright_start_year = 2020,
      cli_load_spec = polkadot_load_spec [executable]\<rparr>"

section \<open>The configuration of the relay chain node\<close>

record ('s, 'v) cli_configuration =
  conf_shared_params :: shared_params
  conf_import_params :: "'v option"
  conf_network_params :: "'v option"
  conf_keystore_params :: "'v option"
  conf_base_path :: "(string, string option) result"
  conf_rpc_addr :: "u16 \<Rightarrow> (string, 'v option) result"
  conf_prometheus_config :: "u16 \<Rightarrow> 's \<Rightarrow> (string, 'v option) result"
  conf_init :: "(string, unit) result"
  conf_chain_id :: "bool \<Rightarrow> (string, string) result"
  conf_role :: "bool \<Rightarrow> (string, 'v) result"
  conf_transaction_pool :: "bool \<Rightarrow> (string, 'v) result"
  conf_trie_cache_maximum_size :: "(string, u64 option) result"
  conf_rpc_methods :: "(string, 'v) result"
  conf_rpc_max_connections :: "(string, u32) result"
  conf_rpc_cors :: "bool \<Rightarrow> (string, string list option) result"
  conf_default_heap_pages :: "(string, u64 option) result"
  conf_force_authoring :: "(string, bool) result"
  conf_disable_grandpa :: "(string, bool) result"
  conf_max_runtime_instances :: "(string, u64 option) result"
  conf_announce_block :: "(string, bool) result"
  conf_telemetry_endpoints :: "'s \<Rightarrow> (string, 'v option) result"
  conf_node_name :: "(string, string) result"

text \<open>
  \<open>base\<close> is \<open>self.base.base\<close>, \<open>r\<close> the relay chain arguments themselves. Three methods have a
  body of their own: the base path, the chain identifier, and \<open>init\<close>, which panics.
\<close>

definition relay_methods ::
  "('p, 'u, 'w, 'r) node_env \<Rightarrow> ('s, 'v) cli_configuration \<Rightarrow> relay_cli \<Rightarrow>
   ('s, 'v) cli_configuration" where
  "relay_methods E base r =
     \<lparr>conf_shared_params = conf_shared_params base,
      conf_import_params = conf_import_params base,
      conf_network_params = conf_network_params base,
      conf_keystore_params = conf_keystore_params base,
      conf_base_path = relay_base_path_of E r,
      conf_rpc_addr = conf_rpc_addr base,
      conf_prometheus_config = conf_prometheus_config base,
      conf_init = relay_init,
      conf_chain_id = relay_chain_id_of E r,
      conf_role = conf_role base,
      conf_transaction_pool = conf_transaction_pool base,
      conf_trie_cache_maximum_size = conf_trie_cache_maximum_size base,
      conf_rpc_methods = conf_rpc_methods base,
      conf_rpc_max_connections = conf_rpc_max_connections base,
      conf_rpc_cors = conf_rpc_cors base,
      conf_default_heap_pages = conf_default_heap_pages base,
      conf_force_authoring = conf_force_authoring base,
      conf_disable_grandpa = conf_disable_grandpa base,
      conf_max_runtime_instances = conf_max_runtime_instances base,
      conf_announce_block = conf_announce_block base,
      conf_telemetry_endpoints = conf_telemetry_endpoints base,
      conf_node_name = conf_node_name base\<rparr>"

text \<open>The wrapped command answers for its own shared parameters, as the SDK documents.\<close>

definition documented_base ::
  "('p, 'u, 'w, 'r) node_env \<Rightarrow> ('s, 'v) cli_configuration \<Rightarrow> relay_cli \<Rightarrow> bool" where
  "documented_base E base r \<longleftrightarrow>
     conf_shared_params base = relay_base r \<and>
     conf_chain_id base = base_chain_id E (relay_base r) \<and>
     conf_base_path base = params_base_path E (relay_base r)"

section \<open>Properties\<close>

text \<open>
  What the user says about the relay chain wins, and what is left open comes from the
  parachain: the chain identifier is the one given, else the relay chain of the extensions of
  the parachain's specification, else empty; the data directory is the one given, else the
  directory \<open>polkadot\<close> under the parachain's; an error of the relay chain command is passed on;
  and every other answer, apart from \<open>init\<close>, is that of the relay chain command.
\<close>
theorem relay_arguments_win:
  assumes "documented_base E base r" and "r = new_relay_cli E cfg args"
  shows "(let m = relay_methods E base r
    in conf_chain_id m d =
         (case conf_chain_id base d of
            Ok i \<Rightarrow> Ok (if i \<noteq> [] then i
                       else case try_get (config_chain_spec cfg) of
                         Some x \<Rightarrow> relay_chain x | None \<Rightarrow> [])
          | e \<Rightarrow> e) \<and>
       conf_base_path m =
         (case conf_base_path base of
            Ok None \<Rightarrow> Ok (Some (path_join E (config_base_path cfg) ''polkadot''))
          | p \<Rightarrow> p) \<and>
       m\<lparr>conf_base_path := p, conf_chain_id := q, conf_init := z\<rparr> =
         base\<lparr>conf_base_path := p, conf_chain_id := q, conf_init := z\<rparr>)"
proof -
  let ?m = "relay_methods E base r"
  have i: "conf_chain_id ?m d =
      (case base_chain_id E (relay_base r) d of
         Ok i \<Rightarrow> Ok (if i \<noteq> [] then i else unwrap_or (relay_chain_id r) []) | e \<Rightarrow> e)"
    by (cases "base_chain_id E (relay_base r) d") (auto simp: relay_methods_def relay_chain_id_of_def)
  have rc: "unwrap_or (relay_chain_id r) [] =
      (case try_get (config_chain_spec cfg) of Some x \<Rightarrow> relay_chain x | None \<Rightarrow> [])"
    by (simp add: assms(2) new_relay_cli_def Let_def split: option.split)
  have b: "conf_base_path ?m =
      (case params_base_path E (relay_base r) of Ok None \<Rightarrow> Ok (relay_base_path r) | p \<Rightarrow> p)"
    by (cases "params_base_path E (relay_base r)")
      (auto simp: relay_methods_def relay_base_path_of_def split: option.split)
  have rb: "relay_base_path r = Some (path_join E (config_base_path cfg) ''polkadot'')"
    by (simp add: assms(2) new_relay_cli_def Let_def)
  have "?m\<lparr>conf_base_path := p, conf_chain_id := q, conf_init := z\<rparr> =
      base\<lparr>conf_base_path := p, conf_chain_id := q, conf_init := z\<rparr>"
    using assms(1) by (cases base) (simp add: relay_methods_def documented_base_def)
  with i [unfolded rc] b [unfolded rb] assms(1) show ?thesis
    by (simp only: documented_base_def Let_def simp_thms)
qed

definition reference_base :: "shared_params \<Rightarrow> (unit, bool) cli_configuration" where
  "reference_base p =
     \<lparr>conf_shared_params = p, conf_import_params = None, conf_network_params = None,
      conf_keystore_params = None, conf_base_path = Ok None, conf_rpc_addr = (\<lambda>_. Ok None),
      conf_prometheus_config = (\<lambda>_ _. Ok None), conf_init = Ok (),
      conf_chain_id = base_chain_id reference_env p, conf_role = Ok,
      conf_transaction_pool = Ok, conf_trie_cache_maximum_size = Ok None,
      conf_rpc_methods = Ok True, conf_rpc_max_connections = Ok 100,
      conf_rpc_cors = (\<lambda>_. Ok None), conf_default_heap_pages = Ok None,
      conf_force_authoring = Ok False, conf_disable_grandpa = Ok False,
      conf_max_runtime_instances = Ok None, conf_announce_block = Ok True,
      conf_telemetry_endpoints = (\<lambda>_. Ok None), conf_node_name = Ok ''node''\<rparr>"

theorem relay_arguments_win_witness:
  "\<exists>cfg. let m = relay_methods reference_env (reference_base \<lparr>chain = None, dev = False, log = []\<rparr>)
            (new_relay_cli reference_env cfg [])
    in conf_chain_id m False = Ok ''rococo-local'' \<and> conf_base_path m = Ok (Some ''basepolkadot'') \<and>
       conf_node_name m = Ok ''node''"
proof -
  have "documented_keyring (env_keyring reference_env)"
    using built_reference by (simp add: built_node_def)
  then obtain s where s: "load_spec reference_env ''contracts-parachain-local'' = Ok s"
    by (simp add: load_spec_def local_testnet_value reference_env_def)
  let ?cfg = "\<lparr>telemetry_endpoints = None, default_heap_pages = None, role_is_authority = True,
      offchain_worker_enabled = False, database_path = None, config_base_path = ''base'',
      config_chain_spec = s\<rparr>"
  let ?r = "new_relay_cli reference_env ?cfg []"
  let ?base = "reference_base (relay_base ?r)"
  have base: "relay_base ?r = \<lparr>chain = None, dev = False, log = []\<rparr>"
    by (simp add: new_relay_cli_def reference_env_def Let_def)
  have "params_base_path reference_env p = Ok None" for p by (simp add: reference_env_def)
  then have d: "documented_base reference_env ?base ?r"
    by (simp add: documented_base_def reference_base_def)
  have ext: "try_get s = Some \<lparr>relay_chain = ''rococo-local'', para_id = 1000\<rparr>"
    using load_local [OF built_reference s] by simp
  have "base_chain_id reference_env \<lparr>chain = None, dev = False, log = []\<rparr> False = Ok ''''"
    by (simp add: reference_env_def)
  then have "conf_chain_id ?base False = Ok ''''" "conf_base_path ?base = Ok None"
    "conf_node_name ?base = Ok ''node''"
    by (simp_all add: base reference_base_def)
  moreover have "path_join reference_env ''base'' ''polkadot'' = ''basepolkadot''"
    by (simp add: reference_env_def)
  ultimately have "conf_chain_id (relay_methods reference_env ?base ?r) False = Ok ''rococo-local''"
    "conf_base_path (relay_methods reference_env ?base ?r) = Ok (Some ''basepolkadot'')"
    using relay_arguments_win [OF d refl, where d = False] ext
    by (simp_all add: Let_def)
  moreover have "conf_node_name (relay_methods reference_env ?base ?r) = Ok ''node''"
    by (simp add: relay_methods_def reference_base_def)
  ultimately show ?thesis unfolding base by (intro exI [of _ ?cfg]) (simp add: Let_def)
qed

text \<open>
  Node and relay chain introduce themselves alike, apart from the copyright year and the
  specifications they can load; the default ports of the relay chain are distinct.
\<close>

lemma identities_agree:
  "(Cli_identity B E)\<lparr>copyright_start_year := y, cli_load_spec := f\<rparr> =
   (RelayChainCli_identity B load exec)\<lparr>copyright_start_year := y, cli_load_spec := f\<rparr>"
  by (simp add: Cli_identity_def RelayChainCli_identity_def)

lemma relay_ports_distinct: "distinct [p2p_listen_port, rpc_listen_port, prometheus_listen_port]"
  by (simp add: p2p_listen_port_def rpc_listen_port_def prometheus_listen_port_def)

end
