(* ===== verification/Spec2Isabelle.thy ===== *)
theory Spec2Isabelle
  imports Access_Events Access_Roles Access_Limits Access_Replies Access_Clients
    Access_Noninterference Access_Documents Access_Authority Access_Costs Access_Payments
    Xcm_Origins Xcm_Assets Xcm_Inbound Runtime_Collators
    Service_Wiring Node_Rpc Relay_Cli
begin

text \<open>
  A verification library for a blockchain project: an ink! smart contract that keeps an access
  registry of medical accounts (\<open>smart_contract/lib.rs\<close>) and the Substrate node it is deployed
  on, a fork of \<open>substrate-contracts-node\<close> with a development runtime (\<open>runtime/\<close>), a parachain
  runtime (\<open>parachain-runtime/\<close>) and the node binary that serves both (\<open>node/\<close>).

  \<^bold>\<open>How the parts interact.\<close> The node's command line (\<open>command.rs\<close>) resolves a chain
  identifier to a chain specification, and the name of the specification decides which of two
  services is started. Each service runs one of the runtimes; both runtimes contain the contracts
  pallet, which executes the contract. The contract only sees its own storage and arguments.

  \<^bold>\<open>The contract.\<close>
  \<^item> \<open>Access_Storage\<close>: the storage struct \<open>AccessControl\<close> is the record \<open>access_control\<close>, each
    \<open>Mapping\<close> a partial function; a message has an \<open>outcome\<close>, either \<open>Trapped\<close>, which the
    contracts pallet undoes as a whole, or \<open>Returned\<close> with its value, the new storage and the
    events. What the ink! environment decides, which encoded cells can be written and read and how
    an account is printed, is the record \<open>ink_env\<close>; \<open>static_buffer_env\<close> is an instance with the
    16 KiB buffer, the SCALE sizes and the 128 bytes of a storage key.
  \<^item> \<open>Access_Users\<close> and \<open>Access_Permissions\<close>: one definition per message, guards in source order;
    closed forms of every message; the abstract ledger (a locale) the permission messages refine,
    through two abstraction functions, one per representation of a permission.
  \<^item> \<open>Access_Contract\<close>: the dispatch of messages, with the cells each of them reads, whose reads can
    trap like its writes; the contract as an inductive step relation over worlds (storage and
    event log), a case rule for how one message can change the storage, and the
    registry invariants of every reachable world.
  \<^item> \<open>Access_Events\<close>: the storage is the replay of the event log (locale \<open>event_sourced\<close>).
  \<^item> \<open>Access_Roles\<close>: the condition under which the two accounts of a document keep distinct roles,
    and the two ways the code lets a caller break it.
  \<^item> \<open>Access_Limits\<close>: what the finite buffer implies: a bound on the permissions a granter holds
    open and on the requests ever made, permissions that stay revocable, requesters that are
    blocked for ever.
  \<^item> \<open>Access_Spec\<close>: the abstract specification of the whole contract, a directory of people, roles,
    holders, readers and requests without slots, sentinel or double bookkeeping. The locale
    \<open>simulation\<close> carries the commutation of one message to whole conversations.
  \<^item> \<open>Access_Clients\<close>: blocks of signed transactions that call the contract, through the checks of
    the runtimes; the signer makes no difference to the contract.
  \<^item> \<open>Access_Authority\<close>: a permission is the last word said about it among the messages that were
    answered, and the granter's own word if every signer speaks for himself.
  \<^item> \<open>Access_Writes\<close>: the writes of each message; a message returns exactly if what it reads and
    writes fits, and what is stored in a reachable world always does.
  \<^item> \<open>Access_Noninterference\<close>: the contract as the registry, one ledger per granter and one list
    of requests per account, parts that neither see nor disturb each other (locale
    \<open>separation_of_parts\<close>).
  \<^item> \<open>Access_Documents\<close>: what the registry does not protect, a document number taken by somebody
    else and a listing that outlives its record.
  \<^item> \<open>Access_Costs\<close>: the keys and the deposits of a message against the limits the runtimes
    configure for the contracts pallet.
  \<^item> \<open>Access_Payments\<close>: blocks whose transactions are charged, on an executive of the SDK with
    documented laws: the balances of the signers, fees, storage deposits and failed calls included.
  \<^item> \<open>Access_Replies\<close>: the text \<open>assign_role\<close> answers with can be read back.

  \<^bold>\<open>The runtimes.\<close>
  \<^item> \<open>Runtime_Deposits\<close>: deposits and units on 128-bit words with checked arithmetic.
  \<^item> \<open>Runtime_Weights\<close>: weight constants, the block limits of both runtimes, the fee polynomial.
    The weight arithmetic and the limits builder of the SDK are records with documented laws.
  \<^item> \<open>Runtime_Pallets\<close>: versions, pallet indices of both \<open>construct_runtime!\<close> (locale
    \<open>pallet_table\<close>), the call filter of contracts and the numeric pallet configuration.
  \<^item> \<open>Parachain_Config\<close>: clocks, sessions, collators, queues of the parachain runtime.
  \<^item> \<open>Runtime_Collators\<close>: authors of blocks over rows of accepted slots, sessions by the clock,
    the first collators from the genesis state, the seal a block needs before the relay chain, the
    native executor; the rules of the aura and session pallets are the record \<open>collation_sdk\<close>.
  \<^item> \<open>Runtime_Fees\<close>: what a transaction pays for its computation and for its bytes.
  \<^item> \<open>Xcm_Config\<close>: who owns an account, which messages pass the barrier and at what price, over
    the record \<open>xcm_builder\<close> of the combinators the file composes.
  \<^item> \<open>Xcm_Origins\<close> and \<open>Xcm_Assets\<close>: which local origin a message gets, who may govern the
    collators, which balance an asset credits, and which channel a message leaves by.
  \<^item> \<open>Xcm_Inbound\<close>: the two channels messages arrive on, over the histories of the message queue of
    the SDK; no chain speaks for another.
  \<^item> \<open>Runtime_Apis\<close> and \<open>Runtime_Apis_More\<close>: the functions of both \<open>impl_runtime_apis!\<close> blocks,
    each as the call it makes with its arguments, and those behind features.
  \<^item> \<open>Runtime_Transactions\<close>: the checks of a signed transaction in their order, the migrations.

  \<^bold>\<open>The node.\<close>
  \<^item> \<open>Chain_Spec\<close>: key derivation, both genesis states as JSON values, both specifications;
    the locale \<open>genesis\<close> is what both genesis functions promise.
  \<^item> \<open>Node_Service\<close>: a service is the list of the SDK calls it makes, computed from the
    configuration; \<open>perform\<close> carries it out up to the first call that fails, which is what the
    operator \<open>?\<close> does. The locale \<open>startup\<close> says that the network comes last.
  \<^item> \<open>Service_Wiring\<close>: the same startups as statements over the values they borrow, move and
    bind, down to the parameters of the import queue and of aura; they make the same calls.
  \<^item> \<open>Node_Rpc\<close>: the RPC module the services hand to the SDK.
  \<^item> \<open>Node_Command\<close>: identifiers, subcommands, defaults and the choice of the service.
  \<^item> \<open>Relay_Cli\<close>: how node and relay chain present themselves, and which answers of the relay
    chain command the node replaces.
  \<^item> This theory: the properties that span the node and the runtimes.

  \<open>Prelude\<close> holds the integer types, checked and saturating arithmetic, the vector operations of
  the contract, results with panics, and the locale of inductive invariants.

  \<^bold>\<open>What the lemmas show.\<close> For the contract: the behaviour of every message on every branch,
  the invariants of every reachable state, refinement of the abstract ledger, the log as the
  source of truth, and the limits of the environment. For the runtimes: absence of overflow, the
  arithmetic of fees, limits and clocks, and the compatibility of the two runtimes. For the node:
  consistency of the genesis states, which service runs, in which order it starts, and which
  subcommands cannot work.

  \<^bold>\<open>Bounds and termination.\<close> Every definition is total: the loops of the contract run over
  vectors and are structural recursions, \<open>show_decimal\<close> decreases its argument, and no fuel is
  used. Integers are words of their width; \<open>checked_add\<close> and \<open>checked_mul\<close> return \<open>None\<close> where the
  code would overflow, which is shown not to happen. Reachability quantifies over message
  sequences of any length.

  \<^bold>\<open>What is not modelled.\<close> The SDK (pallets, executor, consensus, networking, cryptography) is
  outside the repository and enters as arguments with documented behaviour. Type aliases that
  only name SDK types, pallets configured with such types alone, the help texts of the command
  line, module indices and the build scripts have no behaviour of their own and are left out.
  \<open>contracts_config.rs\<close> and \<open>assets_config.rs\<close> of the parachain crate are links to the
  files of \<open>runtime/\<close> and are modelled once.

  \<^bold>\<open>State of the plan.\<close> What the sources compute, configure with a value or put in an order
  has a definition; the lines left are imports, type aliases, attributes, help texts and two unit
  tests that call \<open>add_user\<close> with an argument missing.
\<close>

section \<open>Properties across components\<close>

text \<open>
  The node and the runtime agree on time: the collator authors for exactly the computation
  time the runtime allows a block, the relay chain slot of the service is the one of the
  runtime's consensus hook, and the slot duration the runtime reports is two of them.
\<close>
theorem service_times_match_runtime:
  assumes "documented_sdk S" and "\<And>p. unat p * 2 < 2 ^ 64 \<Longrightarrow> times_two p = p * 2"
    and "Run_aura authoring relay_slot \<in> set (start_parachain_node prepare c hwbench ok)"
  shows "unat authoring * unat (PER_MILLIS S) = unat (ref_time (MAXIMUM_BLOCK_WEIGHT S)) \<and>
    relay_slot = ucast (hook_slot_millis ConsensusHook) \<and>
    slot_duration times_two = 2 * relay_slot"
proof -
  have "authoring = 500" "relay_slot = 6000"
    using assms(3) by (auto simp: script_defs split: if_splits)
  then show ?thesis
    using assms(2) [of 6000]
    by (simp add: ref_time_maximum [OF assms(1)] documented_consts [OF assms(1)] ConsensusHook_def
        RELAY_CHAIN_SLOT_DURATION_MILLIS_def slot_duration_def aura_Config_def
        timestamp_MinimumPeriod_def)
qed

theorem service_times_match_runtime_witness:
  "unat (500 :: u64) * unat (PER_MILLIS reference_sdk) =
   unat (ref_time (MAXIMUM_BLOCK_WEIGHT reference_sdk))"
proof -
  have "Run_aura 500 6000 \<in> set (start_parachain_node (\<lambda>c. c) sample_config False True)"
    by (simp add: script_defs sample_config_def)
  from service_times_match_runtime [OF documented_reference _ this, of "\<lambda>p. p * 2"]
  show ?thesis by simp
qed

text \<open>
  On either shipped chain, every endowed account can develop at once: its balance covers
  the default limit of the storage deposit of a contract, the deposit of an asset and the
  existential deposit together.
\<close>
theorem endowed_can_deploy:
  assumes "documented_keyring K"
    and "(\<exists>w. development_config K (Some w) = Ok s) \<or>
         (\<exists>v w. local_testnet_config K v (Some w) = Ok s)"
    and "(a, n) \<in> set (endowments (cs_genesis s))"
    and "DefaultDepositLimit = Some limit" "AssetDeposit = Some asset"
  shows "unat limit + unat asset + unat EXISTENTIAL_DEPOSIT \<le> n"
proof -
  have "n = 2 ^ 60"
    using assms(2,3)
    by (auto simp: development_value [OF assms(1)] local_testnet_value [OF assms(1)]
        dev_genesis.endows local_genesis.endows)
  moreover have "unat limit = 1024 * 10 ^ 11 + 1024 * 1024 * (5 * 10 ^ 6)"
    using assms(4) deposit_exact [of 1024 "1024 * 1024"] by (auto simp: DefaultDepositLimit_def)
  moreover have "unat asset = 10 ^ 16"
    using assms(5) by (auto simp: AssetDeposit_def DOLLARS_def CENTS_def MILLICENTS_def
        checked_mul_def)
  ultimately show ?thesis by (simp add: EXISTENTIAL_DEPOSIT_def)
qed

theorem endowed_can_deploy_witness:
  "\<exists>limit asset. DefaultDepositLimit = Some limit \<and> AssetDeposit = Some asset \<and>
     unat limit + unat asset + unat EXISTENTIAL_DEPOSIT \<le> 2 ^ 60"
proof -
  obtain s where s: "(local_testnet_config reference_keyring 4 (Some ()) ::
      (string, (string, unit) chain_spec) result) = Ok s"
    "endowments (cs_genesis s) = map (\<lambda>k. (k, 2 ^ 60)) (map (account_of reference_keyring) local_seeds)"
    by (simp add: local_testnet_value [OF documented_reference_keyring] local_genesis.endows)
  obtain limit where limit: "DefaultDepositLimit = Some limit"
    using deposit_exact [of 1024 "1024 * 1024"] by (auto simp: DefaultDepositLimit_def)
  obtain asset where asset: "AssetDeposit = Some asset"
    by (simp add: AssetDeposit_def DOLLARS_def CENTS_def MILLICENTS_def checked_mul_def)
  have shipped: "\<exists>v w. (local_testnet_config reference_keyring v (Some w) ::
      (string, (string, unit) chain_spec) result) = Ok s" using s(1) by blast
  have "(account_of reference_keyring ''Alice'', 2 ^ 60) \<in> set (endowments (cs_genesis s))"
    using collators_in_seeds(1) by (simp add: s(2))
  from endowed_can_deploy [OF documented_reference_keyring disjI2 [OF shipped] this limit asset]
    limit asset show ?thesis by blast
qed

end
